(* ===== verification/OAW_Prelude.thy ===== *)
theory OAW_Prelude
  imports
    Main
    "HOL-Library.Char_ord"
    "HOL-Library.List_Lexorder"
    "HOL-Library.Product_Lexorder"
    "HOL-Library.AList"
    "HOL-Library.Multiset"
begin

text \<open>
  What every component theory shares: the collections of automation, the result type of code
  that may raise, insertion-ordered dictionaries, and the list facts about Python's
  \<^verbatim>\<open>sorted\<close>, \<^verbatim>\<open>dict.fromkeys\<close>, slices and \<^verbatim>\<open>next(...)\<close>.
\<close>

named_theorems py_simps "executable equations of the modelled Python primitives"
named_theorems py_bounds "length and range facts about the modelled Python primitives"

section \<open>Raised exceptions\<close>

text \<open>
  The exceptions the modelled code raises.  A call that may raise returns a value of type
  \<open>'a result\<close>: \<open>Inl\<close> the exception, \<open>Inr\<close> the value returned.
\<close>

datatype py_error =
    ValueError
  | KeyError
  | TypeError
  | OverflowError

type_synonym 'a result = "py_error + 'a"

definition bind_result :: "'e + 'a \<Rightarrow> ('a \<Rightarrow> 'e + 'b) \<Rightarrow> 'e + 'b" where
  "bind_result r f = (case r of Inl e \<Rightarrow> Inl e | Inr x \<Rightarrow> f x)"

lemma bind_result_simps [simp, py_simps]:
  "bind_result (Inl e) f = Inl e"
  "bind_result (Inr x) f = f x"
  by (simp_all add: bind_result_def)

lemma bind_result_eq_Inr_iff:
  "bind_result r f = Inr y \<longleftrightarrow> (\<exists>x. r = Inr x \<and> f x = Inr y)"
  by (cases r) auto

lemma bind_result_cong:
  "r = r' \<Longrightarrow> (\<And>x. r' = Inr x \<Longrightarrow> f x = g x) \<Longrightarrow> bind_result r f = bind_result r' g"
  by (cases r') auto

lemma map_sum_Inr_iff: "map_sum id f r = Inr y \<longleftrightarrow> (\<exists>x. r = Inr x \<and> y = f x)"
  by (cases r) auto

lemma map_sum_Inl_iff: "map_sum id f r = Inl e \<longleftrightarrow> r = Inl e"
  by (cases r) auto

lemma bind_result_eq_Inl_iff:
  "bind_result r f = Inl e \<longleftrightarrow> r = Inl e \<or> (\<exists>x. r = Inr x \<and> f x = Inl e)"
  by (cases r) auto

text \<open>The first exception of a list of calls, or all their results.\<close>

fun sequence_results :: "('e + 'a) list \<Rightarrow> 'e + 'a list" where
  "sequence_results [] = Inr []"
| "sequence_results (r # rs) =
     bind_result r (\<lambda>x. bind_result (sequence_results rs) (\<lambda>xs. Inr (x # xs)))"

lemma sequence_results_Inr_iff:
  "sequence_results rs = Inr xs \<longleftrightarrow> rs = map Inr xs"
proof (induction rs arbitrary: xs)
  case (Cons r rs)
  then show ?case by (cases r; cases xs) (auto simp: bind_result_eq_Inr_iff)
qed auto

lemma sequence_results_ok:
  "(\<And>r. r \<in> set rs \<Longrightarrow> \<exists>x. r = Inr x) \<Longrightarrow> \<exists>xs. sequence_results rs = Inr xs"
proof (induction rs)
  case (Cons r rs)
  then obtain x xs where "r = Inr x" "sequence_results rs = Inr xs" by fastforce
  then show ?case by simp
qed simp

lemma sequence_results_map_ok:
  "(\<And>x. x \<in> set xs \<Longrightarrow> \<exists>y. f x = Inr y) \<Longrightarrow> \<exists>ys. sequence_results (map f xs) = Inr ys"
  by (intro sequence_results_ok) auto

lemma sequence_results_error:
  "sequence_results rs = Inl e \<Longrightarrow> Inl e \<in> set rs"
  by (induction rs) (auto simp: bind_result_eq_Inl_iff)

text \<open>The results of a list of calls that each return a list, one after the other.\<close>

definition concat_results :: "('e + 'a list) list \<Rightarrow> 'e + 'a list" where
  "concat_results rs = bind_result (sequence_results rs) (\<lambda>xss. Inr (concat xss))"

lemma concat_results_Inr:
  "concat_results rs = Inr ys \<longleftrightarrow> (\<exists>xss. rs = map Inr xss \<and> ys = concat xss)"
  by (auto simp: concat_results_def bind_result_eq_Inr_iff sequence_results_Inr_iff)

lemma concat_results_all:
  assumes "concat_results (map f xs) = Inr ys" "\<And>x zs. x \<in> set xs \<Longrightarrow> f x = Inr zs \<Longrightarrow> list_all P zs"
  shows "list_all P ys"
proof -
  obtain xss where xss: "map f xs = map Inr xss" "ys = concat xss"
    using assms(1) by (auto simp: concat_results_Inr)
  have "list_all P zs" if "zs \<in> set xss" for zs
  proof -
    have "Inr zs \<in> set (map f xs)" using that unfolding xss(1) by simp
    then show ?thesis using assms(2) by fastforce
  qed
  then show ?thesis by (auto simp: xss(2) list_all_iff)
qed

lemma concat_results_error: "concat_results rs = Inl e \<Longrightarrow> Inl e \<in> set rs"
  using sequence_results_error [of rs e] by (auto simp: concat_results_def bind_result_eq_Inl_iff)

section \<open>Insertion-ordered dictionaries\<close>

text \<open>
  A Python dictionary keeps the order in which its keys were first stored, and the code relies
  on it.  It is an association list; storing an existing key keeps its position
  (\<open>AList.update\<close>).  \<open>push_group\<close> is \<^verbatim>\<open>d.setdefault(k, []).append(v)\<close>.
\<close>

type_synonym ('k, 'v) odict = "('k \<times> 'v) list"

definition group_of :: "('k, 'v list) odict \<Rightarrow> 'k \<Rightarrow> 'v list" where
  "group_of d k = (case map_of d k of None \<Rightarrow> [] | Some vs \<Rightarrow> vs)"

definition push_group :: "'k \<Rightarrow> 'v \<Rightarrow> ('k, 'v list) odict \<Rightarrow> ('k, 'v list) odict" where
  "push_group k v d = AList.update k (group_of d k @ [v]) d"

fun group_by :: "('a \<Rightarrow> 'k) \<Rightarrow> 'a list \<Rightarrow> ('k, 'a list) odict \<Rightarrow> ('k, 'a list) odict" where
  "group_by f [] d = d"
| "group_by f (x # xs) d = group_by f xs (push_group (f x) x d)"

lemma group_of_push_group [simp]:
  "group_of (push_group k v d) k' = (if k = k' then group_of d k @ [v] else group_of d k')"
  by (auto simp: group_of_def push_group_def update_conv')

lemma keys_push_group [simp]: "fst ` set (push_group k v d) = insert k (fst ` set d)"
  by (simp add: push_group_def dom_update)

lemma distinct_keys_push_group:
  "distinct (map fst d) \<Longrightarrow> distinct (map fst (push_group k v d))"
  by (simp add: push_group_def distinct_update)

lemma group_of_group_by:
  "group_of (group_by f xs d) k = group_of d k @ filter (\<lambda>x. f x = k) xs"
  by (induction f xs d rule: group_by.induct) auto

lemma group_of_group_by_Nil [simp]: "group_of (group_by f xs []) k = filter (\<lambda>x. f x = k) xs"
  by (simp add: group_of_group_by) (simp add: group_of_def)

lemma keys_group_by: "fst ` set (group_by f xs d) = fst ` set d \<union> f ` set xs"
  by (induction f xs d rule: group_by.induct) auto

lemma distinct_keys_group_by:
  "distinct (map fst d) \<Longrightarrow> distinct (map fst (group_by f xs d))"
  by (induction f xs d rule: group_by.induct) (auto simp: distinct_keys_push_group)

section \<open>Lists the way Python builds them\<close>

text \<open>\<^verbatim>\<open>dict.fromkeys(xs)\<close>: the first occurrence of every element, in order.\<close>

fun uniq_from :: "'a list \<Rightarrow> 'a list \<Rightarrow> 'a list" where
  "uniq_from seen [] = []"
| "uniq_from seen (x # xs) =
     (if x \<in> set seen then uniq_from seen xs else x # uniq_from (x # seen) xs)"

definition fromkeys :: "'a list \<Rightarrow> 'a list" where
  "fromkeys xs = uniq_from [] xs"

lemma set_uniq_from: "set (uniq_from seen xs) = set xs - set seen"
  by (induction seen xs rule: uniq_from.induct) auto

lemma distinct_uniq_from: "distinct (uniq_from seen xs)"
  by (induction seen xs rule: uniq_from.induct) (auto simp: set_uniq_from)

lemma length_uniq_from: "length (uniq_from seen xs) \<le> length xs"
  by (induction seen xs rule: uniq_from.induct) auto

lemma set_fromkeys [simp]: "set (fromkeys xs) = set xs"
  by (simp add: fromkeys_def set_uniq_from)

lemma distinct_fromkeys [simp]: "distinct (fromkeys xs)"
  by (simp add: fromkeys_def distinct_uniq_from)

lemma length_fromkeys [py_bounds]: "length (fromkeys xs) \<le> length xs"
  by (simp add: fromkeys_def length_uniq_from)

text \<open>\<^verbatim>\<open>sorted(xs, key=f, reverse=True)\<close> keeps the order of elements with equal keys.\<close>

definition sorted_by_desc :: "('a \<Rightarrow> 'b::linorder) \<Rightarrow> 'a list \<Rightarrow> 'a list" where
  "sorted_by_desc f xs = rev (sort_key f (rev xs))"

lemma mset_sorted_by_desc [simp]: "mset (sorted_by_desc f xs) = mset xs"
  by (simp add: sorted_by_desc_def)

lemma set_sorted_by_desc [simp]: "set (sorted_by_desc f xs) = set xs"
  by (simp add: sorted_by_desc_def)

lemma sorted_sorted_by_desc: "sorted (rev (map f (sorted_by_desc f xs)))"
  by (simp add: sorted_by_desc_def rev_map)

lemma find_Some_in: "find P xs = Some x \<Longrightarrow> x \<in> set xs \<and> P x"
  by (induction xs) (auto split: if_splits)

lemma length_dropWhile_lt: "length (dropWhile P xs) < Suc (length xs)"
  by (simp add: length_dropWhile_le less_Suc_eq_le)

lemma dropWhile_eq_self: "(xs = [] \<or> \<not> P (hd xs)) \<Longrightarrow> dropWhile P xs = xs"
  by (cases xs) auto

lemma hd_dropWhile_not: "dropWhile P xs \<noteq> [] \<Longrightarrow> \<not> P (hd (dropWhile P xs))"
  by (induction xs) auto

lemma set_dropWhile_subset: "set (dropWhile P xs) \<subseteq> set xs"
  by (auto dest: set_dropWhileD)

end
