(* ===== verification/Py_Text.thy ===== *)
theory Py_Text
  imports OAW_Prelude
begin

text \<open>
  Python's \<^verbatim>\<open>str\<close> operations, as far as the modelled modules use them, on HOL's
  \<^typ>\<open>string\<close>.  One \<^typ>\<open>char\<close> stands for one ASCII code point; the operations agree with
  Python's on ASCII text (the regular expressions of the code admit nothing else in
  identifiers).  The scanners that stand for \<^verbatim>\<open>re.sub\<close> and \<^verbatim>\<open>re.findall\<close> calls are
  written out as recursion over the text.
\<close>

section \<open>Character classes\<close>

definition code :: "char \<Rightarrow> int" where
  "code c = of_char c"

definition is_space :: "char \<Rightarrow> bool" where
  "is_space c \<longleftrightarrow> (9 \<le> code c \<and> code c \<le> 13) \<or> (28 \<le> code c \<and> code c \<le> 32)"

definition is_control :: "char \<Rightarrow> bool" where
  "is_control c \<longleftrightarrow> code c \<le> 31 \<or> code c = 127"

definition is_digit :: "char \<Rightarrow> bool" where
  "is_digit c \<longleftrightarrow> 48 \<le> code c \<and> code c \<le> 57"

definition is_lower :: "char \<Rightarrow> bool" where
  "is_lower c \<longleftrightarrow> 97 \<le> code c \<and> code c \<le> 122"

definition is_upper :: "char \<Rightarrow> bool" where
  "is_upper c \<longleftrightarrow> 65 \<le> code c \<and> code c \<le> 90"

definition is_alpha :: "char \<Rightarrow> bool" where
  "is_alpha c \<longleftrightarrow> is_lower c \<or> is_upper c"

definition is_alnum :: "char \<Rightarrow> bool" where
  "is_alnum c \<longleftrightarrow> is_alpha c \<or> is_digit c"

definition to_lower :: "char \<Rightarrow> char" where
  "to_lower c = (if is_upper c then char_of (code c + 32) else c)"

definition casefold :: "string \<Rightarrow> string" where
  "casefold = map to_lower"

definition to_upper :: "char \<Rightarrow> char" where
  "to_upper c = (if is_lower c then char_of (code c - 32) else c)"

lemmas char_class_defs =
  code_def is_space_def is_control_def is_digit_def is_lower_def is_upper_def is_alpha_def
  is_alnum_def

lemma code_bounds [py_bounds]: "0 \<le> code c" "code c < 256"
proof -
  have "code c mod 256 = code c" by (simp add: code_def)
  then show "0 \<le> code c" "code c < 256"
    using pos_mod_bound [of 256 "code c"] pos_mod_sign [of 256 "code c"] by simp_all
qed

lemma code_eq_iff: "code c = code d \<longleftrightarrow> c = d"
  by (simp add: code_def)

lemma code_char_of [simp]: "0 \<le> n \<Longrightarrow> n < 256 \<Longrightarrow> code (char_of n) = n"
  by (simp add: code_def)

lemma is_digit_not_alpha [simp]: "is_digit c \<Longrightarrow> \<not> is_alpha c"
  by (simp add: is_digit_def is_alpha_def is_lower_def is_upper_def)

lemma is_digit_not_space [simp]: "is_digit c \<Longrightarrow> \<not> is_space c"
  by (simp add: is_digit_def is_space_def)

lemma code_to_lower: "code (to_lower c) = (if is_upper c then code c + 32 else code c)"
  by (simp add: to_lower_def is_upper_def)

lemma to_lower_not_upper [simp]: "\<not> is_upper (to_lower c)"
  by (simp add: is_upper_def code_to_lower)

lemma to_lower_idem [simp]: "to_lower (to_lower c) = to_lower c"
  by (simp add: to_lower_def [of "to_lower c"])

lemma is_space_to_lower [simp]: "is_space (to_lower c) = is_space c"
  by (simp add: is_space_def code_to_lower is_upper_def)

lemma is_control_to_lower [simp]: "is_control (to_lower c) = is_control c"
  by (simp add: is_control_def code_to_lower is_upper_def)

lemma is_digit_to_lower [simp]: "is_digit (to_lower c) = is_digit c"
  by (simp add: is_digit_def code_to_lower is_upper_def)

lemma to_lower_id: "\<not> is_upper c \<Longrightarrow> to_lower c = c"
  by (simp add: to_lower_def)

lemma casefold_idem [simp]: "casefold (casefold s) = casefold s"
  by (simp add: casefold_def)

lemma length_casefold [simp]: "length (casefold s) = length s"
  by (simp add: casefold_def)

lemma casefold_id: "(\<And>c. c \<in> set s \<Longrightarrow> \<not> is_upper c) \<Longrightarrow> casefold s = s"
  by (simp add: casefold_def map_idI to_lower_id)

section \<open>Splitting, joining, stripping\<close>

text \<open>\<^verbatim>\<open>s.split()\<close>: the maximal runs of non-space characters.\<close>

fun words_from :: "string \<Rightarrow> string \<Rightarrow> string list" where
  "words_from acc [] = (if acc = [] then [] else [rev acc])"
| "words_from acc (c # cs) =
     (if is_space c
      then (if acc = [] then words_from [] cs else rev acc # words_from [] cs)
      else words_from (c # acc) cs)"

definition py_split :: "string \<Rightarrow> string list" where
  "py_split s = words_from [] s"

fun py_join :: "string \<Rightarrow> string list \<Rightarrow> string" where
  "py_join sep [] = []"
| "py_join sep [w] = w"
| "py_join sep (w # v # ws) = w @ sep @ py_join sep (v # ws)"

text \<open>\<^verbatim>\<open>s.strip(chars)\<close>, \<^verbatim>\<open>s.lstrip(chars)\<close>, and \<^verbatim>\<open>s.strip()\<close> with \<open>P = is_space\<close>.\<close>

definition py_lstrip :: "(char \<Rightarrow> bool) \<Rightarrow> string \<Rightarrow> string" where
  "py_lstrip P s = dropWhile P s"

definition py_rstrip :: "(char \<Rightarrow> bool) \<Rightarrow> string \<Rightarrow> string" where
  "py_rstrip P s = rev (dropWhile P (rev s))"

definition py_strip :: "(char \<Rightarrow> bool) \<Rightarrow> string \<Rightarrow> string" where
  "py_strip P s = py_rstrip P (py_lstrip P s)"

text \<open>\<^verbatim>\<open>s.split(d)\<close> and, when \<open>d\<close> occurs, \<^verbatim>\<open>s.split(d, 1)\<close> and \<^verbatim>\<open>s.rsplit(d, 1)\<close>.\<close>

fun split_on :: "char \<Rightarrow> string \<Rightarrow> string list" where
  "split_on d [] = [[]]"
| "split_on d (c # cs) =
     (if c = d then [] # split_on d cs
      else (case split_on d cs of [] \<Rightarrow> [[c]] | w # ws \<Rightarrow> (c # w) # ws))"

definition split_first :: "char \<Rightarrow> string \<Rightarrow> string \<times> string" where
  "split_first d s = (takeWhile (\<lambda>c. c \<noteq> d) s, tl (dropWhile (\<lambda>c. c \<noteq> d) s))"

definition split_last :: "char \<Rightarrow> string \<Rightarrow> string \<times> string" where
  "split_last d s = (let (a, b) = split_first d (rev s) in (rev b, rev a))"

text \<open>\<^verbatim>\<open>re.sub(r"[P]+", r, s)\<close>: every maximal run of characters in \<open>P\<close> becomes \<open>r\<close>.\<close>

function sub_runs :: "(char \<Rightarrow> bool) \<Rightarrow> string \<Rightarrow> string \<Rightarrow> string" where
  "sub_runs P r [] = []"
| "sub_runs P r (c # cs) =
     (if P c then r @ sub_runs P r (dropWhile P cs) else c # sub_runs P r cs)"
  by pat_completeness auto
termination
  by (relation "measure (\<lambda>(P, r, s). length s)") (auto simp: length_dropWhile_lt)

text \<open>\<^verbatim>\<open>re.findall(r"\d+|[A-Za-z]+", s)\<close>.\<close>

function alnum_tokens :: "string \<Rightarrow> string list" where
  "alnum_tokens [] = []"
| "alnum_tokens (c # cs) =
     (if is_digit c
      then (c # takeWhile is_digit cs) # alnum_tokens (dropWhile is_digit cs)
      else if is_alpha c
      then (c # takeWhile is_alpha cs) # alnum_tokens (dropWhile is_alpha cs)
      else alnum_tokens cs)"
  by pat_completeness auto
termination
  by (relation "measure length") (auto simp: length_dropWhile_lt)

text \<open>\<^verbatim>\<open>s.isdigit()\<close> and \<^verbatim>\<open>int(s)\<close> for a string of digits.\<close>

definition str_isdigit :: "string \<Rightarrow> bool" where
  "str_isdigit s \<longleftrightarrow> s \<noteq> [] \<and> list_all is_digit s"

definition digit_val :: "char \<Rightarrow> int" where
  "digit_val c = code c - 48"

definition int_of_digits :: "string \<Rightarrow> int" where
  "int_of_digits s = foldl (\<lambda>n c. 10 * n + digit_val c) 0 s"

section \<open>Facts\<close>

definition plain_word :: "string \<Rightarrow> bool" where
  "plain_word w \<longleftrightarrow> w \<noteq> [] \<and> list_all (\<lambda>c. \<not> is_space c) w"

lemma words_from_plain:
  "list_all (\<lambda>c. \<not> is_space c) acc \<Longrightarrow> list_all plain_word (words_from acc s)"
proof (induction acc s rule: words_from.induct)
  case (1 acc)
  then show ?case by (simp add: plain_word_def list.pred_set)
next
  case (2 acc c cs)
  have "list_all plain_word (words_from [] cs)" if "is_space c"
    using that 2(1) 2(2) by (cases "acc = []") simp_all
  moreover have "list_all plain_word (words_from (c # acc) cs)" if "\<not> is_space c"
    using that 2(3) 2(4) by simp
  moreover have "plain_word (rev acc)" if "acc \<noteq> []"
    using that 2(4) by (simp add: plain_word_def list.pred_set)
  ultimately show ?case by simp
qed

lemma py_split_plain: "list_all plain_word (py_split s)"
  by (simp add: py_split_def words_from_plain)

lemma words_from_word:
  "list_all (\<lambda>c. \<not> is_space c) w \<Longrightarrow> words_from acc (w @ s) = words_from (rev w @ acc) s"
proof (induction w arbitrary: acc)
  case (Cons c w)
  then show ?case using Cons.IH [of "c # acc"] by simp
qed simp

lemma words_from_word_end: "list_all (\<lambda>c. \<not> is_space c) w \<Longrightarrow> w \<noteq> [] \<Longrightarrow> words_from [] w = [w]"
  using words_from_word [of w "[]" "[]"] by simp

lemma words_from_word_space:
  assumes "plain_word w"
  shows "words_from [] (w @ CHR '' '' # s) = w # words_from [] s"
proof -
  have "is_space (CHR '' '')" by (simp add: char_class_defs)
  then show ?thesis
    using assms words_from_word [of w "[]" "CHR '' '' # s"] by (simp add: plain_word_def)
qed

lemma py_split_join: "list_all plain_word ws \<Longrightarrow> py_split (py_join '' '' ws) = ws"
proof (induction "'' ''" ws rule: py_join.induct)
  case 1
  then show ?case by (simp add: py_split_def)
next
  case (2 w)
  then show ?case by (simp add: py_split_def plain_word_def words_from_word_end)
next
  case (3 w v ws)
  then show ?case by (simp add: py_split_def words_from_word_space)
qed

lemma set_py_join: "set (py_join sep ws) \<subseteq> set sep \<union> \<Union> (set ` set ws)"
  by (induction sep ws rule: py_join.induct) auto

lemma words_from_chars: "\<Union> (set ` set (words_from acc s)) \<subseteq> set acc \<union> set s"
  by (induction acc s rule: words_from.induct) auto

lemma py_split_chars: "w \<in> set (py_split s) \<Longrightarrow> c \<in> set w \<Longrightarrow> c \<in> set s"
  using words_from_chars [of "[]" s] by (auto simp: py_split_def)

lemma py_rstrip_append: "\<not> P c \<Longrightarrow> py_rstrip P (s @ [c]) = s @ [c]"
  by (simp add: py_rstrip_def)

lemma py_strip_id:
  "(s = [] \<or> (\<not> P (hd s) \<and> \<not> P (last s))) \<Longrightarrow> py_strip P s = s"
  by (cases s rule: rev_cases)
    (auto simp: py_strip_def py_lstrip_def py_rstrip_def hd_append dropWhile_append split: if_splits
      intro!: dropWhile_eq_self)

lemma hd_py_rstrip: "py_rstrip P s \<noteq> [] \<Longrightarrow> hd (py_rstrip P s) = hd s"
proof -
  assume ne: "py_rstrip P s \<noteq> []"
  have "rev s = takeWhile P (rev s) @ dropWhile P (rev s)" by simp
  then have "rev (rev s) = rev (dropWhile P (rev s)) @ rev (takeWhile P (rev s))"
    by (metis rev_append)
  then have "s = py_rstrip P s @ rev (takeWhile P (rev s))"
    by (simp add: py_rstrip_def)
  with ne show ?thesis by (metis hd_append2)
qed

lemma last_py_rstrip: "py_rstrip P s \<noteq> [] \<Longrightarrow> \<not> P (last (py_rstrip P s))"
  using hd_dropWhile_not [of P "rev s"] by (simp add: py_rstrip_def last_rev)

lemma py_strip_ends:
  "py_strip P s \<noteq> [] \<Longrightarrow> \<not> P (hd (py_strip P s)) \<and> \<not> P (last (py_strip P s))"
proof -
  assume ne: "py_strip P s \<noteq> []"
  then have "py_lstrip P s \<noteq> []" by (auto simp: py_strip_def py_rstrip_def)
  then have "\<not> P (hd (py_lstrip P s))" by (simp add: py_lstrip_def hd_dropWhile_not)
  with ne show ?thesis by (simp add: py_strip_def hd_py_rstrip last_py_rstrip)
qed

lemma set_py_strip: "set (py_strip P s) \<subseteq> set s"
  by (auto simp: py_strip_def py_rstrip_def py_lstrip_def dest!: set_dropWhileD)

lemma length_py_strip [py_bounds]: "length (py_strip P s) \<le> length s"
proof -
  have "length (dropWhile P (rev (dropWhile P s))) \<le> length (rev (dropWhile P s))"
    by (rule length_dropWhile_le)
  also have "\<dots> \<le> length s" by (simp add: length_dropWhile_le)
  finally show ?thesis by (simp add: py_strip_def py_rstrip_def py_lstrip_def)
qed

lemma set_sub_runs: "set (sub_runs P r s) \<subseteq> set r \<union> {c \<in> set s. \<not> P c}"
  by (induction P r s rule: sub_runs.induct) (auto dest: set_dropWhileD)

lemma length_sub_runs: "length r \<le> 1 \<Longrightarrow> length (sub_runs P r s) \<le> length s"
proof (induction P r s rule: sub_runs.induct)
  case (2 P r c cs)
  have "length (dropWhile P cs) \<le> length cs" by (rule length_dropWhile_le)
  with 2 show ?case by (auto intro: order_trans)
qed simp

lemma sub_runs_id: "list_all (\<lambda>c. \<not> P c) s \<Longrightarrow> sub_runs P r s = s"
  by (induction P r s rule: sub_runs.induct) auto

lemma alnum_tokens_nonempty: "w \<in> set (alnum_tokens s) \<Longrightarrow> w \<noteq> []"
  by (induction s rule: alnum_tokens.induct) (auto split: if_splits)

lemma int_of_digits_snoc: "int_of_digits (s @ [c]) = 10 * int_of_digits s + digit_val c"
  by (simp add: int_of_digits_def)

end
