(* ===== verification/Py_Time.thy ===== *)
theory Py_Time
  imports Py_Text
begin

text \<open>
  Python's aware \<^verbatim>\<open>datetime\<close> values: the number of microseconds since
  1970-01-01T00:00:00 UTC, the form every modelled function works on after
  \<^verbatim>\<open>astimezone(timezone.utc)\<close>.  Differences (\<^verbatim>\<open>timedelta\<close>) are integers of the same unit,
  comparison is comparison of integers, and \<^verbatim>\<open>isoformat\<close> is computed from the proleptic
  Gregorian calendar.
\<close>

type_synonym instant = int
type_synonym timedelta = int

definition microseconds_per_second :: int where
  "microseconds_per_second = 1000000"

definition seconds :: "int \<Rightarrow> timedelta" where
  "seconds n = n * 1000000"

definition minutes :: "int \<Rightarrow> timedelta" where
  "minutes n = n * 60000000"

definition hours :: "int \<Rightarrow> timedelta" where
  "hours n = n * 3600000000"

definition days :: "int \<Rightarrow> timedelta" where
  "days n = n * 86400000000"

lemmas duration_defs = seconds_def minutes_def hours_def days_def

section \<open>Numbers as decimal text\<close>

definition digit_char :: "int \<Rightarrow> char" where
  "digit_char n = char_of (48 + n)"

function dec_digits :: "int \<Rightarrow> string" where
  "dec_digits n =
     (if n < 10 then [digit_char n] else dec_digits (n div 10) @ [digit_char (n mod 10)])"
  by pat_completeness auto
termination
  by (relation "measure nat") auto

declare dec_digits.simps [simp del]

definition dec_int :: "int \<Rightarrow> string" where
  "dec_int i = (if i < 0 then CHR ''-'' # dec_digits (- i) else dec_digits i)"

definition pad_left :: "nat \<Rightarrow> string \<Rightarrow> string" where
  "pad_left w s = replicate (w - length s) (CHR ''0'') @ s"

lemma is_digit_digit_char: "0 \<le> n \<Longrightarrow> n < 10 \<Longrightarrow> is_digit (digit_char n)"
  by (simp add: digit_char_def is_digit_def)

lemma digit_val_digit_char [simp]: "0 \<le> n \<Longrightarrow> n < 10 \<Longrightarrow> digit_val (digit_char n) = n"
  by (simp add: digit_char_def digit_val_def)

lemma dec_digits_isdigit: "0 \<le> n \<Longrightarrow> str_isdigit (dec_digits n)"
proof (induction n rule: dec_digits.induct)
  case (1 n)
  then show ?case
    by (cases "n < 10")
      (simp_all add: dec_digits.simps [of n] str_isdigit_def is_digit_digit_char)
qed

text \<open>\<^verbatim>\<open>int(str(n)) = n\<close>.\<close>

lemma int_of_digits_dec_digits: "0 \<le> n \<Longrightarrow> int_of_digits (dec_digits n) = n"
proof (induction n rule: dec_digits.induct)
  case (1 n)
  show ?case
  proof (cases "n < 10")
    case True
    with 1 show ?thesis by (simp add: dec_digits.simps [of n] int_of_digits_def)
  next
    case False
    with 1 show ?thesis by (simp add: dec_digits.simps [of n] int_of_digits_snoc)
  qed
qed

section \<open>Calendar dates and isoformat\<close>

definition day_number :: "instant \<Rightarrow> int" where
  "day_number t = t div 86400000000"

definition time_of_day :: "instant \<Rightarrow> int" where
  "time_of_day t = t mod 86400000000"

definition civil_of_days :: "int \<Rightarrow> int \<times> int \<times> int" where
  "civil_of_days z =
     (let z = z + 719468;
          era = z div 146097;
          doe = z mod 146097;
          yoe = (doe - doe div 1460 + doe div 36524 - doe div 146096) div 365;
          doy = doe - (365 * yoe + yoe div 4 - yoe div 100);
          mp = (5 * doy + 2) div 153;
          d = doy - (153 * mp + 2) div 5 + 1;
          m = (if mp < 10 then mp + 3 else mp - 9)
      in (yoe + era * 400 + (if m \<le> 2 then 1 else 0), m, d))"

definition isoformat_sep :: "char \<Rightarrow> instant \<Rightarrow> string" where
  "isoformat_sep sep t =
     (let (y, m, d) = civil_of_days (day_number t);
          r = time_of_day t;
          two = (\<lambda>n. pad_left 2 (dec_int n));
          us = r mod 1000000
      in pad_left 4 (dec_int y) @ ''-'' @ two m @ ''-'' @ two d @ [sep]
         @ two (r div 3600000000) @ '':'' @ two (r div 60000000 mod 60) @ '':''
         @ two (r div 1000000 mod 60)
         @ (if us = 0 then '''' else ''.'' @ pad_left 6 (dec_int us))
         @ ''+00:00'')"

definition isoformat :: "instant \<Rightarrow> string" where
  "isoformat = isoformat_sep (CHR ''T'')"

text \<open>\<^verbatim>\<open>value.replace(hour=0, minute=0, second=0, microsecond=0)\<close> and the weekday.\<close>

definition midnight :: "instant \<Rightarrow> instant" where
  "midnight t = t - time_of_day t"

definition at_midnight :: "instant \<Rightarrow> bool" where
  "at_midnight t \<longleftrightarrow> time_of_day t = 0"

definition weekday :: "instant \<Rightarrow> int" where
  "weekday t = (day_number t + 3) mod 7"

lemma time_of_day_bounds: "0 \<le> time_of_day t \<and> time_of_day t < days 1"
  by (simp add: time_of_day_def days_def)

lemma midnight_le: "midnight t \<le> t"
  using time_of_day_bounds [of t] by (simp add: midnight_def)

lemma lt_midnight_next: "t < midnight t + days 1"
  using time_of_day_bounds [of t] by (simp add: midnight_def)

lemma midnight_eq: "midnight t = day_number t * 86400000000"
  by (simp add: midnight_def time_of_day_def day_number_def minus_mod_eq_div_mult)

lemma at_midnight_midnight [simp]: "at_midnight (midnight t)"
  by (simp add: at_midnight_def time_of_day_def midnight_eq)

lemma at_midnight_iff: "at_midnight t \<longleftrightarrow> midnight t = t"
  by (simp add: at_midnight_def midnight_def)

lemma at_midnight_dvd: "at_midnight t \<longleftrightarrow> 86400000000 dvd t"
  by (simp add: at_midnight_def time_of_day_def dvd_eq_mod_eq_0)

lemma at_midnight_add_days [simp]: "at_midnight (t + days n) = at_midnight t"
  by (simp add: at_midnight_def time_of_day_def days_def)

lemma at_midnight_diff_days [simp]: "at_midnight (t - days n) = at_midnight t"
  using at_midnight_add_days [of t "- n"] by (simp add: days_def)

end
