(* ===== verification/Radix_Rounding.thy ===== *)
theory Radix_Rounding
  imports OAW_Prelude Complex_Main
begin

text \<open>
  Rounding a rational to a fixed number of significant digits, to nearest with ties to even: the
  arithmetic of \<^verbatim>\<open>float\<close> (53 binary digits) and of \<^verbatim>\<open>decimal.Decimal\<close> (28 decimal digits).

  The locale \<open>rounding\<close> is what the components use of a rounding mode: it is monotone and leaves
  machine numbers alone, so a bound that is a machine number is kept by every operation.  The
  locale \<open>radix\<close> derives these laws, once for every base and precision, from the exponent of the
  leading digit.
\<close>

section \<open>Rounding to nearest, ties to even\<close>

definition round_half_even :: "rat \<Rightarrow> int" where
  "round_half_even x =
     (let n = \<lfloor>x\<rfloor>; d = x - of_int n
      in if d < 1 / 2 then n
         else if 1 / 2 < d then n + 1
         else if even n then n else n + 1)"

section \<open>Facts about rounding to an integer\<close>

lemma round_half_even_bounds: "\<lfloor>x\<rfloor> \<le> round_half_even x \<and> round_half_even x \<le> \<lfloor>x\<rfloor> + 1"
  by (simp add: round_half_even_def Let_def)

lemma round_half_even_of_int [simp]: "round_half_even (of_int n) = n"
  by (simp add: round_half_even_def Let_def)

lemma round_half_even_mono: "x \<le> y \<Longrightarrow> round_half_even x \<le> round_half_even y"
proof (cases "\<lfloor>x\<rfloor> = \<lfloor>y\<rfloor>")
  case True
  assume "x \<le> y"
  with True show ?thesis by (simp add: round_half_even_def Let_def)
next
  case False
  assume "x \<le> y"
  with False have "\<lfloor>x\<rfloor> + 1 \<le> \<lfloor>y\<rfloor>" using floor_mono [of x y] by linarith
  with round_half_even_bounds [of x] round_half_even_bounds [of y] show ?thesis by linarith
qed

lemma round_half_even_error: "\<bar>of_int (round_half_even x) - x\<bar> \<le> 1 / 2"
proof -
  have "of_int \<lfloor>x\<rfloor> \<le> x" "x < of_int \<lfloor>x\<rfloor> + 1" using floor_correct [of x] by simp_all
  then show ?thesis unfolding round_half_even_def Let_def by (auto split: if_splits)
qed

lemma round_half_even_ge: "of_int n \<le> x \<Longrightarrow> n \<le> round_half_even x"
  using round_half_even_mono [of "of_int n" x] by simp

lemma round_half_even_le: "x \<le> of_int n \<Longrightarrow> round_half_even x \<le> n"
  using round_half_even_mono [of x "of_int n"] by simp

section \<open>The interface of a rounding mode\<close>

locale rounding =
  fixes rnd :: "rat \<Rightarrow> rat"
  assumes rnd_mono: "x \<le> y \<Longrightarrow> rnd x \<le> rnd y"
    and rnd_idem: "rnd (rnd x) = rnd x"
    and rnd_zero: "rnd 0 = 0"
begin

lemma rnd_nonneg: "0 \<le> x \<Longrightarrow> 0 \<le> rnd x"
  using rnd_mono [of 0 x] by (simp add: rnd_zero)

lemma rnd_upper: "x \<le> c \<Longrightarrow> rnd c = c \<Longrightarrow> rnd x \<le> c"
  using rnd_mono [of x c] by simp

lemma rnd_lower: "c \<le> x \<Longrightarrow> rnd c = c \<Longrightarrow> c \<le> rnd x"
  using rnd_mono [of c x] by simp

lemma rnd_min: "rnd a = a \<Longrightarrow> rnd b = b \<Longrightarrow> rnd (min a b) = min a b"
  by (simp add: min_def)

lemma rnd_max: "rnd a = a \<Longrightarrow> rnd b = b \<Longrightarrow> rnd (max a b) = max a b"
  by (simp add: max_def)

lemma rnd_add_ge: "rnd a = a \<Longrightarrow> 0 \<le> b \<Longrightarrow> a \<le> rnd (a + b)"
  by (rule rnd_lower) auto

lemma rnd_sub_le: "rnd a = a \<Longrightarrow> 0 \<le> b \<Longrightarrow> rnd (a - b) \<le> a"
  by (rule rnd_upper) auto

lemma rnd_mult_le:
  "rnd a = a \<Longrightarrow> 0 \<le> a \<Longrightarrow> b \<le> 1 \<Longrightarrow> rnd (a * b) \<le> a"
  by (rule rnd_upper) (auto intro: mult_left_le)

lemma rnd_mult_nonneg: "0 \<le> a \<Longrightarrow> 0 \<le> b \<Longrightarrow> 0 \<le> rnd (a * b)"
  by (rule rnd_nonneg) simp

end

section \<open>Rounding to significant digits\<close>

text \<open>
  \<open>mag x\<close> is the exponent of the leading digit of \<open>x\<close>, \<open>ue x\<close> the exponent of its last kept digit: there
  are \<open>prec + 1\<close> significant digits, and no digit below the exponent \<open>emin\<close>.
\<close>

locale radix =
  fixes base :: int and prec :: nat and emin :: int
    and pw :: "int \<Rightarrow> rat" and mag :: "rat \<Rightarrow> int" and ue :: "rat \<Rightarrow> int"
    and rnd_pos :: "rat \<Rightarrow> rat" and rnd :: "rat \<Rightarrow> rat"
  assumes base: "1 < base"
    and pw: "pw e = of_int base powi e"
    and mag_bounds: "0 < x \<Longrightarrow> pw (mag x) \<le> x \<and> x < pw (mag x + 1)"
    and ue: "ue x = max (mag x - int prec) emin"
    and rnd_pos: "rnd_pos x = of_int (round_half_even (x / pw (ue x))) * pw (ue x)"
    and rnd: "rnd x = (if x = 0 then 0 else if 0 < x then rnd_pos x else - rnd_pos (- x))"
begin

lemma base_pos: "0 < (of_int base :: rat)"
  using base by simp

lemma pw_pos: "0 < pw e"
  using base_pos by (simp add: pw)

lemma pw_nonneg: "0 \<le> pw e"
  using pw_pos [of e] by simp

lemma pw_neq_0: "pw e \<noteq> 0"
  using pw_pos [of e] by linarith

lemma pw_add: "pw (a + b) = pw a * pw b"
  using base_pos by (simp add: pw power_int_add)

lemma pw_diff: "pw (a - b) = pw a / pw b"
  using base_pos by (simp add: pw power_int_diff)

lemma pw_nat: "pw (int n) = of_int (base ^ n)"
  by (simp add: pw)

lemma pw_mono: "a \<le> b \<Longrightarrow> pw a \<le> pw b"
  using base by (simp add: pw power_int_increasing)

lemma pw_less_iff: "pw a < pw b \<longleftrightarrow> a < b"
proof
  assume "a < b"
  then show "pw a < pw b" using base by (simp add: pw power_int_strict_increasing)
next
  assume "pw a < pw b"
  then show "a < b" using pw_mono [of b a] by (meson linorder_not_le)
qed

lemma mag_less: "0 < x \<Longrightarrow> x < pw k \<Longrightarrow> mag x < k"
  using mag_bounds [of x] pw_less_iff [of "mag x" k] by linarith

lemma mag_ge: "0 < x \<Longrightarrow> pw k \<le> x \<Longrightarrow> k \<le> mag x"
  using mag_bounds [of x] pw_less_iff [of k "mag x + 1"] by linarith

lemma mag_mono: "0 < x \<Longrightarrow> x \<le> y \<Longrightarrow> mag x \<le> mag y"
  using mag_less [of x "mag y + 1"] mag_bounds [of y] by linarith

lemma ue_mono: "0 < x \<Longrightarrow> x \<le> y \<Longrightarrow> ue x \<le> ue y"
  using mag_mono [of x y] by (auto simp: ue)

lemma significand_less:
  assumes "0 < x"
  shows "x / pw (ue x) < of_int (base ^ Suc prec)"
proof -
  have "x < pw (mag x + 1)" using mag_bounds [OF assms] by blast
  also have "\<dots> \<le> pw (ue x + int (Suc prec))" by (rule pw_mono) (simp add: ue)
  also have "\<dots> = pw (ue x) * of_int (base ^ Suc prec)" by (simp only: pw_add pw_nat)
  finally show ?thesis using pw_pos [of "ue x"] by (simp add: divide_less_eq mult.commute)
qed

lemma significand_ge:
  assumes "0 < x" "emin < ue x"
  shows "of_int (base ^ prec) \<le> x / pw (ue x)"
proof -
  have e: "ue x + int prec = mag x" using assms(2) by (simp add: ue)
  have "pw (ue x) * of_int (base ^ prec) = pw (mag x)"
    by (simp only: pw_nat [symmetric] pw_add [symmetric] e)
  also have "\<dots> \<le> x" using mag_bounds [OF assms(1)] by simp
  finally show ?thesis using pw_pos [of "ue x"] by (simp add: le_divide_eq mult.commute)
qed

lemma rnd_pos_nonneg:
  assumes "0 < x"
  shows "0 \<le> rnd_pos x"
proof -
  have "0 \<le> round_half_even (x / pw (ue x))"
    using assms pw_pos by (intro round_half_even_ge) (simp add: less_imp_le)
  then show ?thesis using pw_nonneg by (simp add: rnd_pos)
qed

lemma rnd_pos_mono:
  assumes "0 < x" "x \<le> y"
  shows "rnd_pos x \<le> rnd_pos y"
proof (cases "ue x = ue y")
  case True
  have "round_half_even (x / pw (ue x)) \<le> round_half_even (y / pw (ue y))"
    using assms True pw_nonneg by (intro round_half_even_mono) (simp add: divide_right_mono)
  with True show ?thesis using pw_nonneg by (simp add: rnd_pos mult_right_mono)
next
  case False
  have lt: "ue x < ue y" using False ue_mono [OF assms] by simp
  have y: "0 < y" using assms by simp
  have "emin < ue y" using lt by (simp add: ue)
  then have "base ^ prec \<le> round_half_even (y / pw (ue y))"
    by (intro round_half_even_ge significand_ge [OF y])
  then have ry: "of_int (base ^ prec) \<le> (of_int (round_half_even (y / pw (ue y))) :: rat)"
    by (simp only: of_int_le_iff)
  have "round_half_even (x / pw (ue x)) \<le> base ^ Suc prec"
    using significand_less [OF assms(1)] by (intro round_half_even_le less_imp_le)
  then have rx: "(of_int (round_half_even (x / pw (ue x))) :: rat) \<le> of_int (base ^ Suc prec)"
    by (simp only: of_int_le_iff)
  have "rnd_pos x \<le> of_int (base ^ Suc prec) * pw (ue x)"
    unfolding rnd_pos using rx pw_nonneg by (rule mult_right_mono)
  also have "\<dots> = of_int (base ^ prec) * pw (ue x + 1)"
    using pw_add [of "ue x" 1] pw_nat [of 1] by simp
  also have "\<dots> \<le> of_int (base ^ prec) * pw (ue y)"
    using lt base_pos by (intro mult_left_mono pw_mono) auto
  also have "\<dots> \<le> rnd_pos y"
    unfolding rnd_pos using ry pw_nonneg by (rule mult_right_mono)
  finally show ?thesis .
qed

lemma rnd_uminus: "rnd (- x) = - rnd x"
  by (simp add: rnd)

lemma rnd_of_zero: "rnd 0 = 0"
  by (simp add: rnd)

lemma rnd_is_mono: "x \<le> y \<Longrightarrow> rnd x \<le> rnd y"
proof (cases "0 < x")
  case True
  assume "x \<le> y"
  with True show ?thesis by (simp add: rnd rnd_pos_mono)
next
  case False
  assume le: "x \<le> y"
  show ?thesis
  proof (cases "0 < y \<or> x = 0 \<or> y = 0")
    case True
    with False le show ?thesis
      using rnd_pos_nonneg [of "- x"] rnd_pos_nonneg [of y] by (auto simp: rnd)
  next
    case neg: False
    with False le have "rnd_pos (- y) \<le> rnd_pos (- x)" by (intro rnd_pos_mono) auto
    with neg False show ?thesis by (simp add: rnd)
  qed
qed

text \<open>A significand of \<open>prec + 1\<close> digits with an exponent in range is a machine number.\<close>

lemma rnd_pos_exact:
  assumes "0 < m" "m < base ^ Suc prec" "emin \<le> e"
  shows "rnd_pos (of_int m * pw e) = of_int m * pw e"
proof -
  let ?x = "of_int m * pw e" and ?e = "ue (of_int m * pw e)"
  have pos: "0 < ?x" using assms(1) pw_pos by simp
  have "of_int m < (of_int (base ^ Suc prec) :: rat)" using assms(2) by (simp only: of_int_less_iff)
  then have "?x < of_int (base ^ Suc prec) * pw e" using pw_pos by (rule mult_strict_right_mono)
  also have "\<dots> = pw (e + int (Suc prec))" by (simp only: pw_add pw_nat mult.commute)
  finally have "mag ?x < e + int (Suc prec)" by (rule mag_less [OF pos])
  then have le: "?e \<le> e" using assms(3) by (simp add: ue)
  have "?x / pw ?e = of_int m * pw (int (nat (e - ?e)))" using le by (simp add: pw_diff)
  also have "\<dots> = of_int (m * base ^ nat (e - ?e))" by (simp only: pw_nat of_int_mult)
  finally have "of_int (round_half_even (?x / pw ?e)) = ?x / pw ?e"
    by (simp only: round_half_even_of_int)
  then show ?thesis using pw_neq_0 by (simp add: rnd_pos)
qed

lemma rnd_exact:
  assumes "\<bar>m\<bar> < base ^ Suc prec" "emin \<le> e"
  shows "rnd (of_int m * pw e) = of_int m * pw e"
proof (cases m "0 :: int" rule: linorder_cases)
  case less
  then have "rnd_pos (of_int (- m) * pw e) = of_int (- m) * pw e"
    using assms by (intro rnd_pos_exact) auto
  with less show ?thesis using pw_pos [of e] by (simp add: rnd mult_less_0_iff zero_less_mult_iff)
next
  case equal
  then show ?thesis by (simp add: rnd)
next
  case greater
  then have "rnd_pos (of_int m * pw e) = of_int m * pw e" using assms by (intro rnd_pos_exact) auto
  with greater show ?thesis using pw_pos [of e] by (simp add: rnd)
qed

text \<open>Every rounded number is a machine number, so rounding is idempotent.\<close>

lemma rnd_pos_form:
  assumes "0 < x"
  obtains m e where "rnd_pos x = of_int m * pw e" "\<bar>m\<bar> < base ^ Suc prec" "emin \<le> e"
proof -
  let ?m = "round_half_even (x / pw (ue x))"
  have e: "emin \<le> ue x" by (simp add: ue)
  have m0: "0 \<le> ?m" using assms pw_pos by (intro round_half_even_ge) (simp add: less_imp_le)
  have m1: "?m \<le> base ^ Suc prec"
    using significand_less [OF assms] by (intro round_half_even_le less_imp_le)
  show ?thesis
  proof (cases "?m = base ^ Suc prec")
    case True
    have "pw (ue x + 1) = pw (ue x) * of_int base" using pw_add [of "ue x" 1] by (simp add: pw)
    with True have "rnd_pos x = of_int (base ^ prec) * pw (ue x + 1)" by (simp add: rnd_pos)
    moreover have "\<bar>base ^ prec\<bar> < base ^ Suc prec" using base by simp
    moreover have "emin \<le> ue x + 1" using e by simp
    ultimately show ?thesis by (rule that)
  next
    case False
    with m0 m1 have "\<bar>?m\<bar> < base ^ Suc prec" by simp
    then show ?thesis by (rule that [OF rnd_pos _ e])
  qed
qed

lemma rnd_pos_idem: "0 < x \<Longrightarrow> rnd (rnd_pos x) = rnd_pos x"
  using rnd_exact by (elim rnd_pos_form) simp

lemma rnd_is_idem: "rnd (rnd x) = rnd x"
  using rnd_pos_idem [of x] rnd_pos_idem [of "- x"] by (auto simp: rnd [of x] rnd_uminus rnd_of_zero)

end

sublocale radix \<subseteq> rounding rnd
  by unfold_locales (simp_all add: rnd_is_mono rnd_is_idem rnd_of_zero)

end
