(* ===== verification/Binary64.thy ===== *)
theory Binary64
  imports Radix_Rounding "HOL-Library.Log_Nat"
begin

text \<open>
  Python's \<^verbatim>\<open>float\<close>: a finite IEEE 754 binary64 number is the rational it denotes, and
  every arithmetic operation is the exact operation followed by \<open>fl\<close>, rounding to 53 binary
  digits, nearest with ties to even.  The exponent range is bounded below (subnormals) and not above: the
  modelled code computes with values far below the overflow threshold.  The sign of a zero is
  not represented; no modelled branch depends on it.
\<close>

section \<open>Rounding to a machine number\<close>

text \<open>The binary exponent of a positive rational: \<open>2 ^ e \<le> x < 2 ^ (e + 1)\<close>.\<close>

definition pow2 :: "int \<Rightarrow> rat" where
  "pow2 e = (if 0 \<le> e then 2 ^ nat e else 1 / 2 ^ nat (- e))"

definition binade :: "rat \<Rightarrow> int" where
  "binade x =
     (let (p, q) = quotient_of x; k = bitlen p - bitlen q
      in if pow2 k \<le> x then k else k - 1)"

definition ulp_exponent :: "rat \<Rightarrow> int" where
  "ulp_exponent x = max (binade x - 52) (- 1074)"

definition fl_pos :: "rat \<Rightarrow> rat" where
  "fl_pos x = (let e = ulp_exponent x in of_int (round_half_even (x / pow2 e)) * pow2 e)"

definition fl :: "rat \<Rightarrow> rat" where
  "fl x = (if x = 0 then 0 else if 0 < x then fl_pos x else - fl_pos (- x))"

section \<open>Facts about the exponent\<close>

lemma pow2_pos [simp]: "0 < pow2 e"
  by (simp add: pow2_def)

lemma pow2_neq_0 [simp]: "pow2 e \<noteq> 0"
  using pow2_pos [of e] by linarith

lemma pow2_nonneg [simp]: "0 \<le> pow2 e"
  using pow2_pos [of e] by linarith

lemma pow2_not_neg [simp]: "\<not> pow2 e < 0"
  using pow2_pos [of e] by linarith

lemma pow2_powi: "pow2 e = 2 powi e"
  by (simp add: pow2_def power_int_def inverse_eq_divide power_one_over)

lemma pow2_add: "pow2 (a + b) = pow2 a * pow2 b"
  by (simp add: pow2_powi power_int_add)

lemma pow2_mono: "a \<le> b \<Longrightarrow> pow2 a \<le> pow2 b"
  by (simp add: pow2_powi power_int_increasing)

lemma pow2_nat: "pow2 (int n) = 2 ^ n"
  by (simp add: pow2_def)

lemma pow2_strict_mono: "a < b \<Longrightarrow> pow2 a < pow2 b"
  by (simp add: pow2_powi power_int_strict_increasing)

lemma pow2_less_iff: "pow2 a < pow2 b \<longleftrightarrow> a < b"
  by (meson linorder_not_le pow2_mono pow2_strict_mono)

lemma pow2_diff: "pow2 (a - b) = pow2 a / pow2 b"
  by (simp add: pow2_powi power_int_diff)

lemma bitlen_bounds_rat:
  assumes "0 < n"
  shows "pow2 (bitlen n - 1) \<le> of_int n \<and> of_int n < pow2 (bitlen n)"
proof -
  have pos: "0 < bitlen n" using assms using bitlen_ge_iff_power [of 1 n] by simp
  then have "pow2 (bitlen n - 1) = of_int (2 ^ nat (bitlen n - 1))"
    and "pow2 (bitlen n) = of_int (2 ^ nat (bitlen n))"
    by (simp_all add: pow2_def)
  with bitlen_bounds [OF assms] show ?thesis by (simp only: of_int_le_iff of_int_less_iff)
qed

lemma binade_bounds:
  assumes "0 < x"
  shows "pow2 (binade x) \<le> x \<and> x < pow2 (binade x + 1)"
proof -
  obtain p q where pq: "quotient_of x = (p, q)" by (cases "quotient_of x")
  then have x: "x = of_int p / of_int q" and q: "0 < q"
    by (simp_all add: quotient_of_div quotient_of_denom_pos)
  have p: "0 < p" using assms x q by (simp add: zero_less_divide_iff)
  let ?k = "bitlen p - bitlen q"
  have "pow2 (bitlen p - 1) / pow2 (bitlen q) < of_int p / of_int q"
    using bitlen_bounds_rat [OF p] bitlen_bounds_rat [OF q] q p by (intro frac_less2) auto
  then have lo: "pow2 (?k - 1) < x" by (simp add: x flip: pow2_diff) (simp add: algebra_simps)
  have "of_int p / of_int q < pow2 (bitlen p) / pow2 (bitlen q - 1)"
    using bitlen_bounds_rat [OF p] bitlen_bounds_rat [OF q] q p by (intro frac_less) auto
  then have hi: "x < pow2 (?k + 1)" by (simp add: x flip: pow2_diff) (simp add: algebra_simps)
  show ?thesis using lo hi by (auto simp: binade_def pq Let_def)
qed

lemma binade_less: "0 < x \<Longrightarrow> x < pow2 k \<Longrightarrow> binade x < k"
  using binade_bounds [of x] pow2_less_iff [of "binade x" k] by linarith

lemma binade_mono: "0 < x \<Longrightarrow> x \<le> y \<Longrightarrow> binade x \<le> binade y"
  using binade_less [of x "binade y + 1"] binade_bounds [of y] by linarith

interpretation b64: radix 2 52 "- 1074" pow2 binade ulp_exponent fl_pos fl
proof
  show "0 < x \<Longrightarrow> pow2 (binade x) \<le> x \<and> x < pow2 (binade x + 1)" for x by (rule binade_bounds)
qed (simp_all add: pow2_powi ulp_exponent_def fl_pos_def fl_def Let_def)

lemma fl_zero [simp]: "fl 0 = 0"
  by (rule b64.rnd_zero)

lemma fl_minus [simp]: "fl (- x) = - fl x"
  by (rule b64.rnd_uminus)

lemma fl_mono: "x \<le> y \<Longrightarrow> fl x \<le> fl y"
  by (rule b64.rnd_mono)

lemma fl_idem [simp]: "fl (fl x) = fl x"
  by (rule b64.rnd_idem)

lemma fl_exact: "\<bar>m\<bar> < 2 ^ 53 \<Longrightarrow> - 1074 \<le> e \<Longrightarrow> fl (of_int m * pow2 e) = of_int m * pow2 e"
  using b64.rnd_exact [of m e] by simp

lemma fl_of_int [simp]: "\<bar>m\<bar> < 2 ^ 53 \<Longrightarrow> fl (of_int m) = of_int m"
  using fl_exact [of m 0] by (simp add: pow2_def)

lemma fl_numeral: "(numeral n :: int) < 2 ^ 53 \<Longrightarrow> fl (numeral n) = numeral n"
  using fl_of_int [of "numeral n"] by simp

lemma fl_one [simp]: "fl 1 = 1"
  using fl_of_int [of 1] by simp

lemma fl_error:
  assumes "0 \<le> x" "x < pow2 k" "- 1021 \<le> k"
  shows "\<bar>fl x - x\<bar> \<le> pow2 (k - 54)"
proof (cases "x = 0")
  case True
  then show ?thesis by (simp add: less_imp_le)
next
  case False
  with assms have pos: "0 < x" by simp
  let ?e = "ulp_exponent x"
  have "binade x < k" using binade_less pos assms(2) by blast
  then have e: "?e \<le> k - 53" using assms(3) by (simp add: ulp_exponent_def)
  have "\<bar>fl x - x\<bar> = \<bar>of_int (round_half_even (x / pow2 ?e)) - x / pow2 ?e\<bar> * pow2 ?e"
    using pos by (subst abs_mult_pos) (simp_all add: fl_def fl_pos_def Let_def left_diff_distrib)
  also have "\<dots> \<le> 1 / 2 * pow2 ?e"
    using round_half_even_error by (intro mult_right_mono) (auto simp: less_imp_le)
  also have "\<dots> \<le> 1 / 2 * pow2 (k - 53)" using e by (simp add: pow2_mono)
  also have "\<dots> = pow2 (k - 54)"
    using pow2_diff [of "k - 53" 1] by (simp add: pow2_nat [of 1, simplified])
  finally show ?thesis .
qed

section \<open>Python's float operations\<close>

definition fadd :: "rat \<Rightarrow> rat \<Rightarrow> rat" where
  "fadd x y = fl (x + y)"

definition fsub :: "rat \<Rightarrow> rat \<Rightarrow> rat" where
  "fsub x y = fl (x - y)"

definition fmul :: "rat \<Rightarrow> rat \<Rightarrow> rat" where
  "fmul x y = fl (x * y)"

definition fdiv :: "rat \<Rightarrow> rat \<Rightarrow> rat" where
  "fdiv x y = fl (x / y)"

text \<open>\<^verbatim>\<open>round(x)\<close> and \<^verbatim>\<open>round(x, 4)\<close>.\<close>

definition py_round :: "rat \<Rightarrow> int" where
  "py_round x = round_half_even x"

definition py_round4 :: "rat \<Rightarrow> rat" where
  "py_round4 x = fl (of_int (round_half_even (x * 10000)) / 10000)"

lemmas float_op_defs = fadd_def fsub_def fmul_def fdiv_def

lemma fl_ops [simp]:
  "fl (fadd x y) = fadd x y" "fl (fsub x y) = fsub x y"
  "fl (fmul x y) = fmul x y" "fl (fdiv x y) = fdiv x y" "fl (py_round4 x) = py_round4 x"
  by (simp_all add: float_op_defs py_round4_def)

lemma py_round4_mono: "x \<le> y \<Longrightarrow> py_round4 x \<le> py_round4 y"
  unfolding py_round4_def
  by (intro fl_mono divide_right_mono) (simp_all add: round_half_even_mono)

lemma py_round4_of_int: "\<bar>n\<bar> < 2 ^ 53 \<Longrightarrow> py_round4 (of_int n) = of_int n"
proof -
  assume n: "\<bar>n\<bar> < 2 ^ 53"
  have "(of_int n :: rat) * 10000 = of_int (n * 10000)" by simp
  then have "round_half_even (of_int n * 10000) = n * 10000" by (metis round_half_even_of_int)
  with n show ?thesis by (simp add: py_round4_def)
qed

lemma py_round4_nonneg: "0 \<le> x \<Longrightarrow> 0 \<le> py_round4 x"
  using py_round4_mono [of 0 x] py_round4_of_int [of 0] by simp

lemma fadd_nonneg [simp]: "0 \<le> x \<Longrightarrow> 0 \<le> y \<Longrightarrow> 0 \<le> fadd x y"
  and fmul_nonneg [simp]: "0 \<le> x \<Longrightarrow> 0 \<le> y \<Longrightarrow> 0 \<le> fmul x y"
  and fdiv_nonneg [simp]: "0 \<le> x \<Longrightarrow> 0 \<le> y \<Longrightarrow> 0 \<le> fdiv x y"
  by (simp_all add: float_op_defs b64.rnd_nonneg)

end
