(* ===== verification/Py_Value.thy ===== *)
theory Py_Value
  imports Py_Text Py_Time Binary64
begin

text \<open>
  The dynamically typed values (\<^verbatim>\<open>Any\<close>) the code reads out of JSON payloads and database rows:
  their truth value, \<^verbatim>\<open>a or b\<close>, \<^verbatim>\<open>str(v)\<close>, and dictionary lookup.
\<close>

datatype pyfloat = Finite rat | PosInf | NegInf | NaN

datatype pyval =
    PNone
  | PBool bool
  | PInt int
  | PFloat pyfloat
  | PStr string
  | PTime instant        \<comment> \<open>an aware datetime, as its UTC instant\<close>
  | PNaive instant       \<comment> \<open>a datetime without a time zone\<close>
  | PList "pyval list"
  | PDict "(string \<times> pyval) list"

type_synonym pydict = "(string \<times> pyval) list"

section \<open>Truth and lookup\<close>

fun truthy :: "pyval \<Rightarrow> bool" where
  "truthy PNone = False"
| "truthy (PBool b) = b"
| "truthy (PInt i) = (i \<noteq> 0)"
| "truthy (PFloat (Finite x)) = (x \<noteq> 0)"
| "truthy (PFloat _) = True"
| "truthy (PStr s) = (s \<noteq> [])"
| "truthy (PTime _) = True"
| "truthy (PNaive _) = True"
| "truthy (PList xs) = (xs \<noteq> [])"
| "truthy (PDict d) = (d \<noteq> [])"

definition py_or :: "pyval \<Rightarrow> pyval \<Rightarrow> pyval" where
  "py_or a b = (if truthy a then a else b)"

text \<open>\<^verbatim>\<open>d.get(k)\<close>, \<^verbatim>\<open>d.get(k, default)\<close> and \<^verbatim>\<open>d[k]\<close>.\<close>

definition get_default :: "pydict \<Rightarrow> string \<Rightarrow> pyval \<Rightarrow> pyval" where
  "get_default d k v = (case map_of d k of None \<Rightarrow> v | Some x \<Rightarrow> x)"

definition get :: "pydict \<Rightarrow> string \<Rightarrow> pyval" where
  "get d k = get_default d k PNone"

definition subscript :: "pydict \<Rightarrow> string \<Rightarrow> pyval result" where
  "subscript d k = (case map_of d k of None \<Rightarrow> Inl KeyError | Some x \<Rightarrow> Inr x)"

fun str_values :: "pyval list \<Rightarrow> string list" where
  "str_values [] = []"
| "str_values (PStr s # vs) = s # str_values vs"
| "str_values (_ # vs) = str_values vs"

fun is_dict :: "pyval \<Rightarrow> bool" where
  "is_dict (PDict _) = True"
| "is_dict _ = False"

fun list_items :: "pyval \<Rightarrow> pyval list" where
  "list_items (PList vs) = vs"
| "list_items _ = []"

section \<open>str() and repr()\<close>

text \<open>
  \<^verbatim>\<open>repr\<close> of a float is the shortest decimal text that rounds back to it; \<open>repr_digits\<close>
  searches for it with at most 17 significant digits, which always suffice for a binary64
  number.
\<close>

definition pow10 :: "int \<Rightarrow> rat" where
  "pow10 e = (if 0 \<le> e then 10 ^ nat e else 1 / 10 ^ nat (- e))"

text \<open>The number of decimal digits, and the exponent of the leading digit: \<open>10 ^ e \<le> x < 10 ^ (e + 1)\<close>.\<close>

function dec_length :: "int \<Rightarrow> int" where
  "dec_length n = (if n < 10 then 1 else 1 + dec_length (n div 10))"
  by pat_completeness auto
termination
  by (relation "measure nat") auto

declare dec_length.simps [simp del]

definition dec_exponent :: "rat \<Rightarrow> int" where
  "dec_exponent x =
     (let (p, q) = quotient_of x; k = dec_length p - dec_length q
      in if pow10 k \<le> x then k else k - 1)"

fun repr_digits :: "nat \<Rightarrow> nat \<Rightarrow> int \<Rightarrow> rat \<Rightarrow> int \<times> int" where
  "repr_digits 0 n k x = (round_half_even (x / pow10 (k - 16)), k - 16)"
| "repr_digits (Suc fuel) n k x =
     (let e = k - int n; m = round_half_even (x / pow10 e)
      in if fl (of_int m * pow10 e) = x
         then (if m = 10 ^ Suc n then (1, k + 1) else (m, e))
         else repr_digits fuel (Suc n) k x)"

definition repr_pos :: "rat \<Rightarrow> string" where
  "repr_pos x =
     (let (m, e) = repr_digits 16 0 (dec_exponent x) x;
          ds = dec_int m;
          point = int (length ds) + e
      in if - 4 < point \<and> point \<le> 16
         then (if point \<le> 0 then ''0.'' @ replicate (nat (- point)) (CHR ''0'') @ ds
               else if int (length ds) \<le> point
               then ds @ replicate (nat point - length ds) (CHR ''0'') @ ''.0''
               else take (nat point) ds @ ''.'' @ drop (nat point) ds)
         else take 1 ds @ (if length ds = 1 then '''' else ''.'' @ drop 1 ds)
              @ (if point - 1 < 0 then ''e-'' else ''e+'')
              @ pad_left 2 (dec_int \<bar>point - 1\<bar>))"

fun repr_float :: "pyfloat \<Rightarrow> string" where
  "repr_float (Finite x) =
     (if x = 0 then ''0.0'' else if 0 < x then repr_pos x else CHR ''-'' # repr_pos (- x))"
| "repr_float PosInf = ''inf''"
| "repr_float NegInf = ''-inf''"
| "repr_float NaN = ''nan''"

definition hex_char :: "int \<Rightarrow> char" where
  "hex_char n = (if n < 10 then char_of (48 + n) else char_of (87 + n))"

definition escape_char :: "char \<Rightarrow> char \<Rightarrow> string" where
  "escape_char quote c =
     (if c = quote \<or> code c = 92 then [char_of (92 :: int), c]
      else if code c = 9 then [char_of (92 :: int), CHR ''t'']
      else if code c = 10 then [char_of (92 :: int), CHR ''n'']
      else if code c = 13 then [char_of (92 :: int), CHR ''r'']
      else if is_control c
      then [char_of (92 :: int), CHR ''x'', hex_char (code c div 16), hex_char (code c mod 16)]
      else [c])"

definition repr_str :: "string \<Rightarrow> string" where
  "repr_str s =
     (let single = char_of (39 :: int); double = char_of (34 :: int);
          q = (if single \<in> set s \<and> double \<notin> set s then double else single)
      in q # concat (map (escape_char q) s) @ [q])"

definition repr_datetime :: "instant \<Rightarrow> string \<Rightarrow> string" where
  "repr_datetime t tz =
     (let (y, m, d) = civil_of_days (day_number t);
          r = time_of_day t;
          s = r div 1000000 mod 60; us = r mod 1000000
      in ''datetime.datetime('' @ py_join '', ''
           (map dec_int ([y, m, d, r div 3600000000, r div 60000000 mod 60]
              @ (if s = 0 \<and> us = 0 then [] else if us = 0 then [s] else [s, us])))
         @ tz @ '')'')"

fun py_repr :: "pyval \<Rightarrow> string" and repr_item :: "string \<times> pyval \<Rightarrow> string" where
  "py_repr PNone = ''None''"
| "py_repr (PBool b) = (if b then ''True'' else ''False'')"
| "py_repr (PInt i) = dec_int i"
| "py_repr (PFloat f) = repr_float f"
| "py_repr (PStr s) = repr_str s"
| "py_repr (PTime t) = repr_datetime t '', tzinfo=datetime.timezone.utc''"
| "py_repr (PNaive t) = repr_datetime t ''''"
| "py_repr (PList vs) = ''['' @ py_join '', '' (map py_repr vs) @ '']''"
| "py_repr (PDict d) = ''{'' @ py_join '', '' (map repr_item d) @ ''}''"
| "repr_item (k, v) = repr_str k @ '': '' @ py_repr v"

fun py_str :: "pyval \<Rightarrow> string" where
  "py_str (PStr s) = s"
| "py_str (PTime t) = isoformat_sep (CHR '' '') t"
| "py_str (PNaive t) = take (length (isoformat_sep (CHR '' '') t) - 6) (isoformat_sep (CHR '' '') t)"
| "py_str v = py_repr v"

section \<open>Decimal exponents\<close>

lemma pow10_powi: "pow10 e = 10 powi e"
  by (simp add: pow10_def power_int_def inverse_eq_divide power_one_over)

lemma pow10_pos [simp]: "0 < pow10 e"
  by (simp add: pow10_def)

lemma pow10_diff: "pow10 (a - b) = pow10 a / pow10 b"
  by (simp add: pow10_powi power_int_diff)

lemma dec_length_bounds:
  "0 < n \<Longrightarrow> 0 < dec_length n \<and> 10 ^ nat (dec_length n - 1) \<le> n \<and> n < 10 ^ nat (dec_length n)"
proof (induction n rule: dec_length.induct)
  case (1 n)
  show ?case
  proof (cases "n < 10")
    case True
    with 1 show ?thesis by (simp add: dec_length.simps [of n])
  next
    case False
    let ?k = "dec_length (n div 10)"
    have IH: "0 < ?k" "10 ^ nat (?k - 1) \<le> n div 10" "n div 10 < 10 ^ nat ?k"
      using 1 False by auto
    have len: "dec_length n = 1 + ?k" using False by (simp add: dec_length.simps [of n])
    have e: "nat (dec_length n) = Suc (nat ?k)" "nat (dec_length n - 1) = Suc (nat (?k - 1))"
      using len IH(1) by auto
    have "10 * 10 ^ nat (?k - 1) \<le> n" using IH(2) by linarith
    moreover have "n < 10 * 10 ^ nat ?k" using IH(3) by linarith
    ultimately show ?thesis using IH(1) len e by simp
  qed
qed

lemma dec_length_bounds_rat:
  assumes "0 < n"
  shows "pow10 (dec_length n - 1) \<le> of_int n \<and> of_int n < pow10 (dec_length n)"
proof -
  have b: "0 < dec_length n" "10 ^ nat (dec_length n - 1) \<le> n" "n < 10 ^ nat (dec_length n)"
    using dec_length_bounds [OF assms] by auto
  then have "pow10 (dec_length n - 1) = of_int (10 ^ nat (dec_length n - 1))"
    and "pow10 (dec_length n) = of_int (10 ^ nat (dec_length n))"
    by (simp_all add: pow10_def)
  with b show ?thesis by (simp only: of_int_le_iff of_int_less_iff)
qed

lemma dec_exponent_bounds:
  assumes "0 < x"
  shows "pow10 (dec_exponent x) \<le> x \<and> x < pow10 (dec_exponent x + 1)"
proof -
  obtain p q where pq: "quotient_of x = (p, q)" by (cases "quotient_of x")
  then have x: "x = of_int p / of_int q" and q: "0 < q"
    by (simp_all add: quotient_of_div quotient_of_denom_pos)
  have p: "0 < p" using assms x q by (simp add: zero_less_divide_iff)
  let ?k = "dec_length p - dec_length q"
  have "pow10 (dec_length p - 1) / pow10 (dec_length q) < of_int p / of_int q"
    using dec_length_bounds_rat [OF p] dec_length_bounds_rat [OF q] q p by (intro frac_less2) auto
  then have lo: "pow10 (?k - 1) < x" by (simp add: x flip: pow10_diff) (simp add: algebra_simps)
  have "of_int p / of_int q < pow10 (dec_length p) / pow10 (dec_length q - 1)"
    using dec_length_bounds_rat [OF p] dec_length_bounds_rat [OF q] q p by (intro frac_less) auto
  then have hi: "x < pow10 (?k + 1)" by (simp add: x flip: pow10_diff) (simp add: algebra_simps)
  show ?thesis using lo hi by (auto simp: dec_exponent_def pq Let_def)
qed

section \<open>Facts\<close>

lemma set_str_values: "s \<in> set (str_values vs) \<longleftrightarrow> PStr s \<in> set vs"
  by (induction vs rule: str_values.induct) auto

lemma length_str_values [py_bounds]: "length (str_values vs) \<le> length vs"
  by (induction vs rule: str_values.induct) auto

lemma str_values_PStr [simp]: "str_values (map PStr xs) = xs"
  by (induction xs) auto

lemma py_str_or_str [simp]:
  "py_str (py_or (PStr s) (PStr [])) = s" "py_str (py_or PNone (PStr s)) = s"
  by (simp_all add: py_or_def)

lemma get_Cons [simp, py_simps]:
  "get_default ((k', x) # d) k v = (if k = k' then x else get_default d k v)"
  "get ((k', x) # d) k = (if k = k' then x else get d k)"
  by (simp_all add: get_def get_default_def)

lemma get_Nil [simp, py_simps]: "get_default [] k v = v" "get [] k = PNone"
  by (simp_all add: get_def get_default_def)

end
