(* ===== verification/Component_Identity.thy ===== *)
theory Component_Identity
  imports Py_Value
begin

text \<open>
  Text normalisation and package identities of
  \<^verbatim>\<open>backend/app/component_intelligence.py\<close>: \<open>bounded_text\<close> and \<open>normalized_token\<close> (the form
  in which every name, vendor and constraint is compared), the alias tables of ecosystems and
  component types, and package URLs: \<open>build_purl\<close>, \<open>parse_purl\<close> and \<open>purl_identity\<close>.
  \<^verbatim>\<open>None\<close> of the code is \<open>None\<close>; the \<^verbatim>\<open>Any\<close> parameters are \<^typ>\<open>pyval\<close>.
\<close>

section \<open>Bounded text and tokens\<close>

definition MAX_COMPONENT_NAME :: nat where "MAX_COMPONENT_NAME = 240"
definition MAX_COMPONENT_VERSION :: nat where "MAX_COMPONENT_VERSION = 160"

fun bounded_text :: "pyval \<Rightarrow> nat \<Rightarrow> string" where
  "bounded_text (PStr s) limit =
     (let cleaned = py_join '' '' (py_split (py_strip is_space s))
      in if cleaned = [] \<or> list_ex is_control cleaned then [] else take limit cleaned)"
| "bounded_text _ limit = []"

definition token_separator :: "char \<Rightarrow> bool" where
  "token_separator c \<longleftrightarrow> is_space c \<or> c = CHR ''_'' \<or> c = CHR ''/'' \<or> code c = 92"

definition token_char :: "char \<Rightarrow> bool" where
  "token_char c \<longleftrightarrow>
     is_lower c \<or> is_digit c \<or> c = CHR ''.'' \<or> c = CHR ''+'' \<or> c = CHR ''~'' \<or> c = CHR ''-''"

definition token_trim :: "char \<Rightarrow> bool" where
  "token_trim c \<longleftrightarrow> c = CHR ''-'' \<or> c = CHR ''.''"

definition normalized_token :: "pyval \<Rightarrow> nat \<Rightarrow> string" where
  "normalized_token v limit =
     (let text = casefold (bounded_text v limit);
          text = sub_runs token_separator ''-'' text;
          text = sub_runs (\<lambda>c. \<not> token_char c) ''-'' text
      in py_strip token_trim (sub_runs (\<lambda>c. c = CHR ''-'') ''-'' text))"

section \<open>Ecosystems and component types\<close>

definition ECOSYSTEM_ALIASES :: "(string \<times> string) list" where
  "ECOSYSTEM_ALIASES =
     [(''python'', ''pypi''), (''pypi'', ''pypi''), (''node'', ''npm''), (''nodejs'', ''npm''),
      (''npm'', ''npm''), (''java'', ''maven''), (''maven'', ''maven''), (''dotnet'', ''nuget''),
      (''nuget'', ''nuget''), (''go'', ''golang''), (''golang'', ''golang''), (''debian'', ''deb''),
      (''ubuntu'', ''deb''), (''dpkg'', ''deb''), (''deb'', ''deb''), (''redhat'', ''rpm''),
      (''rhel'', ''rpm''), (''fedora'', ''rpm''), (''centos'', ''rpm''), (''rpm'', ''rpm''),
      (''apk'', ''alpine''), (''alpine'', ''alpine''), (''application'', ''generic''),
      (''generic'', ''generic''), (''firmware'', ''firmware''), (''os'', ''operating-system''),
      (''operating-system'', ''operating-system'')]"

definition COMPONENT_TYPE_ALIASES :: "(string \<times> string) list" where
  "COMPONENT_TYPE_ALIASES =
     [(''app'', ''application''), (''application'', ''application''),
      (''package'', ''operating-system-package''), (''os-package'', ''operating-system-package''),
      (''operating-system-package'', ''operating-system-package''), (''library'', ''library''),
      (''runtime'', ''runtime''), (''driver'', ''driver''), (''firmware'', ''firmware''),
      (''os'', ''operating-system''), (''operating-system'', ''operating-system''),
      (''security-tool'', ''security-tool''), (''security_tool'', ''security-tool''),
      (''unknown'', ''unknown'')]"

definition SUPPORTED_ECOSYSTEMS :: "string list" where
  "SUPPORTED_ECOSYSTEMS =
     [''pypi'', ''npm'', ''maven'', ''nuget'', ''golang'', ''deb'', ''rpm'', ''alpine'',
      ''generic'', ''firmware'', ''operating-system'']"

definition PURL_TYPES :: "(string \<times> string) list" where
  "PURL_TYPES =
     [(''pypi'', ''pypi''), (''npm'', ''npm''), (''maven'', ''maven''), (''nuget'', ''nuget''),
      (''golang'', ''golang''), (''deb'', ''deb''), (''rpm'', ''rpm''), (''alpine'', ''alpine''),
      (''generic'', ''generic'')]"

definition normalize_ecosystem :: "pyval \<Rightarrow> string \<Rightarrow> string" where
  "normalize_ecosystem v component_type =
     (let candidate = normalized_token v 40
      in if candidate = []
         then (if component_type = ''firmware'' then ''firmware''
               else if component_type = ''operating-system'' then ''operating-system''
               else ''generic'')
         else (case map_of ECOSYSTEM_ALIASES candidate of
                 Some e \<Rightarrow> e
               | None \<Rightarrow> candidate))"

definition normalize_component_type :: "pyval \<Rightarrow> string \<Rightarrow> string" where
  "normalize_component_type v ecosystem =
     (case map_of COMPONENT_TYPE_ALIASES (normalized_token v 48) of
        Some t \<Rightarrow> t
      | None \<Rightarrow>
          if ecosystem \<in> {''deb'', ''rpm'', ''alpine''} then ''operating-system-package''
          else if ecosystem = ''firmware'' then ''firmware''
          else if ecosystem = ''operating-system'' then ''operating-system''
          else ''application'')"

definition normalize_version_text :: "pyval \<Rightarrow> string option" where
  "normalize_version_text v =
     (let version = bounded_text v MAX_COMPONENT_VERSION
      in if version = [] then None
         else if list_ex is_space version then Some (py_join '' '' (py_split version))
         else Some version)"

definition safe_architecture :: "string \<Rightarrow> bool" where
  "safe_architecture s \<longleftrightarrow>
     s \<noteq> [] \<and> (is_lower (hd s) \<or> is_digit (hd s)) \<and> length s \<le> 40 \<and>
     list_all (\<lambda>c. is_lower c \<or> is_digit c \<or> c = CHR ''_'' \<or> c = CHR ''.'' \<or> c = CHR ''-'') (tl s)"

definition normalize_architecture :: "pyval \<Rightarrow> string option" where
  "normalize_architecture v =
     (let a = normalized_token v 40;
          a = (if a \<in> {''x86-64'', ''x64''} then ''amd64''
               else if a = ''aarch64'' then ''arm64'' else a)
      in if a = [] \<or> \<not> safe_architecture a then None else Some a)"

section \<open>Percent quoting\<close>

definition upper_hex :: "int \<Rightarrow> char" where
  "upper_hex n = (if n < 10 then char_of (48 + n) else char_of (55 + n))"

text \<open>\<^verbatim>\<open>urllib.parse.quote(s, safe=...)\<close>: letters, digits and \<^verbatim>\<open>_.-~\<close> are always kept.\<close>

definition quote_char :: "string \<Rightarrow> char \<Rightarrow> string" where
  "quote_char safe c =
     (if is_alnum c \<or> c \<in> set ''_.-~'' \<or> c \<in> set safe then [c]
      else [CHR ''%'', upper_hex (code c div 16), upper_hex (code c mod 16)])"

definition quote :: "string \<Rightarrow> string \<Rightarrow> string" where
  "quote safe s = concat (map (quote_char safe) s)"

definition is_hex :: "char \<Rightarrow> bool" where
  "is_hex c \<longleftrightarrow> is_digit c \<or> (97 \<le> code c \<and> code c \<le> 102) \<or> (65 \<le> code c \<and> code c \<le> 70)"

definition hex_val :: "char \<Rightarrow> int" where
  "hex_val c = (if is_digit c then code c - 48 else if is_lower c then code c - 87 else code c - 55)"

fun unquote :: "string \<Rightarrow> string" where
  "unquote (p # a # b # s) =
     (if p = CHR ''%'' \<and> is_hex a \<and> is_hex b then char_of (16 * hex_val a + hex_val b) # unquote s
      else p # unquote (a # b # s))"
| "unquote s = s"

text \<open>\<^verbatim>\<open>re.search(r"%(?![0-9A-Fa-f]{2})", raw)\<close>.\<close>

fun bad_percent :: "string \<Rightarrow> bool" where
  "bad_percent [] = False"
| "bad_percent (c # s) =
     (c = CHR ''%'' \<and> \<not> (case s of a # b # _ \<Rightarrow> is_hex a \<and> is_hex b | _ \<Rightarrow> False) \<or> bad_percent s)"

section \<open>Package URLs\<close>

record ParsedPurl =
  pp_ecosystem :: string
  pp_namespace :: "string option"
  pp_name :: string
  pp_version :: "string option"
  pp_canonical :: string

definition purl_char :: "char \<Rightarrow> bool" where
  "purl_char c \<longleftrightarrow>
     is_alnum c \<or> c = CHR ''.'' \<or> c = CHR ''_'' \<or> c = CHR ''+'' \<or> c = CHR ''~'' \<or> c = CHR ''-''"

definition safe_purl_segment :: "string \<Rightarrow> bool" where
  "safe_purl_segment s \<longleftrightarrow>
     s \<noteq> [] \<and> is_alnum (hd s) \<and> list_all purl_char (tl s) \<and> length s \<le> 240"

definition purl_segment :: "string \<Rightarrow> string" where
  "purl_segment = quote ''._-~+''"

definition canonical_purl_name :: "string \<Rightarrow> string \<Rightarrow> string option" where
  "canonical_purl_name ecosystem v =
     (if v = [] \<or> CHR ''/'' \<in> set v \<or> char_of (92 :: int) \<in> set v then None
      else let v = (if ecosystem = ''pypi''
                    then casefold (sub_runs (\<lambda>c. c \<in> set ''-_.'') ''-'' v)
                    else if ecosystem \<in> {''npm'', ''nuget'', ''deb'', ''rpm'', ''alpine''}
                    then casefold v else v)
           in if safe_purl_segment v then Some v else None)"

fun canonical_namespace_part :: "string \<Rightarrow> nat \<Rightarrow> string \<Rightarrow> string option" where
  "canonical_namespace_part ecosystem i part =
     (if ecosystem = ''npm'' \<and> i = 0 \<and> part \<noteq> [] \<and> hd part = CHR ''@''
      then (let p = casefold (tl part)
            in if p \<noteq> [] \<and> safe_purl_segment p then Some (CHR ''@'' # p) else None)
      else (let p = (if ecosystem \<in> {''deb'', ''rpm'', ''alpine''} then casefold part else part)
            in if safe_purl_segment p then Some p else None))"

fun canonical_namespace_parts :: "string \<Rightarrow> nat \<Rightarrow> string list \<Rightarrow> string list option" where
  "canonical_namespace_parts ecosystem i [] = Some []"
| "canonical_namespace_parts ecosystem i (p # ps) =
     (case canonical_namespace_part ecosystem i p of
        None \<Rightarrow> None
      | Some q \<Rightarrow> map_option ((#) q) (canonical_namespace_parts ecosystem (Suc i) ps))"

definition canonical_purl_namespace :: "string \<Rightarrow> string option \<Rightarrow> string option" where
  "canonical_purl_namespace ecosystem v =
     (case v of
        None \<Rightarrow> None
      | Some s \<Rightarrow>
          if s = [] \<or> ecosystem \<in> {''pypi'', ''nuget''} then None
          else let parts = split_on (CHR ''/'') s
               in if list_ex (\<lambda>p. p = [] \<or> p = ''.'' \<or> p = ''..'') parts then None
                  else map_option (py_join ''/'') (canonical_namespace_parts ecosystem 0 parts))"

definition build_purl :: "string \<Rightarrow> string option \<Rightarrow> string \<Rightarrow> string option \<Rightarrow> string option" where
  "build_purl ecosystem namespace name version =
     (case (map_of PURL_TYPES ecosystem, canonical_purl_name ecosystem name) of
        (Some purl_type, Some safe_name) \<Rightarrow>
          (let safe_namespace = canonical_purl_namespace ecosystem namespace
           in if namespace \<noteq> None \<and> namespace \<noteq> Some [] \<and> safe_namespace = None then None
              else let path = (case safe_namespace of
                                 None \<Rightarrow> []
                               | Some ns \<Rightarrow>
                                   py_join ''/'' (map purl_segment (split_on (CHR ''/'') ns)) @ ''/'')
                              @ purl_segment safe_name;
                       path = (case (case version of None \<Rightarrow> None
                                     | Some v \<Rightarrow> normalize_version_text (PStr v)) of
                                 None \<Rightarrow> path
                               | Some v \<Rightarrow> path @ ''@'' @ quote ''._+~:-'' v)
                   in Some (''pkg:'' @ purl_type @ ''/'' @ path))
      | _ \<Rightarrow> None)"

text \<open>
  \<^verbatim>\<open>_PURL_RE.fullmatch\<close>.  No character of the type, of the namespace or of the name can be the
  delimiter that follows, except that the (greedy) namespace takes every slash up to the last
  one that leaves a non-empty name: \<open>last_slash\<close>.
\<close>

fun last_slash :: "string \<Rightarrow> string \<Rightarrow> (string \<times> string) option" where
  "last_slash pre [] = None"
| "last_slash pre (c # cs) =
     (case last_slash (pre @ [c]) cs of
        Some r \<Rightarrow> Some r
      | None \<Rightarrow> if c = CHR ''/'' \<and> pre \<noteq> [] \<and> cs \<noteq> [] then Some (pre, cs) else None)"

definition purl_type_char :: "char \<Rightarrow> bool" where
  "purl_type_char c \<longleftrightarrow>
     is_lower c \<or> is_digit c \<or> c = CHR ''.'' \<or> c = CHR ''+'' \<or> c = CHR ''-''"

definition match_purl :: "string \<Rightarrow> (string \<times> string \<times> string \<times> string) option" where
  "match_purl raw =
     (if take 4 raw \<noteq> ''pkg:'' then None
      else let rest = drop 4 raw;
               purl_type = takeWhile purl_type_char rest;
               after = dropWhile purl_type_char rest
           in if purl_type = [] \<or> \<not> is_lower (hd purl_type) \<or> after = [] \<or> hd after \<noteq> CHR ''/''
              then None
              else let path = takeWhile (\<lambda>c. c \<noteq> CHR ''@'') (tl after);
                       tail = dropWhile (\<lambda>c. c \<noteq> CHR ''@'') (tl after)
                   in if path = [] \<or> CHR ''?'' \<in> set (tl after) \<or> CHR ''#'' \<in> set (tl after)
                         \<or> length tail = 1
                      then None
                      else let (namespace, name) =
                                 (case last_slash [] path of None \<Rightarrow> ([], path) | Some r \<Rightarrow> r)
                           in Some (purl_type, namespace, name, tl tail))"

definition nonempty :: "string \<Rightarrow> string option" where
  "nonempty s = (if s = [] then None else Some s)"

definition parse_purl :: "pyval \<Rightarrow> ParsedPurl option" where
  "parse_purl v =
     (let raw = bounded_text v 600
      in if raw = [] \<or> raw \<noteq> py_strip is_space raw \<or> CHR ''?'' \<in> set raw \<or> CHR ''#'' \<in> set raw
            \<or> bad_percent raw
         then None
         else case match_purl raw of
                None \<Rightarrow> None
              | Some (purl_type, ns, nm, ver) \<Rightarrow>
                  (case map_of PURL_TYPES purl_type of
                     None \<Rightarrow> None
                   | Some ecosystem \<Rightarrow>
                       let namespace = unquote ns; name = unquote nm; version = nonempty (unquote ver);
                           backslash = char_of (92 :: int)
                       in if CHR ''/'' \<in> set name \<or> backslash \<in> set namespace \<or> backslash \<in> set name
                          then None
                          else let safe_namespace =
                                     canonical_purl_namespace ecosystem (nonempty namespace)
                               in if namespace \<noteq> [] \<and> safe_namespace = None then None
                                  else (case canonical_purl_name ecosystem name of
                                          None \<Rightarrow> None
                                        | Some safe_name \<Rightarrow>
                                            let safe_version = (case version of None \<Rightarrow> None
                                                  | Some w \<Rightarrow> normalize_version_text (PStr w))
                                            in (case build_purl ecosystem safe_namespace safe_name
                                                       safe_version of
                                                  None \<Rightarrow> None
                                                | Some canonical \<Rightarrow>
                                                    Some \<lparr>pp_ecosystem = ecosystem,
                                                      pp_namespace = safe_namespace,
                                                      pp_name = safe_name,
                                                      pp_version = safe_version,
                                                      pp_canonical = canonical\<rparr>))))"

definition purl_identity :: "pyval \<Rightarrow> string option" where
  "purl_identity v =
     (case parse_purl v of
        None \<Rightarrow> None
      | Some p \<Rightarrow> build_purl (pp_ecosystem p) (pp_namespace p) (pp_name p) None)"

section \<open>Facts: tokens\<close>

lemma py_split_plain_word: "plain_word w \<Longrightarrow> py_split w = [w]"
  by (simp add: py_split_def plain_word_def words_from_word_end)

lemma bounded_text_id:
  assumes "\<And>c. c \<in> set s \<Longrightarrow> \<not> is_space c \<and> \<not> is_control c" and "length s \<le> limit"
  shows "bounded_text (PStr s) limit = s"
proof (cases "s = []")
  case True
  then show ?thesis by (simp add: py_strip_id py_split_def)
next
  case False
  then have "plain_word s" using assms(1) by (simp add: plain_word_def list_all_iff)
  moreover have "py_strip is_space s = s" using False assms(1) by (intro py_strip_id) auto
  moreover have "\<not> list_ex is_control s" using assms(1) by (simp add: list_ex_iff)
  ultimately show ?thesis using assms(2) by (simp add: py_split_plain_word)
qed

lemma length_bounded_text [py_bounds]: "length (bounded_text v limit) \<le> limit"
  by (cases v) (simp_all add: Let_def)

lemma bounded_text_no_control: "c \<in> set (bounded_text v limit) \<Longrightarrow> \<not> is_control c"
  by (cases v) (auto simp: Let_def list_ex_iff split: if_splits dest!: in_set_takeD)

text \<open>No two dashes in a row.\<close>

definition single_dashes :: "string \<Rightarrow> bool" where
  "single_dashes = successively (\<lambda>a b. \<not> (a = CHR ''-'' \<and> b = CHR ''-''))"

lemma single_dashes_Cons:
  "single_dashes (c # s) \<longleftrightarrow>
     (s = [] \<or> \<not> (c = CHR ''-'' \<and> hd s = CHR ''-'')) \<and> single_dashes s"
  by (cases s) (auto simp: single_dashes_def)

lemma hd_collapse:
  "s \<noteq> [] \<Longrightarrow> \<not> P (hd s) \<Longrightarrow> P (CHR ''-'') \<Longrightarrow>
     sub_runs P ''-'' s \<noteq> [] \<and> hd (sub_runs P ''-'' s) \<noteq> CHR ''-''"
  by (cases s) auto

lemma single_dashes_collapse:
  assumes "P (CHR ''-'')"
  shows "single_dashes (sub_runs P ''-'' s)"
proof (induction s rule: length_induct)
  case (1 s)
  show ?case
  proof (cases s)
    case Nil
    then show ?thesis by (simp add: single_dashes_def)
  next
    case (Cons c cs)
    define d where "d = dropWhile P cs"
    have d: "d = [] \<or> \<not> P (hd d)"
      using hd_dropWhile_not [of P cs] by (auto simp: d_def)
    have "single_dashes (sub_runs P ''-'' d)" and "single_dashes (sub_runs P ''-'' cs)"
      using 1 Cons by (simp_all add: d_def length_dropWhile_lt)
    moreover have "\<not> P c \<Longrightarrow> c \<noteq> CHR ''-''" using assms by auto
    ultimately show ?thesis
      using Cons d assms hd_collapse [of d P]
      by (cases "P c"; cases "d = []") (auto simp: single_dashes_Cons simp flip: d_def)
  qed
qed

lemma collapse_id: "single_dashes s \<Longrightarrow> sub_runs (\<lambda>c. c = CHR ''-'') ''-'' s = s"
proof (induction s)
  case (Cons c s)
  then have "c = CHR ''-'' \<Longrightarrow> dropWhile (\<lambda>c. c = CHR ''-'') s = s"
    by (intro dropWhile_eq_self) (auto simp: single_dashes_Cons)
  with Cons show ?case by (auto simp: single_dashes_Cons)
qed simp

lemma single_dashes_dropWhile: "single_dashes s \<Longrightarrow> single_dashes (dropWhile P s)"
  by (induction s) (auto simp: single_dashes_Cons)

lemma single_dashes_rev: "single_dashes (rev s) = single_dashes s"
proof -
  have "(\<lambda>x y. \<not> (y = CHR ''-'' \<and> x = CHR ''-'')) = (\<lambda>a b. \<not> (a = CHR ''-'' \<and> b = CHR ''-''))"
    by (intro ext) blast
  then show ?thesis by (simp only: single_dashes_def successively_rev)
qed

lemma single_dashes_strip: "single_dashes s \<Longrightarrow> single_dashes (py_strip P s)"
  by (simp add: py_strip_def py_rstrip_def py_lstrip_def single_dashes_dropWhile single_dashes_rev)

definition is_token :: "string \<Rightarrow> bool" where
  "is_token t \<longleftrightarrow>
     list_all token_char t \<and> single_dashes t \<and>
     (t = [] \<or> \<not> token_trim (hd t) \<and> \<not> token_trim (last t))"

lemma token_char_dash: "token_char (CHR ''-'')"
  by (simp add: token_char_def)

lemma normalized_token_is_token: "is_token (normalized_token v limit)"
proof -
  let ?a = "sub_runs token_separator ''-'' (casefold (bounded_text v limit))"
  let ?b = "sub_runs (\<lambda>c. \<not> token_char c) ''-'' ?a"
  let ?c = "sub_runs (\<lambda>c. c = CHR ''-'') ''-'' ?b"
  have "list_all token_char ?b"
    using set_sub_runs [of "\<lambda>c. \<not> token_char c" "''-''" ?a] token_char_dash
    by (auto simp: list_all_iff)
  then have "list_all token_char ?c"
    using set_sub_runs [of "\<lambda>c. c = CHR ''-''" "''-''" ?b] token_char_dash
    by (auto simp: list_all_iff)
  then have "list_all token_char (py_strip token_trim ?c)"
    using set_py_strip [of token_trim ?c] by (auto simp: list_all_iff)
  moreover have "single_dashes (py_strip token_trim ?c)"
    by (intro single_dashes_strip single_dashes_collapse) simp
  ultimately show ?thesis
    using py_strip_ends [of token_trim ?c] by (auto simp: is_token_def normalized_token_def Let_def)
qed

lemma length_normalized_token [py_bounds]: "length (normalized_token v limit) \<le> limit"
  unfolding normalized_token_def Let_def
  by (intro order_trans [OF length_py_strip] order_trans [OF length_sub_runs])
    (simp_all add: length_bounded_text)

lemma token_char_not_space: "token_char c \<Longrightarrow> \<not> is_space c"
  by (auto simp: token_char_def char_class_defs)

lemma token_char_not_control: "token_char c \<Longrightarrow> \<not> is_control c"
  by (auto simp: token_char_def char_class_defs)

lemma token_char_not_upper: "token_char c \<Longrightarrow> \<not> is_upper c"
  by (auto simp: token_char_def char_class_defs)

lemma token_char_not_separator: "token_char c \<Longrightarrow> \<not> token_separator c"
  by (auto simp: token_char_def token_separator_def char_class_defs)

lemma normalized_token_of_token:
  assumes "is_token t" "length t \<le> limit"
  shows "normalized_token (PStr t) limit = t"
proof -
  have ok: "\<And>c. c \<in> set t \<Longrightarrow> token_char c"
    using assms(1) by (simp add: is_token_def list_all_iff)
  have "bounded_text (PStr t) limit = t"
    using ok assms(2) token_char_not_space token_char_not_control by (intro bounded_text_id) auto
  moreover have "casefold t = t"
    using ok token_char_not_upper by (intro casefold_id) auto
  moreover have "sub_runs token_separator ''-'' t = t"
    using ok token_char_not_separator by (intro sub_runs_id) (auto simp: list_all_iff)
  moreover have "sub_runs (\<lambda>c. \<not> token_char c) ''-'' t = t"
    using ok by (intro sub_runs_id) (auto simp: list_all_iff)
  moreover have "py_strip token_trim t = t"
    using assms(1) by (intro py_strip_id) (auto simp: is_token_def)
  moreover have "sub_runs (\<lambda>c. c = CHR ''-'') ''-'' t = t"
    using assms(1) by (intro collapse_id) (simp add: is_token_def)
  ultimately show ?thesis by (simp add: normalized_token_def)
qed

section \<open>Facts: percent quoting\<close>

lemma hex_digit_cases: "(0::int) \<le> n \<Longrightarrow> n < 16 \<Longrightarrow> is_hex (upper_hex n) \<and> hex_val (upper_hex n) = n"
  by (auto simp: upper_hex_def is_hex_def hex_val_def is_digit_def is_lower_def)

lemma is_hex_percent: "\<not> is_hex (CHR ''%'')"
  by (simp add: is_hex_def is_digit_def code_def)

lemma unquote_keep: "c \<noteq> CHR ''%'' \<Longrightarrow> unquote (c # s) = c # unquote s"
  by (cases s; cases "tl s") auto

lemma unquote_quote_char:
  assumes "CHR ''%'' \<notin> set safe"
  shows "unquote (quote_char safe c @ s) = c # unquote s"
proof (cases "is_alnum c \<or> c \<in> set ''_.-~'' \<or> c \<in> set safe")
  case True
  moreover have "c \<noteq> CHR ''%''"
    using True assms by (auto simp: is_alnum_def is_alpha_def is_digit_def is_lower_def is_upper_def code_def)
  ultimately show ?thesis by (simp add: quote_char_def unquote_keep)
next
  case False
  have d: "0 \<le> code c div 16" "code c div 16 < 16" "0 \<le> code c mod 16" "code c mod 16 < 16"
    using code_bounds [of c] by auto
  have "char_of (16 * (code c div 16) + code c mod 16) = c" by (simp add: code_def)
  with False d show ?thesis by (simp add: quote_char_def hex_digit_cases)
qed

lemma unquote_quote: "CHR ''%'' \<notin> set safe \<Longrightarrow> unquote (quote safe s) = s"
  by (induction s) (simp_all add: quote_def unquote_quote_char)

lemma length_unquote [py_bounds]: "length (unquote s) \<le> length s"
  by (induction s rule: unquote.induct) auto

lemma length_unquote_percent:
  "s = CHR ''%'' # t \<Longrightarrow> unquote s = CHR ''@'' # u \<Longrightarrow> length (unquote s) + 2 \<le> length s"
  using length_unquote by (cases s rule: unquote.cases) (auto split: if_splits)

lemma bad_percent_keep: "c \<noteq> CHR ''%'' \<Longrightarrow> bad_percent (c # s) = bad_percent s"
  by simp

lemma bad_percent_quote_char:
  "CHR ''%'' \<notin> set safe \<Longrightarrow> \<not> bad_percent s \<Longrightarrow> \<not> bad_percent (quote_char safe c @ s)"
proof -
  assume safe: "CHR ''%'' \<notin> set safe" and s: "\<not> bad_percent s"
  have d: "0 \<le> code c div 16" "code c div 16 < 16" "0 \<le> code c mod 16" "code c mod 16 < 16"
    using code_bounds [of c] by auto
  have "upper_hex (code c div 16) \<noteq> CHR ''%''" "upper_hex (code c mod 16) \<noteq> CHR ''%''"
    using d hex_digit_cases is_hex_percent by metis+
  moreover have "is_alnum c \<Longrightarrow> c \<noteq> CHR ''%''"
    by (auto simp: is_alnum_def is_alpha_def is_digit_def is_lower_def is_upper_def code_def)
  ultimately show ?thesis
    using safe s d by (auto simp: quote_char_def hex_digit_cases)
qed

section \<open>Facts: package URLs\<close>

lemma purl_char_plain:
  assumes "purl_char c"
  shows "\<not> is_space c" "\<not> is_control c" "c \<noteq> CHR ''/''" "c \<noteq> CHR ''@''" "c \<noteq> CHR ''?''"
    "c \<noteq> CHR ''#''" "c \<noteq> CHR ''%''" "c \<noteq> char_of (92 :: int)"
proof -
  have "code c \<noteq> 92" using assms by (auto simp: purl_char_def char_class_defs)
  then show "c \<noteq> char_of (92 :: int)" using code_char_of [of 92] by auto
qed (use assms in \<open>auto simp: purl_char_def char_class_defs\<close>)

lemma purl_char_to_lower: "purl_char c \<Longrightarrow> purl_char (to_lower c)"
  by (auto simp: purl_char_def is_alnum_def is_alpha_def is_digit_def is_lower_def is_upper_def
      code_to_lower to_lower_id)

lemma alnum_purl_char: "is_alnum c \<Longrightarrow> purl_char c"
  by (simp add: purl_char_def)

lemma safe_segment_chars: "safe_purl_segment s \<Longrightarrow> c \<in> set s \<Longrightarrow> purl_char c"
  by (cases s) (auto simp: safe_purl_segment_def list_all_iff alnum_purl_char)

lemma purl_segment_keep: "(\<And>c. c \<in> set s \<Longrightarrow> purl_char c) \<Longrightarrow> purl_segment s = s"
proof (induction s)
  case Nil
  then show ?case by (simp add: purl_segment_def quote_def)
next
  case (Cons c s)
  then have "purl_char c" and "purl_segment s = s" by auto
  then show ?case by (auto simp: purl_segment_def quote_def quote_char_def purl_char_def)
qed

lemma sub_runs_dash_id:
  "single_dashes s \<Longrightarrow> (\<And>c. c \<in> set s \<Longrightarrow> c \<noteq> CHR ''_'' \<and> c \<noteq> CHR ''.'') \<Longrightarrow>
     sub_runs (\<lambda>c. c \<in> set ''-_.'') ''-'' s = s"
proof (induction s)
  case (Cons c s)
  have "c = CHR ''-'' \<Longrightarrow> dropWhile (\<lambda>c. c \<in> set ''-_.'') s = s"
    using Cons.prems by (intro dropWhile_eq_self) (cases s; auto simp: single_dashes_Cons)
  with Cons show ?case by (auto simp: single_dashes_Cons)
qed simp

lemma to_lower_eq_iff:
  assumes "\<not> is_alpha d"
  shows "to_lower c = d \<longleftrightarrow> c = d"
proof (cases "is_upper c")
  case True
  then have "is_lower (to_lower c)" by (simp add: is_lower_def is_upper_def code_to_lower)
  with True assms show ?thesis by (auto simp: is_alpha_def)
next
  case False
  then show ?thesis by (simp add: to_lower_id)
qed

lemma single_dashes_casefold: "single_dashes (casefold s) = single_dashes s"
proof -
  have dash: "to_lower c = CHR ''-'' \<longleftrightarrow> c = CHR ''-''" for c
    by (rule to_lower_eq_iff) (simp add: char_class_defs)
  show ?thesis
  proof (induction s)
    case (Cons a s)
    then show ?case by (cases s) (simp_all add: casefold_def single_dashes_Cons dash)
  qed (simp add: casefold_def)
qed

lemma pypi_name_fixed:
  "casefold (sub_runs (\<lambda>c. c \<in> set ''-_.'') ''-''
     (casefold (sub_runs (\<lambda>c. c \<in> set ''-_.'') ''-'' v))) =
   casefold (sub_runs (\<lambda>c. c \<in> set ''-_.'') ''-'' v)"
proof -
  let ?P = "\<lambda>c. c \<in> set ''-_.''"
  let ?r = "sub_runs ?P ''-'' v"
  have "single_dashes (casefold ?r)"
    by (simp add: single_dashes_casefold single_dashes_collapse)
  moreover have "c \<noteq> CHR ''_'' \<and> c \<noteq> CHR ''.''" if "c \<in> set (casefold ?r)" for c
  proof -
    obtain b where b: "b \<in> set ?r" "c = to_lower b" using \<open>c \<in> _\<close> by (auto simp: casefold_def)
    have "b \<noteq> CHR ''_''" "b \<noteq> CHR ''.''" using b(1) set_sub_runs [of ?P "''-''" v] by auto
    moreover have "to_lower b = CHR ''_'' \<longleftrightarrow> b = CHR ''_''" "to_lower b = CHR ''.'' \<longleftrightarrow> b = CHR ''.''"
      by (rule to_lower_eq_iff, simp add: char_class_defs)+
    ultimately show ?thesis using b(2) by simp
  qed
  ultimately have "sub_runs ?P ''-'' (casefold ?r) = casefold ?r"
    by (rule sub_runs_dash_id)
  then show ?thesis by simp
qed

lemma canonical_purl_name_fixed:
  assumes "canonical_purl_name eco v = Some n"
  shows "canonical_purl_name eco n = Some n" "safe_purl_segment n" "length n \<le> length v"
proof -
  show safe: "safe_purl_segment n"
    using assms by (auto simp: canonical_purl_name_def Let_def split: if_splits)
  then have "n \<noteq> []" "CHR ''/'' \<notin> set n" "char_of (92 :: int) \<notin> set n"
    using safe safe_segment_chars [OF safe] purl_char_plain(3,8) by (auto simp: safe_purl_segment_def)
  then show "canonical_purl_name eco n = Some n"
    using assms safe pypi_name_fixed [of v]
    by (auto simp: canonical_purl_name_def Let_def split: if_splits)
  show "length n \<le> length v"
    using assms length_sub_runs [of "''-''"]
    by (auto simp: canonical_purl_name_def Let_def split: if_splits)
qed


text \<open>Splitting and joining at slashes.\<close>

lemma split_on_nonempty [simp]: "split_on d s \<noteq> []"
  by (induction s) (auto split: list.splits)

lemma split_on_no_sep: "w \<in> set (split_on d s) \<Longrightarrow> d \<notin> set w"
  by (induction s arbitrary: w) (auto split: list.splits if_splits)

lemma split_on_word: "d \<notin> set w \<Longrightarrow> split_on d w = [w]"
  by (induction w) auto

lemma split_on_append: "d \<notin> set w \<Longrightarrow> split_on d (w @ d # s) = w # split_on d s"
  by (induction w) auto

lemma split_on_join:
  "ws \<noteq> [] \<Longrightarrow> (\<And>w. w \<in> set ws \<Longrightarrow> d \<notin> set w) \<Longrightarrow> split_on d (py_join [d] ws) = ws"
  by (induction "[d]" ws rule: py_join.induct) (auto simp: split_on_word split_on_append)

lemma join_split_on: "py_join [d] (split_on d s) = s"
proof (induction s)
  case (Cons c s)
  obtain w ws where "split_on d s = w # ws" by (cases "split_on d s") auto
  with Cons show ?case by (cases ws) auto
qed simp

lemma length_py_join: "map length vs = map length ws \<Longrightarrow> length (py_join sep vs) = length (py_join sep ws)"
proof (induction sep vs arbitrary: ws rule: py_join.induct)
  case (3 sep w v us)
  obtain w' v' us' where "ws = w' # v' # us'"
    using "3.prems" by (cases ws; cases "tl ws") auto
  with 3 show ?case by (auto dest: "3.IH" [of "v' # us'" for v' us'])
qed (auto simp: map_eq_Cons_conv [symmetric])

lemma join_map_quote:
  "py_join ''/'' (map (quote safe) (split_on (CHR ''/'') s)) =
     concat (map (\<lambda>c. if c = CHR ''/'' then ''/'' else quote_char safe c) s)"
proof (induction s)
  case (Cons c s)
  obtain w ws where "split_on (CHR ''/'') s = w # ws" by (cases "split_on (CHR ''/'') s") auto
  with Cons show ?case by (cases ws) (auto simp: quote_def)
qed (simp add: quote_def)

lemma quote_slash:
  "quote (''/'' @ safe) s = concat (map (\<lambda>c. if c = CHR ''/'' then ''/'' else quote_char safe c) s)"
  by (induction s) (auto simp: quote_def quote_char_def)

lemma join_purl_segments:
  "py_join ''/'' (map purl_segment (split_on (CHR ''/'') s)) = quote ''/._-~+'' s"
  using join_map_quote [of "''._-~+''" s] quote_slash [of "''._-~+''" s]
  by (simp add: purl_segment_def)

text \<open>Canonical namespaces.\<close>

lemma safe_segment_casefold: "safe_purl_segment s \<Longrightarrow> \<not> is_space (hd s) \<and> hd s \<noteq> CHR ''@'' \<and> CHR ''/'' \<notin> set s"
  using safe_segment_chars [of s "hd s"] safe_segment_chars [of s "CHR ''/''"]
    purl_char_plain [of "hd s"] purl_char_plain [of "CHR ''/''"]
  by (auto simp: safe_purl_segment_def)

lemma namespace_part_cases:
  assumes "canonical_namespace_part eco i p = Some q"
  obtains (scope) r where "q = CHR ''@'' # r" "safe_purl_segment r" "casefold r = r"
      "eco = ''npm''" "i = 0" "p \<noteq> []" "hd p = CHR ''@''" "length r = length (tl p)"
    | (plain) "safe_purl_segment q" "length q = length p"
      "eco \<in> {''deb'', ''rpm'', ''alpine''} \<Longrightarrow> casefold q = q"
  using assms by (auto simp: Let_def split: if_splits)

lemma namespace_part_fixed:
  assumes "canonical_namespace_part eco i p = Some q"
  shows "canonical_namespace_part eco i q = Some q"
  using assms
proof (cases rule: namespace_part_cases)
  case (scope r)
  then show ?thesis by (auto simp: Let_def safe_purl_segment_def)
next
  case plain
  then show ?thesis using safe_segment_casefold [of q] by (auto simp: Let_def)
qed

definition namespace_char :: "char \<Rightarrow> bool" where
  "namespace_char c \<longleftrightarrow> purl_char c \<or> c = CHR ''@''"

lemma namespace_part_shape:
  assumes "canonical_namespace_part eco i p = Some q"
  shows "length q = length p \<and> q \<noteq> [] \<and> q \<noteq> ''.'' \<and> q \<noteq> ''..'' \<and> CHR ''/'' \<notin> set q \<and>
    list_all namespace_char q \<and> CHR ''@'' \<notin> set (tl q) \<and>
    (hd q = CHR ''@'' \<longrightarrow> i = 0 \<and> hd p = CHR ''@'')"
  using assms
proof (cases rule: namespace_part_cases)
  case (scope r)
  have "c \<in> set r \<Longrightarrow> purl_char c" for c using scope(2) by (rule safe_segment_chars)
  with scope purl_char_plain show ?thesis
    by (auto simp: namespace_char_def list_all_iff) fastforce+
next
  case plain
  have ch: "c \<in> set q \<Longrightarrow> purl_char c" for c using plain(1) by (rule safe_segment_chars)
  moreover have "q \<noteq> []" "is_alnum (hd q)" using plain(1) by (auto simp: safe_purl_segment_def)
  moreover have "\<not> is_alnum (CHR ''.'')" "\<not> is_alnum (CHR ''@'')" by (simp_all add: char_class_defs)
  moreover have "CHR ''@'' \<notin> set q" "CHR ''/'' \<notin> set q" using ch purl_char_plain by blast+
  ultimately show ?thesis using plain(2)
    by (auto simp: namespace_char_def list_all_iff dest: list.set_sel(2))
qed

lemma namespace_parts_fixed:
  "canonical_namespace_parts eco i ps = Some qs \<Longrightarrow>
     canonical_namespace_parts eco i qs = Some qs \<and> map length qs = map length ps \<and>
     (\<forall>q \<in> set qs. q \<noteq> [] \<and> q \<noteq> ''.'' \<and> q \<noteq> ''..'' \<and> CHR ''/'' \<notin> set q \<and> list_all namespace_char q)"
proof (induction ps arbitrary: i qs)
  case (Cons p ps)
  then obtain q rs where "canonical_namespace_part eco i p = Some q"
    and "canonical_namespace_parts eco (Suc i) ps = Some rs" and "qs = q # rs"
    by (auto simp del: canonical_namespace_part.simps split: option.splits)
  with Cons.IH [of "Suc i" rs] namespace_part_fixed namespace_part_shape show ?case
    by (auto simp del: canonical_namespace_part.simps)
qed simp

lemma namespace_parts_at:
  "canonical_namespace_parts eco i ps = Some qs \<Longrightarrow>
     CHR ''@'' \<notin> set (tl (concat qs)) \<and>
     (concat qs \<noteq> [] \<and> hd (concat qs) = CHR ''@'' \<longrightarrow> i = 0 \<and> hd (hd ps) = CHR ''@'')"
proof (induction ps arbitrary: i qs)
  case (Cons p ps)
  then obtain q rs where q: "canonical_namespace_part eco i p = Some q"
    and rs: "canonical_namespace_parts eco (Suc i) ps = Some rs" and qs: "qs = q # rs"
    by (auto simp del: canonical_namespace_part.simps split: option.splits)
  have "CHR ''@'' \<notin> set (concat rs)"
    using Cons.IH [OF rs] by (cases "concat rs") auto
  moreover have "q \<noteq> [] \<and> CHR ''@'' \<notin> set (tl q) \<and> (hd q = CHR ''@'' \<longrightarrow> i = 0 \<and> hd p = CHR ''@'')"
    using namespace_part_shape [OF q] by blast
  ultimately show ?case using qs by (cases q) auto
qed simp

lemma canonical_purl_namespace_fixed:
  assumes "canonical_purl_namespace eco (Some s) = Some t"
  shows "canonical_purl_namespace eco (Some t) = Some t" "length t = length s" "t \<noteq> []"
    "list_all (\<lambda>c. namespace_char c \<or> c = CHR ''/'') t"
    "CHR ''@'' \<notin> set (tl t)" "hd t = CHR ''@'' \<Longrightarrow> hd s = CHR ''@''"
proof -
  let ?ps = "split_on (CHR ''/'') s"
  obtain qs where qs: "canonical_namespace_parts eco 0 ?ps = Some qs" and t: "t = py_join ''/'' qs"
    and eco: "eco \<notin> {''pypi'', ''nuget''}"
    using assms unfolding canonical_purl_namespace_def Let_def option.case
    by (auto simp del: canonical_namespace_parts.simps split: if_splits)
  note fixed = namespace_parts_fixed [OF qs]
  have "length qs = length ?ps" using fixed by (metis length_map)
  then have ne: "qs \<noteq> []" by auto
  have split: "split_on (CHR ''/'') t = qs" using ne fixed by (auto simp: t split_on_join)
  obtain q rs where q: "qs = q # rs" using ne by (cases qs) auto
  then have "q \<noteq> []" using fixed by auto
  then show tne: "t \<noteq> []" by (cases rs) (auto simp: t q)
  show "canonical_purl_namespace eco (Some t) = Some t"
  proof -
    have "\<not> list_ex (\<lambda>p. p = [] \<or> p = ''.'' \<or> p = ''..'') qs"
      using fixed by (simp add: list_ex_iff)
    moreover have "canonical_namespace_parts eco 0 qs = Some qs" using fixed by blast
    ultimately show ?thesis
      unfolding canonical_purl_namespace_def Let_def option.case split
      using tne eco by (simp only: if_False option.map t) simp
  qed
  have "length (py_join ''/'' qs) = length (py_join ''/'' ?ps)"
    using fixed by (intro length_py_join) simp
  then show "length t = length s" by (simp add: t join_split_on)
  show "list_all (\<lambda>c. namespace_char c \<or> c = CHR ''/'') t"
  proof -
    have "c \<in> set t \<Longrightarrow> c = CHR ''/'' \<or> (\<exists>q \<in> set qs. c \<in> set q)" for c
      using set_py_join [of "''/''" qs] t by auto
    moreover have "\<forall>q \<in> set qs. \<forall>c \<in> set q. namespace_char c"
      using fixed by (simp add: list_all_iff)
    ultimately show ?thesis unfolding list_all_iff by blast
  qed
  have at: "CHR ''@'' \<notin> set (tl (concat qs))"
    "hd (concat qs) = CHR ''@'' \<Longrightarrow> hd (hd ?ps) = CHR ''@''"
    using namespace_parts_at [OF qs] \<open>q \<noteq> []\<close> q by auto
  have "set (tl t) \<subseteq> set (tl q) \<union> {CHR ''/''} \<union> set (concat rs)"
    using set_py_join [of "''/''" rs] \<open>q \<noteq> []\<close> q by (cases rs) (auto simp: t)
  moreover have "set (tl q) \<union> set (concat rs) = set (tl (concat qs))"
    using \<open>q \<noteq> []\<close> q by simp
  ultimately show "CHR ''@'' \<notin> set (tl t)" using at(1) by auto
  have "hd t = hd (concat qs)" using \<open>q \<noteq> []\<close> q by (cases rs) (auto simp: t)
  moreover have "hd ?ps \<noteq> [] \<Longrightarrow> hd (hd ?ps) = hd s"
    by (cases s) (auto split: list.splits if_splits)
  moreover have "hd ?ps \<noteq> []"
  proof -
    have "map length qs = map length ?ps" using fixed by simp
    with q \<open>q \<noteq> []\<close> show ?thesis by (cases ?ps) auto
  qed
  ultimately show "hd t = CHR ''@'' \<Longrightarrow> hd s = CHR ''@''" using at(2) by simp
qed

end
