(* ===== verification/Purl_Identity.thy ===== *)
theory Purl_Identity
  imports Component_Identity
begin

text \<open>
  What the package-URL functions of src/backend/app/component_intelligence.py promise: the shape of
  an accepted package URL, the URL that \<open>build_purl\<close> prints, and the fixed point that links the two:
  the identity of a component is stable under being reported again.
\<close>

text \<open>The parts of an accepted package URL.\<close>

lemma last_slash_Some:
  "last_slash pre s = Some (a, b) \<Longrightarrow> pre @ s = a @ CHR ''/'' # b \<and> a \<noteq> [] \<and> b \<noteq> []"
  by (induction pre s arbitrary: a b rule: last_slash.induct) (auto split: option.splits if_splits)

lemma last_slash_None: "CHR ''/'' \<notin> set s \<Longrightarrow> last_slash pre s = None"
  by (induction pre s rule: last_slash.induct) auto

lemma last_slash_found:
  "pre @ x \<noteq> [] \<Longrightarrow> n \<noteq> [] \<Longrightarrow> CHR ''/'' \<notin> set n \<Longrightarrow>
     last_slash pre (x @ CHR ''/'' # n) = Some (pre @ x, n)"
  by (induction x arbitrary: pre) (auto simp: last_slash_None)

lemma PURL_TYPES_lookup:
  assumes "map_of PURL_TYPES t = Some e"
  shows "e = t \<and> t \<noteq> [] \<and> list_all is_lower t \<and> length t \<le> 7"
  using assms by (auto simp: PURL_TYPES_def char_class_defs split: if_splits)

lemma match_purl_parts:
  assumes "match_purl raw = Some (ty, ns, nm, ver)"
  shows "CHR ''@'' \<notin> set ns \<and>
    5 + length ty + (if ns = [] then 0 else Suc (length ns)) + length nm \<le> length raw"
proof -
  define rest where "rest = drop 4 raw"
  define after where "after = dropWhile purl_type_char rest"
  define path where "path = takeWhile (\<lambda>c. c \<noteq> CHR ''@'') (tl after)"
  have m: "take 4 raw = ''pkg:''" "ty = takeWhile purl_type_char rest" "after \<noteq> []"
    and r: "(ns, nm) = (case last_slash [] path of None \<Rightarrow> ([], path) | Some r \<Rightarrow> r)"
    using assms unfolding match_purl_def Let_def rest_def [symmetric] after_def [symmetric]
      path_def [symmetric]
    by (auto split: if_splits prod.splits)
  have "length (take 4 raw) = 4" by (simp add: m(1))
  then have "4 \<le> length raw" by simp
  then have "length raw = 4 + length rest" by (simp add: rest_def)
  moreover have "length rest = length ty + length after"
    using m(2) by (metis after_def length_append takeWhile_dropWhile_id)
  moreover obtain c cs where "after = c # cs" using m(3) by (cases after) auto
  moreover have "length path \<le> length cs"
    using \<open>after = c # cs\<close> by (simp add: path_def length_takeWhile_le)
  ultimately have len: "5 + length ty + length path \<le> length raw" by simp
  have at: "CHR ''@'' \<notin> set path" by (auto simp: path_def dest: set_takeWhileD)
  have "(ns = [] \<and> nm = path) \<or> (path = ns @ CHR ''/'' # nm \<and> ns \<noteq> [])"
    using r last_slash_Some [of "[]" path] by (auto split: option.splits)
  then show ?thesis
  proof
    assume "ns = [] \<and> nm = path"
    with len show ?thesis by simp
  next
    assume "path = ns @ CHR ''/'' # nm \<and> ns \<noteq> []"
    with len at show ?thesis by simp
  qed
qed

lemma match_purl_build:
  assumes "map_of PURL_TYPES eco = Some eco"
    and "path \<noteq> []" "CHR ''@'' \<notin> set path" "CHR ''?'' \<notin> set path" "CHR ''#'' \<notin> set path"
  shows "match_purl (''pkg:'' @ eco @ ''/'' @ path) =
    Some (let (a, b) = (case last_slash [] path of None \<Rightarrow> ([], path) | Some r \<Rightarrow> r)
          in (eco, a, b, []))"
proof -
  have eco: "eco \<noteq> []" "list_all is_lower eco" using PURL_TYPES_lookup [OF assms(1)] by auto
  have "takeWhile purl_type_char (eco @ CHR ''/'' # path) = eco"
    and "dropWhile purl_type_char (eco @ CHR ''/'' # path) = CHR ''/'' # path"
    using eco(2) by (auto simp: list_all_iff purl_type_char_def takeWhile_append dropWhile_append
        char_class_defs)
  moreover have "takeWhile (\<lambda>c. c \<noteq> CHR ''@'') path = path" "dropWhile (\<lambda>c. c \<noteq> CHR ''@'') path = []"
    using assms(3) by auto
  moreover have "is_lower (hd eco)" using eco by (cases eco) auto
  ultimately show ?thesis using assms eco
    by (simp add: match_purl_def Let_def
        del: takeWhile_eq_all_conv dropWhile_eq_Nil_conv
        split: prod.splits)
qed

lemma parse_purl_parts:
  assumes "parse_purl v = Some p"
  obtains ns nm ver where
    "match_purl (bounded_text v 600) = Some (pp_ecosystem p, ns, nm, ver)"
    "map_of PURL_TYPES (pp_ecosystem p) = Some (pp_ecosystem p)"
    "pp_namespace p = canonical_purl_namespace (pp_ecosystem p) (nonempty (unquote ns))"
    "canonical_purl_name (pp_ecosystem p) (unquote nm) = Some (pp_name p)"
proof -
  obtain ty ns nm ver where
    m: "match_purl (bounded_text v 600) = Some (ty, ns, nm, ver)"
    and ty: "map_of PURL_TYPES ty = Some (pp_ecosystem p)"
    and "pp_namespace p = canonical_purl_namespace (pp_ecosystem p) (nonempty (unquote ns))"
    and "canonical_purl_name (pp_ecosystem p) (unquote nm) = Some (pp_name p)"
    using assms unfolding parse_purl_def Let_def
    by (auto split: if_splits option.splits prod.splits)
  moreover have "pp_ecosystem p = ty" using PURL_TYPES_lookup [OF ty] by simp
  ultimately show ?thesis using that by simp
qed

lemma parse_purl_match:
  assumes "bounded_text v 600 = raw" "py_strip is_space raw = raw"
    and "CHR ''?'' \<notin> set raw" "CHR ''#'' \<notin> set raw" "\<not> bad_percent raw"
    and "match_purl raw = Some (eco, ns, nm, [])" "map_of PURL_TYPES eco = Some eco"
    and "unquote nm = n" "canonical_purl_name eco n = Some n"
    and "char_of (92 :: int) \<notin> set (unquote ns)"
    and "canonical_purl_namespace eco (nonempty (unquote ns)) = nonempty (unquote ns)"
    and "build_purl eco (nonempty (unquote ns)) n None = Some canonical"
  shows "parse_purl v = Some \<lparr>pp_ecosystem = eco, pp_namespace = nonempty (unquote ns),
    pp_name = n, pp_version = None, pp_canonical = canonical\<rparr>"
proof -
  have "raw \<noteq> []" using assms(6) by (auto simp: match_purl_def)
  moreover have "n \<noteq> []" "CHR ''/'' \<notin> set n" "char_of (92 :: int) \<notin> set n"
    using assms(9) by (auto simp: canonical_purl_name_def)
  ultimately show ?thesis
    unfolding parse_purl_def Let_def assms(1)
    using assms by (auto simp: nonempty_def)
qed

text \<open>Building from canonical parts, and the text that results.\<close>

lemma bad_percent_append: "CHR ''%'' \<notin> set x \<Longrightarrow> bad_percent (x @ t) = bad_percent t"
  by (induction x) auto

lemma bad_percent_quote:
  "CHR ''%'' \<notin> set safe \<Longrightarrow> \<not> bad_percent t \<Longrightarrow> \<not> bad_percent (quote safe s @ t)"
proof (induction s)
  case (Cons c s)
  then show ?case using bad_percent_quote_char [of safe "quote safe s @ t" c] by (simp add: quote_def)
qed (simp add: quote_def)

lemma quote_namespace_char:
  assumes "namespace_char c \<or> c = CHR ''/''"
  shows "quote_char ''/._-~+'' c = (if c = CHR ''@'' then ''%40'' else [c])"
proof -
  have "quote_char ''/._-~+'' c = [c]" if "purl_char c"
    using that by (auto simp: purl_char_def quote_char_def)
  moreover have "quote_char ''/._-~+'' (CHR ''/'') = ''/''" by code_simp
  moreover have "quote_char ''/._-~+'' (CHR ''@'') = ''%40''" by code_simp
  ultimately show ?thesis using assms purl_char_plain(4) [of c] by (auto simp: namespace_char_def)
qed

lemma purl_char_literals:
  "purl_char (CHR ''4'')" "purl_char (CHR ''0'')" "purl_char (CHR ''p'')" "purl_char (CHR ''k'')"
  "purl_char (CHR ''g'')"
  by code_simp+

lemma lower_purl_char: "is_lower c \<Longrightarrow> purl_char c"
  by (simp add: purl_char_def is_alnum_def is_alpha_def)

lemma set_quote_namespace:
  assumes "list_all (\<lambda>c. namespace_char c \<or> c = CHR ''/'') s" "c \<in> set (quote ''/._-~+'' s)"
  shows "purl_char c \<or> c = CHR ''/'' \<or> c = CHR ''%''"
proof -
  obtain d where "d \<in> set s" and d: "c \<in> set (quote_char ''/._-~+'' d)"
    using assms(2) by (auto simp: quote_def)
  then have "namespace_char d \<or> d = CHR ''/''" using assms(1) by (auto simp: list_all_iff)
  with d show ?thesis
    by (auto simp: quote_namespace_char purl_char_literals namespace_char_def split: if_splits)
qed

lemma length_quote_no_at:
  "list_all (\<lambda>c. namespace_char c \<or> c = CHR ''/'') s \<Longrightarrow> CHR ''@'' \<notin> set s \<Longrightarrow>
     length (quote ''/._-~+'' s) = length s"
  by (induction s) (auto simp: quote_def quote_namespace_char)

lemma length_quote_namespace:
  assumes "list_all (\<lambda>c. namespace_char c \<or> c = CHR ''/'') s" "CHR ''@'' \<notin> set (tl s)" "s \<noteq> []"
  shows "length (quote ''/._-~+'' s) = length s + (if hd s = CHR ''@'' then 2 else 0)"
proof (cases s)
  case (Cons c t)
  then have "length (quote ''/._-~+'' t) = length t" using assms by (intro length_quote_no_at) auto
  then show ?thesis using Cons assms quote_namespace_char [of c] by (auto simp: quote_def)
qed (use assms in simp)

lemma build_purl_site:
  assumes "map_of PURL_TYPES eco = Some eco" "canonical_purl_name eco n = Some n"
  shows "build_purl eco None n None = Some (''pkg:'' @ eco @ ''/'' @ n)"
proof -
  have "purl_segment n = n"
    using canonical_purl_name_fixed(2) [OF assms(2)] safe_segment_chars purl_segment_keep by blast
  then show ?thesis using assms by (simp add: build_purl_def canonical_purl_namespace_def)
qed

lemma build_purl_scoped:
  assumes "map_of PURL_TYPES eco = Some eco" "canonical_purl_name eco n = Some n"
    and "canonical_purl_namespace eco (Some s) = Some s" "s \<noteq> []"
  shows "build_purl eco (Some s) n None = Some (''pkg:'' @ eco @ ''/'' @ quote ''/._-~+'' s @ ''/'' @ n)"
proof -
  have "purl_segment n = n"
    using canonical_purl_name_fixed(2) [OF assms(2)] safe_segment_chars purl_segment_keep by blast
  then show ?thesis using assms by (simp add: build_purl_def join_purl_segments)
qed

lemma purl_text_plain:
  assumes "map_of PURL_TYPES eco = Some eco"
    and "\<And>c. c \<in> set path \<Longrightarrow> purl_char c \<or> c = CHR ''/'' \<or> c = CHR ''%''"
    and "5 + length eco + length path \<le> 600"
  shows "bounded_text (PStr (''pkg:'' @ eco @ ''/'' @ path)) 600 = ''pkg:'' @ eco @ ''/'' @ path"
    "py_strip is_space (''pkg:'' @ eco @ ''/'' @ path) = ''pkg:'' @ eco @ ''/'' @ path"
    "CHR ''?'' \<notin> set (''pkg:'' @ eco @ ''/'' @ path)" "CHR ''#'' \<notin> set (''pkg:'' @ eco @ ''/'' @ path)"
    "CHR ''%'' \<notin> set (''pkg:'' @ eco @ ''/'')" "CHR ''@'' \<notin> set path"
proof -
  let ?raw = "''pkg:'' @ eco @ ''/'' @ path"
  have low: "list_all is_lower eco" using PURL_TYPES_lookup [OF assms(1)] by simp
  have ch: "purl_char c \<or> c = CHR ''/'' \<or> c = CHR ''%'' \<or> c = CHR '':''" if "c \<in> set ?raw" for c
    using that low assms(2) [of c] by (auto simp: list_all_iff lower_purl_char purl_char_literals)
  have delim: "\<not> is_space d \<and> \<not> is_control d" if "d \<in> set ''/%:''" for d
    using that by (auto simp: char_class_defs)
  have ok: "\<not> is_space c \<and> \<not> is_control c" if "c \<in> set ?raw" for c
    using ch [OF that] purl_char_plain(1,2) [of c] delim [of c] by auto
  show "bounded_text (PStr ?raw) 600 = ?raw" using ok assms(3) by (intro bounded_text_id) auto
  have "?raw \<noteq> []" by simp
  then show "py_strip is_space ?raw = ?raw" using ok by (intro py_strip_id) (meson hd_in_set last_in_set)
  show "CHR ''?'' \<notin> set ?raw" "CHR ''#'' \<notin> set ?raw" using ch purl_char_plain(5,6) by blast+
  show "CHR ''%'' \<notin> set (''pkg:'' @ eco @ ''/'')" using low purl_char_plain(7) lower_purl_char
    by (auto simp: list_all_iff)
  show "CHR ''@'' \<notin> set path" using assms(2) purl_char_plain(4) by blast
qed

lemma purl_identity_site:
  assumes "map_of PURL_TYPES eco = Some eco" "canonical_purl_name eco n = Some n"
    and "5 + length eco + length n \<le> 600"
  shows "purl_identity (PStr (''pkg:'' @ eco @ ''/'' @ n)) = Some (''pkg:'' @ eco @ ''/'' @ n)"
proof -
  have "safe_purl_segment n" using canonical_purl_name_fixed(2) [OF assms(2)] .
  then have ch: "c \<in> set n \<Longrightarrow> purl_char c" for c by (rule safe_segment_chars)
  have pct: "CHR ''%'' \<notin> set n" "CHR ''/'' \<notin> set n" using ch purl_char_plain by blast+
  have path: "c \<in> set n \<Longrightarrow> purl_char c \<or> c = CHR ''/'' \<or> c = CHR ''%''" for c using ch by blast
  note plain = purl_text_plain [OF assms(1) path assms(3)]
  have bad: "\<not> bad_percent (''pkg:'' @ eco @ ''/'' @ n)"
    using bad_percent_append [of "''pkg:'' @ eco @ ''/''" n] bad_percent_append [of n "[]"]
      plain(5) pct(1) by simp
  have "n \<noteq> []" using \<open>safe_purl_segment n\<close> by (simp add: safe_purl_segment_def)
  then have m: "match_purl (''pkg:'' @ eco @ ''/'' @ n) = Some (eco, [], n, [])"
    using match_purl_build [OF assms(1), of n] plain(3,4,6) pct(2) by (simp add: last_slash_None)
  have un: "unquote n = n" using unquote_quote [of "''._-~+''" n] purl_segment_keep [of n] ch
    by (simp add: purl_segment_def)
  have "canonical_purl_namespace eco (nonempty (unquote [])) = nonempty (unquote [])"
    by (simp add: nonempty_def canonical_purl_namespace_def)
  moreover have "build_purl eco (nonempty (unquote [])) n None = Some (''pkg:'' @ eco @ ''/'' @ n)"
    using build_purl_site [OF assms(1,2)] by (simp add: nonempty_def)
  ultimately show ?thesis
    using parse_purl_match [OF plain(1-4) bad m assms(1) un assms(2)] build_purl_site [OF assms(1,2)]
    by (simp add: purl_identity_def nonempty_def)
qed

lemma quote_nonempty: "s \<noteq> [] \<Longrightarrow> quote safe s \<noteq> []"
  by (cases s) (simp_all add: quote_def quote_char_def)

lemma purl_identity_scoped:
  assumes "map_of PURL_TYPES eco = Some eco" "canonical_purl_name eco n = Some n"
    and "canonical_purl_namespace eco (Some s) = Some s"
    and "6 + length eco + length (quote ''/._-~+'' s) + length n \<le> 600"
  shows "purl_identity (PStr (''pkg:'' @ eco @ ''/'' @ quote ''/._-~+'' s @ ''/'' @ n)) =
    Some (''pkg:'' @ eco @ ''/'' @ quote ''/._-~+'' s @ ''/'' @ n)"
proof -
  let ?q = "quote ''/._-~+'' s"
  let ?path = "?q @ ''/'' @ n"
  let ?raw = "''pkg:'' @ eco @ ''/'' @ ?path"
  note ns = canonical_purl_namespace_fixed [OF assms(3)]
  have safe: "safe_purl_segment n" using canonical_purl_name_fixed(2) [OF assms(2)] .
  then have ch: "c \<in> set n \<Longrightarrow> purl_char c" for c by (rule safe_segment_chars)
  have pct: "CHR ''%'' \<notin> set n" "CHR ''/'' \<notin> set n" using ch purl_char_plain by blast+
  have ne: "n \<noteq> []" "?q \<noteq> []" using safe ns(3) quote_nonempty
    by (auto simp: safe_purl_segment_def)
  have path: "c \<in> set ?path \<Longrightarrow> purl_char c \<or> c = CHR ''/'' \<or> c = CHR ''%''" for c
    using ch [of c] set_quote_namespace [OF ns(4), of c] by auto
  have "5 + length eco + length ?path \<le> 600" using assms(4) by simp
  note plain = purl_text_plain [OF assms(1) path this]
  have "\<not> bad_percent (''/'' @ n)" using bad_percent_append [of "''/'' @ n" "[]"] pct(1) by simp
  then have "\<not> bad_percent ?path" by (intro bad_percent_quote) simp_all
  then have bad: "\<not> bad_percent ?raw"
    using bad_percent_append [of "''pkg:'' @ eco @ ''/''" ?path] plain(5) by simp
  have "last_slash [] ?path = Some (?q, n)" using last_slash_found [of "[]" ?q n] ne pct(2) by simp
  then have m: "match_purl ?raw = Some (eco, ?q, n, [])"
    using match_purl_build [OF assms(1), of ?path] plain(3,4,6) by simp
  have un: "unquote n = n" using unquote_quote [of "''._-~+''" n] purl_segment_keep [of n] ch
    by (simp add: purl_segment_def)
  have unq: "unquote ?q = s" by (rule unquote_quote) simp
  have slash: "char_of (92 :: int) \<notin> set s"
  proof
    assume "char_of (92 :: int) \<in> set s"
    then have "namespace_char (char_of (92 :: int)) \<or> char_of (92 :: int) = CHR ''/''"
      using ns(4) by (simp add: list_all_iff)
    moreover have "\<not> (namespace_char (char_of (92 :: int)) \<or> char_of (92 :: int) = CHR ''/'')"
      by code_simp
    ultimately show False by simp
  qed
  have built: "build_purl eco (Some s) n None = Some ?raw"
    by (rule build_purl_scoped [OF assms(1,2,3) ns(3)])
  show ?thesis
    using parse_purl_match [OF plain(1-4) bad m assms(1) un assms(2)] unq slash built ns(1,3)
    by (simp add: purl_identity_def nonempty_def)
qed

lemma length_scope_unquote:
  assumes "CHR ''@'' \<notin> set ns" "unquote ns = CHR ''@'' # u"
  shows "length (unquote ns) + 2 \<le> length ns"
proof (cases ns)
  case Nil
  with assms show ?thesis by simp
next
  case (Cons c t)
  then have "c = CHR ''%''" using assms unquote_keep [of c t] by auto
  with Cons assms length_unquote_percent show ?thesis by blast
qed

text \<open>C38. Two reports of one package URL agree: the version-free identity computed from any
  accepted value is accepted again and is its own identity, whatever quoting, letter case,
  aliases, qualifiers or version the reported text carried.\<close>

theorem purl_identity_fixed:
  assumes "purl_identity v = Some i"
  shows "purl_identity (PStr i) = Some i"
proof -
  obtain p where p: "parse_purl v = Some p"
    and i: "build_purl (pp_ecosystem p) (pp_namespace p) (pp_name p) None = Some i"
    using assms by (auto simp: purl_identity_def split: option.splits)
  let ?eco = "pp_ecosystem p" and ?n = "pp_name p"
  obtain ns nm ver where m: "match_purl (bounded_text v 600) = Some (?eco, ns, nm, ver)"
    and eco: "map_of PURL_TYPES ?eco = Some ?eco"
    and nsp: "pp_namespace p = canonical_purl_namespace ?eco (nonempty (unquote ns))"
    and nmp: "canonical_purl_name ?eco (unquote nm) = Some ?n"
    using parse_purl_parts [OF p] by blast
  note n = canonical_purl_name_fixed [OF nmp]
  have "length ?n \<le> length nm" using n(3) length_unquote [of nm] by simp
  then have len: "5 + length ?eco + (if ns = [] then 0 else Suc (length ns)) + length ?n \<le> 600"
    and at: "CHR ''@'' \<notin> set ns"
    using match_purl_parts [OF m] length_bounded_text [of v 600] by auto
  show ?thesis
  proof (cases "pp_namespace p")
    case None
    then have "i = ''pkg:'' @ ?eco @ ''/'' @ ?n" using i build_purl_site [OF eco n(1)] by simp
    with purl_identity_site [OF eco n(1)] len show ?thesis by simp
  next
    case (Some s)
    then have s: "canonical_purl_namespace ?eco (Some (unquote ns)) = Some s" and "ns \<noteq> []"
      using nsp by (auto simp: nonempty_def canonical_purl_namespace_def split: if_splits)
    note fixed = canonical_purl_namespace_fixed [OF s]
    have "length (quote ''/._-~+'' s) \<le> length ns"
      using length_quote_namespace [OF fixed(4,5,3)] fixed(2,3,6) length_unquote [of ns]
        length_scope_unquote [OF at] by (cases "unquote ns") auto
    moreover have "i = ''pkg:'' @ ?eco @ ''/'' @ quote ''/._-~+'' s @ ''/'' @ ?n"
      using i Some build_purl_scoped [OF eco n(1) fixed(1,3)] by simp
    ultimately show ?thesis
      using purl_identity_scoped [OF eco n(1) fixed(1)] len \<open>ns \<noteq> []\<close> by simp
  qed
qed

text \<open>A scoped npm package in its percent-encoded and its canonical spelling.\<close>

lemma purl_identity_fixed_witness:
  "purl_identity (PStr ''pkg:npm/%40Scope/Left-Pad@1.0'') = Some ''pkg:npm/%40scope/left-pad'' \<and>
    purl_identity (PStr ''pkg:npm/%40scope/left-pad'') = Some ''pkg:npm/%40scope/left-pad''"
proof -
  have "purl_identity (PStr ''pkg:npm/%40Scope/Left-Pad@1.0'') = Some ''pkg:npm/%40scope/left-pad''"
    by code_simp
  then show ?thesis using purl_identity_fixed by blast
qed

text \<open>Token normalisation settles in one step: normalising a normalised token with the same
  length limit changes nothing, so a stored token and a freshly reported one compare equal.\<close>

theorem normalized_token_idempotent:
  "normalized_token (PStr (normalized_token v limit)) limit = normalized_token v limit"
  by (rule normalized_token_of_token [OF normalized_token_is_token length_normalized_token])

end
