(* ===== verification/Version_Order.thy ===== *)
theory Version_Order
  imports Component_Identity
begin

text \<open>
  Version comparison of src/backend/app/version_intelligence.py: the ordering key of every ecosystem, the
  Debian comparison loop, \<open>compare_versions\<close> and \<open>version_satisfies_range\<close>.  Python compares the
  keys as tuples; they are lists and tuples here, whose \<^verbatim>\<open><\<close> is the lexicographic order of
  HOL-Library.  PEP 440 parsing is \<^verbatim>\<open>packaging.version.Version\<close>, a library: it is the parameter
  \<open>pep440\<close>, a function from the text to a value of a linearly ordered type, or \<open>None\<close> for
  \<^verbatim>\<open>InvalidVersion\<close>.
\<close>

section \<open>Comparison of keys\<close>

definition MAX_VERSION_PARTS :: nat where "MAX_VERSION_PARTS = 64"

text \<open>
  A component of a key: a number or a text.  Numbers and texts are never compared with each other
  (Python would raise): the rank stored before a component tells its kind.
\<close>

datatype atom = Num int | Txt string

instantiation atom :: linorder
begin

fun less_eq_atom :: "atom \<Rightarrow> atom \<Rightarrow> bool" where
  "less_eq_atom (Num a) (Num b) = (a \<le> b)"
| "less_eq_atom (Num a) (Txt b) = True"
| "less_eq_atom (Txt a) (Num b) = False"
| "less_eq_atom (Txt a) (Txt b) = (a \<le> b)"

definition less_atom :: "atom \<Rightarrow> atom \<Rightarrow> bool" where
  "less_atom x y \<longleftrightarrow> x \<le> y \<and> \<not> y \<le> (x :: atom)"

instance
proof
  fix x y z :: atom
  show "(x < y) = (x \<le> y \<and> \<not> y \<le> x)" by (rule less_atom_def)
  show "x \<le> x" by (cases x) simp_all
  show "x \<le> y \<Longrightarrow> y \<le> z \<Longrightarrow> x \<le> z" by (cases x; cases y; cases z) simp_all
  show "x \<le> y \<Longrightarrow> y \<le> x \<Longrightarrow> x = y" by (cases x; cases y) simp_all
  show "x \<le> y \<or> y \<le> x" by (cases x; cases y) auto
qed

end

lemma less_atom_simps [simp]:
  "Num a < Num b \<longleftrightarrow> a < b" "Num a < Txt t" "\<not> Txt s < Num b" "Txt s < Txt t \<longleftrightarrow> s < t"
  by (auto simp: less_atom_def less_le_not_le)

type_synonym segment = "int \<times> atom"

definition compare_tuple :: "'a::linorder \<Rightarrow> 'a \<Rightarrow> int" where
  "compare_tuple left right = (if left < right then - 1 else if right < left then 1 else 0)"

section \<open>Semantic versions\<close>

definition prerelease_parts :: "string option \<Rightarrow> segment list result" where
  "prerelease_parts value =
     (case value of
        None \<Rightarrow> Inr [(2, Num 0)]
      | Some text \<Rightarrow>
          let items = split_on (CHR ''.'') text
          in if length items > MAX_VERSION_PARTS then Inl ValueError
             else Inr (map (\<lambda>item. if str_isdigit item then (0, Num (int_of_digits item))
                                   else (1, Txt item)) items))"

definition semver_number :: "string \<Rightarrow> bool" where
  "semver_number s \<longleftrightarrow> str_isdigit s \<and> (s = ''0'' \<or> hd s \<noteq> CHR ''0'')"

definition semver_text :: "string \<Rightarrow> bool" where
  "semver_text s \<longleftrightarrow> s \<noteq> [] \<and> list_all (\<lambda>c. is_alnum c \<or> c = CHR ''.'' \<or> c = CHR ''-'') s"

definition drop_v :: "string \<Rightarrow> string" where
  "drop_v core = (if core \<noteq> [] \<and> hd core \<in> {CHR ''v'', CHR ''V''} then tl core else core)"

text \<open>
  \<^verbatim>\<open>_SEMVER_RE.fullmatch\<close>: the numbers of the core and the text after the first dash.  No class of
  the expression contains the plus sign and the core contains no dash, so the first plus ends
  the version proper and the first dash before it starts the prerelease.
\<close>

definition match_semver :: "string \<Rightarrow> (string list \<times> string option) option" where
  "match_semver value =
     (let (version, build) = split_first (CHR ''+'') value;
          (core, pre) = split_first (CHR ''-'') version;
          numbers = split_on (CHR ''.'') (drop_v core)
      in if (CHR ''+'' \<in> set value \<and> \<not> semver_text build)
            \<or> (CHR ''-'' \<in> set version \<and> \<not> semver_text pre)
            \<or> \<not> list_all semver_number numbers \<or> 3 < length numbers
         then None
         else Some (numbers, if CHR ''-'' \<in> set version then Some pre else None))"

definition nth_number :: "string list \<Rightarrow> nat \<Rightarrow> int" where
  "nth_number numbers i = (if i < length numbers then int_of_digits (numbers ! i) else 0)"

definition semver :: "string \<Rightarrow> (int \<times> int \<times> int \<times> segment list) option result" where
  "semver value =
     (case match_semver value of
        None \<Rightarrow> Inr None
      | Some (numbers, pre) \<Rightarrow>
          bind_result (prerelease_parts pre) (\<lambda>parts.
            Inr (Some (nth_number numbers 0, nth_number numbers 1, nth_number numbers 2, parts))))"

section \<open>Debian versions\<close>

definition split_epoch :: "string \<Rightarrow> (int \<times> string) result" where
  "split_epoch value =
     (if CHR '':'' \<notin> set value then Inr (0, value)
      else let (raw_epoch, remainder) = split_first (CHR '':'') value
           in if \<not> str_isdigit raw_epoch then Inl ValueError
              else Inr (int_of_digits raw_epoch, remainder))"

text \<open>The character of a non-digit position, \<open>None\<close> for the empty string.\<close>

definition debian_non_digit_order :: "char option \<Rightarrow> int" where
  "debian_non_digit_order character =
     (case character of
        None \<Rightarrow> 0
      | Some c \<Rightarrow> if c = CHR ''~'' then - 1 else if is_alpha c then code c else code c + 256)"

definition non_digit_head :: "string \<Rightarrow> char option" where
  "non_digit_head s = (case s of [] \<Rightarrow> None | c # _ \<Rightarrow> if is_digit c then None else Some c)"

text \<open>
  The inner loop, on what is left of the two texts: \<open>Inl\<close> the order it returns, \<open>Inr\<close> the texts
  at the next digits.
\<close>

function debian_non_digits :: "string \<Rightarrow> string \<Rightarrow> int + string \<times> string" where
  "debian_non_digits left right =
     (let left_char = non_digit_head left; right_char = non_digit_head right
      in if left_char = None \<and> right_char = None then Inr (left, right)
         else let order = compare_tuple (debian_non_digit_order left_char)
                            (debian_non_digit_order right_char)
              in if order \<noteq> 0 then Inl order
                 else debian_non_digits (if left_char = None then left else tl left)
                        (if right_char = None then right else tl right))"
  by pat_completeness auto
termination
  by (relation "measure (\<lambda>(left, right). length left + length right)")
    (auto simp: non_digit_head_def split: list.splits if_splits)

declare debian_non_digits.simps [simp del]

definition strip_zeros :: "string \<Rightarrow> string" where
  "strip_zeros s = (let t = py_lstrip (\<lambda>c. c = CHR ''0'') s in if t = [] then ''0'' else t)"

text \<open>The outer loop, with the number of iterations made so far.\<close>

function debian_loop :: "nat \<Rightarrow> string \<Rightarrow> string \<Rightarrow> int result" where
  "debian_loop iterations left right =
     (if left = [] \<and> right = [] then Inr 0
      else if iterations + 1 > MAX_VERSION_PARTS * 4 then Inl ValueError
      else case debian_non_digits left right of
             Inl order \<Rightarrow> Inr order
           | Inr (l, r) \<Rightarrow>
               let left_number = strip_zeros (takeWhile is_digit l);
                   right_number = strip_zeros (takeWhile is_digit r);
                   order = compare_tuple (length left_number) (length right_number)
               in if order \<noteq> 0 then Inr order
                  else let order = compare_tuple left_number right_number
                       in if order \<noteq> 0 then Inr order
                          else debian_loop (iterations + 1) (dropWhile is_digit l)
                                 (dropWhile is_digit r))"
  by pat_completeness auto
termination
  by (relation "measure (\<lambda>(iterations, left, right). MAX_VERSION_PARTS * 4 - iterations)") auto

declare debian_loop.simps [simp del]

definition debian_part_compare :: "string \<Rightarrow> string \<Rightarrow> int result" where
  "debian_part_compare left right = debian_loop 0 left right"

definition split_revision :: "string \<Rightarrow> string \<times> string" where
  "split_revision remainder =
     (if CHR ''-'' \<in> set remainder then split_last (CHR ''-'') remainder else (remainder, ''0''))"

definition debian_compare :: "string \<Rightarrow> string \<Rightarrow> int result" where
  "debian_compare left right =
     bind_result (split_epoch left) (\<lambda>(left_epoch, left_remainder).
     bind_result (split_epoch right) (\<lambda>(right_epoch, right_remainder).
       let epoch_order = compare_tuple left_epoch right_epoch
       in if epoch_order \<noteq> 0 then Inr epoch_order
          else let (left_upstream, left_revision) = split_revision left_remainder;
                   (right_upstream, right_revision) = split_revision right_remainder
               in bind_result (debian_part_compare left_upstream right_upstream) (\<lambda>upstream_order.
                    if upstream_order \<noteq> 0 then Inr upstream_order
                    else debian_part_compare left_revision right_revision)))"

section \<open>RPM, Maven and generic versions\<close>

text \<open>\<^verbatim>\<open>re.finditer(r"~|[A-Za-z]+|\d+", s)\<close>.\<close>

function rpm_tokens :: "string \<Rightarrow> string list" where
  "rpm_tokens [] = []"
| "rpm_tokens (c # cs) =
     (if c = CHR ''~'' then [c] # rpm_tokens cs
      else if is_alpha c then (c # takeWhile is_alpha cs) # rpm_tokens (dropWhile is_alpha cs)
      else if is_digit c then (c # takeWhile is_digit cs) # rpm_tokens (dropWhile is_digit cs)
      else rpm_tokens cs)"
  by pat_completeness auto
termination
  by (relation "measure length") (auto simp: length_dropWhile_lt)

definition rpm_segment :: "string \<Rightarrow> segment" where
  "rpm_segment token =
     (if token = ''~'' then (- 1, Txt [])
      else if str_isdigit token then (2, Num (int_of_digits token))
      else (1, Txt (casefold token)))"

definition rpm_segments :: "string \<Rightarrow> segment list result" where
  "rpm_segments value =
     bind_result (split_epoch value) (\<lambda>(epoch, remainder).
       let tokens = rpm_tokens remainder
       in if length tokens + 1 > MAX_VERSION_PARTS then Inl ValueError
          else Inr ((3, Num epoch) # map rpm_segment tokens))"

definition MAVEN_QUALIFIERS :: "(string \<times> int) list" where
  "MAVEN_QUALIFIERS =
     [(''alpha'', - 5), (''a'', - 5), (''beta'', - 4), (''b'', - 4), (''milestone'', - 3),
      (''m'', - 3), (''rc'', - 2), (''cr'', - 2), (''snapshot'', - 1), ('''', 0), (''final'', 0),
      (''ga'', 0), (''release'', 0), (''sp'', 1)]"

fun trim_release_rev :: "int list \<Rightarrow> int list" where
  "trim_release_rev (x # y # zs) = (if x = 0 then trim_release_rev (y # zs) else x # y # zs)"
| "trim_release_rev zs = zs"

definition trim_release :: "int list \<Rightarrow> int list" where
  "trim_release values = rev (trim_release_rev (rev values))"

type_synonym maven_key = "int list \<times> int \<times> string \<times> int \<times> string list"

definition maven_qualifier :: "string list \<Rightarrow> int \<times> string \<times> int \<times> string list" where
  "maven_qualifier qualifier_tokens =
     (case qualifier_tokens of
        [] \<Rightarrow> (0, [], 0, [])
      | name # rest \<Rightarrow>
          let known_rank = map_of MAVEN_QUALIFIERS name;
              suffix_number = (case rest of
                  [] \<Rightarrow> 0
                | token # _ \<Rightarrow> if str_isdigit token then int_of_digits token else 0)
          in (case known_rank of None \<Rightarrow> 2 | Some rank \<Rightarrow> rank,
              case known_rank of None \<Rightarrow> name | Some _ \<Rightarrow> [],
              suffix_number, tl rest))"

definition maven :: "string \<Rightarrow> maven_key result" where
  "maven value =
     (if \<not> list_all (\<lambda>c. is_alnum c \<or> c \<in> set ''._-'') value then Inl ValueError
      else let tokens = alnum_tokens value
           in if tokens = [] \<or> length tokens > MAX_VERSION_PARTS then Inl ValueError
              else let release = map int_of_digits (takeWhile str_isdigit tokens);
                       qualifier_tokens = map casefold (dropWhile str_isdigit tokens)
                   in Inr (trim_release release, maven_qualifier qualifier_tokens))"

definition generic_segment :: "string \<Rightarrow> segment" where
  "generic_segment token =
     (if str_isdigit token then (2, Num (int_of_digits token)) else (1, Txt (casefold token)))"

definition generic_numeric :: "string \<Rightarrow> segment list option" where
  "generic_numeric value =
     (let tokens = alnum_tokens value
      in if tokens = [] \<or> length tokens > MAX_VERSION_PARTS then None
         else Some (map generic_segment tokens))"

section \<open>Comparing two versions of an ecosystem\<close>

datatype ComparisonStatus = Supported | Unsupported | Invalid

record VersionComparison =
  vc_status :: ComparisonStatus
  vc_order :: "int option"
  vc_reason :: string

definition compared :: "int \<Rightarrow> VersionComparison" where
  "compared order = \<lparr>vc_status = Supported, vc_order = Some order, vc_reason = ''ordered-comparison''\<rparr>"

definition not_compared :: "ComparisonStatus \<Rightarrow> string \<Rightarrow> VersionComparison" where
  "not_compared status reason = \<lparr>vc_status = status, vc_order = None, vc_reason = reason\<rparr>"

definition safe_version :: "string \<Rightarrow> bool" where
  "safe_version s \<longleftrightarrow>
     s \<noteq> [] \<and> length s \<le> 160 \<and> list_all (\<lambda>c. is_alnum c \<or> c \<in> set ''.!+:~_-'') s"

text \<open>The two optional keys of an ecosystem whose parser may decline.\<close>

definition compare_parsed :: "string \<Rightarrow> 'a::linorder option \<Rightarrow> 'a option \<Rightarrow> VersionComparison" where
  "compare_parsed reason left right =
     (case (left, right) of
        (Some l, Some r) \<Rightarrow> compared (compare_tuple l r)
      | _ \<Rightarrow> not_compared Unsupported reason)"

definition compare_in :: "(string \<Rightarrow> 'v::linorder option) \<Rightarrow> string \<Rightarrow> string \<Rightarrow> string
    \<Rightarrow> VersionComparison result" where
  "compare_in pep440 ecosystem left right =
     (if ecosystem = ''pypi''
      then Inr (compare_parsed ''unsupported-pep440-form'' (pep440 left) (pep440 right))
      else if ecosystem \<in> {''npm'', ''nuget'', ''golang''}
      then bind_result (semver left) (\<lambda>l. bind_result (semver right) (\<lambda>r.
             Inr (compare_parsed ''unsupported-semver-form'' l r)))
      else if ecosystem \<in> {''deb'', ''alpine''}
      then bind_result (debian_compare left right) (\<lambda>order. Inr (compared order))
      else if ecosystem = ''rpm''
      then bind_result (rpm_segments left) (\<lambda>l. bind_result (rpm_segments right) (\<lambda>r.
             Inr (compared (compare_tuple l r))))
      else if ecosystem = ''maven''
      then bind_result (maven left) (\<lambda>l. bind_result (maven right) (\<lambda>r.
             Inr (compared (compare_tuple l r))))
      else if ecosystem \<in> {''generic'', ''firmware'', ''operating-system''}
      then Inr (compare_parsed ''unsupported-generic-version'' (generic_numeric left)
                  (generic_numeric right))
      else Inr (not_compared Unsupported ''unsupported-ecosystem''))"

definition compare_versions :: "(string \<Rightarrow> 'v::linorder option) \<Rightarrow> string \<Rightarrow> pyval \<Rightarrow> pyval
    \<Rightarrow> VersionComparison" where
  "compare_versions pep440 ecosystem left_value right_value =
     (case (normalize_version_text left_value, normalize_version_text right_value) of
        (Some left, Some right) \<Rightarrow>
          if \<not> safe_version left \<or> \<not> safe_version right
          then not_compared Invalid ''version-contains-unsupported-characters''
          else if left = right
          then \<lparr>vc_status = Supported, vc_order = Some 0, vc_reason = ''exact-equality''\<rparr>
          else (case compare_in pep440 ecosystem left right of
                  Inl _ \<Rightarrow> not_compared Invalid ''invalid-version''
                | Inr comparison \<Rightarrow> comparison)
      | _ \<Rightarrow> not_compared Invalid ''version-missing'')"

section \<open>Ranges of affected versions\<close>

text \<open>One boundary of a range: its version, or \<open>PNone\<close>, and whether it belongs to the range.\<close>

definition version_satisfies_range :: "(string \<Rightarrow> 'v::linorder option) \<Rightarrow> string \<Rightarrow> pyval
    \<Rightarrow> pyval \<Rightarrow> bool \<Rightarrow> pyval \<Rightarrow> bool \<Rightarrow> pyval \<Rightarrow> bool \<Rightarrow> string \<times> string" where
  "version_satisfies_range pep440 ecosystem installed_version introduced introduced_inclusive
     fixed_version fixed_inclusive last_affected last_affected_inclusive =
     (case normalize_version_text installed_version of
        None \<Rightarrow> (''version-unknown'', ''installed-version-missing'')
      | Some installed \<Rightarrow>
          let lower = compare_versions pep440 ecosystem (PStr installed) introduced;
              fix_cmp = compare_versions pep440 ecosystem (PStr installed) fixed_version;
              last_cmp = compare_versions pep440 ecosystem (PStr installed) last_affected;
              unsupported = (\<lambda>c. vc_status c \<noteq> Supported \<or> vc_order c = None)
          in if introduced \<noteq> PNone \<and> unsupported lower
             then (''unsupported-comparison'', vc_reason lower)
             else if introduced \<noteq> PNone \<and>
                     (the (vc_order lower) < 0 \<or> the (vc_order lower) = 0 \<and> \<not> introduced_inclusive)
             then (''not-affected'', ''before-introduced-boundary'')
             else if fixed_version \<noteq> PNone \<and> unsupported fix_cmp
             then (''unsupported-comparison'', vc_reason fix_cmp)
             else if fixed_version \<noteq> PNone \<and>
                     (the (vc_order fix_cmp) > 0 \<or> the (vc_order fix_cmp) = 0 \<and> \<not> fixed_inclusive)
             then (''fixed'', ''at-or-after-fixed-boundary'')
             else if last_affected \<noteq> PNone \<and> unsupported last_cmp
             then (''unsupported-comparison'', vc_reason last_cmp)
             else if last_affected \<noteq> PNone \<and>
                     (the (vc_order last_cmp) > 0
                      \<or> the (vc_order last_cmp) = 0 \<and> \<not> last_affected_inclusive)
             then (''not-affected'', ''after-last-affected-boundary'')
             else (''affected'', ''installed-version-in-affected-range''))"

end
