(* ===== verification/Py_Number.thy ===== *)
theory Py_Number
  imports Py_Value
begin

text \<open>
  Numbers out of dynamically typed values: \<^verbatim>\<open>float(v)\<close> with its text syntax and its exceptions,
  ordering of floats, iteration over a value, and membership of a value in a set of texts.
\<close>

section \<open>float(v)\<close>

text \<open>The nearest binary64 number, an infinity beyond the largest one.\<close>

definition max_finite :: rat where
  "max_finite = (2 ^ 53 - 1) * 2 ^ 971"

lemma max_finite_eval [code]:
  "max_finite = 179769313486231570814527423731704356798070567525844996598917476803157260780028538760589558632766878171540458953514382464234321326889464182768467546703537516986049910576551282076245490090389328944075868508455133942304583236903222948165808559332123348274797826204144723168738177180919299881250404026184124858368"
  by (simp add: max_finite_def)

definition to_float :: "rat \<Rightarrow> pyfloat" where
  "to_float x =
     (let y = fl x in if max_finite < y then PosInf else if y < - max_finite then NegInf else Finite y)"

text \<open>Digits with single underscores between them: the digits, or \<open>None\<close>.\<close>

fun digit_part :: "string \<Rightarrow> string option" where
  "digit_part [] = None"
| "digit_part [c] = (if is_digit c then Some [c] else None)"
| "digit_part (c # d # s) =
     (if \<not> is_digit c then None
      else map_option ((#) c) (digit_part (if d = CHR ''_'' then s else d # s)))"

definition read_sign :: "string \<Rightarrow> int \<times> string" where
  "read_sign s =
     (if s \<noteq> [] \<and> hd s = CHR ''-'' then (- 1, tl s)
      else if s \<noteq> [] \<and> hd s = CHR ''+'' then (1, tl s) else (1, s))"

text \<open>The digits of an optional part; the empty text has none.\<close>

definition optional_digits :: "string \<Rightarrow> string option" where
  "optional_digits s = (if s = [] then Some [] else digit_part s)"

definition read_decimal :: "string \<Rightarrow> rat option" where
  "read_decimal s =
     (let mantissa = takeWhile (\<lambda>c. to_lower c \<noteq> CHR ''e'') s;
          after = dropWhile (\<lambda>c. to_lower c \<noteq> CHR ''e'') s;
          (whole, fraction) = split_first (CHR ''.'') mantissa;
          (sign, exponent) = read_sign (tl after)
      in case (optional_digits whole, optional_digits fraction,
               if after = [] then Some ''0'' else digit_part exponent) of
           (Some w, Some f, Some e) \<Rightarrow>
             if w = [] \<and> f = [] then None
             else Some (of_int (int_of_digits (w @ f))
                        * pow10 (sign * int_of_digits e - int (length f)))
         | _ \<Rightarrow> None)"

definition read_float :: "string \<Rightarrow> pyfloat option" where
  "read_float text =
     (let (sign, body) = read_sign (py_strip is_space text)
      in if casefold body \<in> {''inf'', ''infinity''} then Some (if sign < 0 then NegInf else PosInf)
         else if casefold body = ''nan'' then Some NaN
         else map_option (\<lambda>x. to_float (of_int sign * x)) (read_decimal body))"

fun py_float :: "pyval \<Rightarrow> pyfloat result" where
  "py_float (PBool b) = Inr (Finite (if b then 1 else 0))"
| "py_float (PInt i) =
     (case to_float (of_int i) of Finite x \<Rightarrow> Inr (Finite x) | _ \<Rightarrow> Inl OverflowError)"
| "py_float (PFloat f) = Inr f"
| "py_float (PStr s) = (case read_float s of None \<Rightarrow> Inl ValueError | Some f \<Rightarrow> Inr f)"
| "py_float _ = Inl TypeError"

text \<open>\<^verbatim>\<open>a < b\<close> and \<^verbatim>\<open>a <= b\<close> of floats; every comparison with NaN is false.\<close>

fun float_less :: "pyfloat \<Rightarrow> pyfloat \<Rightarrow> bool" where
  "float_less (Finite a) (Finite b) = (a < b)"
| "float_less (Finite a) PosInf = True"
| "float_less NegInf (Finite b) = True"
| "float_less NegInf PosInf = True"
| "float_less _ _ = False"

fun is_finite :: "pyfloat \<Rightarrow> bool" where
  "is_finite (Finite _) = True"
| "is_finite _ = False"

text \<open>
  The \<open>_confidence\<close> helper of risk.py, findings.py and component_intelligence.py: a number clamped to
  the unit interval; anything else, and every number that is not finite, is 0.  An integer beyond the
  float range raises.
\<close>

definition unit_clamp :: "rat \<Rightarrow> rat" where
  "unit_clamp x = max 0 (min x 1)"

fun confidence_value :: "pyval \<Rightarrow> rat result" where
  "confidence_value (PBool b) = Inr (if b then 1 else 0)"
| "confidence_value (PInt i) =
     (case py_float (PInt i) of Inr (Finite x) \<Rightarrow> Inr (unit_clamp x) | _ \<Rightarrow> Inl OverflowError)"
| "confidence_value (PFloat (Finite x)) = Inr (unit_clamp x)"
| "confidence_value _ = Inr 0"

lemma unit_clamp_bounds [py_bounds]: "0 \<le> unit_clamp x" "unit_clamp x \<le> 1"
  by (simp_all add: unit_clamp_def)

lemma confidence_value_bounds: "confidence_value v = Inr c \<Longrightarrow> 0 \<le> c \<and> c \<le> 1"
  by (cases v rule: confidence_value.cases)
    (auto simp: unit_clamp_bounds split: pyfloat.splits if_splits sum.splits)

text \<open>The same with a fallback for what is not a finite number.\<close>

fun confidence_or :: "pyval \<Rightarrow> rat \<Rightarrow> rat result" where
  "confidence_or (PBool b) fallback = Inr (if b then 1 else 0)"
| "confidence_or (PInt i) fallback =
     (case py_float (PInt i) of Inr (Finite x) \<Rightarrow> Inr (unit_clamp x) | _ \<Rightarrow> Inl OverflowError)"
| "confidence_or (PFloat (Finite x)) fallback = Inr (unit_clamp x)"
| "confidence_or _ fallback = Inr fallback"

lemma confidence_or_unit:
  "confidence_or v d = Inr c \<Longrightarrow> 0 \<le> d \<Longrightarrow> d \<le> 1 \<Longrightarrow> 0 \<le> c \<and> c \<le> 1"
  by (cases "(v, d)" rule: confidence_or.cases)
    (auto simp: unit_clamp_bounds split: pyfloat.splits if_splits sum.splits)

lemma confidence_or_error: "confidence_or v d = Inl e \<Longrightarrow> e = OverflowError"
  by (cases "(v, d)" rule: confidence_or.cases) (auto split: pyfloat.splits if_splits sum.splits)

section \<open>Iteration and membership\<close>

text \<open>\<^verbatim>\<open>for item in v\<close>.\<close>

fun py_iter :: "pyval \<Rightarrow> pyval list result" where
  "py_iter (PList vs) = Inr vs"
| "py_iter (PStr s) = Inr (map (\<lambda>c. PStr [c]) s)"
| "py_iter (PDict d) = Inr (map (\<lambda>(k, _). PStr k) d)"
| "py_iter _ = Inl TypeError"

text \<open>\<^verbatim>\<open>v in {...}\<close> for a set of texts; lists and dictionaries cannot be hashed.\<close>

fun str_member :: "pyval \<Rightarrow> string list \<Rightarrow> bool result" where
  "str_member (PStr s) xs = Inr (s \<in> set xs)"
| "str_member (PList _) xs = Inl TypeError"
| "str_member (PDict _) xs = Inl TypeError"
| "str_member _ xs = Inr False"

lemma str_member_PStr_iff: "str_member (PStr s) xs = Inr b \<longleftrightarrow> b = (s \<in> set xs)"
  by auto

end
