(* ===== verification/Sha256.thy ===== *)
theory Sha256
  imports Py_Text "HOL-Library.Word"
begin

text \<open>
  \<^verbatim>\<open>hashlib.sha256(text.encode("utf-8")).hexdigest()\<close> of the standard library, on 32-bit words
  with their wrap-around addition (FIPS 180-4).  The code derives every stored identifier from
  it, so identifiers are concrete values of the model: their length and alphabet are facts, and
  equal inputs give equal identifiers.  The encoding is the identity on ASCII text.
\<close>

unbundle bit_operations_syntax

type_synonym word32 = "32 word"

text \<open>
  The constants are the first 32 fractional bits of the square roots (initial state) and the cube roots
  (rounds) of the first primes; \<open>root_bits\<close> finds an integer root from the highest bit down.
\<close>

fun root_bits :: "nat \<Rightarrow> nat \<Rightarrow> int \<Rightarrow> int \<Rightarrow> int" where
  "root_bits e 0 n acc = acc"
| "root_bits e (Suc b) n acc =
     (let candidate = acc + 2 ^ b
      in root_bits e b n (if candidate ^ e \<le> n then candidate else acc))"

definition round_primes :: "int list" where
  "round_primes = filter (\<lambda>n. list_all (\<lambda>d. n mod d \<noteq> 0) [2..n - 1]) [2..311]"

definition round_constants :: "word32 list" where
  "round_constants = map (\<lambda>p. word_of_int (root_bits 3 35 (p * 2 ^ 96) 0)) round_primes"

definition initial_state :: "word32 list" where
  "initial_state =
     map (\<lambda>p. word_of_int (root_bits 2 35 (p * 2 ^ 64) 0)) [2, 3, 5, 7, 11, 13, 17, 19]"

definition rotr :: "nat \<Rightarrow> word32 \<Rightarrow> word32" where
  "rotr n w = push_bit (32 - n) w OR drop_bit n w"

definition small_sigma0 :: "word32 \<Rightarrow> word32" where
  "small_sigma0 x = rotr 7 x XOR rotr 18 x XOR drop_bit 3 x"

definition small_sigma1 :: "word32 \<Rightarrow> word32" where
  "small_sigma1 x = rotr 17 x XOR rotr 19 x XOR drop_bit 10 x"

definition big_sigma0 :: "word32 \<Rightarrow> word32" where
  "big_sigma0 x = rotr 2 x XOR rotr 13 x XOR rotr 22 x"

definition big_sigma1 :: "word32 \<Rightarrow> word32" where
  "big_sigma1 x = rotr 6 x XOR rotr 11 x XOR rotr 25 x"

definition choose_bits :: "word32 \<Rightarrow> word32 \<Rightarrow> word32 \<Rightarrow> word32" where
  "choose_bits e f g = (e AND f) XOR (NOT e AND g)"

definition majority :: "word32 \<Rightarrow> word32 \<Rightarrow> word32 \<Rightarrow> word32" where
  "majority a b c = (a AND b) XOR (a AND c) XOR (b AND c)"

text \<open>The message schedule, the newest word first.\<close>

fun schedule :: "nat \<Rightarrow> word32 list \<Rightarrow> word32 list" where
  "schedule 0 ws = rev ws"
| "schedule (Suc n) ws =
     schedule n ((small_sigma1 (ws ! 1) + ws ! 6 + small_sigma0 (ws ! 14) + ws ! 15) # ws)"

fun compress_round :: "word32 list \<Rightarrow> word32 \<times> word32 \<Rightarrow> word32 list" where
  "compress_round [a, b, c, d, e, f, g, h] (k, w) =
     (let t1 = h + big_sigma1 e + choose_bits e f g + k + w;
          t2 = big_sigma0 a + majority a b c
      in [t1 + t2, a, b, c, d + t1, e, f, g])"
| "compress_round s _ = s"

definition compress :: "word32 list \<Rightarrow> word32 list \<Rightarrow> word32 list" where
  "compress state block =
     map2 (+) state (foldl compress_round state (zip round_constants (schedule 48 (rev block))))"

text \<open>Padding to blocks of 64 bytes: a one bit, zeros, and the length in bits in eight bytes.\<close>

definition be_bytes :: "nat \<Rightarrow> int \<Rightarrow> int list" where
  "be_bytes n v = map (\<lambda>i. v div 256 ^ i mod 256) (rev [0..<n])"

definition padded :: "int list \<Rightarrow> int list" where
  "padded bytes =
     (let n = length bytes
      in bytes @ [128] @ replicate ((119 - n mod 64) mod 64) 0 @ be_bytes 8 (int (8 * n)))"

fun words_of :: "int list \<Rightarrow> word32 list" where
  "words_of (a # b # c # d # bs) =
     word_of_int (16777216 * a + 65536 * b + 256 * c + d) # words_of bs"
| "words_of _ = []"

fun blocks :: "nat \<Rightarrow> word32 list \<Rightarrow> word32 list list" where
  "blocks 0 ws = []"
| "blocks (Suc n) ws = take 16 ws # blocks n (drop 16 ws)"

definition sha256_words :: "string \<Rightarrow> word32 list" where
  "sha256_words s =
     (let bytes = padded (map code s)
      in foldl compress initial_state (blocks (length bytes div 64) (words_of bytes)))"

definition hex_digit :: "int \<Rightarrow> char" where
  "hex_digit n = (if n < 10 then char_of (48 + n) else char_of (87 + n))"

definition hex_word :: "word32 \<Rightarrow> string" where
  "hex_word w = map (\<lambda>i. hex_digit (uint w div 16 ^ i mod 16)) (rev [0..<8])"

definition sha256_hex :: "string \<Rightarrow> string" where
  "sha256_hex s = concat (map hex_word (sha256_words s))"

section \<open>Shape of a digest\<close>

definition is_hex_lower :: "char \<Rightarrow> bool" where
  "is_hex_lower c \<longleftrightarrow> is_digit c \<or> 97 \<le> code c \<and> code c \<le> 102"

lemma hex_digit_lower: "0 \<le> n \<Longrightarrow> n < 16 \<Longrightarrow> is_hex_lower (hex_digit n)"
  by (simp add: hex_digit_def is_hex_lower_def is_digit_def)

lemma length_compress_round [simp]: "length (compress_round s p) = length s"
  by (induction s p rule: compress_round.induct) (simp_all add: Let_def)

lemma length_foldl_round [simp]: "length (foldl compress_round s ps) = length s"
  by (induction ps arbitrary: s) simp_all

lemma length_compress [simp]: "length (compress s b) = length s"
  by (simp add: compress_def)

lemma length_foldl_compress [simp]: "length (foldl compress s bs) = length s"
  by (induction bs arbitrary: s) simp_all

lemma length_sha256_words [simp]: "length (sha256_words s) = 8"
  by (simp add: sha256_words_def initial_state_def Let_def)

lemma hex_word_lower: "c \<in> set (hex_word w) \<Longrightarrow> is_hex_lower c"
  by (auto simp: hex_word_def intro!: hex_digit_lower)

lemma length_hex_word [simp]: "length (hex_word w) = 8"
  by (simp add: hex_word_def)

lemma length_sha256_hex [simp]: "length (sha256_hex s) = 64"
  by (simp add: sha256_hex_def length_concat comp_def sum_list_triv)

lemma sha256_hex_lower: "c \<in> set (sha256_hex s) \<Longrightarrow> is_hex_lower c"
  by (auto simp: sha256_hex_def hex_word_lower)

text \<open>\<^verbatim>\<open>prefix + digest[:32]\<close>, the form of most identifiers.\<close>

definition digest_id :: "string \<Rightarrow> string \<Rightarrow> string" where
  "digest_id pre s = pre @ take 32 (sha256_hex s)"

lemma length_digest_id [simp]: "length (digest_id pre s) = length pre + 32"
  by (simp add: digest_id_def)

lemma digest_id_lower: "c \<in> set (drop (length pre) (digest_id pre s)) \<Longrightarrow> is_hex_lower c"
  by (auto simp: digest_id_def dest: in_set_takeD intro: sha256_hex_lower)

end
