(* ===== verification/Vuln_Matching.thy ===== *)
theory Vuln_Matching
  imports Version_Order Py_Number Sha256
begin

text \<open>
  Component-to-advisory matching of src/backend/app/vulnerability_matching.py: the identity of a
  component, the constraints of an advisory, and \<open>match_component\<close> with its eight outcomes.
  Components and advisories are the dictionaries the database layer passes in; a missing required
  key or a value that cannot be iterated is the \<open>Inl\<close> of the exception.  The clock of a call
  without \<^verbatim>\<open>evaluated_at\<close> is the parameter \<open>now\<close>.
\<close>

datatype MatchStatus =
    Affected
  | NotAffected
  | FixedVersion
  | VersionUnknown
  | IdentityUncertain
  | UnsupportedComparison
  | InsufficientEvidence
  | AdvisoryWithdrawn

record VulnerabilityMatch =
  vm_match_id :: string
  vm_site_id :: string
  vm_asset_id :: string
  vm_component_id :: string
  vm_advisory_id :: string
  vm_affected_id :: string
  vm_match_status :: MatchStatus
  vm_match_confidence :: rat
  vm_matched_identifier :: "string option"
  vm_installed_version :: "string option"
  vm_affected_range :: "string option"
  vm_fixed_version :: "string option"
  vm_evaluated_at :: instant
  vm_evidence_ids :: "string list"
  vm_reason_codes :: "string list"

definition match_id_for :: "string \<Rightarrow> string \<Rightarrow> string" where
  "match_id_for component_id advisory_id =
     digest_id ''vmt_'' (component_id @ [char_of (0 :: int)] @ advisory_id)"

section \<open>Identity\<close>

definition str_of :: "pydict \<Rightarrow> string \<Rightarrow> string" where
  "str_of d k = py_str (py_or (get d k) (PStr []))"

definition constraint_applies :: "pyval \<Rightarrow> pyval \<Rightarrow> bool result" where
  "constraint_applies actual allowed =
     (if \<not> truthy allowed then Inr True
      else let value = normalized_token actual 80
           in if value = [] then Inr False
              else bind_result (py_iter allowed) (\<lambda>items.
                     Inr (value \<in> set (map (\<lambda>item. normalized_token item 80) items))))"

datatype IdentityState = NoIdentity | Precise | Uncertain

definition no_identity :: "IdentityState \<times> rat \<times> string option" where
  "no_identity = (NoIdentity, 0, None)"

text \<open>The second half of \<open>_identity_match\<close>: without two package URLs, by name and vendor.\<close>

definition identity_by_name :: "string \<Rightarrow> pydict \<Rightarrow> pydict \<Rightarrow> IdentityState \<times> rat \<times> string option" where
  "identity_by_name component_ecosystem component affected =
     (let component_name = normalized_token (get component ''normalized_name'') MAX_COMPONENT_NAME;
          affected_name = normalized_token (get affected ''normalized_name'') MAX_COMPONENT_NAME;
          component_vendor = normalized_token (get component ''vendor'') 160;
          affected_vendor = normalized_token (get affected ''vendor'') 160
      in if component_name = [] \<or> component_name \<noteq> affected_name then no_identity
         else if affected_vendor \<noteq> [] \<and> component_vendor \<noteq> affected_vendor then no_identity
         else if component_ecosystem = ''firmware'' \<and> component_vendor \<noteq> []
         then (Precise, fl (92 / 100), Some (''firmware:'' @ component_vendor @ ''/'' @ component_name))
         else (Uncertain, fl (45 / 100),
               Some (component_ecosystem @ '':'' @ affected_vendor @ ''/'' @ component_name)))"

definition identity_match :: "pydict \<Rightarrow> pydict \<Rightarrow> IdentityState \<times> rat \<times> string option" where
  "identity_match component affected =
     (let component_ecosystem = str_of component ''ecosystem'';
          affected_ecosystem = str_of affected ''ecosystem''
      in if component_ecosystem \<noteq> affected_ecosystem then no_identity
         else case (purl_identity (get component ''canonical_identifier''),
                    purl_identity (get affected ''canonical_identifier'')) of
           (Some component_identifier, Some affected_identifier) \<Rightarrow>
             if component_identifier = affected_identifier
             then (Precise, 1, Some component_identifier) else no_identity
         | _ \<Rightarrow> identity_by_name component_ecosystem component affected)"

section \<open>Version outcomes\<close>

definition range_description :: "pydict \<Rightarrow> string" where
  "range_description r =
     take 320 (py_join '', ''
       ((if truthy (get r ''introduced_unbounded'') then [''from beginning''] else [])
        @ (if get r ''introduced'' \<noteq> PNone
           then [(if truthy (get_default r ''introduced_inclusive'' (PBool True)) then ''>='' else ''>'')
                 @ py_str (get r ''introduced'')] else [])
        @ (if get r ''fixed'' \<noteq> PNone
           then [(if truthy (get_default r ''fixed_inclusive'' (PBool False)) then ''<='' else ''<'')
                 @ py_str (get r ''fixed'')] else [])
        @ (if get r ''last_affected'' \<noteq> PNone
           then [(if truthy (get_default r ''last_affected_inclusive'' (PBool True)) then ''<='' else ''<'')
                 @ py_str (get r ''last_affected'')] else [])))"

fun exact_scan :: "(string \<Rightarrow> 'v::linorder option) \<Rightarrow> string \<Rightarrow> string \<Rightarrow> string \<Rightarrow> string list
    \<Rightarrow> string \<times> string" where
  "exact_scan pep440 ecosystem installed unsupported_reason [] =
     (if unsupported_reason \<noteq> [] then (''unsupported-comparison'', unsupported_reason)
      else (''not-affected'', ''installed-version-not-in-exact-list''))"
| "exact_scan pep440 ecosystem installed unsupported_reason (exact # rest) =
     (let comparison = compare_versions pep440 ecosystem (PStr installed) (PStr exact)
      in if vc_status comparison = Supported \<and> vc_order comparison = Some 0
         then (''affected'', ''installed-version-is-listed-exactly'')
         else exact_scan pep440 ecosystem installed
                (if vc_status comparison \<noteq> Supported then vc_reason comparison else unsupported_reason)
                rest)"

definition exact_version_status :: "(string \<Rightarrow> 'v::linorder option) \<Rightarrow> string \<Rightarrow> string \<Rightarrow> string list
    \<Rightarrow> string \<times> string" where
  "exact_version_status pep440 ecosystem installed exact_versions =
     exact_scan pep440 ecosystem installed [] exact_versions"

type_synonym outcome = "string \<times> string \<times> string"

definition range_outcome :: "(string \<Rightarrow> 'v::linorder option) \<Rightarrow> string \<Rightarrow> string \<Rightarrow> pydict \<Rightarrow> outcome" where
  "range_outcome pep440 ecosystem installed r =
     (let (status, reason) =
        version_satisfies_range pep440 ecosystem (PStr installed)
          (get r ''introduced'') (truthy (get_default r ''introduced_inclusive'' (PBool True)))
          (get r ''fixed'') (truthy (get_default r ''fixed_inclusive'' (PBool False)))
          (get r ''last_affected'') (truthy (get_default r ''last_affected_inclusive'' (PBool True)))
      in (status, reason, range_description r))"

fun range_outcomes :: "(string \<Rightarrow> 'v::linorder option) \<Rightarrow> string \<Rightarrow> string \<Rightarrow> pyval list \<Rightarrow> outcome list" where
  "range_outcomes pep440 ecosystem installed [] = []"
| "range_outcomes pep440 ecosystem installed (PDict r # rest) =
     range_outcome pep440 ecosystem installed r # range_outcomes pep440 ecosystem installed rest"
| "range_outcomes pep440 ecosystem installed (_ # rest) =
     range_outcomes pep440 ecosystem installed rest"

text \<open>\<^verbatim>\<open>v[:32]\<close>; since Python 3.12 slices are hashable, so a dictionary misses the key.\<close>

fun slice32 :: "pyval \<Rightarrow> pyval list result" where
  "slice32 (PList vs) = Inr (take 32 vs)"
| "slice32 (PStr s) = Inr (map (\<lambda>c. PStr [c]) (take 32 s))"
| "slice32 (PDict d) = Inl KeyError"
| "slice32 _ = Inl TypeError"

definition combine_outcomes :: "outcome list \<Rightarrow> MatchStatus \<times> string \<times> string option" where
  "combine_outcomes outcomes =
     (case find (\<lambda>(s, _). s = ''affected'') outcomes of
        Some (_, reason, description) \<Rightarrow> (Affected, reason, Some description)
      | None \<Rightarrow>
          (case find (\<lambda>(s, _). s = ''unsupported-comparison'') outcomes of
             Some (_, reason, _) \<Rightarrow> (UnsupportedComparison, reason, None)
           | None \<Rightarrow>
               (case find (\<lambda>(s, _). s = ''fixed'') outcomes of
                  Some (_, reason, _) \<Rightarrow> (FixedVersion, reason, None)
                | None \<Rightarrow>
                    (NotAffected,
                     case outcomes of
                       [] \<Rightarrow> ''no-reviewed-version-range-applies''
                     | (_, reason, _) # _ \<Rightarrow> reason,
                     None))))"

definition version_verdict :: "(string \<Rightarrow> 'v::linorder option) \<Rightarrow> pydict \<Rightarrow> pydict \<Rightarrow> string
    \<Rightarrow> (MatchStatus \<times> string \<times> string option) result" where
  "version_verdict pep440 component affected installed =
     bind_result (py_iter (get_default affected ''exact_versions'' (PList []))) (\<lambda>exacts.
     bind_result (slice32 (get_default affected ''ranges'' (PList []))) (\<lambda>ranges.
       let ecosystem = str_of component ''ecosystem'';
           exact_versions = str_values exacts;
           exact = (if exact_versions = [] then []
                    else [(\<lambda>(s, reason). (s, reason, ''exact version list''))
                            (exact_version_status pep440 ecosystem installed exact_versions)])
       in Inr (combine_outcomes
                 (exact @ range_outcomes pep440 ecosystem installed ranges))))"

section \<open>The verdict of one component and one advisory\<close>

text \<open>\<^verbatim>\<open>float(component.get("confidence") or 0.0) < 0.8\<close>.\<close>

definition low_confidence :: "pydict \<Rightarrow> bool result" where
  "low_confidence component =
     bind_result (py_float (py_or (get component ''confidence'') (PFloat (Finite 0)))) (\<lambda>f.
       Inr (float_less f (Finite (fl (8 / 10)))))"

definition imprecise_firmware :: "pydict \<Rightarrow> bool result" where
  "imprecise_firmware component =
     (if get component ''component_type'' \<noteq> PStr ''firmware'' then Inr False
      else bind_result (str_member (get component ''firmware_evidence_type'')
             [''direct'', ''vendor-reported'', ''collector-reported'']) (\<lambda>precise.
             if \<not> precise then Inr True else low_confidence component))"

definition installed_version_of :: "pydict \<Rightarrow> string option" where
  "installed_version_of component =
     (let v = get component ''normalized_version'' in if truthy v then Some (py_str v) else None)"

definition match_verdict :: "(string \<Rightarrow> 'v::linorder option) \<Rightarrow> IdentityState \<Rightarrow> pydict \<Rightarrow> pydict
    \<Rightarrow> (MatchStatus \<times> string \<times> string option) result" where
  "match_verdict pep440 identity_state component affected =
     (if \<not> truthy (get_default affected ''current'' (PBool True)) \<or> truthy (get affected ''withdrawn_at'')
      then Inr (AdvisoryWithdrawn, ''advisory-withdrawn-or-superseded'', None)
      else if \<not> truthy (get_default component ''active'' (PBool True))
      then Inr (FixedVersion, ''component-removal-confirmed-by-complete-inventory'', None)
      else bind_result (str_member (get component ''source_type'')
             [''endpoint-collector'', ''reviewed-connector'']) (\<lambda>authoritative.
        if \<not> authoritative
        then Inr (InsufficientEvidence,
                  ''component-source-is-not-authoritative-for-version-matching'', None)
        else if py_str (py_or (get component ''freshness'') (PStr ''unknown'')) \<in> {''stale'', ''unknown''}
        then Inr (InsufficientEvidence, ''component-evidence-not-current'', None)
        else if identity_state = Uncertain
        then Inr (IdentityUncertain, ''component-identity-lacks-reviewed-canonical-identifier'', None)
        else bind_result (constraint_applies (get component ''architecture'')
               (get_default affected ''architectures'' (PList []))) (\<lambda>architecture.
          if \<not> architecture
          then Inr (NotAffected, ''architecture-constraint-not-applicable'', None)
          else bind_result (constraint_applies (get component ''asset_platform'')
                 (get_default affected ''platforms'' (PList []))) (\<lambda>platform.
            if \<not> platform
            then Inr (NotAffected, ''platform-constraint-not-applicable'', None)
            else bind_result (imprecise_firmware component) (\<lambda>imprecise.
              if imprecise
              then Inr (InsufficientEvidence, ''firmware-evidence-is-not-sufficiently-precise'', None)
              else case installed_version_of component of
                     None \<Rightarrow> Inr (VersionUnknown, ''installed-version-missing'', None)
                   | Some installed \<Rightarrow> version_verdict pep440 component affected installed)))))"

definition str_field :: "pydict \<Rightarrow> string \<Rightarrow> string result" where
  "str_field d k = bind_result (subscript d k) (\<lambda>v. Inr (py_str v))"

definition match_component :: "(string \<Rightarrow> 'v::linorder option) \<Rightarrow> instant \<Rightarrow> pydict \<Rightarrow> pydict
    \<Rightarrow> instant option \<Rightarrow> VulnerabilityMatch option result" where
  "match_component pep440 now component affected evaluated_at =
     (let (identity_state, confidence, matched_identifier) = identity_match component affected
      in if identity_state = NoIdentity then Inr None
         else bind_result (str_field component ''component_id'') (\<lambda>component_id.
         bind_result (str_field affected ''advisory_id'') (\<lambda>advisory_id.
         bind_result (py_iter (get_default affected ''fixed_versions'' (PList []))) (\<lambda>fixes.
         bind_result (match_verdict pep440 identity_state component affected)
           (\<lambda>(status, reason, affected_range).
         bind_result (str_field component ''site_id'') (\<lambda>site_id.
         bind_result (str_field component ''asset_id'') (\<lambda>asset_id.
         bind_result (str_field affected ''affected_id'') (\<lambda>affected_id.
           let evidence_ids = take 16 (str_values (list_items (get component ''evidence_ids''))
                                       @ [component_id, advisory_id]);
               reasons = reason # (if matched_identifier \<noteq> None then [''reviewed-identity-match''] else []);
               fixed_versions = str_values fixes
           in Inr (Some \<lparr>
                vm_match_id = match_id_for component_id advisory_id,
                vm_site_id = site_id, vm_asset_id = asset_id, vm_component_id = component_id,
                vm_advisory_id = advisory_id, vm_affected_id = affected_id,
                vm_match_status = status, vm_match_confidence = confidence,
                vm_matched_identifier = matched_identifier,
                vm_installed_version = installed_version_of component,
                vm_affected_range = affected_range,
                vm_fixed_version = (case fixed_versions of [] \<Rightarrow> None | v # _ \<Rightarrow> Some v),
                vm_evaluated_at = (case evaluated_at of None \<Rightarrow> now | Some t \<Rightarrow> t),
                vm_evidence_ids = fromkeys evidence_ids,
                vm_reason_codes = fromkeys reasons\<rparr>)))))))))"

end
