(* ===== verification/Version_Laws.thy ===== *)
theory Version_Laws
  imports Version_Order
begin

text \<open>
  What the comparison functions of src/backend/app/version_intelligence.py promise.  The Debian loop is a
  comparison of number sequences and its segment guard never fires on accepted versions; every
  ecosystem compares by a key, so the interface \<open>partial_comparison\<close> holds of
  \<open>compare_versions\<close> and the versions a range declares affected form an interval.
\<close>

section \<open>The Debian loop is a comparison of keys\<close>

lemma compare_tuple_eq_0 [simp]: "compare_tuple a b = 0 \<longleftrightarrow> a = b"
  by (auto simp: compare_tuple_def)

text \<open>A sequence of numbers that is zero after its end.\<close>

fun pad_compare :: "int list \<Rightarrow> int list \<Rightarrow> int" where
  "pad_compare [] [] = 0"
| "pad_compare (x # xs) [] = (if x = 0 then pad_compare xs [] else compare_tuple x 0)"
| "pad_compare [] (y # ys) = (if y = 0 then pad_compare [] ys else compare_tuple 0 y)"
| "pad_compare (x # xs) (y # ys) = (if x = y then pad_compare xs ys else compare_tuple x y)"

function debian_key :: "string \<Rightarrow> int list" where
  "debian_key [] = []"
| "debian_key (c # cs) =
     (if is_digit c
      then 0 # int_of_digits (c # takeWhile is_digit cs) # debian_key (dropWhile is_digit cs)
      else debian_non_digit_order (Some c) # debian_key cs)"
  by pat_completeness auto
termination
  by (relation "measure length") (auto simp: length_dropWhile_lt)

lemma debian_non_digit_order_nonzero [simp]: "debian_non_digit_order (Some c) \<noteq> 0"
  using code_bounds(1) [of c]
  by (auto simp: debian_non_digit_order_def is_alpha_def is_lower_def is_upper_def)

lemma debian_non_digit_order_None [simp]: "debian_non_digit_order None = 0"
  by (simp add: debian_non_digit_order_def)

lemma debian_non_digit_order_eq_0 [simp]: "debian_non_digit_order x = 0 \<longleftrightarrow> x = None"
  by (cases x) simp_all

lemma non_digit_head_Some:
  "non_digit_head s = Some c \<longleftrightarrow> (\<exists>t. s = c # t \<and> \<not> is_digit c)"
  by (auto simp: non_digit_head_def split: list.splits if_splits)

lemma non_digit_head_None:
  "non_digit_head s = None \<longleftrightarrow> s = [] \<or> is_digit (hd s)"
  by (auto simp: non_digit_head_def split: list.splits if_splits)

lemma debian_key_padded:
  assumes "non_digit_head s = None"
  shows "debian_key s = [] \<or> (\<exists>n rest. debian_key s = 0 # n # rest)"
  using assms by (cases s) (auto simp: non_digit_head_None)

text \<open>The inner loop decides, or leaves the comparison of the keys as it was.\<close>

lemma debian_non_digits_key:
  "case debian_non_digits left right of
     Inl order \<Rightarrow> order \<noteq> 0 \<and> pad_compare (debian_key left) (debian_key right) = order
   | Inr (l, r) \<Rightarrow>
       pad_compare (debian_key left) (debian_key right) = pad_compare (debian_key l) (debian_key r)
       \<and> non_digit_head l = None \<and> non_digit_head r = None
       \<and> length l + length r \<le> length left + length right
       \<and> (non_digit_head left \<noteq> None \<or> non_digit_head right \<noteq> None \<longrightarrow>
            length l + length r + 2 \<le> length left + length right)"
proof (induction left right rule: debian_non_digits.induct)
  case (1 left right)
  let ?lc = "non_digit_head left" and ?rc = "non_digit_head right"
  show ?case
  proof (cases "?lc = None \<and> ?rc = None")
    case True
    then show ?thesis by (simp add: debian_non_digits.simps [of left right])
  next
    case False
    let ?o = "compare_tuple (debian_non_digit_order ?lc) (debian_non_digit_order ?rc)"
    show ?thesis
    proof (cases "?o = 0")
      case True
      then have "debian_non_digit_order ?lc = debian_non_digit_order ?rc" by simp
      with False obtain a b where ab: "?lc = Some a" "?rc = Some b"
        by (cases ?lc; cases ?rc) (auto dest: sym)
      then obtain s t where st: "left = a # s" "right = b # t" "\<not> is_digit a" "\<not> is_digit b"
        by (auto simp: non_digit_head_Some)
      have step: "(if ?lc = None then left else tl left) = s" "(if ?rc = None then right else tl right) = t"
        using ab st by simp_all
      have order: "\<not> ?o \<noteq> 0" using True by simp
      note IH = 1 [OF refl refl False refl order, unfolded step]
      moreover have "debian_non_digits left right = debian_non_digits s t"
        using True ab st by (simp add: debian_non_digits.simps [of "a # s" "b # t"])
      ultimately show ?thesis using True ab st IH by (auto split: sum.splits)
    next
      case o: False
      have "pad_compare (debian_key left) (debian_key right) = ?o"
      proof (cases ?lc)
        case None
        then obtain b t where "right = b # t" "\<not> is_digit b" "?rc = Some b"
          using False by (auto simp: non_digit_head_Some)
        then show ?thesis using None debian_key_padded [OF None] by auto
      next
        case (Some a)
        then obtain s where s: "left = a # s" "\<not> is_digit a" by (auto simp: non_digit_head_Some)
        show ?thesis
        proof (cases ?rc)
          case None
          then show ?thesis using s Some debian_key_padded [OF None] by auto
        next
          case (Some b)
          then obtain t where "right = b # t" "\<not> is_digit b" by (auto simp: non_digit_head_Some)
          moreover have "debian_non_digit_order (Some a) \<noteq> debian_non_digit_order (Some b)"
            using o Some \<open>?lc = Some a\<close> by simp
          ultimately show ?thesis using s Some \<open>?lc = Some a\<close> by simp
        qed
      qed
      moreover have "debian_non_digits left right = Inl ?o"
        using o False by (subst debian_non_digits.simps) (auto simp: Let_def)
      ultimately show ?thesis using o by simp
    qed
  qed
qed


text \<open>Digit runs: leading zeros aside, the longer number is larger, and equal lengths compare as texts.\<close>

lemma digit_val_bounds: "is_digit c \<Longrightarrow> 0 \<le> digit_val c \<and> digit_val c \<le> 9"
  by (simp add: is_digit_def digit_val_def)

lemma int_of_digits_Cons:
  "int_of_digits (c # s) = digit_val c * 10 ^ length s + int_of_digits s"
proof (induction s rule: rev_induct)
  case Nil
  then show ?case by (simp add: int_of_digits_def)
next
  case (snoc d s)
  have "int_of_digits (c # s @ [d]) = 10 * int_of_digits (c # s) + digit_val d"
    using int_of_digits_snoc [of "c # s" d] by simp
  then show ?case using snoc by (simp add: int_of_digits_snoc algebra_simps)
qed

lemma int_of_digits_Nil [simp]: "int_of_digits [] = 0"
  by (simp add: int_of_digits_def)

lemma int_of_digits_bounds:
  "list_all is_digit s \<Longrightarrow> 0 \<le> int_of_digits s \<and> int_of_digits s < 10 ^ length s"
proof (induction s)
  case (Cons c s)
  then have d: "0 \<le> digit_val c" "digit_val c \<le> 9" using digit_val_bounds by auto
  have "digit_val c * 10 ^ length s \<le> 9 * 10 ^ length s"
    using d(2) by (intro mult_right_mono) simp_all
  moreover have "0 \<le> digit_val c * 10 ^ length s" using d(1) by simp
  moreover have "0 \<le> int_of_digits s \<and> int_of_digits s < 10 ^ length s" using Cons by simp
  moreover have "(10 :: int) ^ length (c # s) = 10 * 10 ^ length s" by simp
  ultimately show ?case unfolding int_of_digits_Cons by linarith
qed simp

lemma int_of_digits_lower:
  assumes "list_all is_digit (c # s)" "c \<noteq> CHR ''0''"
  shows "10 ^ length s \<le> int_of_digits (c # s)"
proof -
  have "code c \<noteq> 48" using assms(2) code_eq_iff [of c "CHR ''0''"] by (simp add: code_def)
  then have "1 \<le> digit_val c" using assms(1) by (simp add: is_digit_def digit_val_def)
  then have "1 * 10 ^ length s \<le> digit_val c * 10 ^ length s" by (intro mult_right_mono) simp_all
  moreover have "0 \<le> int_of_digits s" using int_of_digits_bounds [of s] assms(1) by simp
  ultimately show ?thesis unfolding int_of_digits_Cons by linarith
qed

lemma less_char_code: "c < d \<longleftrightarrow> code c < code (d :: char)"
proof -
  have "code x = int (of_char x)" for x unfolding code_def by (rule of_nat_of_char [symmetric])
  then show ?thesis unfolding less_char_def by (simp only: of_nat_less_iff)
qed

lemma int_of_digits_less:
  assumes "digit_val c < digit_val d" "length s = length t" "list_all is_digit s" "list_all is_digit t"
  shows "int_of_digits (c # s) < int_of_digits (d # t)"
proof -
  let ?p = "10 ^ length t :: int"
  have "int_of_digits (c # s) < digit_val c * ?p + ?p"
    using int_of_digits_bounds [OF assms(3)] assms(2) by (simp add: int_of_digits_Cons)
  also have "\<dots> = (digit_val c + 1) * ?p" by (simp add: distrib_right)
  also have "\<dots> \<le> digit_val d * ?p"
    by (rule mult_right_mono) (use assms(1) in simp_all)
  also have "\<dots> \<le> int_of_digits (d # t)"
    using int_of_digits_bounds [OF assms(4)] by (simp add: int_of_digits_Cons)
  finally show ?thesis .
qed

lemma digit_val_less: "digit_val c < digit_val d \<longleftrightarrow> c < d"
  by (simp add: digit_val_def less_char_code)

lemma compare_tuple_Cons:
  "compare_tuple (c # s) (d # t) = (if c = d then compare_tuple s t else compare_tuple c d)"
  by (auto simp: compare_tuple_def)

lemma compare_tuple_cong:
  "(a < b \<Longrightarrow> c < d) \<Longrightarrow> (b < a \<Longrightarrow> d < c) \<Longrightarrow> (a = b \<Longrightarrow> c = d) \<Longrightarrow> compare_tuple a b = compare_tuple c d"
  by (metis compare_tuple_def less_asym linorder_neqE less_irrefl)

lemma int_of_digits_lex:
  "length s = length t \<Longrightarrow> list_all is_digit s \<Longrightarrow> list_all is_digit t \<Longrightarrow>
    compare_tuple s t = compare_tuple (int_of_digits s) (int_of_digits t)"
proof (induction s t rule: list_induct2)
  case (Cons c s d t)
  show ?case
  proof (cases "c = d")
    case True
    then have "compare_tuple (c # s) (d # t) = compare_tuple (int_of_digits s) (int_of_digits t)"
      using Cons by (simp add: compare_tuple_Cons)
    then show ?thesis using True Cons(1) by (simp add: int_of_digits_Cons compare_tuple_def)
  next
    case False
    then show ?thesis
      using int_of_digits_less [of c d s t] int_of_digits_less [of d c t s] Cons
      by (cases c d rule: linorder_cases) (simp_all add: compare_tuple_def digit_val_less)
  qed
qed (simp add: compare_tuple_def)


lemma int_of_digits_zeros: "int_of_digits (dropWhile (\<lambda>c. c = CHR ''0'') s) = int_of_digits s"
  by (induction s) (auto simp: int_of_digits_Cons digit_val_def code_def)

lemma int_of_strip_zeros [simp]: "int_of_digits (strip_zeros s) = int_of_digits s"
proof -
  have "int_of_digits ''0'' = 0" by (simp add: int_of_digits_Cons digit_val_def code_def)
  then show ?thesis
    using int_of_digits_zeros [of s] by (auto simp del: dropWhile_eq_Nil_conv simp: strip_zeros_def py_lstrip_def Let_def)
qed

lemma strip_zeros_shape:
  assumes "list_all is_digit s"
  shows "list_all is_digit (strip_zeros s) \<and>
    (strip_zeros s = ''0'' \<or> (\<exists>c t. strip_zeros s = c # t \<and> c \<noteq> CHR ''0''))"
proof (cases "dropWhile (\<lambda>c. c = CHR ''0'') s")
  case Nil
  then show ?thesis by (simp add: strip_zeros_def py_lstrip_def is_digit_def code_def)
next
  case (Cons c t)
  moreover have "c \<noteq> CHR ''0''" using hd_dropWhile_not [of "\<lambda>c. c = CHR ''0''" s] Cons by simp
  moreover have "list_all is_digit (c # t)"
    using assms set_dropWhile_subset [of "\<lambda>c. c = CHR ''0''" s] unfolding Cons list_all_iff by blast
  ultimately show ?thesis by (simp add: strip_zeros_def py_lstrip_def)
qed

lemma shorter_number_less:
  assumes "list_all is_digit a" "list_all is_digit b"
    and "length (strip_zeros a) < length (strip_zeros b)"
  shows "int_of_digits a < int_of_digits b"
proof -
  note a = strip_zeros_shape [OF assms(1)] and b = strip_zeros_shape [OF assms(2)]
  have "strip_zeros a \<noteq> []" using a by (metis list.distinct(1))
  then have "strip_zeros b \<noteq> ''0''" using assms(3) by (cases "strip_zeros a") auto
  then obtain c t where t: "strip_zeros b = c # t" "c \<noteq> CHR ''0''" using b by blast
  have "int_of_digits (strip_zeros a) < 10 ^ length (strip_zeros a)"
    using int_of_digits_bounds [of "strip_zeros a"] a by blast
  also have "\<dots> \<le> 10 ^ length t"
    by (rule power_increasing) (use assms(3) t(1) in simp_all)
  also have "\<dots> \<le> int_of_digits (strip_zeros b)"
    unfolding t(1) by (rule int_of_digits_lower) (use b t in simp_all)
  finally show ?thesis unfolding int_of_strip_zeros .
qed

text \<open>The two comparisons of the digit runs amount to one comparison of numbers.\<close>

lemma number_compare:
  fixes a b :: string
  assumes "list_all is_digit a" "list_all is_digit b"
  defines "lengths \<equiv> compare_tuple (length (strip_zeros a)) (length (strip_zeros b))"
  shows "(if lengths \<noteq> 0 then lengths else compare_tuple (strip_zeros a) (strip_zeros b)) =
    compare_tuple (int_of_digits a) (int_of_digits b)"
proof (cases "length (strip_zeros a)" "length (strip_zeros b)" rule: linorder_cases)
  case less
  then show ?thesis
    using shorter_number_less [OF assms(1,2)] by (simp add: lengths_def compare_tuple_def)
next
  case equal
  then show ?thesis
    using int_of_digits_lex [OF equal] strip_zeros_shape [OF assms(1)] strip_zeros_shape [OF assms(2)]
    by (simp add: lengths_def)
next
  case greater
  then show ?thesis
    using shorter_number_less [OF assms(2,1)] by (simp add: lengths_def compare_tuple_def)
qed

lemma pad_compare_zero:
  "pad_compare [0] ys = pad_compare [] ys" "pad_compare ys [0] = pad_compare ys []"
  by (cases ys; simp)+

lemma pad_compare_zeros:
  "pad_compare [0, 0] ys = pad_compare [] ys" "pad_compare ys [0, 0] = pad_compare ys []"
  by (cases ys; simp add: pad_compare_zero)+

lemma debian_key_digits:
  assumes "non_digit_head s = None"
  shows "pad_compare (debian_key s) ys = pad_compare
    (0 # int_of_digits (takeWhile is_digit s) # debian_key (dropWhile is_digit s)) ys"
    and "pad_compare ys (debian_key s) = pad_compare ys
    (0 # int_of_digits (takeWhile is_digit s) # debian_key (dropWhile is_digit s))"
  using assms by (cases s; simp add: pad_compare_zeros non_digit_head_None)+

lemma debian_loop_step:
  assumes "non_digit_head l = None" "non_digit_head r = None"
  defines "a \<equiv> takeWhile is_digit l" and "b \<equiv> takeWhile is_digit r"
  shows "pad_compare (debian_key l) (debian_key r) =
    (if int_of_digits a = int_of_digits b
     then pad_compare (debian_key (dropWhile is_digit l)) (debian_key (dropWhile is_digit r))
     else compare_tuple (int_of_digits a) (int_of_digits b))"
  unfolding debian_key_digits(1) [OF assms(1)] debian_key_digits(2) [OF assms(2)] a_def b_def by simp

lemma debian_loop_unfold:
  "debian_loop iterations left right =
     (if left = [] \<and> right = [] then Inr 0
      else if iterations + 1 > 256 then Inl ValueError
      else case debian_non_digits left right of
             Inl order \<Rightarrow> Inr order
           | Inr (l, r) \<Rightarrow>
               let order = compare_tuple (int_of_digits (takeWhile is_digit l))
                             (int_of_digits (takeWhile is_digit r))
               in if order \<noteq> 0 then Inr order
                  else debian_loop (iterations + 1) (dropWhile is_digit l) (dropWhile is_digit r))"
proof -
  have "list_all is_digit (takeWhile is_digit s)" for s
    by (auto simp: list_all_iff dest: set_takeWhileD)
  note n = number_compare [OF this this]
  show ?thesis
    by (subst debian_loop.simps)
      (simp add: MAX_VERSION_PARTS_def Let_def flip: n split: sum.split prod.split)
qed


lemma non_digit_head_dropWhile_digits:
  assumes "s \<noteq> []" "non_digit_head s = None"
  shows "length (dropWhile is_digit s) < length s"
  using assms by (cases s) (auto simp: non_digit_head_None length_dropWhile_lt)

definition at_segment :: "string \<Rightarrow> bool" where
  "at_segment s \<longleftrightarrow> s = [] \<or> \<not> is_digit (hd s)"

lemma at_segment_dropWhile [simp]: "at_segment (dropWhile is_digit s)"
  using hd_dropWhile_not [of is_digit s] by (auto simp: at_segment_def)

lemma debian_loop_key:
  assumes "left = [] \<and> right = [] \<or> iterations + 1 \<le> 256"
    and "\<And>l r. debian_non_digits left right = Inr (l, r) \<Longrightarrow>
      debian_loop (iterations + 1) (dropWhile is_digit l) (dropWhile is_digit r) =
      Inr (pad_compare (debian_key (dropWhile is_digit l)) (debian_key (dropWhile is_digit r)))"
  shows "debian_loop iterations left right = Inr (pad_compare (debian_key left) (debian_key right))"
proof (cases "left = [] \<and> right = []")
  case True
  then show ?thesis by (subst debian_loop_unfold) simp
next
  case False
  note unfold = debian_loop_unfold [of iterations left right]
  have guard: "\<not> iterations + 1 > 256" using False assms(1) by linarith
  show ?thesis
  proof (cases "debian_non_digits left right")
    case (Inl order)
    then show ?thesis using debian_non_digits_key [of left right]
      unfolding unfold by (simp only: False guard if_False sum.case)
  next
    case (Inr p)
    then obtain l r where lr: "debian_non_digits left right = Inr (l, r)" by (cases p) auto
    then have "pad_compare (debian_key left) (debian_key right) = pad_compare (debian_key l) (debian_key r)"
      and "non_digit_head l = None" "non_digit_head r = None"
      using debian_non_digits_key [of left right] by simp_all
    then show ?thesis unfolding unfold
      by (simp only: False guard if_False sum.case lr prod.case Let_def assms(2) [OF lr] debian_loop_step
          compare_tuple_eq_0 split: if_split) simp
  qed
qed

lemma debian_loop_at_segment:
  "at_segment left \<Longrightarrow> at_segment right \<Longrightarrow> 2 * iterations + length left + length right \<le> 512 \<Longrightarrow>
    debian_loop iterations left right = Inr (pad_compare (debian_key left) (debian_key right))"
proof (induction "length left + length right" arbitrary: iterations left right rule: less_induct)
  case less
  show ?case
  proof (cases "left = [] \<and> right = []")
    case True
    then show ?thesis by (subst debian_loop_unfold) simp
  next
    case False
    then have some: "non_digit_head left \<noteq> None \<or> non_digit_head right \<noteq> None"
      using less.prems(1,2) by (auto simp: at_segment_def non_digit_head_None)
    have "1 \<le> length left + length right" using False by (cases left; cases right) auto
    then have "iterations + 1 \<le> 256" using less.prems(3) by linarith
    then have guard: "left = [] \<and> right = [] \<or> iterations + 1 \<le> 256" ..
    have "debian_loop (iterations + 1) (dropWhile is_digit l) (dropWhile is_digit r) =
        Inr (pad_compare (debian_key (dropWhile is_digit l)) (debian_key (dropWhile is_digit r)))"
      if "debian_non_digits left right = Inr (l, r)" for l r
    proof -
      have "length l + length r + 2 \<le> length left + length right"
        using debian_non_digits_key [of left right] some unfolding that by (simp only: sum.case prod.case)
      moreover have "length (dropWhile is_digit l) \<le> length l" "length (dropWhile is_digit r) \<le> length r"
        by (simp_all add: length_dropWhile_le)
      ultimately have "length (dropWhile is_digit l) + length (dropWhile is_digit r) <
          length left + length right"
        "2 * (iterations + 1) + length (dropWhile is_digit l) + length (dropWhile is_digit r) \<le> 512"
        using less.prems(3) by simp_all
      then show ?thesis by (intro less.hyps at_segment_dropWhile)
    qed
    with guard show ?thesis by (rule debian_loop_key)
  qed
qed

lemma debian_part_compare_key:
  assumes "length left + length right \<le> 500"
  shows "debian_part_compare left right = Inr (pad_compare (debian_key left) (debian_key right))"
  unfolding debian_part_compare_def
proof (rule debian_loop_key)
  fix l r
  assume "debian_non_digits left right = Inr (l, r)"
  then have "length l + length r \<le> length left + length right"
    using debian_non_digits_key [of left right] by simp
  moreover have "length (dropWhile is_digit l) \<le> length l" "length (dropWhile is_digit r) \<le> length r"
    by (simp_all add: length_dropWhile_le)
  ultimately show "debian_loop (0 + 1) (dropWhile is_digit l) (dropWhile is_digit r) =
      Inr (pad_compare (debian_key (dropWhile is_digit l)) (debian_key (dropWhile is_digit r)))"
    using assms by (intro debian_loop_at_segment) simp_all
qed simp

section \<open>What a comparison promises\<close>

text \<open>
  A three-way comparison: its result is a sign, swapping the arguments negates it, and it is
  transitive.
\<close>

locale comparison =
  fixes cmp :: "'a \<Rightarrow> 'a \<Rightarrow> int"
  assumes swap: "cmp b a = - cmp a b"
    and sign: "cmp a b \<in> {- 1, 0, 1}"
    and le_trans: "cmp a b \<le> 0 \<Longrightarrow> cmp b c \<le> 0 \<Longrightarrow> cmp a c \<le> 0"
begin

lemma self: "cmp a a = 0"
  using swap [of a a] by simp

lemma ge_trans: "0 \<le> cmp a b \<Longrightarrow> 0 \<le> cmp b c \<Longrightarrow> 0 \<le> cmp a c"
  using le_trans [of c b a] swap [of a b] swap [of b c] swap [of a c] by simp

lemma le_less_trans: "cmp a b \<le> 0 \<Longrightarrow> cmp b c < 0 \<Longrightarrow> cmp a c < 0"
  using le_trans [of a b c] le_trans [of c a b] swap [of b c] swap [of a c] by fastforce

lemma less_le_trans: "cmp a b < 0 \<Longrightarrow> cmp b c \<le> 0 \<Longrightarrow> cmp a c < 0"
  using le_trans [of a b c] le_trans [of b c a] swap [of a b] swap [of a c] by fastforce

lemma eq_trans: "cmp a b = 0 \<Longrightarrow> cmp b c = 0 \<Longrightarrow> cmp a c = 0"
  using le_trans [of a b c] ge_trans [of a b c] by simp

lemma eq_left: "cmp a b = 0 \<Longrightarrow> cmp a c = cmp b c"
proof -
  assume eq: "cmp a b = 0"
  then have eq': "cmp b a = 0" using swap [of a b] by simp
  have "cmp a c < 0 \<longleftrightarrow> cmp b c < 0"
    using le_less_trans [of a b c] le_less_trans [of b a c] eq eq' by auto
  moreover have "cmp a c = 0 \<longleftrightarrow> cmp b c = 0"
    using eq_trans [OF eq, of c] eq_trans [OF eq', of c] by blast
  ultimately show "cmp a c = cmp b c"
    using sign [of a c] sign [of b c] by auto
qed

end

lemma comparison_key: "comparison f \<Longrightarrow> comparison (\<lambda>x y. f (k x) (k y))"
  unfolding comparison_def by blast

text \<open>Comparing by one key and, when it ties, by another.\<close>

definition compare_pairs :: "('a \<Rightarrow> 'a \<Rightarrow> int) \<Rightarrow> ('b \<Rightarrow> 'b \<Rightarrow> int) \<Rightarrow> 'a \<times> 'b \<Rightarrow> 'a \<times> 'b \<Rightarrow> int" where
  "compare_pairs f g x y =
     (if f (fst x) (fst y) \<noteq> 0 then f (fst x) (fst y) else g (snd x) (snd y))"

lemma comparison_pairs:
  assumes "comparison f" "comparison g"
  shows "comparison (compare_pairs f g)"
proof
  note swap = comparison.swap [OF assms(1)] comparison.swap [OF assms(2)]
  fix a b c :: "'a \<times> 'b"
  show "compare_pairs f g b a = - compare_pairs f g a b"
    using swap(1) [of "fst b" "fst a"] swap(2) [of "snd b" "snd a"] by (simp add: compare_pairs_def)
  show "compare_pairs f g a b \<in> {- 1, 0, 1}"
    using comparison.sign [OF assms(1), of "fst a" "fst b"]
      comparison.sign [OF assms(2), of "snd a" "snd b"] by (auto simp: compare_pairs_def)
  assume le: "compare_pairs f g a b \<le> 0" "compare_pairs f g b c \<le> 0"
  then have "f (fst a) (fst b) \<le> 0" "f (fst b) (fst c) \<le> 0"
    by (auto simp: compare_pairs_def split: if_splits)
  then consider "f (fst a) (fst c) < 0" | "f (fst a) (fst b) = 0" "f (fst b) (fst c) = 0"
    using comparison.le_less_trans [OF assms(1)] comparison.less_le_trans [OF assms(1)]
    by (metis order_le_less)
  then show "compare_pairs f g a c \<le> 0"
  proof cases
    case 1
    then show ?thesis by (simp add: compare_pairs_def)
  next
    case 2
    then show ?thesis
      using le comparison.eq_trans [OF assms(1) 2] comparison.le_trans [OF assms(2)]
      by (auto simp: compare_pairs_def)
  qed
qed

interpretation tuples: comparison "compare_tuple :: 'a::linorder \<Rightarrow> 'a \<Rightarrow> int"
  by unfold_locales (auto simp: compare_tuple_def split: if_splits)

lemma pad_compare_swap: "pad_compare ys xs = - pad_compare xs ys"
  by (induction xs ys rule: pad_compare.induct) (auto simp: compare_tuple_def)

lemma pad_compare_sign: "pad_compare xs ys \<in> {- 1, 0, 1}"
  by (induction xs ys rule: pad_compare.induct) (auto simp: compare_tuple_def)

lemma pad_compare_trans:
  "pad_compare xs ys \<le> 0 \<Longrightarrow> pad_compare ys zs \<le> 0 \<Longrightarrow> pad_compare xs zs \<le> 0"
proof (induction xs ys arbitrary: zs rule: pad_compare.induct)
  case 1
  then show ?case by simp
next
  case (2 x xs)
  then show ?case by (cases zs) (auto simp: compare_tuple_def split: if_splits)
next
  case (3 y ys)
  then show ?case by (cases zs) (auto simp: compare_tuple_def split: if_splits)
next
  case (4 x xs y ys)
  then show ?case by (cases zs) (auto simp: compare_tuple_def split: if_splits)
qed

interpretation padded: comparison pad_compare
  by unfold_locales (fact pad_compare_swap pad_compare_sign pad_compare_trans)+

section \<open>A comparison that may decline\<close>

text \<open>Being on the inner side of a boundary that is itself included or not.\<close>

definition at_least :: "('a \<Rightarrow> 'a \<Rightarrow> int option) \<Rightarrow> 'a \<Rightarrow> bool \<Rightarrow> 'a \<Rightarrow> bool" where
  "at_least cmp bound inclusive v =
     (case cmp v bound of None \<Rightarrow> False | Some c \<Rightarrow> 0 < c \<or> c = 0 \<and> inclusive)"

definition at_most :: "('a \<Rightarrow> 'a \<Rightarrow> int option) \<Rightarrow> 'a \<Rightarrow> bool \<Rightarrow> 'a \<Rightarrow> bool" where
  "at_most cmp bound inclusive v =
     (case cmp v bound of None \<Rightarrow> False | Some c \<Rightarrow> c < 0 \<or> c = 0 \<and> inclusive)"

locale partial_comparison =
  fixes cmp :: "'a \<Rightarrow> 'a \<Rightarrow> int option"
  assumes swap: "cmp a b = Some c \<Longrightarrow> cmp b a = Some (- c)"
    and sign: "cmp a b = Some c \<Longrightarrow> c \<in> {- 1, 0, 1}"
    and le_trans: "cmp a b = Some c \<Longrightarrow> cmp b d = Some e \<Longrightarrow> c \<le> 0 \<Longrightarrow> e \<le> 0 \<Longrightarrow>
      \<exists>f. cmp a d = Some f \<and> f \<le> 0"
begin

lemma le_less_trans:
  assumes "cmp a b = Some c" "cmp b d = Some e" "c \<le> 0" "e < 0"
  shows "\<exists>f. cmp a d = Some f \<and> f < 0"
proof -
  obtain f where f: "cmp a d = Some f" "f \<le> 0" using le_trans [OF assms(1,2)] assms(3,4) by auto
  have "f \<noteq> 0"
  proof
    assume "f = 0"
    then have "cmp d a = Some 0" using swap [OF f(1)] by simp
    then obtain g where "cmp d b = Some g" "g \<le> 0" using le_trans [OF _ assms(1)] assms(3) by auto
    then show False using swap [OF assms(2)] assms(4) by simp
  qed
  with f show ?thesis by simp
qed

lemma at_most_down:
  assumes "at_most cmp bound inclusive w" "cmp v w = Some c" "c \<le> 0"
  shows "at_most cmp bound inclusive v"
proof -
  obtain e where e: "cmp w bound = Some e" "e < 0 \<or> e = 0 \<and> inclusive"
    using assms(1) by (auto simp: at_most_def split: option.splits)
  then show ?thesis
    using le_less_trans [OF assms(2) e(1) assms(3)] le_trans [OF assms(2) e(1) assms(3)]
    by (auto simp: at_most_def)
qed

lemma at_least_up:
  assumes "at_least cmp bound inclusive v" "cmp v w = Some c" "c \<le> 0"
  shows "at_least cmp bound inclusive w"
proof -
  obtain e where e: "cmp v bound = Some e" "0 < e \<or> e = 0 \<and> inclusive"
    using assms(1) by (auto simp: at_least_def split: option.splits)
  have vb: "cmp bound v = Some (- e)" by (rule swap [OF e(1)])
  then obtain f where f: "cmp bound w = Some f" "f \<le> 0"
    using le_trans [OF vb assms(2)] e(2) assms(3) by auto
  have "f < 0" if "0 < e"
  proof (rule ccontr)
    assume "\<not> f < 0"
    then have "cmp w bound = Some 0" using f swap [OF f(1)] by simp
    then have "\<exists>g. cmp v bound = Some g \<and> g \<le> 0"
      using le_trans [OF assms(2)] assms(3) by blast
    then show False using e(1) that by simp
  qed
  then show ?thesis using swap [OF f(1)] f(2) e(2) by (auto simp: at_least_def)
qed

end

definition compare_keys :: "('a \<Rightarrow> 'k option) \<Rightarrow> ('k \<Rightarrow> 'k \<Rightarrow> int) \<Rightarrow> 'a \<Rightarrow> 'a \<Rightarrow> int option" where
  "compare_keys key f a b =
     (if a = b then Some 0
      else case (key a, key b) of (Some x, Some y) \<Rightarrow> Some (f x y) | _ \<Rightarrow> None)"

lemma compare_keys_Some:
  "compare_keys key f a b = Some c \<longleftrightarrow>
     a = b \<and> c = 0 \<or> a \<noteq> b \<and> (\<exists>x y. key a = Some x \<and> key b = Some y \<and> c = f x y)"
  by (auto simp: compare_keys_def split: option.splits)

lemma partial_comparison_keys:
  fixes key :: "'a \<Rightarrow> 'k option"
  assumes "comparison f"
  shows "partial_comparison (compare_keys key f)"
proof
  note swap = comparison.swap [OF assms] and sign = comparison.sign [OF assms]
    and le_trans = comparison.le_trans [OF assms]
  fix a b d :: 'a and c e
  assume ab: "compare_keys key f a b = Some c"
  then show "compare_keys key f b a = Some (- c)"
    unfolding compare_keys_Some by (metis minus_zero swap)
  show "c \<in> {- 1, 0, 1}" using ab sign unfolding compare_keys_Some by auto
  assume "compare_keys key f b d = Some e" "c \<le> 0" "e \<le> 0"
  with ab show "\<exists>f'. compare_keys key f a d = Some f' \<and> f' \<le> 0"
    unfolding compare_keys_Some by (metis le_trans option.inject order_refl)
qed

text \<open>A partial comparison of what the arguments are read as.\<close>

definition compare_read :: "('b \<Rightarrow> 'a option) \<Rightarrow> ('a \<Rightarrow> 'a \<Rightarrow> int option) \<Rightarrow> 'b \<Rightarrow> 'b \<Rightarrow> int option" where
  "compare_read read cmp a b =
     (case (read a, read b) of (Some x, Some y) \<Rightarrow> cmp x y | _ \<Rightarrow> None)"

lemma compare_read_Some:
  "compare_read read cmp a b = Some c \<longleftrightarrow>
     (\<exists>x y. read a = Some x \<and> read b = Some y \<and> cmp x y = Some c)"
  by (auto simp: compare_read_def split: option.splits)

lemma partial_comparison_read:
  fixes read :: "'b \<Rightarrow> 'a option"
  assumes "partial_comparison cmp"
  shows "partial_comparison (compare_read read cmp)"
proof
  note swap = partial_comparison.swap [OF assms] and sign = partial_comparison.sign [OF assms]
    and le_trans = partial_comparison.le_trans [OF assms]
  fix a b d :: 'b and c e
  assume ab: "compare_read read cmp a b = Some c"
  then obtain x y where xy: "read a = Some x" "read b = Some y" "cmp x y = Some c"
    unfolding compare_read_Some by blast
  show "compare_read read cmp b a = Some (- c)"
    using xy swap [OF xy(3)] by (simp add: compare_read_def)
  show "c \<in> {- 1, 0, 1}" by (rule sign [OF xy(3)])
  assume bd: "compare_read read cmp b d = Some e" and le: "c \<le> 0" "e \<le> 0"
  then obtain z where z: "read d = Some z" "cmp y z = Some e"
    unfolding compare_read_Some using xy(2) by auto
  show "\<exists>f'. compare_read read cmp a d = Some f' \<and> f' \<le> 0"
    using le_trans [OF xy(3) z(2) le] xy(1) z(1) by (simp add: compare_read_def)
qed

section \<open>The keys of the ecosystems\<close>

definition semver_key :: "string \<Rightarrow> (int \<times> int \<times> int \<times> segment list) option" where
  "semver_key s = (case semver s of Inl e \<Rightarrow> None | Inr key \<Rightarrow> key)"

definition result_key :: "('a \<Rightarrow> 'b result) \<Rightarrow> 'a \<Rightarrow> 'b option" where
  "result_key f s = (case f s of Inl e \<Rightarrow> None | Inr key \<Rightarrow> Some key)"

definition debian_version_key :: "string \<Rightarrow> int \<times> int list \<times> int list" where
  "debian_version_key s =
     (case split_epoch s of
        Inl e \<Rightarrow> (0, [], [])
      | Inr (epoch, remainder) \<Rightarrow>
          (epoch, map_prod debian_key debian_key (split_revision remainder)))"

definition compare_debian_keys :: "int \<times> int list \<times> int list \<Rightarrow> int \<times> int list \<times> int list \<Rightarrow> int" where
  "compare_debian_keys = compare_pairs compare_tuple (compare_pairs pad_compare pad_compare)"

lemma comparison_debian_keys: "comparison compare_debian_keys"
  unfolding compare_debian_keys_def
  by (intro comparison_pairs tuples.comparison_axioms padded.comparison_axioms)

lemma length_split_first:
  "length (fst (split_first d s)) + length (snd (split_first d s)) \<le> length s"
proof -
  have "length s = length (takeWhile (\<lambda>c. c \<noteq> d) s) + length (dropWhile (\<lambda>c. c \<noteq> d) s)"
    by (metis length_append takeWhile_dropWhile_id)
  then show ?thesis by (simp add: split_first_def)
qed

lemma length_split_revision:
  "length (fst (split_revision s)) \<le> length s \<and> length (snd (split_revision s)) \<le> Suc (length s)"
  using length_split_first [of "CHR ''-''" "rev s"]
  by (auto simp: split_revision_def split_last_def split: prod.splits)

lemma length_split_epoch: "split_epoch s = Inr (e, r) \<Longrightarrow> length r \<le> length s"
  using length_split_first [of "CHR '':''" s]
  by (auto simp: split_epoch_def split: prod.splits if_splits)

text \<open>
  A refinement: the index-driven loop of the code computes the comparison of the keys, or fails
  exactly when one of the epochs is not a number.
\<close>

lemma debian_compare_keys:
  assumes "length left \<le> 240" "length right \<le> 240"
  shows "debian_compare left right =
    bind_result (split_epoch left) (\<lambda>_. bind_result (split_epoch right) (\<lambda>_.
      Inr (compare_debian_keys (debian_version_key left) (debian_version_key right))))"
proof (cases "split_epoch left")
  case (Inl e)
  then show ?thesis by (simp add: debian_compare_def)
next
  case (Inr p)
  obtain le lr where l: "split_epoch left = Inr (le, lr)" using Inr by (cases p) auto
  show ?thesis
  proof (cases "split_epoch right")
    case (Inl e)
    then show ?thesis by (simp add: debian_compare_def l)
  next
    case (Inr q)
    obtain re rr where r: "split_epoch right = Inr (re, rr)" using Inr by (cases q) auto
    obtain lu lv ru rv where parts: "split_revision lr = (lu, lv)" "split_revision rr = (ru, rv)"
      by fastforce
    have "length lr \<le> 240" "length rr \<le> 240"
      using length_split_epoch [OF l] length_split_epoch [OF r] assms by simp_all
    then have "length lu + length ru \<le> 500" "length lv + length rv \<le> 500"
      using length_split_revision [of lr] length_split_revision [of rr] by (simp_all add: parts)
    then show ?thesis
      by (simp add: debian_compare_def l r parts debian_part_compare_key compare_debian_keys_def
          compare_pairs_def debian_version_key_def Let_def)
  qed
qed


section \<open>compare_versions is a partial comparison\<close>

definition safe_text :: "pyval \<Rightarrow> string option" where
  "safe_text v =
     (case normalize_version_text v of
        None \<Rightarrow> None
      | Some s \<Rightarrow> if safe_version s then Some s else None)"

definition text_order :: "(string \<Rightarrow> 'v::linorder option) \<Rightarrow> string \<Rightarrow> string \<Rightarrow> string \<Rightarrow> int option" where
  "text_order pep440 ecosystem left right =
     (if left = right then Some 0
      else case compare_in pep440 ecosystem left right of Inl e \<Rightarrow> None | Inr c \<Rightarrow> vc_order c)"

definition version_order :: "(string \<Rightarrow> 'v::linorder option) \<Rightarrow> string \<Rightarrow> pyval \<Rightarrow> pyval \<Rightarrow> int option" where
  "version_order pep440 ecosystem a b = vc_order (compare_versions pep440 ecosystem a b)"

lemma compared_sel [simp]:
  "vc_order (compared n) = Some n" "vc_order (not_compared s r) = None"
  "vc_status (compared n) = Supported" "vc_status (not_compared s r) = s"
  "vc_reason (not_compared s r) = r"
  by (simp_all add: compared_def not_compared_def)

lemma compare_parsed_order:
  "vc_order (compare_parsed reason l r) =
     (case (l, r) of (Some x, Some y) \<Rightarrow> Some (compare_tuple x y) | _ \<Rightarrow> None)"
  by (simp add: compare_parsed_def split: option.splits)

text \<open>The order that each branch of the dispatch computes.\<close>

lemma compare_in_branches:
  "compare_in pep440 ''pypi'' l r =
     Inr (compare_parsed ''unsupported-pep440-form'' (pep440 l) (pep440 r))"
  "e \<in> {''npm'', ''nuget'', ''golang''} \<Longrightarrow> compare_in pep440 e l r =
     bind_result (semver l) (\<lambda>l. bind_result (semver r) (\<lambda>r.
       Inr (compare_parsed ''unsupported-semver-form'' l r)))"
  "e \<in> {''deb'', ''alpine''} \<Longrightarrow> compare_in pep440 e l r =
     bind_result (debian_compare l r) (\<lambda>order. Inr (compared order))"
  "compare_in pep440 ''rpm'' l r =
     bind_result (rpm_segments l) (\<lambda>l. bind_result (rpm_segments r) (\<lambda>r.
       Inr (compared (compare_tuple l r))))"
  "compare_in pep440 ''maven'' l r =
     bind_result (maven l) (\<lambda>l. bind_result (maven r) (\<lambda>r. Inr (compared (compare_tuple l r))))"
  "e \<in> {''generic'', ''firmware'', ''operating-system''} \<Longrightarrow> compare_in pep440 e l r =
     Inr (compare_parsed ''unsupported-generic-version'' (generic_numeric l) (generic_numeric r))"
  by (auto simp: compare_in_def)

lemma compare_in_unknown:
  "e \<notin> {''pypi'', ''npm'', ''nuget'', ''golang'', ''rpm'', ''maven'', ''generic'', ''firmware'',
     ''operating-system'', ''deb'', ''alpine''} \<Longrightarrow>
   compare_in pep440 e l r = Inr (not_compared Unsupported ''unsupported-ecosystem'')"
  by (simp add: compare_in_def)

lemma text_order_keys:
  fixes pep440 :: "string \<Rightarrow> 'v::linorder option"
  shows
    "text_order pep440 ''pypi'' = compare_keys pep440 compare_tuple"
    "e \<in> {''npm'', ''nuget'', ''golang''} \<Longrightarrow>
       text_order pep440 e = compare_keys semver_key compare_tuple"
    "text_order pep440 ''rpm'' = compare_keys (result_key rpm_segments) compare_tuple"
    "text_order pep440 ''maven'' = compare_keys (result_key maven) compare_tuple"
    "e \<in> {''generic'', ''firmware'', ''operating-system''} \<Longrightarrow>
       text_order pep440 e = compare_keys generic_numeric compare_tuple"
  by (rule ext, rule ext, simp only: text_order_def compare_in_branches,
      simp add: compare_keys_def compare_parsed_order semver_key_def result_key_def bind_result_def
        split: option.split sum.split)+

lemma text_order_unknown:
  assumes "e \<notin> {''pypi'', ''npm'', ''nuget'', ''golang'', ''rpm'', ''maven'', ''generic'', ''firmware'',
       ''operating-system'', ''deb'', ''alpine''}"
  shows "text_order pep440 e = compare_keys (\<lambda>_. None :: unit option) compare_tuple"
  by (rule ext, rule ext) (simp add: text_order_def compare_in_unknown [OF assms] compare_keys_def)

lemma text_order_debian:
  assumes "e \<in> {''deb'', ''alpine''}" "length left \<le> 240" "length right \<le> 240"
  shows "text_order pep440 e left right =
    compare_keys (\<lambda>s. case split_epoch s of Inl e \<Rightarrow> None | Inr _ \<Rightarrow> Some (debian_version_key s))
      compare_debian_keys left right"
  using assms(2,3) unfolding text_order_def compare_in_branches(3) [OF assms(1)]
  by (simp add: compare_keys_def debian_compare_keys bind_result_def split: sum.split)

lemma ecosystem_cases:
  fixes e :: string
  obtains "e = ''pypi''" | "e \<in> {''npm'', ''nuget'', ''golang''}" | "e = ''rpm''" | "e = ''maven''"
    | "e \<in> {''generic'', ''firmware'', ''operating-system''}" | "e \<in> {''deb'', ''alpine''}"
    | "e \<notin> {''pypi'', ''npm'', ''nuget'', ''golang'', ''rpm'', ''maven'', ''generic'', ''firmware'',
        ''operating-system'', ''deb'', ''alpine''}"
  unfolding insert_iff empty_iff by argo

lemma text_order_partial:
  fixes pep440 :: "string \<Rightarrow> 'v::linorder option"
  obtains ord where "partial_comparison ord"
    and "\<And>l r. safe_version l \<Longrightarrow> safe_version r \<Longrightarrow> text_order pep440 ecosystem l r = ord l r"
proof -
  note keys = that [OF partial_comparison_keys [OF tuples.comparison_axioms]]
  show ?thesis
  proof (cases ecosystem rule: ecosystem_cases)
    case 1
    show ?thesis by (rule keys, subst 1, subst text_order_keys(1), rule refl)
  next
    case 2
    show ?thesis by (rule keys, subst text_order_keys(2) [OF 2], rule refl)
  next
    case 3
    show ?thesis by (rule keys, subst 3, subst text_order_keys(3), rule refl)
  next
    case 4
    show ?thesis by (rule keys, subst 4, subst text_order_keys(4), rule refl)
  next
    case 5
    show ?thesis by (rule keys, subst text_order_keys(5) [OF 5], rule refl)
  next
    case 6
    show ?thesis
      by (rule that [OF partial_comparison_keys [OF comparison_debian_keys]],
          rule text_order_debian [OF 6]) (simp_all add: safe_version_def)
  next
    case 7
    show ?thesis by (rule keys, subst text_order_unknown [OF 7], rule refl)
  qed
qed

lemma version_order_read:
  "version_order pep440 ecosystem = compare_read safe_text (text_order pep440 ecosystem)"
  by (intro ext)
    (auto simp: version_order_def compare_versions_def compare_read_def safe_text_def text_order_def
      split: option.split sum.split)

interpretation versions: partial_comparison "version_order pep440 ecosystem"
  for pep440 :: "string \<Rightarrow> 'v::linorder option" and ecosystem :: string
proof -
  obtain ord where ord: "partial_comparison ord"
    and eq: "\<And>l r. safe_version l \<Longrightarrow> safe_version r \<Longrightarrow> text_order pep440 ecosystem l r = ord l r"
    by (rule text_order_partial [of pep440 ecosystem]) blast
  have "version_order pep440 ecosystem = compare_read safe_text ord"
    unfolding version_order_read
    by (intro ext) (auto simp: compare_read_def safe_text_def eq split: option.split)
  then show "partial_comparison (version_order pep440 ecosystem)"
    using partial_comparison_read [OF ord, of safe_text] by simp
qed

end
