(* ===== verification/Version_Ranges.thy ===== *)
theory Version_Ranges
  imports Version_Laws
begin

text \<open>
  The promises of \<open>compare_versions\<close> and \<open>version_satisfies_range\<close>
  (src/backend/app/version_intelligence.py) to their callers: symmetry, transitivity, interval-shaped
  ranges, and the place of tildes, prereleases and build metadata in the orders.
\<close>

section \<open>Boundaries and verdicts\<close>

lemma safe_version_chars:
  assumes "safe_version s" "c \<in> set s"
  shows "\<not> is_space c \<and> \<not> is_control c"
proof -
  have "is_alnum c \<or> c \<in> set ''.!+:~_-''" using assms by (simp add: safe_version_def list_all_iff)
  then show ?thesis
    by (auto simp: is_alnum_def is_alpha_def is_lower_def is_upper_def is_digit_def is_space_def
        is_control_def code_def)
qed

lemma normalize_safe_version:
  assumes "safe_version s"
  shows "normalize_version_text (PStr s) = Some s"
proof -
  have "bounded_text (PStr s) 160 = s"
    using safe_version_chars [OF assms] assms
    by (intro bounded_text_id) (auto simp: safe_version_def)
  moreover have "s \<noteq> []" using assms by (simp add: safe_version_def)
  moreover have "\<not> list_ex is_space s" using safe_version_chars [OF assms] by (auto simp: list_ex_iff)
  ultimately show ?thesis by (simp add: normalize_version_text_def MAX_COMPONENT_VERSION_def)
qed

lemma safe_text_normalize:
  "safe_text v = Some s \<Longrightarrow> normalize_version_text v = Some s \<and> safe_version s"
  by (auto simp: safe_text_def split: option.splits if_splits)

lemma safe_text_PStr: "safe_version s \<Longrightarrow> safe_text (PStr s) = Some s"
  by (simp add: safe_text_def normalize_safe_version)

lemma version_order_PStr:
  "safe_text v = Some s \<Longrightarrow> version_order pep440 e (PStr s) x = version_order pep440 e v x"
  by (simp add: version_order_read compare_read_def safe_text_PStr safe_text_normalize)

lemma version_order_safe:
  assumes "version_order pep440 e v w = Some c"
  obtains s t where "safe_text v = Some s" "safe_text w = Some t"
  using assms by (auto simp: version_order_read compare_read_Some)

definition status_ok :: "VersionComparison \<Rightarrow> bool" where
  "status_ok c \<longleftrightarrow> (vc_status c = Supported \<longleftrightarrow> vc_order c \<noteq> None)"

lemma status_ok_intros [simp]:
  "status_ok (compared n)" "status_ok (not_compared Unsupported reason)"
  "status_ok (not_compared Invalid reason)" "status_ok (compare_parsed reason l r)"
  by (auto simp: status_ok_def compare_parsed_def split: option.split)

lemma compare_in_status: "compare_in pep440 e l r = Inr c \<Longrightarrow> status_ok c"
proof -
  have "case compare_in pep440 e l r of Inl _ \<Rightarrow> True | Inr c \<Rightarrow> status_ok c"
    unfolding compare_in_def by (simp add: bind_result_def split: sum.split)
  then show "compare_in pep440 e l r = Inr c \<Longrightarrow> status_ok c" by simp
qed

lemma compare_versions_status:
  "vc_status (compare_versions pep440 e a b) = Supported \<longleftrightarrow> version_order pep440 e a b \<noteq> None"
proof -
  have "status_ok (compare_versions pep440 e a b)"
    using compare_in_status [of pep440 e]
    by (auto simp: compare_versions_def status_ok_def [of "\<lparr>vc_status = _, vc_order = _, vc_reason = _\<rparr>"]
        split: option.split sum.split)
  then show ?thesis by (simp add: status_ok_def version_order_def)
qed

text \<open>The verdict of a range in terms of the two sides of its boundaries.\<close>

lemma affected_iff:
  assumes "normalize_version_text v = Some s"
  shows "fst (version_satisfies_range pep440 e v lo loi fx fxi la lai) = ''affected'' \<longleftrightarrow>
    (lo \<noteq> PNone \<longrightarrow> at_least (version_order pep440 e) lo loi (PStr s)) \<and>
    (fx \<noteq> PNone \<longrightarrow> at_most (version_order pep440 e) fx fxi (PStr s)) \<and>
    (la \<noteq> PNone \<longrightarrow> at_most (version_order pep440 e) la lai (PStr s))"
proof -
  have d: "vc_status (compare_versions pep440 e a b) \<noteq> Supported \<or> vc_order (compare_versions pep440 e a b) = None
      \<longleftrightarrow> version_order pep440 e a b = None" for a b
    using compare_versions_status [of pep440 e a b] by (auto simp: version_order_def)
  show ?thesis
    unfolding version_satisfies_range_def assms option.case Let_def d
    by (cases "version_order pep440 e (PStr s) lo"; cases "version_order pep440 e (PStr s) fx";
        cases "version_order pep440 e (PStr s) la")
      (auto simp: at_least_def at_most_def version_order_def [symmetric])
qed


lemma affected_reason_branches:
  assumes "fst (if c1 then (''unsupported-comparison'', r1) else if c2 then (''not-affected'', r2)
    else if c3 then (''unsupported-comparison'', r3) else if c4 then (''fixed'', r4)
    else if c5 then (''unsupported-comparison'', r5) else if c6 then (''not-affected'', r6)
    else (''affected'', r7)) = ''affected''"
  shows "(if c1 then (''unsupported-comparison'', r1) else if c2 then (''not-affected'', r2)
    else if c3 then (''unsupported-comparison'', r3) else if c4 then (''fixed'', r4)
    else if c5 then (''unsupported-comparison'', r5) else if c6 then (''not-affected'', r6)
    else (''affected'', r7)) = (''affected'', r7)"
  using assms by (simp split: if_splits)

lemma affected_reason:
  assumes "fst (version_satisfies_range pep440 e v lo loi fx fxi la lai) = ''affected''"
  shows "version_satisfies_range pep440 e v lo loi fx fxi la lai =
    (''affected'', ''installed-version-in-affected-range'')"
proof (cases "normalize_version_text v")
  case None
  then show ?thesis using assms by (simp add: version_satisfies_range_def)
next
  case (Some s)
  then show ?thesis
    using assms unfolding version_satisfies_range_def Some option.case Let_def
    by (intro affected_reason_branches)
qed

text \<open>C3. The versions a reviewed range declares affected form an interval of the ecosystem's
  order: a version between two affected ones is affected, whatever boundaries are given and
  whether they are inclusive.\<close>

theorem affected_versions_interval:
  fixes pep440 :: "string \<Rightarrow> 'v::linorder option"
  assumes "fst (version_satisfies_range pep440 e v lo loi fx fxi la lai) = ''affected''"
    and "fst (version_satisfies_range pep440 e w lo loi fx fxi la lai) = ''affected''"
    and "vc_order (compare_versions pep440 e v x) = Some c" "c \<le> 0"
    and "vc_order (compare_versions pep440 e x w) = Some d" "d \<le> 0"
  shows "version_satisfies_range pep440 e x lo loi fx fxi la lai =
    (''affected'', ''installed-version-in-affected-range'')"
proof -
  let ?ord = "version_order pep440 e"
  have vx: "?ord v x = Some c" and xw: "?ord x w = Some d"
    using assms(3,5) by (simp_all add: version_order_def)
  obtain s t where s: "safe_text v = Some s" and t: "safe_text x = Some t"
    using version_order_safe [OF vx] .
  obtain t' u where "safe_text x = Some t'" and u: "safe_text w = Some u"
    using version_order_safe [OF xw] .
  have lower: "at_least ?ord lo loi x" if "at_least ?ord lo loi v"
    using versions.at_least_up [OF that vx assms(4)] .
  have upper: "at_most ?ord y i x" if "at_most ?ord y i w" for y i
    using versions.at_most_down [OF that xw assms(6)] .
  have read: "at_least ?ord y i (PStr p) = at_least ?ord y i a" "at_most ?ord y i (PStr p) = at_most ?ord y i a"
    if "safe_text a = Some p" for a p y i
    by (simp_all add: at_least_def at_most_def version_order_PStr [OF that])
  note iff = affected_iff [OF conjunct1 [OF safe_text_normalize]]
  have "fst (version_satisfies_range pep440 e x lo loi fx fxi la lai) = ''affected''"
    using assms(1,2) lower upper unfolding iff [OF s] iff [OF t] iff [OF u] read [OF s] read [OF t] read [OF u]
    by blast
  then show ?thesis by (rule affected_reason)
qed

lemma affected_versions_interval_witness:
  "version_satisfies_range (\<lambda>_. None :: int option) ''npm'' (PStr ''1.2.3'') (PStr ''1.0'') True
     (PStr ''2.0.0'') False PNone True = (''affected'', ''installed-version-in-affected-range'')"
proof (rule affected_versions_interval)
  let ?p = "\<lambda>_. None :: int option"
  show "fst (version_satisfies_range ?p ''npm'' (PStr ''1.2.0-rc.1'') (PStr ''1.0'') True
     (PStr ''2.0.0'') False PNone True) = ''affected''"
    "fst (version_satisfies_range ?p ''npm'' (PStr ''2.0.0-rc.1'') (PStr ''1.0'') True
     (PStr ''2.0.0'') False PNone True) = ''affected''"
    "vc_order (compare_versions ?p ''npm'' (PStr ''1.2.0-rc.1'') (PStr ''1.2.3'')) = Some (- 1)"
    "vc_order (compare_versions ?p ''npm'' (PStr ''1.2.3'') (PStr ''2.0.0-rc.1'')) = Some (- 1)"
    by code_simp+
qed simp_all

text \<open>C4. Version comparison is a partial preorder in every ecosystem: when \<open>a\<close> is at most \<open>b\<close> and
  \<open>b\<close> at most \<open>c\<close>, then \<open>a\<close> and \<open>c\<close> are comparable and \<open>a\<close> is at most \<open>c\<close>.\<close>

theorem compare_versions_trans:
  fixes pep440 :: "string \<Rightarrow> 'v::linorder option"
  assumes "vc_order (compare_versions pep440 e a b) = Some i" "i \<le> 0"
    and "vc_order (compare_versions pep440 e b c) = Some j" "j \<le> 0"
  shows "\<exists>k. vc_order (compare_versions pep440 e a c) = Some k \<and> k \<le> 0"
  using versions.le_trans [of pep440 e a b i c j] assms by (simp add: version_order_def)

lemma compare_versions_trans_witness:
  "\<exists>k. vc_order (compare_versions (\<lambda>_. None :: int option) ''deb'' (PStr ''1.0~rc1'') (PStr ''2:0.9'')) = Some k
     \<and> k \<le> 0"
  by (rule compare_versions_trans [of _ _ _ "PStr ''1.0-1''" "- 1" _ "- 1"]) code_simp+

definition swapped :: "VersionComparison \<Rightarrow> VersionComparison" where
  "swapped c = c\<lparr>vc_order := map_option uminus (vc_order c)\<rparr>"

lemma swapped_compared: "swapped (compared n) = compared (- n)"
  by (simp add: swapped_def compared_def)

lemma swapped_simps [simp]:
  "swapped (not_compared s r) = not_compared s r"
  "swapped (compared (compare_tuple x y)) = compared (compare_tuple y x)"
  "swapped (compared (compare_debian_keys k m)) = compared (compare_debian_keys m k)"
  using tuples.swap [of y x] comparison.swap [OF comparison_debian_keys, of m k]
  by (simp_all add: swapped_compared, simp add: swapped_def not_compared_def)

lemma swapped_parsed [simp]: "swapped (compare_parsed reason l r) = compare_parsed reason r l"
  by (simp add: compare_parsed_def split: option.split)

definition settled :: "VersionComparison result \<Rightarrow> VersionComparison" where
  "settled r = (case r of Inl _ \<Rightarrow> not_compared Invalid ''invalid-version'' | Inr c \<Rightarrow> c)"

lemma settled_swap:
  fixes pep440 :: "string \<Rightarrow> 'v::linorder option"
  assumes "length l \<le> 240" "length r \<le> 240"
  shows "settled (compare_in pep440 e r l) = swapped (settled (compare_in pep440 e l r))"
proof (cases e rule: ecosystem_cases)
  case 1
  then show ?thesis by (simp only: compare_in_branches(1)) (simp add: settled_def)
next
  case 2
  then show ?thesis
    by (simp only: compare_in_branches(2)) (simp add: settled_def bind_result_def split: sum.split)
next
  case 3
  then show ?thesis
    by (simp only: compare_in_branches(4))
      (simp add: settled_def bind_result_def split: sum.split)
next
  case 4
  then show ?thesis
    by (simp only: compare_in_branches(5))
      (simp add: settled_def bind_result_def split: sum.split)
next
  case 5
  then show ?thesis by (simp only: compare_in_branches(6)) (simp add: settled_def)
next
  case 6
  then show ?thesis
    using assms by (simp only: compare_in_branches(3) debian_compare_keys)
      (simp add: settled_def bind_result_def split: sum.split)
next
  case 7
  then show ?thesis by (simp add: compare_in_unknown [OF 7] settled_def)
qed

text \<open>C5. Swapping the operands negates the order and changes nothing else: the status and the
  reason of a refusal do not depend on which operand is to blame.\<close>

theorem compare_versions_swap:
  "compare_versions pep440 e b a =
    (compare_versions pep440 e a b)\<lparr>vc_order := map_option uminus (vc_order (compare_versions pep440 e a b))\<rparr>"
proof -
  have len: "safe_version s \<Longrightarrow> length s \<le> 240" for s by (simp add: safe_version_def)
  have "compare_versions pep440 e b a = swapped (compare_versions pep440 e a b)"
  proof (cases "normalize_version_text a = None \<or> normalize_version_text b = None")
    case True
    then show ?thesis by (auto simp: compare_versions_def split: option.split)
  next
    case False
    then obtain l r where lr: "normalize_version_text a = Some l" "normalize_version_text b = Some r"
      by auto
    show ?thesis
    proof (cases "safe_version l \<and> safe_version r \<and> l \<noteq> r")
      case True
      then have "settled (compare_in pep440 e r l) = swapped (settled (compare_in pep440 e l r))"
        by (intro settled_swap) (simp_all add: len)
      with True lr show ?thesis by (auto simp: compare_versions_def settled_def)
    next
      case False
      with lr show ?thesis by (auto simp: compare_versions_def) (simp add: swapped_def)
    qed
  qed
  then show ?thesis by (simp only: swapped_def)
qed

text \<open>C6. The index-driven Debian loop computes the comparison of two number sequences that are zero
  after their end, and its limit of segments is never reached on accepted versions: the only
  failure is an epoch that is not a number.\<close>

theorem debian_compare_refines:
  assumes "safe_version left" "safe_version right"
  shows "debian_compare left right =
    bind_result (split_epoch left) (\<lambda>_. bind_result (split_epoch right) (\<lambda>_.
      Inr (compare_debian_keys (debian_version_key left) (debian_version_key right))))"
  by (rule debian_compare_keys) (use assms in \<open>simp_all add: safe_version_def\<close>)

lemma debian_compare_refines_witness:
  "debian_compare ''1:1.10~rc1-2'' ''1:1.9'' = Inr (1 :: int)"
proof -
  have "safe_version ''1:1.10~rc1-2''" "safe_version ''1:1.9''" by code_simp+
  from debian_compare_refines [OF this] show ?thesis by (simp only:) code_simp
qed

lemma takeWhile_stop:
  assumes "t \<noteq> []" "\<not> P (hd t)"
  shows "takeWhile P (s @ t) = takeWhile P s" "dropWhile P (s @ t) = dropWhile P s @ t"
  using assms by (induction s) (cases t; simp)+

lemma debian_key_append:
  "t \<noteq> [] \<Longrightarrow> \<not> is_digit (hd t) \<Longrightarrow> debian_key (s @ t) = debian_key s @ debian_key t"
  by (induction s rule: debian_key.induct) (simp_all add: takeWhile_stop)

lemma pad_compare_prefix: "pad_compare (xs @ - 1 # ys) xs = - 1"
  by (induction xs) (auto simp: compare_tuple_def)

text \<open>In Debian and Alpine versions a tilde suffix sorts before the version without it.\<close>

theorem debian_tilde_before:
  assumes "2 * length s + length t < 500"
  shows "debian_part_compare (s @ ''~'' @ t) s = Inr (- 1)"
proof -
  have "debian_key (s @ CHR ''~'' # t) = debian_key s @ - 1 # debian_key t"
    by (subst debian_key_append) (simp_all add: is_digit_def code_def debian_non_digit_order_def)
  then show ?thesis
    using debian_part_compare_key [of "s @ ''~'' @ t" s] pad_compare_prefix assms by simp
qed

lemma debian_tilde_before_witness: "debian_part_compare ''1.0~rc1'' ''1.0'' = Inr (- 1)"
  using debian_tilde_before [of "''1.0''" "''rc1''"] by simp

lemma rpm_tokens_tilde: "rpm_tokens (s @ CHR ''~'' # t) = rpm_tokens s @ ''~'' # rpm_tokens t"
proof -
  have "\<not> is_alpha (CHR ''~'')" "\<not> is_digit (CHR ''~'')" by code_simp+
  then show ?thesis by (induction s rule: rpm_tokens.induct) (simp_all add: takeWhile_stop)
qed

lemma less_longer: "xs < xs @ (y :: 'a :: linorder) # ys"
  by (induction xs) auto

lemma compare_tuple_prefix: "compare_tuple xs (xs @ y # ys) = - 1"
  by (simp add: compare_tuple_def less_longer)


lemma split_first_append: "d \<notin> set a \<Longrightarrow> split_first d (a @ d # b) = (a, b)"
proof -
  assume "d \<notin> set a"
  then have "takeWhile (\<lambda>c. c \<noteq> d) (a @ d # b) = a" "dropWhile (\<lambda>c. c \<noteq> d) (a @ d # b) = d # b"
    by (induction a) auto
  then show ?thesis by (simp add: split_first_def)
qed

lemma split_first_prefix: "d \<in> set a \<Longrightarrow> split_first d (a @ b) = (fst (split_first d a), snd (split_first d a) @ b)"
  by (induction a) (auto simp: split_first_def)

lemma split_first_absent: "d \<notin> set a \<Longrightarrow> split_first d a = (a, [])"
proof -
  assume "d \<notin> set a"
  then have "takeWhile (\<lambda>c. c \<noteq> d) a = a" "dropWhile (\<lambda>c. c \<noteq> d) a = []" by (induction a) auto
  then show ?thesis by (simp only: split_first_def list.sel)
qed

lemma split_epoch_append:
  assumes "split_epoch s = Inr (e, r)" "CHR '':'' \<notin> set t"
  shows "split_epoch (s @ t) = Inr (e, r @ t)"
  using assms
  by (cases "CHR '':'' \<in> set s")
    (auto simp: split_epoch_def split_first_prefix split: prod.splits if_splits)

text \<open>RPM keys put a tilde suffix after the version without it: the rank -1 of the tilde is never
  reached, because the shorter of two keys that agree is the smaller one.\<close>

theorem rpm_tilde_after:
  assumes "rpm_segments s = Inr k" "rpm_segments (s @ ''~'' @ t) = Inr k'" "CHR '':'' \<notin> set t"
  shows "compare_tuple k k' = - 1"
proof -
  obtain e r where s: "split_epoch s = Inr (e, r)"
    using assms(1) by (auto simp: rpm_segments_def bind_result_eq_Inr_iff)
  have "split_epoch (s @ ''~'' @ t) = Inr (e, r @ ''~'' @ t)"
    by (rule split_epoch_append [OF s]) (use assms(3) in simp)
  then have "k' = (3, Num e) # map rpm_segment (rpm_tokens r @ ''~'' # rpm_tokens t)"
    using assms(2) by (simp add: rpm_segments_def rpm_tokens_tilde Let_def split: if_splits)
  moreover have "k = (3, Num e) # map rpm_segment (rpm_tokens r)"
    using assms(1) s by (simp add: rpm_segments_def Let_def split: if_splits)
  ultimately show ?thesis
    using compare_tuple_prefix [of "(3, Num e) # map rpm_segment (rpm_tokens r)"] by simp
qed

lemma rpm_tilde_after_witness:
  "compare_tuple [(3 :: int, Num 0), (2, Num 1), (2, Num 0)]
     [(3, Num 0), (2, Num 1), (2, Num 0), (- 1, Txt []), (1, Txt ''rc''), (2, Num 1)] = - 1"
  by (rule rpm_tilde_after [of "''1.0''" _ "''rc1''"]) code_simp+

text \<open>A semantic version with a prerelease precedes the release of the same core, and both are
  well formed together.\<close>

theorem semver_prerelease_before:
  assumes "semver core = Inr (Some release)" "CHR ''-'' \<notin> set core" "CHR ''+'' \<notin> set core"
    and "semver_text pre" "length (split_on (CHR ''.'') pre) \<le> 64"
  shows "\<exists>key. semver (core @ ''-'' @ pre) = Inr (Some key) \<and> compare_tuple key release = - 1"
proof -
  have plus: "CHR ''+'' \<notin> set pre"
    using assms(4) by (auto simp: semver_text_def list_all_iff is_alnum_def is_alpha_def is_lower_def
        is_upper_def is_digit_def code_def)
  obtain numbers where m: "match_semver core = Some (numbers, None)"
    using assms(1,2,3)
    by (auto simp: semver_def match_semver_def split_first_absent Let_def split: option.splits if_splits)
  then have "match_semver (core @ ''-'' @ pre) = Some (numbers, Some pre)"
    using assms(2,3,4) plus
    by (simp add: match_semver_def split_first_absent split_first_append Let_def split: if_splits)
  moreover obtain item items where "split_on (CHR ''.'') pre = item # items"
    using split_on_nonempty [of "CHR ''.''" pre] by (cases "split_on (CHR ''.'') pre") auto
  ultimately show ?thesis
    using assms(1,5) m
    by (auto simp: semver_def prerelease_parts_def MAX_VERSION_PARTS_def compare_tuple_def Let_def)
qed

lemma semver_prerelease_before_witness:
  "\<exists>key. semver ''1.4.0-rc.1'' = Inr (Some key) \<and> compare_tuple key (1, 4, 0, [(2, Num 0)]) = - 1"
proof -
  have "semver ''1.4.0'' = Inr (Some (1, 4, 0, [(2, Num 0)]))" "semver_text ''rc.1''"
    "length (split_on (CHR ''.'') ''rc.1'') \<le> 64" by code_simp+
  from semver_prerelease_before [OF this(1) _ _ this(2,3)] show ?thesis by simp
qed

text \<open>Build metadata does not take part in the comparison of semantic versions.\<close>

theorem semver_ignores_build:
  assumes "CHR ''+'' \<notin> set version" "semver_text build"
  shows "semver (version @ ''+'' @ build) = semver version"
proof -
  have "match_semver (version @ ''+'' @ build) = match_semver version"
    using assms by (simp add: match_semver_def split_first_absent split_first_append Let_def
        split: prod.split)
  then show ?thesis by (simp add: semver_def)
qed

lemma semver_ignores_build_witness: "semver ''1.0.0-a+b.7'' = semver ''1.0.0-a''"
proof -
  have "semver_text ''b.7''" by code_simp
  then show ?thesis using semver_ignores_build [of "''1.0.0-a''" "''b.7''"] by simp
qed

end
