(* ===== verification/Match_Laws.thy ===== *)
theory Match_Laws
  imports Vuln_Matching Version_Ranges
begin

text \<open>
  What \<open>match_component\<close> (src/backend/app/vulnerability_matching.py) promises: an affected verdict rests on
  every guard and on a version fact, no version fact is lost, withdrawn advisories stay silent,
  and every match is well formed.
\<close>

section \<open>Outcomes\<close>

lemma combine_outcomes_affected:
  "fst (combine_outcomes outcomes) = Affected \<longleftrightarrow> (\<exists>p \<in> set outcomes. fst p = ''affected'')"
proof (cases "find (\<lambda>(s, _). s = ''affected'') outcomes")
  case None
  then have "\<not> (\<exists>p \<in> set outcomes. fst p = ''affected'')" by (auto simp: find_None_iff)
  with None show ?thesis by (auto simp: combine_outcomes_def split: option.split)
next
  case (Some p)
  then have "p \<in> set outcomes \<and> fst p = ''affected''" using find_Some_in [OF Some] by auto
  with Some show ?thesis by (auto simp: combine_outcomes_def split: prod.split)
qed

lemma exact_scan_affected:
  "fst (exact_scan pep440 e v u xs) = ''affected'' \<longleftrightarrow>
    (\<exists>x \<in> set xs. vc_status (compare_versions pep440 e (PStr v) (PStr x)) = Supported \<and>
       vc_order (compare_versions pep440 e (PStr v) (PStr x)) = Some 0)"
  by (induction xs arbitrary: u) (auto simp: Let_def)

lemma range_outcomes_affected:
  "(\<exists>p \<in> set (range_outcomes pep440 e v rs). fst p = ''affected'') \<longleftrightarrow>
    (\<exists>r. PDict r \<in> set rs \<and> fst (range_outcome pep440 e v r) = ''affected'')"
  by (induction pep440 e v rs rule: range_outcomes.induct) auto

text \<open>The evidence on which a version is called affected.\<close>

definition listed_exactly :: "(string \<Rightarrow> 'v::linorder option) \<Rightarrow> string \<Rightarrow> string \<Rightarrow> pyval list \<Rightarrow> bool" where
  "listed_exactly pep440 e v items \<longleftrightarrow>
     (\<exists>x. PStr x \<in> set items \<and> version_order pep440 e (PStr v) (PStr x) = Some 0)"

definition in_some_range :: "(string \<Rightarrow> 'v::linorder option) \<Rightarrow> string \<Rightarrow> string \<Rightarrow> pyval list \<Rightarrow> bool" where
  "in_some_range pep440 e v items \<longleftrightarrow>
     (\<exists>r. PDict r \<in> set items \<and> fst (range_outcome pep440 e v r) = ''affected'')"

lemma exact_status_affected:
  "fst (exact_version_status pep440 e v (str_values items)) = ''affected'' \<longleftrightarrow>
    listed_exactly pep440 e v items"
proof -
  have "vc_status c = Supported \<and> vc_order c = Some 0 \<longleftrightarrow> vc_order c = Some 0"
    if "c = compare_versions pep440 e a b" for a b c
    using that compare_versions_status [of pep440 e a b] by (auto simp: version_order_def)
  then show ?thesis
    by (auto simp: exact_version_status_def exact_scan_affected listed_exactly_def set_str_values
        version_order_def)
qed

lemma version_verdict_affected:
  assumes "version_verdict pep440 component affected v = Inr out"
  shows "fst out = Affected \<longleftrightarrow>
    (\<exists>exacts ranges.
       py_iter (get_default affected ''exact_versions'' (PList [])) = Inr exacts \<and>
       slice32 (get_default affected ''ranges'' (PList [])) = Inr ranges \<and>
       (listed_exactly pep440 (str_of component ''ecosystem'') v exacts \<or>
        in_some_range pep440 (str_of component ''ecosystem'') v ranges))"
proof -
  let ?e = "str_of component ''ecosystem''"
  obtain exacts ranges where ex: "py_iter (get_default affected ''exact_versions'' (PList [])) = Inr exacts"
    and rg: "slice32 (get_default affected ''ranges'' (PList [])) = Inr ranges"
    using assms by (auto simp: version_verdict_def bind_result_eq_Inr_iff)
  let ?exact = "if str_values exacts = [] then []
     else [(\<lambda>(s, reason). (s, reason, ''exact version list''))
             (exact_version_status pep440 ?e v (str_values exacts))]"
  have out: "out = combine_outcomes (?exact @ range_outcomes pep440 ?e v ranges)"
    using assms ex rg by (simp add: version_verdict_def Let_def)
  have "(\<exists>p \<in> set ?exact. fst p = ''affected'') \<longleftrightarrow> listed_exactly pep440 ?e v exacts"
    using exact_status_affected [of pep440 ?e v exacts]
    by (cases "str_values exacts") (auto simp: exact_version_status_def split: prod.splits)
  then show ?thesis
    unfolding out combine_outcomes_affected using ex rg range_outcomes_affected [of pep440 ?e v ranges]
    by (auto simp: in_some_range_def bex_Un)
qed

section \<open>Identity\<close>

lemma identity_by_name_cases:
  obtains "identity_by_name e component affected = no_identity"
  | vendor name where "identity_by_name e component affected =
        (Precise, fl (92 / 100), Some (''firmware:'' @ vendor @ ''/'' @ name))"
      "e = ''firmware''"
  | vendor name where "identity_by_name e component affected =
        (Uncertain, fl (45 / 100), Some (e @ '':'' @ vendor @ ''/'' @ name))"
  unfolding identity_by_name_def Let_def by (metis (full_types))

lemma identity_match_cases:
  obtains "identity_match component affected = no_identity"
  | i where "identity_match component affected = (Precise, 1, Some i)"
      "purl_identity (get component ''canonical_identifier'') = Some i"
      "purl_identity (get affected ''canonical_identifier'') = Some i"
  | vendor name where "identity_match component affected =
        (Precise, fl (92 / 100), Some (''firmware:'' @ vendor @ ''/'' @ name))"
      "str_of component ''ecosystem'' = ''firmware''"
  | vendor name where "identity_match component affected =
        (Uncertain, fl (45 / 100), Some (str_of component ''ecosystem'' @ '':'' @ vendor @ ''/'' @ name))"
proof -
  let ?e = "str_of component ''ecosystem''"
  let ?c = "purl_identity (get component ''canonical_identifier'')"
  let ?a = "purl_identity (get affected ''canonical_identifier'')"
  consider "?e \<noteq> str_of affected ''ecosystem''"
    | i j where "?e = str_of affected ''ecosystem''" "?c = Some i" "?a = Some j"
    | "?e = str_of affected ''ecosystem''" "?c = None \<or> ?a = None" by (cases ?c; cases ?a) auto
  then show ?thesis
  proof cases
    case 1
    then show ?thesis using that(1) by (simp add: identity_match_def Let_def)
  next
    case (2 i j)
    then show ?thesis using that(1,2) by (cases "i = j") (simp_all add: identity_match_def Let_def)
  next
    case 3
    then have eq: "identity_match component affected = identity_by_name ?e component affected"
      by (auto simp: identity_match_def Let_def split: option.split)
    show ?thesis
      using that(1,3,4) unfolding eq by (rule identity_by_name_cases [of ?e component affected]) 
  qed
qed

section \<open>The verdict\<close>

text \<open>What every branch before the version comparison lets pass.\<close>

definition authoritative :: "pydict \<Rightarrow> bool" where
  "authoritative component \<longleftrightarrow>
     get component ''source_type'' = PStr ''endpoint-collector'' \<or>
     get component ''source_type'' = PStr ''reviewed-connector''"

definition evidence_current :: "pydict \<Rightarrow> bool" where
  "evidence_current component \<longleftrightarrow>
     py_str (py_or (get component ''freshness'') (PStr ''unknown'')) \<notin> {''stale'', ''unknown''}"

definition advisory_live :: "pydict \<Rightarrow> bool" where
  "advisory_live affected \<longleftrightarrow>
     truthy (get_default affected ''current'' (PBool True)) \<and> \<not> truthy (get affected ''withdrawn_at'')"

definition constraints_apply :: "pydict \<Rightarrow> pydict \<Rightarrow> bool" where
  "constraints_apply component affected \<longleftrightarrow>
     constraint_applies (get component ''architecture'')
       (get_default affected ''architectures'' (PList [])) = Inr True \<and>
     constraint_applies (get component ''asset_platform'')
       (get_default affected ''platforms'' (PList [])) = Inr True"

definition passes_guards :: "IdentityState \<Rightarrow> pydict \<Rightarrow> pydict \<Rightarrow> bool" where
  "passes_guards identity_state component affected \<longleftrightarrow>
     advisory_live affected \<and> truthy (get_default component ''active'' (PBool True)) \<and>
     authoritative component \<and> evidence_current component \<and> identity_state \<noteq> Uncertain \<and>
     constraints_apply component affected \<and> imprecise_firmware component = Inr False"

lemma str_member_Inr_True: "str_member v xs = Inr True \<longleftrightarrow> (\<exists>s. v = PStr s \<and> s \<in> set xs)"
  by (cases v) auto

lemma match_verdict_guarded:
  assumes "passes_guards identity_state component affected" "installed_version_of component = Some v"
  shows "match_verdict pep440 identity_state component affected =
    version_verdict pep440 component affected v"
proof -
  have "str_member (get component ''source_type'') [''endpoint-collector'', ''reviewed-connector''] = Inr True"
    using assms(1) by (auto simp: passes_guards_def authoritative_def)
  then show ?thesis
    using assms
    by (simp add: match_verdict_def passes_guards_def advisory_live_def evidence_current_def
        constraints_apply_def)
qed

lemma match_verdict_affected:
  assumes "match_verdict pep440 identity_state component affected = Inr (Affected, reason, descr)"
  obtains v where "passes_guards identity_state component affected"
    "installed_version_of component = Some v"
    "version_verdict pep440 component affected v = Inr (Affected, reason, descr)"
proof -
  have "passes_guards identity_state component affected \<and> (\<exists>v. installed_version_of component = Some v
    \<and> version_verdict pep440 component affected v = Inr (Affected, reason, descr))"
    using assms unfolding match_verdict_def passes_guards_def advisory_live_def evidence_current_def
      constraints_apply_def authoritative_def bind_result_eq_Inr_iff
    by (simp add: bind_result_eq_Inr_iff split: if_split_asm option.split_asm)
      (auto simp: str_member_Inr_True)
  then show thesis using that by blast
qed


lemma match_component_Some:
  assumes "match_component pep440 now component affected t = Inr (Some m)"
  obtains state conf ident reason where
    "identity_match component affected = (state, conf, ident)" "state \<noteq> NoIdentity"
    "match_verdict pep440 state component affected = Inr (vm_match_status m, reason, vm_affected_range m)"
    "vm_match_confidence m = conf" "vm_matched_identifier m = ident"
    "vm_installed_version m = installed_version_of component"
    "vm_match_id m = match_id_for (vm_component_id m) (vm_advisory_id m)"
    "vm_evidence_ids m = fromkeys (take 16 (str_values (list_items (get component ''evidence_ids''))
       @ [vm_component_id m, vm_advisory_id m]))"
    "vm_reason_codes m = fromkeys (reason # (if ident \<noteq> None then [''reviewed-identity-match''] else []))"
proof -
  obtain state conf ident where i: "identity_match component affected = (state, conf, ident)"
    by (cases "identity_match component affected") auto
  have "state \<noteq> NoIdentity" using assms i by (auto simp: match_component_def)
  moreover from this obtain reason descr status where
    "match_verdict pep440 state component affected = Inr (status, reason, descr)"
    "vm_match_status m = status" "vm_affected_range m = descr" "vm_match_confidence m = conf"
    "vm_matched_identifier m = ident" "vm_installed_version m = installed_version_of component"
    "vm_match_id m = match_id_for (vm_component_id m) (vm_advisory_id m)"
    "vm_evidence_ids m = fromkeys (take 16 (str_values (list_items (get component ''evidence_ids''))
       @ [vm_component_id m, vm_advisory_id m]))"
    "vm_reason_codes m = fromkeys (reason # (if ident \<noteq> None then [''reviewed-identity-match''] else []))"
    using assms i by (auto simp: match_component_def bind_result_eq_Inr_iff Let_def)
  ultimately show thesis using i by (intro that) simp_all
qed

text \<open>Firmware is matched only on firmware evidence reported by the device, its vendor or a collector, with a
  confidence of at least 0.8.\<close>

definition precise_firmware :: "pydict \<Rightarrow> bool" where
  "precise_firmware component \<longleftrightarrow>
     (get component ''component_type'' = PStr ''firmware'' \<longrightarrow>
        (\<exists>s \<in> {''direct'', ''vendor-reported'', ''collector-reported''}.
           get component ''firmware_evidence_type'' = PStr s) \<and>
        low_confidence component = Inr False)"

lemma precise_firmware_iff: "imprecise_firmware component = Inr False \<longleftrightarrow> precise_firmware component"
  by (auto simp: imprecise_firmware_def precise_firmware_def bind_result_eq_Inr_iff str_member_Inr_True
      split: if_splits)

text \<open>C1. No false alarm: a component is reported affected only when its identity is precise, the
  advisory is current and not withdrawn, the component is active, its source is authoritative and
  its evidence current, the architecture and platform constraints apply, firmware has precise and
  confident evidence, and the installed version equals a listed version or lies in one of the first
  32 ranges.\<close>

theorem affected_match_sound:
  fixes pep440 :: "string \<Rightarrow> 'v::linorder option"
  assumes "match_component pep440 now component affected t = Inr (Some m)"
    and "vm_match_status m = Affected"
  shows "fst (identity_match component affected) = Precise \<and> advisory_live affected \<and>
    truthy (get_default component ''active'' (PBool True)) \<and> authoritative component \<and>
    evidence_current component \<and> constraints_apply component affected \<and>
    precise_firmware component \<and>
    (\<exists>v exacts ranges. vm_installed_version m = Some v \<and>
       py_iter (get_default affected ''exact_versions'' (PList [])) = Inr exacts \<and>
       slice32 (get_default affected ''ranges'' (PList [])) = Inr ranges \<and>
       (listed_exactly pep440 (str_of component ''ecosystem'') v exacts \<or>
        in_some_range pep440 (str_of component ''ecosystem'') v ranges))"
proof -
  obtain state conf ident reason where m: "identity_match component affected = (state, conf, ident)"
    "state \<noteq> NoIdentity"
    "match_verdict pep440 state component affected = Inr (Affected, reason, vm_affected_range m)"
    "vm_installed_version m = installed_version_of component"
    using match_component_Some [OF assms(1)] assms(2) by metis
  obtain v where v: "passes_guards state component affected" "installed_version_of component = Some v"
    "version_verdict pep440 component affected v = Inr (Affected, reason, vm_affected_range m)"
    using match_verdict_affected [OF m(3)] .
  have "state = Precise" using m(2) v(1) by (cases state) (auto simp: passes_guards_def)
  then show ?thesis
    using m(1,4) v version_verdict_affected [OF v(3)] precise_firmware_iff
    by (auto simp: passes_guards_def)
qed

text \<open>C2. No missed match: when a component passes every guard, the verdict is \<open>affected\<close> exactly when
  its version is listed or lies in a range; an \<open>affected\<close> outcome is never hidden by a fixed,
  unsupported or negative outcome of another range.\<close>

theorem affected_verdict_complete:
  fixes pep440 :: "string \<Rightarrow> 'v::linorder option"
  assumes "passes_guards state component affected" "installed_version_of component = Some v"
    and "py_iter (get_default affected ''exact_versions'' (PList [])) = Inr exacts"
    and "slice32 (get_default affected ''ranges'' (PList [])) = Inr ranges"
  shows "\<exists>status reason descr. match_verdict pep440 state component affected = Inr (status, reason, descr) \<and>
    (status = Affected \<longleftrightarrow> listed_exactly pep440 (str_of component ''ecosystem'') v exacts \<or>
       in_some_range pep440 (str_of component ''ecosystem'') v ranges)"
proof -
  obtain status reason descr where out: "version_verdict pep440 component affected v = Inr (status, reason, descr)"
    using assms(3,4) by (auto simp: version_verdict_def Let_def intro: prod_cases3)
  then show ?thesis
    using match_verdict_guarded [OF assms(1,2), of pep440] version_verdict_affected [OF out] assms(3,4)
    by simp
qed

text \<open>A withdrawn or superseded advisory never produces a finding: whatever the component says,
  the verdict is \<open>advisory-withdrawn\<close>.\<close>

theorem withdrawn_never_affected:
  assumes "match_component pep440 now component affected t = Inr (Some m)" "\<not> advisory_live affected"
  shows "vm_match_status m = AdvisoryWithdrawn \<and> vm_affected_range m = None"
proof -
  obtain state reason where
    "match_verdict pep440 state component affected = Inr (vm_match_status m, reason, vm_affected_range m)"
    using match_component_Some [OF assms(1)] by metis
  then show ?thesis using assms(2) by (auto simp: match_verdict_def advisory_live_def)
qed

lemma confidence_values: "fl (45 / 100) < fl (92 / 100)" "fl (92 / 100) < 1" "0 < fl (45 / 100)"
  by code_simp+

lemma identity_confidence:
  assumes "identity_match component affected = (state, conf, ident)" "state \<noteq> NoIdentity"
  shows "fl (45 / 100) \<le> conf \<and> conf \<le> 1 \<and> ident \<noteq> None"
    and "conf = 1 \<longleftrightarrow> (\<exists>i. ident = Some i \<and>
       purl_identity (get component ''canonical_identifier'') = Some i \<and>
       purl_identity (get affected ''canonical_identifier'') = Some i)"
proof -
  show "fl (45 / 100) \<le> conf \<and> conf \<le> 1 \<and> ident \<noteq> None"
    using assms confidence_values by (cases rule: identity_match_cases [of component affected])
      (auto simp: no_identity_def dest: sym)
  have both: "conf = 1" if "purl_identity (get component ''canonical_identifier'') = Some i"
      "purl_identity (get affected ''canonical_identifier'') = Some i" for i
    using assms that by (auto simp: identity_match_def no_identity_def Let_def split: if_splits)
  show "conf = 1 \<longleftrightarrow> (\<exists>i. ident = Some i \<and>
       purl_identity (get component ''canonical_identifier'') = Some i \<and>
       purl_identity (get affected ''canonical_identifier'') = Some i)"
    using assms both confidence_values
    by (cases rule: identity_match_cases [of component affected])
      (auto simp: no_identity_def dest: sym)
qed

text \<open>C40. Every match is well formed: its confidence lies between 0.45 and 1, a confidence of 1 means
  that both sides carry the same package URL identity, its identifier is present, its id is the
  digest form, and its evidence and reasons are bounded and free of duplicates.\<close>

theorem match_well_formed:
  assumes "match_component pep440 now component affected t = Inr (Some m)"
  shows "fl (45 / 100) \<le> vm_match_confidence m \<and> vm_match_confidence m \<le> 1 \<and>
    (vm_match_confidence m = 1 \<longleftrightarrow> (\<exists>i. vm_matched_identifier m = Some i \<and>
       purl_identity (get component ''canonical_identifier'') = Some i \<and>
       purl_identity (get affected ''canonical_identifier'') = Some i)) \<and>
    vm_matched_identifier m \<noteq> None \<and>
    length (vm_match_id m) = 36 \<and> take 4 (vm_match_id m) = ''vmt_'' \<and>
    distinct (vm_evidence_ids m) \<and> length (vm_evidence_ids m) \<le> 16 \<and>
    distinct (vm_reason_codes m) \<and> ''reviewed-identity-match'' \<in> set (vm_reason_codes m)"
proof -
  obtain state conf ident reason where m:
    "identity_match component affected = (state, conf, ident)" "state \<noteq> NoIdentity"
    "vm_match_confidence m = conf" "vm_matched_identifier m = ident"
    "vm_match_id m = match_id_for (vm_component_id m) (vm_advisory_id m)"
    "vm_evidence_ids m = fromkeys (take 16 (str_values (list_items (get component ''evidence_ids''))
       @ [vm_component_id m, vm_advisory_id m]))"
    "vm_reason_codes m = fromkeys (reason # (if ident \<noteq> None then [''reviewed-identity-match''] else []))"
    using match_component_Some [OF assms] by metis
  note id = identity_confidence [OF m(1,2)]
  have "length (vm_evidence_ids m) \<le> 16"
    unfolding m(6) by (rule order_trans [OF length_fromkeys]) simp
  moreover have "''reviewed-identity-match'' \<in> set (vm_reason_codes m)" using id(1) m(7) by auto
  ultimately show ?thesis
    using id unfolding m(3,4) by (simp add: m(5,6,7) match_id_for_def digest_id_def)
qed


section \<open>A concrete match\<close>

text \<open>A Python package installed at 2.3.1 and an advisory for the versions below 2.4.\<close>

definition sample_component :: pydict where
  "sample_component =
     [(''component_id'', PStr ''cmp_1''), (''asset_id'', PStr ''asset_1''), (''site_id'', PStr ''site_1''),
      (''ecosystem'', PStr ''npm''), (''canonical_identifier'', PStr ''pkg:npm/left-pad''),
      (''normalized_name'', PStr ''left-pad''), (''source_type'', PStr ''endpoint-collector''),
      (''freshness'', PStr ''current''), (''normalized_version'', PStr ''2.3.1'')]"

definition sample_range :: pydict where
  "sample_range = [(''introduced'', PStr ''1.0.0''), (''fixed'', PStr ''2.4.0'')]"

definition sample_advisory :: pydict where
  "sample_advisory =
     [(''advisory_id'', PStr ''adv_1''), (''affected_id'', PStr ''aff_1''), (''ecosystem'', PStr ''npm''),
      (''canonical_identifier'', PStr ''pkg:npm/Left-Pad''), (''ranges'', PList [PDict sample_range])]"

definition sample_match :: "bool \<Rightarrow> VulnerabilityMatch" where
  "sample_match withdrawn =
     \<lparr>vm_match_id = match_id_for ''cmp_1'' ''adv_1'', vm_site_id = ''site_1'', vm_asset_id = ''asset_1'',
      vm_component_id = ''cmp_1'', vm_advisory_id = ''adv_1'', vm_affected_id = ''aff_1'',
      vm_match_status = (if withdrawn then AdvisoryWithdrawn else Affected), vm_match_confidence = 1,
      vm_matched_identifier = Some ''pkg:npm/left-pad'', vm_installed_version = Some ''2.3.1'',
      vm_affected_range = (if withdrawn then None else Some ''>=1.0.0, <2.4.0''),
      vm_fixed_version = None, vm_evaluated_at = 7, vm_evidence_ids = [''cmp_1'', ''adv_1''],
      vm_reason_codes = [if withdrawn then ''advisory-withdrawn-or-superseded''
                         else ''installed-version-in-affected-range'', ''reviewed-identity-match'']\<rparr>"

lemma sample_identity:
  "identity_match sample_component sample_advisory = (Precise, 1, Some ''pkg:npm/left-pad'')"
  "identity_match sample_component ((''withdrawn_at'', PTime 3) # sample_advisory) =
     (Precise, 1, Some ''pkg:npm/left-pad'')"
  by code_simp+

lemma sample_verdict:
  "match_verdict (\<lambda>_. None :: int option) Precise sample_component sample_advisory =
     Inr (Affected, ''installed-version-in-affected-range'', Some ''>=1.0.0, <2.4.0'')"
  "match_verdict (\<lambda>_. None :: int option) Precise sample_component
     ((''withdrawn_at'', PTime 3) # sample_advisory) =
     Inr (AdvisoryWithdrawn, ''advisory-withdrawn-or-superseded'', None)"
  by code_simp+

lemma sample_fields:
  "str_field sample_component ''component_id'' = Inr ''cmp_1''"
  "str_field sample_component ''site_id'' = Inr ''site_1''"
  "str_field sample_component ''asset_id'' = Inr ''asset_1''"
  "str_field sample_advisory ''advisory_id'' = Inr ''adv_1''"
  "str_field sample_advisory ''affected_id'' = Inr ''aff_1''"
  "str_field ((''withdrawn_at'', PTime 3) # sample_advisory) ''advisory_id'' = Inr ''adv_1''"
  "str_field ((''withdrawn_at'', PTime 3) # sample_advisory) ''affected_id'' = Inr ''aff_1''"
  "installed_version_of sample_component = Some ''2.3.1''"
  "list_items (get sample_component ''evidence_ids'') = []"
  "get_default sample_advisory ''fixed_versions'' (PList []) = PList []"
  by code_simp+

lemma sample_matches:
  "match_component (\<lambda>_. None :: int option) 0 sample_component sample_advisory (Some 7) =
     Inr (Some (sample_match False))"
  "match_component (\<lambda>_. None :: int option) 0 sample_component
     ((''withdrawn_at'', PTime 3) # sample_advisory) (Some 7) = Inr (Some (sample_match True))"
  by (simp_all add: match_component_def sample_identity sample_verdict sample_fields sample_match_def
      fromkeys_def)

lemma affected_match_sound_witness:
  "fst (identity_match sample_component sample_advisory) = Precise \<and> advisory_live sample_advisory"
  using affected_match_sound [OF sample_matches(1)] by (simp add: sample_match_def)

lemma affected_verdict_complete_witness:
  "\<exists>status reason descr. match_verdict (\<lambda>_. None :: int option) Precise sample_component sample_advisory =
     Inr (status, reason, descr) \<and>
     (status = Affected \<longleftrightarrow> listed_exactly (\<lambda>_. None :: int option) ''npm'' ''2.3.1'' [] \<or>
        in_some_range (\<lambda>_. None :: int option) ''npm'' ''2.3.1'' [PDict sample_range])"
proof -
  have guards: "passes_guards Precise sample_component sample_advisory"
    unfolding passes_guards_def constraints_apply_def advisory_live_def authoritative_def
      evidence_current_def by (intro conjI; code_simp)
  have fields: "py_iter (get_default sample_advisory ''exact_versions'' (PList [])) = Inr []"
    "slice32 (get_default sample_advisory ''ranges'' (PList [])) = Inr [PDict sample_range]"
    "str_of sample_component ''ecosystem'' = ''npm''"
    by code_simp+
  from affected_verdict_complete [OF guards sample_fields(8) fields(1,2), of "\<lambda>_. None :: int option"]
  show ?thesis unfolding fields(3) .
qed

lemma withdrawn_never_affected_witness:
  "vm_match_status (sample_match True) = AdvisoryWithdrawn \<and> vm_affected_range (sample_match True) = None"
proof -
  have "\<not> advisory_live ((''withdrawn_at'', PTime 3) # sample_advisory)"
    by (simp add: advisory_live_def get_def get_default_def)
  from withdrawn_never_affected [OF sample_matches(2) this] show ?thesis .
qed

lemma match_well_formed_witness:
  "length (vm_match_id (sample_match False)) = 36 \<and> distinct (vm_evidence_ids (sample_match False))"
  using match_well_formed [OF sample_matches(1)] by blast

end
