(* ===== verification/Risk_Scoring.thy ===== *)
theory Risk_Scoring
  imports Py_Number
begin

text \<open>
  Asset and site risk of src/backend/app/risk.py.  Findings, assets and sites are dictionaries; weights and
  scores are binary64 numbers, each operation rounded as the code rounds it.  The only exception
  is the \<^verbatim>\<open>OverflowError\<close> of a confidence that is an integer beyond the float range (and, for a
  site, the \<^verbatim>\<open>TypeError\<close> of comparing naive with aware timestamps).
\<close>

section \<open>Configuration\<close>

definition FORMULA_VERSION :: string where "FORMULA_VERSION = ''oaw.risk.v1''"
definition KEV_FORMULA_VERSION :: string where "KEV_FORMULA_VERSION = ''oaw.risk.kev.v1''"
definition KEV_CATEGORY_CAP :: rat where "KEV_CATEGORY_CAP = 20"
definition KEV_BASE_WEIGHT :: rat where "KEV_BASE_WEIGHT = 12"
definition KEV_RANSOMWARE_BASE_WEIGHT :: rat where "KEV_RANSOMWARE_BASE_WEIGHT = 18"

definition SEVERITY_WEIGHTS :: "(string \<times> rat) list" where
  "SEVERITY_WEIGHTS =
     [(''critical'', 40), (''high'', 25), (''medium'', 14), (''low'', 7), (''informational'', 3)]"

definition FRESHNESS_FACTORS :: "(string \<times> rat) list" where
  "FRESHNESS_FACTORS =
     [(''fresh'', 1), (''aging'', fl (8 / 10)), (''stale'', fl (45 / 100)), (''unknown'', fl (35 / 100))]"

definition CATEGORY_CAPS :: "(string \<times> rat) list" where
  "CATEGORY_CAPS =
     [(''coverage'', 30), (''freshness'', 20), (''identity'', 35), (''inventory'', 25),
      (''movement'', 20), (''vulnerability'', 50), (''other'', 20)]"

definition DIMINISHING_FACTORS :: "rat list" where
  "DIMINISHING_FACTORS = [1, fl (6 / 10), fl (35 / 100), fl (2 / 10)]"

record RiskConfig =
  severity_weights :: "(string \<times> rat) list"
  category_caps :: "(string \<times> rat) list"
  site_max_weight :: rat
  site_upper_quartile_weight :: rat
  site_top_average_weight :: rat
  site_direct_findings_weight :: rat

definition bounded_float :: "(string \<times> string) list \<Rightarrow> string \<Rightarrow> rat \<Rightarrow> rat \<Rightarrow> rat \<Rightarrow> rat" where
  "bounded_float environ name fallback minimum maximum =
     (case map_of environ name of
        None \<Rightarrow> fallback
      | Some raw \<Rightarrow>
          if py_strip is_space raw = [] then fallback
          else (case read_float raw of
                  Some (Finite value) \<Rightarrow> max minimum (min value maximum)
                | _ \<Rightarrow> fallback))"

definition load_risk_config :: "(string \<times> string) list \<Rightarrow> RiskConfig" where
  "load_risk_config environ =
     \<lparr>severity_weights = map (\<lambda>(severity, fallback). (severity,
        bounded_float environ (''OPENASSETWATCH_RISK_WEIGHT_'' @ map to_upper severity) fallback 0 60))
        SEVERITY_WEIGHTS,
      category_caps = map (\<lambda>(category, fallback). (category,
        bounded_float environ (''OPENASSETWATCH_RISK_CAP_'' @ map to_upper category) fallback 0 60))
        CATEGORY_CAPS,
      site_max_weight = fl (50 / 100), site_upper_quartile_weight = fl (30 / 100),
      site_top_average_weight = fl (20 / 100), site_direct_findings_weight = fl (35 / 100)\<rparr>"

section \<open>Scores and bands\<close>

record RiskFactor =
  factor_type :: string
  finding_id :: "string option"
  category :: string
  label :: string
  severity :: "string option"
  factor_confidence :: rat
  freshness :: string
  base_weight :: rat
  adjusted_weight :: rat
  ordinal :: int
  evidence_ref :: "string option"
  factor_match_id :: "string option"

record AssetRiskScore =
  as_site_id :: string
  as_asset_id :: string
  as_score :: int
  as_band :: string
  as_formula_version :: string
  as_finding_count :: int
  as_data_as_of :: "pyval option"
  as_factors :: "RiskFactor list"

record SiteRiskScore =
  ss_site_id :: string
  ss_score :: int
  ss_band :: string
  ss_formula_version :: string
  ss_asset_count :: int
  ss_finding_count :: int
  ss_data_as_of :: "pyval option"
  ss_factors :: "RiskFactor list"

definition risk_band :: "int \<Rightarrow> string" where
  "risk_band score =
     (if score \<ge> 80 then ''critical'' else if score \<ge> 60 then ''high''
      else if score \<ge> 35 then ''moderate'' else if score \<ge> 15 then ''low'' else ''minimal'')"

definition final_score :: "rat \<Rightarrow> int" where
  "final_score raw = max 0 (min (py_round raw) 100)"

section \<open>Contributions of findings\<close>

definition text_or :: "pydict \<Rightarrow> string \<Rightarrow> string \<Rightarrow> string" where
  "text_or d k fallback = py_str (py_or (get d k) (PStr fallback))"

definition nonempty_text :: "string \<Rightarrow> string option" where
  "nonempty_text s = (if s = [] then None else Some s)"

definition freshness_factor :: "string \<Rightarrow> rat" where
  "freshness_factor name =
     (case map_of FRESHNESS_FACTORS name of
        Some f \<Rightarrow> f
      | None \<Rightarrow> the (map_of FRESHNESS_FACTORS ''unknown''))"

text \<open>A finding with its confidence and its raw weight.\<close>

type_synonym graded = "pydict \<times> rat \<times> rat"

definition grade :: "RiskConfig \<Rightarrow> pydict \<Rightarrow> graded result" where
  "grade config finding =
     bind_result (confidence_value (get finding ''confidence'')) (\<lambda>confidence.
       let base = (case map_of (severity_weights config) (casefold (text_or finding ''severity'' [])) of
                     None \<Rightarrow> 0 | Some w \<Rightarrow> w);
           factor = freshness_factor (casefold (text_or finding ''evidence_freshness'' ''unknown''))
       in Inr (finding, confidence, fmul (fmul base confidence) factor))"

fun map_result :: "('a \<Rightarrow> 'b result) \<Rightarrow> 'a list \<Rightarrow> 'b list result" where
  "map_result f [] = Inr []"
| "map_result f (x # xs) = bind_result (f x) (\<lambda>y. bind_result (map_result f xs) (\<lambda>ys. Inr (y # ys)))"

definition finding_category :: "pydict \<Rightarrow> string" where
  "finding_category finding = casefold (text_or finding ''category'' ''other'')"

definition grade_key :: "graded \<Rightarrow> rat \<times> string" where
  "grade_key g = (- snd (snd g), text_or (fst g) ''finding_id'' [])"

definition category_cap :: "RiskConfig \<Rightarrow> string \<Rightarrow> rat" where
  "category_cap config name =
     (case map_of (category_caps config) name of
        Some cap \<Rightarrow> cap
      | None \<Rightarrow> (case map_of (category_caps config) ''other'' of Some cap \<Rightarrow> cap | None \<Rightarrow> 20))"

definition diminishing :: "nat \<Rightarrow> rat" where
  "diminishing index = DIMINISHING_FACTORS ! min index (length DIMINISHING_FACTORS - 1)"

definition finding_factor :: "string \<Rightarrow> nat \<Rightarrow> graded \<Rightarrow> rat \<Rightarrow> RiskFactor" where
  "finding_factor name index g adjusted =
     (case g of (finding, confidence, raw) \<Rightarrow>
       \<lparr>factor_type = ''finding'', finding_id = nonempty_text (text_or finding ''finding_id'' []),
        category = name,
        label = take 160 (py_str (py_or (get finding ''title'')
                  (py_or (get finding ''rule_id'') (PStr ''Deterministic finding'')))),
        severity = nonempty_text (text_or finding ''severity'' []),
        factor_confidence = confidence, freshness = text_or finding ''evidence_freshness'' ''unknown'',
        base_weight = py_round4 raw, adjusted_weight = py_round4 adjusted,
        ordinal = int index + 1, evidence_ref = None, factor_match_id = None\<rparr>)"

text \<open>The inner loop: what is left of the cap limits every further finding of the category.\<close>

fun category_loop :: "rat \<Rightarrow> string \<Rightarrow> nat \<Rightarrow> rat \<Rightarrow> graded list \<Rightarrow> RiskFactor list \<times> rat" where
  "category_loop cap name index used [] = ([], used)"
| "category_loop cap name index used (g # gs) =
     (let remaining = max 0 (fsub cap used);
          adjusted = min (fmul (snd (snd g)) (diminishing index)) remaining;
          (factors, used') = category_loop cap name (Suc index) (fadd used adjusted) gs
      in (finding_factor name index g adjusted # factors, used'))"

fun categories_loop :: "RiskConfig \<Rightarrow> (string, graded list) odict \<Rightarrow> rat \<Rightarrow> string list
    \<Rightarrow> RiskFactor list \<times> rat" where
  "categories_loop config grouped used [] = ([], used)"
| "categories_loop config grouped used (name # names) =
     (let (factors, category_total) =
            category_loop (category_cap config name) name 0 0
              (sort_key grade_key (group_of grouped name));
          (rest, used') = categories_loop config grouped (fadd used category_total) names
      in (factors @ rest, used'))"

text \<open>The second half of the function, on the graded findings.\<close>

definition contributions_of :: "RiskConfig \<Rightarrow> graded list \<Rightarrow> RiskFactor list \<times> rat" where
  "contributions_of config graded =
     (let grouped = group_by (\<lambda>g. finding_category (fst g)) graded []
      in categories_loop config grouped 0 (sort (map fst grouped)))"

definition finding_contributions :: "RiskConfig \<Rightarrow> pydict list \<Rightarrow> (RiskFactor list \<times> rat) result" where
  "finding_contributions config findings =
     bind_result (map_result (grade config) findings) (\<lambda>graded.
       let (factors, used) = contributions_of config graded
       in Inr (factors, min used 100))"

section \<open>Known-exploited priority\<close>

text \<open>A finding, one of its evidence entries, the confidence and the raw weight.\<close>

type_synonym candidate = "pydict \<times> pydict \<times> rat \<times> rat"

definition kev_base :: "string \<Rightarrow> rat" where
  "kev_base evidence_type =
     (if evidence_type = ''kev-prioritization-ransomware'' then KEV_RANSOMWARE_BASE_WEIGHT
      else KEV_BASE_WEIGHT)"

definition kev_key :: "pydict \<Rightarrow> pydict \<Rightarrow> string \<times> string" where
  "kev_key finding item = (text_or finding ''finding_id'' [], text_or item ''evidence_ref'' [])"

definition counts_as_kev :: "pydict \<Rightarrow> (string \<times> string) list \<Rightarrow> pydict \<Rightarrow> bool" where
  "counts_as_kev finding seen item \<longleftrightarrow>
     text_or item ''evidence_type'' [] \<in> {''kev-prioritization'', ''kev-prioritization-ransomware''} \<and>
     snd (kev_key finding item) \<noteq> [] \<and> kev_key finding item \<notin> set seen"

definition kev_candidate :: "pydict \<Rightarrow> pydict \<Rightarrow> candidate result" where
  "kev_candidate finding item =
     bind_result (confidence_value (get finding ''confidence'')) (\<lambda>confidence.
       Inr (finding, item, confidence,
            fmul (fmul (kev_base (text_or item ''evidence_type'' [])) confidence)
              (freshness_factor (casefold (text_or item ''freshness'' ''unknown'')))))"

fun evidence_candidates :: "pydict \<Rightarrow> (string \<times> string) list \<Rightarrow> pyval list
    \<Rightarrow> (candidate list \<times> (string \<times> string) list) result" where
  "evidence_candidates finding seen [] = Inr ([], seen)"
| "evidence_candidates finding seen (PDict item # items) =
     (if \<not> counts_as_kev finding seen item then evidence_candidates finding seen items
      else bind_result (kev_candidate finding item) (\<lambda>c.
             bind_result (evidence_candidates finding (kev_key finding item # seen) items)
               (\<lambda>(cs, seen'). Inr (c # cs, seen'))))"
| "evidence_candidates finding seen (_ # items) = evidence_candidates finding seen items"

fun kev_candidates :: "(string \<times> string) list \<Rightarrow> pydict list \<Rightarrow> candidate list result" where
  "kev_candidates seen [] = Inr []"
| "kev_candidates seen (finding # findings) =
     (if py_str (get finding ''rule_id'') \<noteq> ''vulnerable-component'' then kev_candidates seen findings
      else bind_result (evidence_candidates finding seen (list_items (get finding ''evidence'')))
             (\<lambda>(cs, seen'). bind_result (kev_candidates seen' findings) (\<lambda>rest. Inr (cs @ rest))))"

definition candidate_key :: "candidate \<Rightarrow> rat \<times> string \<times> string" where
  "candidate_key c =
     (case c of (finding, item, _, raw) \<Rightarrow>
       (- raw, text_or finding ''finding_id'' [], text_or item ''evidence_ref'' []))"

fun match_reference :: "pyval list \<Rightarrow> string option" where
  "match_reference [] = None"
| "match_reference (PDict item # items) =
     (if get item ''evidence_type'' = PStr ''vulnerability-match''
      then Some (py_str (get item ''evidence_ref'')) else match_reference items)"
| "match_reference (_ # items) = match_reference items"

definition kev_factor :: "int \<Rightarrow> candidate \<Rightarrow> rat \<Rightarrow> RiskFactor" where
  "kev_factor position c adjusted =
     (case c of (finding, item, confidence, raw) \<Rightarrow>
       \<lparr>factor_type = ''kev-priority'', finding_id = nonempty_text (text_or finding ''finding_id'' []),
        category = ''vulnerability-priority'',
        label = (if text_or item ''evidence_type'' [] = ''kev-prioritization-ransomware''
                 then ''CISA KEV ransomware-confirmed priority''
                 else ''CISA KEV known-exploited priority''),
        severity = None, factor_confidence = confidence,
        freshness = text_or item ''freshness'' ''unknown'',
        base_weight = py_round4 raw, adjusted_weight = py_round4 adjusted, ordinal = position,
        evidence_ref = nonempty_text (text_or item ''evidence_ref'' []),
        factor_match_id = match_reference (list_items (get finding ''evidence''))\<rparr>)"

fun kev_loop :: "int \<Rightarrow> rat \<Rightarrow> candidate list \<Rightarrow> RiskFactor list \<times> rat" where
  "kev_loop position used [] = ([], used)"
| "kev_loop position used (c # cs) =
     (let remaining = max 0 (fsub KEV_CATEGORY_CAP used);
          adjusted = min (snd (snd (snd c))) remaining;
          used' = fadd used adjusted;
          factor = kev_factor position c adjusted
      in if KEV_CATEGORY_CAP \<le> used' then ([factor], used')
         else let (factors, final) = kev_loop (position + 1) used' cs in (factor # factors, final))"

definition kev_contributions :: "pydict list \<Rightarrow> (RiskFactor list \<times> rat) result" where
  "kev_contributions findings =
     bind_result (kev_candidates [] findings) (\<lambda>cs. Inr (kev_loop 1 0 (sort_key candidate_key cs)))"

section \<open>Assets\<close>

definition open_status :: "pydict \<Rightarrow> bool" where
  "open_status finding \<longleftrightarrow> py_str (get finding ''status'') \<in> {''active'', ''acknowledged''}"

fun datetime_of :: "pyval \<Rightarrow> pyval option" where
  "datetime_of (PTime t) = Some (PTime t)"
| "datetime_of (PNaive t) = Some (PNaive t)"
| "datetime_of _ = None"

definition asset_score :: "RiskConfig \<Rightarrow> pydict list \<Rightarrow> string \<Rightarrow> string \<Rightarrow> pydict \<Rightarrow> AssetRiskScore result" where
  "asset_score config asset_findings site_id asset_id asset =
     bind_result (finding_contributions config asset_findings) (\<lambda>(factors, raw_score).
     bind_result (kev_contributions asset_findings) (\<lambda>(kev_factors, kev_score).
       let score = final_score (min (fadd raw_score kev_score) 100)
       in Inr \<lparr>as_site_id = site_id, as_asset_id = asset_id, as_score = score,
               as_band = risk_band score,
               as_formula_version = (if kev_factors = [] then FORMULA_VERSION else KEV_FORMULA_VERSION),
               as_finding_count = int (length asset_findings),
               as_data_as_of = datetime_of (py_or (get asset ''observed_at'') (get asset ''last_seen_at'')),
               as_factors = factors @ kev_factors\<rparr>))"

definition findings_by_asset :: "pydict list \<Rightarrow> (string \<times> string, pydict list) odict" where
  "findings_by_asset findings =
     group_by (\<lambda>f. (py_str (get f ''site_id''), py_str (get f ''asset_id'')))
       (filter (\<lambda>f. truthy (get f ''asset_id'') \<and> open_status f) findings) []"

definition asset_ids :: "pydict \<Rightarrow> string \<times> string" where
  "asset_ids asset = (text_or asset ''site_id'' [], text_or asset ''asset_id'' [])"

definition calculate_asset_risk :: "RiskConfig \<Rightarrow> pydict list \<Rightarrow> pydict list \<Rightarrow> AssetRiskScore list result" where
  "calculate_asset_risk config assets findings =
     (let by_asset = findings_by_asset findings;
          identified = filter (\<lambda>a. fst (asset_ids a) \<noteq> [] \<and> snd (asset_ids a) \<noteq> []) assets
      in bind_result
           (map_result (\<lambda>a. asset_score config (group_of by_asset (asset_ids a))
                              (fst (asset_ids a)) (snd (asset_ids a)) a) identified)
           (\<lambda>scores. Inr (sort_key (\<lambda>s. (as_site_id s, as_asset_id s)) scores)))"

section \<open>Sites\<close>

definition percentile_nearest_rank :: "int list \<Rightarrow> rat \<Rightarrow> int" where
  "percentile_nearest_rank values percentile =
     (if values = [] then 0
      else sort values ! nat (max 1 \<lceil>fmul percentile (of_nat (length values))\<rceil> - 1))"

fun later :: "pyval \<Rightarrow> pyval \<Rightarrow> pyval result" where
  "later (PTime a) (PTime b) = Inr (PTime (max a b))"
| "later (PNaive a) (PNaive b) = Inr (PNaive (max a b))"
| "later _ _ = Inl TypeError"

fun latest_of :: "pyval \<Rightarrow> pyval list \<Rightarrow> pyval result" where
  "latest_of v [] = Inr v"
| "latest_of v (w # ws) = bind_result (later v w) (\<lambda>u. latest_of u ws)"

definition latest :: "pyval list \<Rightarrow> pyval option result" where
  "latest vs =
     (case vs of [] \<Rightarrow> Inr None | v # ws \<Rightarrow> bind_result (latest_of v ws) (\<lambda>u. Inr (Some u)))"

definition portfolio_factor :: "string \<Rightarrow> rat \<Rightarrow> rat \<Rightarrow> int \<Rightarrow> RiskFactor" where
  "portfolio_factor text base adjusted position =
     \<lparr>factor_type = ''portfolio'', finding_id = None, category = ''asset-portfolio'', label = text,
      severity = None, factor_confidence = 1, freshness = ''fresh'', base_weight = base,
      adjusted_weight = adjusted, ordinal = position, evidence_ref = None, factor_match_id = None\<rparr>"

definition top_average :: "int list \<Rightarrow> rat" where
  "top_average values =
     (let top_values = take 10 (sorted_by_desc id values)
      in if top_values = [] then 0 else fl (of_int (sum_list top_values) / of_nat (length top_values)))"

text \<open>\<^verbatim>\<open>max(values, default=0)\<close>.\<close>

definition max_or_zero :: "int list \<Rightarrow> int" where
  "max_or_zero values = (case values of [] \<Rightarrow> 0 | v # vs \<Rightarrow> fold max vs v)"

definition portfolio_score :: "RiskConfig \<Rightarrow> int list \<Rightarrow> rat" where
  "portfolio_score config values =
     fadd (fadd (fmul (of_int (max_or_zero values)) (site_max_weight config))
             (fmul (of_int (percentile_nearest_rank values (3 / 4))) (site_upper_quartile_weight config)))
       (fmul (top_average values) (site_top_average_weight config))"

definition direct_component :: "RiskConfig \<Rightarrow> rat \<Rightarrow> rat \<Rightarrow> rat" where
  "direct_component config portfolio direct_score =
     fmul (fmul (fsub 100 portfolio) (fdiv direct_score 100)) (site_direct_findings_weight config)"

definition site_score :: "RiskConfig \<Rightarrow> AssetRiskScore list \<Rightarrow> pydict list \<Rightarrow> string \<Rightarrow> SiteRiskScore result" where
  "site_score config scores direct_findings site_id =
     (let values = map as_score scores;
          maximum = max_or_zero values;
          upper_quartile = percentile_nearest_rank values (3 / 4);
          average = top_average values;
          portfolio = portfolio_score config values
      in bind_result (finding_contributions config direct_findings) (\<lambda>(direct_factors, direct_score).
           let component = direct_component config portfolio direct_score;
               combined = fadd portfolio component;
               direct_scale = (if direct_score \<noteq> 0 then fdiv component direct_score else 0);
               scaled = map (\<lambda>f. f\<lparr>factor_type := ''site-finding'',
                                    adjusted_weight := py_round4 (fmul (adjusted_weight f) direct_scale)\<rparr>)
                          direct_factors;
               score = final_score combined;
               portfolio_factors =
                 [portfolio_factor ''Highest asset risk'' (of_int maximum)
                    (py_round4 (fmul (of_int maximum) (site_max_weight config))) 1,
                  portfolio_factor ''Upper-quartile asset risk'' (of_int upper_quartile)
                    (py_round4 (fmul (of_int upper_quartile) (site_upper_quartile_weight config))) 2,
                  portfolio_factor ''Top-ten asset risk average'' (py_round4 average)
                    (py_round4 (fmul average (site_top_average_weight config))) 3]
           in bind_result (latest (List.map_filter as_data_as_of scores)) (\<lambda>data_as_of.
                Inr \<lparr>ss_site_id = site_id, ss_score = score, ss_band = risk_band score,
                     ss_formula_version =
                       (if list_ex (\<lambda>s. as_formula_version s = KEV_FORMULA_VERSION) scores
                        then KEV_FORMULA_VERSION else FORMULA_VERSION),
                     ss_asset_count = int (length scores),
                     ss_finding_count =
                       sum_list (map as_finding_count scores) + int (length direct_findings),
                     ss_data_as_of = data_as_of,
                     ss_factors = portfolio_factors @ scaled\<rparr>)))"

definition direct_findings_by_site :: "pydict list \<Rightarrow> (string, pydict list) odict" where
  "direct_findings_by_site findings =
     group_by (\<lambda>f. text_or f ''site_id'' [])
       (filter (\<lambda>f. \<not> truthy (get f ''asset_id'') \<and> open_status f) findings) []"

definition calculate_site_risk :: "RiskConfig \<Rightarrow> pydict list \<Rightarrow> AssetRiskScore list \<Rightarrow> pydict list
    \<Rightarrow> SiteRiskScore list result" where
  "calculate_site_risk config sites asset_scores findings =
     (let by_site = group_by as_site_id asset_scores [];
          direct_by_site = direct_findings_by_site findings;
          ids = filter (\<lambda>s. s \<noteq> []) (map (\<lambda>site. text_or site ''site_id'' []) sites)
      in bind_result
           (map_result (\<lambda>s. site_score config (group_of by_site s) (group_of direct_by_site s) s) ids)
           (\<lambda>scores. Inr (sort_key ss_site_id scores)))"

definition calculate_risk :: "RiskConfig option \<Rightarrow> (string \<times> string) list \<Rightarrow> pydict list \<Rightarrow> pydict list
    \<Rightarrow> pydict list \<Rightarrow> (AssetRiskScore list \<times> SiteRiskScore list) result" where
  "calculate_risk config environ sites assets findings =
     (let resolved = (case config of Some c \<Rightarrow> c | None \<Rightarrow> load_risk_config environ)
      in bind_result (calculate_asset_risk resolved assets findings) (\<lambda>asset_scores.
         bind_result (calculate_site_risk resolved sites asset_scores findings) (\<lambda>site_scores.
           Inr (asset_scores, site_scores))))"

end
