(* ===== verification/Risk_Laws.thy ===== *)
theory Risk_Laws
  imports Risk_Scoring
begin

text \<open>
  What the risk model (src/backend/app/risk.py) promises: caps hold under binary64 rounding, weights stay
  within their base, scores do not depend on the order of the findings, known-exploited evidence is
  counted once and bounded, percentiles are nearest-rank, and site scores stay within their range.
\<close>

section \<open>Caps\<close>

text \<open>
  A cap that rounding cannot push a sum over: the largest rounding error of a difference below the
  cap is half of its last place, and the cap plus that half rounds back to the cap.
\<close>

definition tight_cap :: "rat \<Rightarrow> bool" where
  "tight_cap cap \<longleftrightarrow> 0 < cap \<and> - 1000 \<le> binade cap \<and> fl cap = cap \<and> fl (cap + pow2 (binade cap - 53)) = cap"

lemma tight_caps: "list_all tight_cap [20, 25, 30, 35, 50]"
  by code_simp

lemma cap_step:
  assumes "tight_cap cap" "0 \<le> used" "used \<le> cap" "0 \<le> x"
  defines "adjusted \<equiv> min x (max 0 (fsub cap used))"
  shows "0 \<le> adjusted" "adjusted \<le> x" "fl used = used \<Longrightarrow> used \<le> fadd used adjusted" "fadd used adjusted \<le> cap"
proof -
  show "0 \<le> adjusted" "adjusted \<le> x" using assms(4) by (simp_all add: adjusted_def)
  then show "fl used = used \<Longrightarrow> used \<le> fadd used adjusted"
    unfolding fadd_def by (intro b64.rnd_add_ge)
  have cap: "0 < cap" "- 1000 \<le> binade cap" "fl cap = cap" "fl (cap + pow2 (binade cap - 53)) = cap"
    using assms(1) by (simp_all add: tight_cap_def)
  have "cap - used < pow2 (binade cap + 1)" using binade_bounds [OF cap(1)] assms(2) by linarith
  then have "\<bar>fl (cap - used) - (cap - used)\<bar> \<le> pow2 (binade cap + 1 - 54)"
    using assms(3) cap(2) by (intro fl_error) simp_all
  then have "fsub cap used \<le> cap - used + pow2 (binade cap - 53)"
    unfolding fsub_def by (simp add: abs_le_iff)
  moreover have "0 \<le> cap - used + pow2 (binade cap - 53)" using assms(3) by simp
  ultimately have "adjusted \<le> cap - used + pow2 (binade cap - 53)" by (simp add: adjusted_def)
  then have "fadd used adjusted \<le> fl (cap + pow2 (binade cap - 53))"
    unfolding fadd_def by (intro fl_mono) simp
  then show "fadd used adjusted \<le> cap" by (simp add: cap(4))
qed

lemma diminishing_bounds: "0 \<le> diminishing index \<and> diminishing index \<le> 1"
proof -
  have "list_all (\<lambda>d. 0 \<le> d \<and> d \<le> 1) DIMINISHING_FACTORS" "length DIMINISHING_FACTORS = 4" by code_simp+
  then show ?thesis unfolding diminishing_def by (simp add: list_all_length)
qed

lemma freshness_factor_bounds: "0 \<le> freshness_factor name \<and> freshness_factor name \<le> 1"
proof -
  have "list_all (\<lambda>(k, f). 0 \<le> f \<and> f \<le> 1) FRESHNESS_FACTORS"
    "0 \<le> the (map_of FRESHNESS_FACTORS ''unknown'') \<and> the (map_of FRESHNESS_FACTORS ''unknown'') \<le> 1"
    by code_simp+
  then show ?thesis
    by (auto simp: freshness_factor_def list_all_iff dest!: map_of_SomeD split: option.split)
qed

definition weighted :: "graded \<Rightarrow> bool" where
  "weighted g \<longleftrightarrow> 0 \<le> snd (snd g) \<and> fl (snd (snd g)) = snd (snd g)"

definition factor_bounded :: "RiskFactor \<Rightarrow> bool" where
  "factor_bounded f \<longleftrightarrow> 0 \<le> adjusted_weight f \<and> adjusted_weight f \<le> base_weight f"

lemma category_loop_bounds:
  assumes "tight_cap cap" "list_all weighted gs" "0 \<le> used" "used \<le> cap" "fl used = used"
  shows "used \<le> snd (category_loop cap name i used gs) \<and> snd (category_loop cap name i used gs) \<le> cap \<and>
    fl (snd (category_loop cap name i used gs)) = snd (category_loop cap name i used gs) \<and>
    list_all factor_bounded (fst (category_loop cap name i used gs)) \<and>
    length (fst (category_loop cap name i used gs)) = length gs"
  using assms(2-)
proof (induction gs arbitrary: i used)
  case Nil
  then show ?case by simp
next
  case (Cons g gs)
  let ?x = "fmul (snd (snd g)) (diminishing i)"
  let ?adj = "min ?x (max 0 (fsub cap used))"
  have x: "0 \<le> ?x" "?x \<le> snd (snd g)"
    using Cons.prems(1) diminishing_bounds [of i]
    by (simp_all add: weighted_def fmul_def b64.rnd_mult_nonneg b64.rnd_mult_le)
  note step = cap_step [OF assms(1) Cons.prems(2,3) x(1)]
  have "factor_bounded (finding_factor name i g ?adj)"
    using step(1,2) x(2)
    by (auto simp: factor_bounded_def finding_factor_def py_round4_nonneg split: prod.split
        intro!: py_round4_mono)
  moreover note Cons.IH [of "fadd used ?adj" "Suc i"]
  ultimately show ?case using Cons.prems step by (auto simp: Let_def split: prod.splits)
qed

section \<open>Grading\<close>

lemma map_result_Inr: "map_result f xs = Inr ys \<longleftrightarrow> map f xs = map Inr ys"
  by (induction xs arbitrary: ys) (auto simp: bind_result_eq_Inr_iff Cons_eq_map_conv)

lemma map_result_length: "map_result f xs = Inr ys \<Longrightarrow> length ys = length xs"
  unfolding map_result_Inr by (metis length_map)

lemma map_result_all:
  assumes "map_result f xs = Inr ys" "\<And>x y. x \<in> set xs \<Longrightarrow> f x = Inr y \<Longrightarrow> P y"
  shows "list_all P ys"
proof -
  have "P y" if "y \<in> set ys" for y
  proof -
    have "Inr y \<in> set (map f xs)" using assms(1) that unfolding map_result_Inr by simp
    then show ?thesis using assms(2) by fastforce
  qed
  then show ?thesis by (simp add: list_all_iff)
qed

definition nonneg_weights :: "RiskConfig \<Rightarrow> bool" where
  "nonneg_weights config \<longleftrightarrow> list_all (\<lambda>(k, w). 0 \<le> w) (severity_weights config)"

lemma grade_weighted:
  assumes "nonneg_weights config" "grade config finding = Inr g"
  shows "weighted g \<and> fst g = finding"
proof -
  obtain c where "confidence_value (get finding ''confidence'') = Inr c"
    and g: "g = (finding, c, fmul (fmul (case map_of (severity_weights config)
        (casefold (text_or finding ''severity'' [])) of None \<Rightarrow> 0 | Some w \<Rightarrow> w) c)
        (freshness_factor (casefold (text_or finding ''evidence_freshness'' ''unknown''))))"
    using assms(2) by (auto simp: grade_def bind_result_eq_Inr_iff Let_def)
  moreover have "0 \<le> (case map_of (severity_weights config) k of None \<Rightarrow> 0 | Some w \<Rightarrow> w)" for k
    using assms(1) by (auto simp: nonneg_weights_def list_all_iff dest!: map_of_SomeD split: option.split)
  ultimately show ?thesis
    using confidence_value_bounds freshness_factor_bounds by (simp add: weighted_def)
qed

definition tight_caps_of :: "RiskConfig \<Rightarrow> bool" where
  "tight_caps_of config \<longleftrightarrow> (\<forall>name. tight_cap (category_cap config name))"

lemma categories_loop_bounds:
  assumes "tight_caps_of config" "\<And>name. list_all weighted (group_of grouped name)"
  shows "0 \<le> used \<Longrightarrow> 0 \<le> snd (categories_loop config grouped used names) \<and>
    list_all factor_bounded (fst (categories_loop config grouped used names)) \<and>
    length (fst (categories_loop config grouped used names)) =
      sum_list (map (\<lambda>n. length (group_of grouped n)) names)"
proof (induction names arbitrary: used)
  case (Cons name names)
  let ?gs = "sort_key grade_key (group_of grouped name)"
  obtain fs w where one: "category_loop (category_cap config name) name 0 0 ?gs = (fs, w)" by fastforce
  obtain rest v where two: "categories_loop config grouped (fadd used w) names = (rest, v)" by fastforce
  have "list_all weighted ?gs" using assms(2) [of name] by (simp add: list_all_iff)
  moreover have cap: "tight_cap (category_cap config name)" using assms(1) by (simp add: tight_caps_of_def)
  moreover have "0 \<le> category_cap config name" using cap by (simp add: tight_cap_def)
  ultimately have "0 \<le> w" "list_all factor_bounded fs" "length fs = length (group_of grouped name)"
    using category_loop_bounds [of "category_cap config name" ?gs 0 name 0] one by simp_all
  then show ?case using Cons.IH [of "fadd used w"] Cons.prems one two by simp
qed simp

lemma sum_length_groups:
  "(\<Sum>n \<leftarrow> sort (map fst (group_by f xs [])). length (group_of (group_by f xs []) n)) = length xs"
proof -
  let ?ks = "sort (map fst (group_by f xs []))"
  have "distinct ?ks" by (simp add: distinct_keys_group_by)
  moreover have "set ?ks = f ` set xs" using keys_group_by [of f xs "[]"] by simp
  ultimately have "(\<Sum>n \<leftarrow> ?ks. length (group_of (group_by f xs []) n)) =
      (\<Sum>n \<in> f ` set xs. length (filter (\<lambda>x. f x = n) xs))"
    by (simp only: sum_list_distinct_conv_sum_set group_of_group_by_Nil)
  also have "\<dots> = length xs"
  proof (induction xs)
    case (Cons x xs)
    have "(\<Sum>n \<in> f ` set (x # xs). length (filter (\<lambda>y. f y = n) (x # xs))) =
      (\<Sum>n \<in> f ` set (x # xs). (if n = f x then 1 else 0) + length (filter (\<lambda>y. f y = n) xs))"
      by (rule sum.cong) auto
    also have "\<dots> = 1 + (\<Sum>n \<in> f ` set (x # xs). length (filter (\<lambda>y. f y = n) xs))"
      by (simp only: sum.distrib) simp
    also have "(\<Sum>n \<in> f ` set (x # xs). length (filter (\<lambda>y. f y = n) xs)) =
      (\<Sum>n \<in> f ` set xs. length (filter (\<lambda>y. f y = n) xs))"
      by (rule sum.mono_neutral_right) (auto simp: filter_empty_conv)
    finally show ?case by (simp only: Cons.IH list.size)
  qed simp
  finally show ?thesis .
qed

lemma finding_contributions_range:
  assumes "nonneg_weights config" "tight_caps_of config"
    and "finding_contributions config findings = Inr (factors, total_weight)"
  shows "length factors = length findings \<and> 0 \<le> total_weight \<and> total_weight \<le> 100 \<and>
    list_all factor_bounded factors"
proof -
  obtain gs where gs: "map_result (grade config) findings = Inr gs"
    and factors: "factors = fst (contributions_of config gs)"
    and w: "total_weight = min (snd (contributions_of config gs)) 100"
    using assms(3) by (auto simp: finding_contributions_def bind_result_eq_Inr_iff case_prod_unfold Let_def)
  have "list_all weighted gs"
    by (rule map_result_all [OF gs]) (use grade_weighted [OF assms(1)] in blast)
  then have "list_all weighted (group_of (group_by (\<lambda>g. finding_category (fst g)) gs []) name)" for name
    by (simp add: list_all_iff)
  note bounds = categories_loop_bounds [OF assms(2) this, of 0
    "sort (map fst (group_by (\<lambda>g. finding_category (fst g)) gs []))"]
  have "length factors = length gs" "0 \<le> snd (contributions_of config gs)" "list_all factor_bounded factors"
    unfolding factors using bounds sum_length_groups [of "\<lambda>g. finding_category (fst g)" gs]
    by (simp_all add: contributions_of_def Let_def)
  then show ?thesis
    using map_result_length [OF gs] w by simp
qed

text \<open>C22. Contributions are bounded: with nonnegative severity weights and caps that rounding cannot
  exceed (the defaults are), every finding yields one factor whose adjusted weight lies between 0
  and its base weight, and the total lies between 0 and 100.\<close>

theorem finding_contributions_bounded:
  assumes "nonneg_weights config" "tight_caps_of config"
    and "finding_contributions config findings = Inr (factors, total_weight)"
  shows "length factors = length findings \<and> 0 \<le> total_weight \<and> total_weight \<le> 100 \<and>
    list_all (\<lambda>f. 0 \<le> adjusted_weight f \<and> adjusted_weight f \<le> base_weight f) factors"
  using finding_contributions_range [OF assms] by (simp add: factor_bounded_def [abs_def])

section \<open>The order of the findings\<close>

lemma sort_mset_eq: "mset xs = mset ys \<Longrightarrow> sort xs = sort (ys :: 'a::linorder list)"
  by (rule properties_for_sort) simp_all

lemma sort_keys_group_by:
  assumes "mset xs = mset ys"
  shows "sort (map fst (group_by f xs [])) = sort (map fst (group_by (f :: 'a \<Rightarrow> 'k::linorder) ys []))"
proof (rule sort_mset_eq)
  have "distinct (map fst (group_by f zs []))" for zs by (simp add: distinct_keys_group_by)
  moreover have "set (map fst (group_by f xs [])) = set (map fst (group_by f ys []))"
    using keys_group_by [of f xs "[]"] keys_group_by [of f ys "[]"] mset_eq_setD [OF assms] by simp
  ultimately show "mset (map fst (group_by f xs [])) = mset (map fst (group_by f ys []))"
    using set_eq_iff_mset_eq_distinct by blast
qed

lemma categories_loop_cong:
  assumes "\<And>name. sort_key grade_key (group_of g name) = sort_key grade_key (group_of h name)"
  shows "categories_loop config g used names = categories_loop config h used names"
  by (induction names arbitrary: used) (simp_all add: assms)

lemma contributions_of_perm:
  assumes "mset gs = mset hs" "inj_on grade_key (set gs)"
  shows "contributions_of config gs = contributions_of config hs"
proof -
  let ?f = "\<lambda>g. finding_category (fst g)"
  have "sort_key grade_key (filter P gs) = sort_key grade_key (filter P hs)" for P
  proof (rule sort_key_inj_key_eq)
    show "mset (filter P gs) = mset (sort_key grade_key (filter P hs))" using assms(1) by simp
    show "inj_on grade_key (set (filter P gs))" by (rule inj_on_subset [OF assms(2)]) auto
  qed simp
  then have "categories_loop config (group_by ?f gs []) 0 names =
      categories_loop config (group_by ?f hs []) 0 names" for names
    by (intro categories_loop_cong) simp
  then show ?thesis
    using sort_keys_group_by [OF assms(1), of ?f] by (simp add: contributions_of_def Let_def)
qed

lemma map_result_perm:
  assumes "mset xs = mset ys" "map_result f xs = Inr zs"
  obtains ws where "map_result f ys = Inr ws" "mset ws = mset zs"
proof -
  have all: "f x = Inr (projr (f x))" if "x \<in> set xs" for x
  proof -
    have "f x \<in> set (map Inr zs)" using that assms(2) unfolding map_result_Inr by (metis image_eqI list.set_map)
    then show ?thesis by auto
  qed
  then have "map f ys = map Inr (map (\<lambda>x. projr (f x)) ys)"
    using mset_eq_setD [OF assms(1)] by simp
  then have "map_result f ys = Inr (map (\<lambda>x. projr (f x)) ys)" by (simp add: map_result_Inr)
  moreover have "zs = map (\<lambda>x. projr (f x)) xs"
    using arg_cong [OF assms(2) [unfolded map_result_Inr], of "map projr"] by (simp add: comp_def)
  ultimately show thesis
    using assms(1) that [of "map (\<lambda>x. projr (f x)) ys"] by (simp only: mset_map)
qed

lemma map_result_Inl: "map_result f xs = Inl e \<Longrightarrow> \<exists>x \<in> set xs. f x = Inl e"
  by (induction xs) (auto simp: bind_result_def split: sum.splits)

lemma confidence_value_error: "confidence_value v = Inl e \<Longrightarrow> e = OverflowError"
  by (cases v rule: confidence_value.cases) (auto split: if_splits sum.splits pyfloat.splits)

lemma grade_error: "grade config f = Inl e \<Longrightarrow> e = OverflowError"
  by (auto simp: grade_def bind_result_def Let_def dest: confidence_value_error split: sum.splits)

text \<open>C23. The score does not depend on the order in which the findings arrive: for findings with
  different identifiers every permutation gives the same factors, in the same order and with the
  same weights, and the same total; an exception in one order is an exception in every order.\<close>

theorem finding_contributions_order:
  assumes "mset fs = mset gs" "inj_on (\<lambda>f. text_or f ''finding_id'' []) (set fs)"
  shows "finding_contributions config fs = finding_contributions config gs"
proof (cases "map_result (grade config) fs")
  case (Inl e)
  obtain e' where "map_result (grade config) gs = Inl e'"
  proof (cases "map_result (grade config) gs")
    case (Inr ys)
    then show ?thesis using map_result_perm [OF assms(1) [symmetric] Inr] Inl by auto
  qed
  then show ?thesis
    using Inl by (auto simp: finding_contributions_def dest!: map_result_Inl grade_error)
next
  case (Inr zs)
  obtain ws where ws: "map_result (grade config) gs = Inr ws" "mset ws = mset zs"
    by (rule map_result_perm [OF assms(1) Inr])
  have graded: "fst z \<in> set fs \<and> grade config (fst z) = Inr z" if "z \<in> set zs" for z
  proof -
    have "Inr z \<in> set (map (grade config) fs)" using Inr that unfolding map_result_Inr by simp
    then obtain f where "f \<in> set fs" "grade config f = Inr z" by auto
    moreover from this have "fst z = f" by (auto simp: grade_def bind_result_eq_Inr_iff Let_def)
    ultimately show ?thesis by simp
  qed
  have "inj_on grade_key (set zs)"
  proof (rule inj_onI)
    fix x y
    assume x: "x \<in> set zs" and y: "y \<in> set zs" and key: "grade_key x = grade_key y"
    have "text_or (fst x) ''finding_id'' [] = text_or (fst y) ''finding_id'' []"
      using key by (simp add: grade_key_def)
    then have "fst x = fst y"
      by (rule inj_onD [OF assms(2) _ conjunct1 [OF graded [OF x]] conjunct1 [OF graded [OF y]]])
    then show "x = y"
      using conjunct2 [OF graded [OF x]] conjunct2 [OF graded [OF y]] by (metis sum.inject(2))
  qed
  then have "contributions_of config zs = contributions_of config ws"
    using ws(2) by (intro contributions_of_perm) simp_all
  then show ?thesis using Inr ws(1) by (simp add: finding_contributions_def)
qed


section \<open>Known-exploited priority\<close>

definition candidate_ref :: "candidate \<Rightarrow> string \<times> string" where
  "candidate_ref c = kev_key (fst c) (fst (snd c))"

definition candidate_ok :: "candidate \<Rightarrow> bool" where
  "candidate_ok c \<longleftrightarrow> 0 \<le> snd (snd (snd c)) \<and> snd (candidate_ref c) \<noteq> []"

lemma kev_candidate_ok:
  assumes "kev_candidate finding item = Inr c" "counts_as_kev finding seen item"
  shows "candidate_ok c \<and> candidate_ref c = kev_key finding item \<and> fst c = finding"
proof -
  have "0 \<le> kev_base e" for e
    by (simp add: kev_base_def KEV_RANSOMWARE_BASE_WEIGHT_def KEV_BASE_WEIGHT_def)
  then show ?thesis
    using assms confidence_value_bounds freshness_factor_bounds
    by (auto simp: kev_candidate_def bind_result_eq_Inr_iff candidate_ok_def candidate_ref_def counts_as_kev_def)
qed

text \<open>The candidates of one finding are new, and their keys are remembered.\<close>

definition fresh_candidates :: "(string \<times> string) list \<Rightarrow> candidate list \<Rightarrow> (string \<times> string) list \<Rightarrow> bool" where
  "fresh_candidates seen cs seen' \<longleftrightarrow>
     distinct (map candidate_ref cs) \<and> set (map candidate_ref cs) \<inter> set seen = {} \<and>
     set seen' = set seen \<union> set (map candidate_ref cs) \<and> list_all candidate_ok cs"

lemma fresh_candidates_Nil: "fresh_candidates seen [] seen"
  by (simp add: fresh_candidates_def)

lemma fresh_candidates_append:
  "fresh_candidates seen cs s \<Longrightarrow> fresh_candidates s ds t \<Longrightarrow> fresh_candidates seen (cs @ ds) t"
  by (auto simp: fresh_candidates_def)

lemma evidence_candidates_fresh:
  "evidence_candidates finding seen items = Inr (cs, seen') \<Longrightarrow>
    fresh_candidates seen cs seen' \<and> (\<forall>c \<in> set cs. fst c = finding)"
proof (induction finding seen items arbitrary: cs seen' rule: evidence_candidates.induct)
  case (2 finding seen item items)
  show ?case
  proof (cases "counts_as_kev finding seen item")
    case False
    then show ?thesis using 2(1) [OF False] 2(3) by simp
  next
    case True
    then obtain c ds where c: "kev_candidate finding item = Inr c"
      and ds: "evidence_candidates finding (kev_key finding item # seen) items = Inr (ds, seen')"
      and cs: "cs = c # ds"
      using 2(3) by (auto simp: bind_result_eq_Inr_iff)
    note ok = kev_candidate_ok [OF c True]
    have "fresh_candidates (kev_key finding item # seen) ds seen'" "\<forall>c \<in> set ds. fst c = finding"
      using 2(2) [OF _ ds] True by auto
    moreover have "fresh_candidates seen [c] (kev_key finding item # seen)"
      using ok True by (auto simp: fresh_candidates_def counts_as_kev_def)
    ultimately show ?thesis
      using fresh_candidates_append [of seen "[c]"] ok by (auto simp: cs)
  qed
qed (simp_all add: fresh_candidates_Nil)

lemma kev_candidates_fresh:
  "kev_candidates seen fs = Inr cs \<Longrightarrow> \<exists>seen'. fresh_candidates seen cs seen' \<and>
    (\<forall>c \<in> set cs. fst c \<in> set fs \<and> py_str (get (fst c) ''rule_id'') = ''vulnerable-component'')"
proof (induction fs arbitrary: seen cs)
  case Nil
  then show ?case using fresh_candidates_Nil by auto
next
  case (Cons f fs)
  show ?case
  proof (cases "py_str (get f ''rule_id'') = ''vulnerable-component''")
    case True
    then obtain ds s es where ds: "evidence_candidates f seen (list_items (get f ''evidence'')) = Inr (ds, s)"
      and es: "kev_candidates s fs = Inr es" and cs: "cs = ds @ es"
      using Cons.prems by (auto simp: bind_result_eq_Inr_iff)
    obtain t where "fresh_candidates s es t"
      "\<forall>c \<in> set es. fst c \<in> set fs \<and> py_str (get (fst c) ''rule_id'') = ''vulnerable-component''"
      using Cons.IH [OF es] by blast
    then show ?thesis
      using fresh_candidates_append evidence_candidates_fresh [OF ds] True by (fastforce simp: cs)
  next
    case False
    then have "kev_candidates seen fs = Inr cs" using Cons.prems by simp
    from Cons.IH [OF this] show ?thesis by auto
  qed
qed

definition factor_key :: "RiskFactor \<Rightarrow> string option \<times> string option" where
  "factor_key f = (finding_id f, evidence_ref f)"

lemma inj_nonempty_text: "nonempty_text s = nonempty_text t \<Longrightarrow> s = t"
  by (auto simp: nonempty_text_def split: if_splits)

lemma factor_key_kev: "factor_key (kev_factor i c adj) = map_prod nonempty_text nonempty_text (candidate_ref c)"
  by (auto simp: factor_key_def kev_factor_def candidate_ref_def kev_key_def split: prod.split)

lemma tight_kev_cap: "tight_cap KEV_CATEGORY_CAP"
  by code_simp

lemma kev_loop_bounds:
  assumes "list_all candidate_ok cs" "0 \<le> used" "used \<le> KEV_CATEGORY_CAP" "fl used = used"
  shows "used \<le> snd (kev_loop i used cs) \<and> snd (kev_loop i used cs) \<le> KEV_CATEGORY_CAP \<and>
    list_all factor_bounded (fst (kev_loop i used cs)) \<and>
    (\<exists>n. map factor_key (fst (kev_loop i used cs)) =
      map (map_prod nonempty_text nonempty_text) (map candidate_ref (take n cs)))"
  using assms
proof (induction cs arbitrary: i used)
  case Nil
  then show ?case by simp
next
  case (Cons c cs)
  let ?x = "snd (snd (snd c))"
  let ?adj = "min ?x (max 0 (fsub KEV_CATEGORY_CAP used))"
  have x: "0 \<le> ?x" using Cons.prems(1) by (simp add: candidate_ok_def)
  note step = cap_step [OF tight_kev_cap Cons.prems(2,3) x]
  have fb: "factor_bounded (kev_factor i c ?adj)"
    using step(1,2)
    by (auto simp: factor_bounded_def kev_factor_def py_round4_nonneg split: prod.split intro!: py_round4_mono)
  show ?case
  proof (cases "KEV_CATEGORY_CAP \<le> fadd used ?adj")
    case True
    then show ?thesis using step(3,4) fb Cons.prems(4)
      by (auto simp: Let_def factor_key_kev intro!: exI [of _ 1])
  next
    case False
    obtain fs w where rec: "kev_loop (i + 1) (fadd used ?adj) cs = (fs, w)" by fastforce
    have "fadd used ?adj \<le> w \<and> w \<le> KEV_CATEGORY_CAP \<and> list_all factor_bounded fs \<and>
      (\<exists>n. map factor_key fs = map (map_prod nonempty_text nonempty_text) (map candidate_ref (take n cs)))"
      using Cons.IH [of "fadd used ?adj" "i + 1"] Cons.prems step rec by simp
    then obtain n where n: "fadd used ?adj \<le> w" "w \<le> KEV_CATEGORY_CAP" "list_all factor_bounded fs"
      "map factor_key fs = map (map_prod nonempty_text nonempty_text) (map candidate_ref (take n cs))"
      by blast
    then show ?thesis using False rec step(3) fb Cons.prems(4)
      by (auto simp: Let_def factor_key_kev intro!: exI [of _ "Suc n"])
  qed
qed

text \<open>C24. Known-exploited evidence can raise an asset's weight by at most 20, whatever the number of
  findings and however they repeat: every factor is bounded by its base weight and no pair of
  finding and evidence reference is counted twice.\<close>

theorem kev_contributions_bounded:
  assumes "kev_contributions findings = Inr (factors, weight)"
  shows "0 \<le> weight \<and> weight \<le> 20 \<and> distinct (map (\<lambda>f. (finding_id f, evidence_ref f)) factors) \<and>
    list_all (\<lambda>f. 0 \<le> adjusted_weight f \<and> adjusted_weight f \<le> base_weight f) factors"
proof -
  obtain cs where cs: "kev_candidates [] findings = Inr cs"
    and out: "kev_loop 1 0 (sort_key candidate_key cs) = (factors, weight)"
    using assms by (auto simp: kev_contributions_def bind_result_eq_Inr_iff)
  let ?sorted = "sort_key candidate_key cs"
  obtain s where "fresh_candidates [] cs s" using kev_candidates_fresh [OF cs] by blast
  then have ok: "list_all candidate_ok ?sorted" and "distinct (map candidate_ref cs)"
    by (simp_all add: fresh_candidates_def list_all_iff)
  then have "distinct (map candidate_ref ?sorted)"
    by (metis distinct_map mset_eq_imp_distinct_iff mset_sort set_sort)
  then have d: "distinct (map candidate_ref (take n ?sorted))" for n
    by (metis distinct_take take_map)
  have inj: "inj_on (map_prod nonempty_text nonempty_text) A" for A
    by (rule inj_onI) (auto dest: inj_nonempty_text)
  have "0 \<le> weight \<and> weight \<le> KEV_CATEGORY_CAP \<and> list_all factor_bounded factors \<and>
    (\<exists>n. map factor_key factors = map (map_prod nonempty_text nonempty_text) (map candidate_ref (take n ?sorted)))"
    using kev_loop_bounds [OF ok, of 0 1] out by (simp add: KEV_CATEGORY_CAP_def)
  moreover from this have "distinct (map factor_key factors)"
    using d inj by (metis distinct_map)
  ultimately show ?thesis
    by (simp add: KEV_CATEGORY_CAP_def factor_key_def [abs_def] factor_bounded_def [abs_def])
qed

section \<open>Configuration\<close>

lemma bounded_float_range:
  "minimum \<le> fallback \<Longrightarrow> fallback \<le> maximum \<Longrightarrow>
    minimum \<le> bounded_float environ name fallback minimum maximum \<and>
    bounded_float environ name fallback minimum maximum \<le> maximum"
  by (auto simp: bounded_float_def split: option.splits pyfloat.splits)

text \<open>Whatever the environment holds, every configured weight and cap lies between 0 and 60, for
  exactly the severities and categories of the built-in tables.\<close>

theorem load_risk_config_range:
  "map fst (severity_weights (load_risk_config environ)) = map fst SEVERITY_WEIGHTS \<and>
   map fst (category_caps (load_risk_config environ)) = map fst CATEGORY_CAPS \<and>
   list_all (\<lambda>(k, w). 0 \<le> w \<and> w \<le> 60)
     (severity_weights (load_risk_config environ) @ category_caps (load_risk_config environ))"
  by (simp add: load_risk_config_def SEVERITY_WEIGHTS_def CATEGORY_CAPS_def bounded_float_range)

lemma default_config:
  "severity_weights (load_risk_config []) = SEVERITY_WEIGHTS"
  "category_caps (load_risk_config []) = CATEGORY_CAPS"
  by (simp_all add: load_risk_config_def bounded_float_def)

lemma default_config_nonneg: "nonneg_weights (load_risk_config [])"
  by (simp add: nonneg_weights_def default_config SEVERITY_WEIGHTS_def)

lemma default_config_tight: "tight_caps_of (load_risk_config [])"
proof -
  have "tight_cap (category_cap (load_risk_config []) name)" for name
    using tight_caps by (auto simp: category_cap_def default_config CATEGORY_CAPS_def)
  then show ?thesis by (simp add: tight_caps_of_def)
qed

lemma map_result_map:
  "map_result f xs = Inr ys \<Longrightarrow> (\<And>x y. f x = Inr y \<Longrightarrow> h y = g x) \<Longrightarrow> map h ys = map g xs"
  by (induction xs arbitrary: ys) (auto simp: bind_result_eq_Inr_iff)

section \<open>Assets\<close>

lemma final_score_range: "0 \<le> final_score x \<and> final_score x \<le> 100"
  by (simp add: final_score_def)

lemma final_score_mono: "x \<le> y \<Longrightarrow> final_score x \<le> final_score y"
  using round_half_even_mono [of x y] by (simp add: final_score_def py_round_def)

text \<open>Exactly the assets with a site and an asset id are scored, in the order of these ids; each
  score lies between 0 and 100, carries the band of its value, and counts exactly the open findings
  of that asset.\<close>

theorem calculate_asset_risk_sound:
  assumes "calculate_asset_risk config assets findings = Inr scores"
  shows "sorted (map (\<lambda>s. (as_site_id s, as_asset_id s)) scores) \<and>
    mset (map (\<lambda>s. (as_site_id s, as_asset_id s)) scores) =
      mset (filter (\<lambda>(s, a). s \<noteq> [] \<and> a \<noteq> []) (map asset_ids assets)) \<and>
    (\<forall>s \<in> set scores. 0 \<le> as_score s \<and> as_score s \<le> 100 \<and> as_band s = risk_band (as_score s) \<and>
       as_finding_count s = int (length (filter (\<lambda>f. truthy (get f ''asset_id'') \<and> open_status f \<and>
         (py_str (get f ''site_id''), py_str (get f ''asset_id'')) = (as_site_id s, as_asset_id s)) findings)))"
proof -
  let ?ids = "\<lambda>s. (as_site_id s, as_asset_id s)"
  let ?assets = "filter (\<lambda>a. fst (asset_ids a) \<noteq> [] \<and> snd (asset_ids a) \<noteq> []) assets"
  let ?score = "\<lambda>a. asset_score config (group_of (findings_by_asset findings) (asset_ids a))
    (fst (asset_ids a)) (snd (asset_ids a)) a"
  let ?open = "\<lambda>k f. truthy (get f ''asset_id'') \<and> open_status f \<and>
    (py_str (get f ''site_id''), py_str (get f ''asset_id'')) = k"
  obtain ys where ys: "map_result ?score ?assets = Inr ys" and scores: "scores = sort_key ?ids ys"
    using assms by (auto simp: calculate_asset_risk_def Let_def bind_result_eq_Inr_iff)
  have one: "?ids y = asset_ids a \<and> 0 \<le> as_score y \<and> as_score y \<le> 100 \<and> as_band y = risk_band (as_score y) \<and>
      as_finding_count y = int (length (group_of (findings_by_asset findings) (asset_ids a)))"
    if "?score a = Inr y" for a y
    using that final_score_range
    by (auto simp: asset_score_def bind_result_eq_Inr_iff Let_def split: prod.splits)
  have group: "group_of (findings_by_asset findings) k = filter (?open k) findings" for k
    by (simp add: findings_by_asset_def conj_comms)
  have "list_all (\<lambda>y. 0 \<le> as_score y \<and> as_score y \<le> 100 \<and> as_band y = risk_band (as_score y) \<and>
      as_finding_count y = int (length (filter (?open (?ids y)) findings))) ys"
  proof (rule map_result_all [OF ys])
    fix a y
    assume "?score a = Inr y"
    note y = one [OF this]
    show "0 \<le> as_score y \<and> as_score y \<le> 100 \<and> as_band y = risk_band (as_score y) \<and>
      as_finding_count y = int (length (filter (?open (?ids y)) findings))"
      unfolding y [THEN conjunct1] group [symmetric] using y by blast
  qed
  moreover have same: "map ?ids ys = map asset_ids ?assets"
    by (rule map_result_map [OF ys]) (use one in blast)
  have "mset (map ?ids scores) = mset (map ?ids ys)" by (simp add: scores)
  then have "mset (map ?ids scores) = mset (map asset_ids ?assets)" by (simp only: same)
  moreover have "map asset_ids ?assets = filter (\<lambda>(s, a). s \<noteq> [] \<and> a \<noteq> []) (map asset_ids assets)"
    by (simp add: filter_map comp_def case_prod_unfold)
  ultimately show ?thesis by (simp add: scores list_all_iff)
qed

section \<open>The nearest-rank percentile\<close>

lemma sorted_below:
  assumes "sorted xs" "k < length xs"
  shows "length (filter (\<lambda>v. v < xs ! k) xs) \<le> k" "Suc k \<le> length (filter (\<lambda>v. v \<le> xs ! k) xs)"
proof -
  have "filter (\<lambda>v. v < xs ! k) (drop k xs) = []"
    using assms by (auto simp: filter_empty_conv in_set_conv_nth sorted_nth_mono not_less)
  moreover have "filter P xs = filter P (take k xs) @ filter P (drop k xs)" for P
    by (metis append_take_drop_id filter_append)
  ultimately have "length (filter (\<lambda>v. v < xs ! k) xs) = length (filter (\<lambda>v. v < xs ! k) (take k xs))"
    by simp
  also have "\<dots> \<le> k" by (rule order_trans [OF length_filter_le]) simp
  finally show "length (filter (\<lambda>v. v < xs ! k) xs) \<le> k" .
  have "filter (\<lambda>v. v \<le> xs ! k) (take (Suc k) xs) = take (Suc k) xs"
    using assms by (auto simp: filter_id_conv in_set_conv_nth intro!: sorted_nth_mono)
  moreover have "filter P xs = filter P (take (Suc k) xs) @ filter P (drop (Suc k) xs)" for P
    by (metis append_take_drop_id filter_append)
  ultimately show "Suc k \<le> length (filter (\<lambda>v. v \<le> xs ! k) xs)" using assms(2) by simp
qed

lemma quartile_rank:
  assumes "values \<noteq> []" "length values < 2 ^ 50"
  defines "q \<equiv> percentile_nearest_rank values (3 / 4)"
  shows "q \<in> set values \<and> 3 * length values \<le> 4 * length (filter (\<lambda>v. v \<le> q) values) \<and>
    4 * length (filter (\<lambda>v. v < q) values) < 3 * length values"
proof -
  let ?n = "length values" and ?s = "sort values"
  let ?r = "\<lceil>(3 / 4 :: rat) * of_nat ?n\<rceil>"
  have "fl (of_int (3 * int ?n) * pow2 (- 2)) = of_int (3 * int ?n) * pow2 (- 2)"
    using assms(2) by (intro fl_exact) simp_all
  then have exact: "fmul (3 / 4) (of_nat ?n) = 3 / 4 * of_nat ?n"
    by (simp add: fmul_def pow2_def)
  have n: "1 \<le> ?n" using assms(1) by (simp add: Suc_le_eq)
  have r1: "1 \<le> ?r" using n by linarith
  obtain c where c: "c = ?r" "of_int c - 1 < (3 / 4 :: rat) * of_nat ?n" "(3 / 4 :: rat) * of_nat ?n \<le> of_int c"
    using ceiling_correct [of "(3 / 4 :: rat) * of_nat ?n"] by blast
  have "(of_int (3 * int ?n) :: rat) \<le> of_int (4 * c)" "(of_int (4 * (c - 1)) :: rat) < of_int (3 * int ?n)"
    using c(2,3) by simp_all
  then have r2: "3 * int ?n \<le> 4 * ?r" "4 * (?r - 1) < 3 * int ?n"
    unfolding of_int_le_iff of_int_less_iff c(1) by simp_all
  define k where "k = nat (?r - 1)"
  have k: "int k = ?r - 1" using r1 by (simp add: k_def)
  then have kn: "k < length ?s" using r2(2) by simp
  have q: "q = ?s ! k" using assms(1) r1 by (simp add: q_def percentile_nearest_rank_def exact k_def)
  have len: "length (filter P ?s) = length (filter P values)" for P
    by (metis mset_filter mset_sort size_mset)
  have "q \<in> set values" using nth_mem [OF kn] by (simp add: q)
  moreover have "3 * ?n \<le> 4 * length (filter (\<lambda>v. v \<le> q) values)"
    using sorted_below(2) [OF sorted_sort kn] r2(1) k unfolding q len by linarith
  moreover have "4 * length (filter (\<lambda>v. v < q) values) < 3 * ?n"
    using sorted_below(1) [OF sorted_sort kn] r2(2) k unfolding q len by linarith
  ultimately show ?thesis by blast
qed

text \<open>The upper quartile of a site is the nearest-rank percentile: one of the values, with at least
  three quarters of the values at or below it and fewer than three quarters strictly below it.\<close>

theorem upper_quartile_rank:
  assumes "values \<noteq> []" "length values < 2 ^ 50"
  shows "percentile_nearest_rank values (3 / 4) \<in> set values \<and>
    3 * length values \<le> 4 * length (filter (\<lambda>v. v \<le> percentile_nearest_rank values (3 / 4)) values) \<and>
    4 * length (filter (\<lambda>v. v < percentile_nearest_rank values (3 / 4)) values) < 3 * length values"
  by (rule quartile_rank [OF assms])

section \<open>Sites\<close>

abbreviation default_risk_config :: RiskConfig where
  "default_risk_config \<equiv> load_risk_config []"

lemma default_site_weights:
  "site_max_weight default_risk_config = fl (1 / 2)"
  "site_upper_quartile_weight default_risk_config = fl (3 / 10)"
  "site_top_average_weight default_risk_config = fl (2 / 10)"
  "site_direct_findings_weight default_risk_config = fl (35 / 100)"
  by (simp_all add: load_risk_config_def)

lemma site_weight_sums:
  "fadd (fadd (fmul 100 (fl (1 / 2))) (fmul 100 (fl (3 / 10)))) (fmul 100 (fl (2 / 10))) \<le> 100"
  "0 \<le> fl (3 / 10)" "0 \<le> fl (2 / 10)" "0 \<le> fl (35 / 100)" "fl (1 / 2) = 1 / 2"
  by code_simp+

definition score_range :: "int \<Rightarrow> bool" where
  "score_range v \<longleftrightarrow> 0 \<le> v \<and> v \<le> 100"

lemma fold_max_range: "list_all score_range vs \<Longrightarrow> score_range v \<Longrightarrow> score_range (fold max vs v)"
proof (induction vs arbitrary: v)
  case (Cons a vs)
  then have "score_range (max a v)" by (simp add: score_range_def max_def)
  then show ?case using Cons by simp
qed simp

lemma max_or_zero_range: "list_all score_range vs \<Longrightarrow> score_range (max_or_zero vs)"
proof (cases vs)
  case Nil
  then show ?thesis by (simp add: max_or_zero_def score_range_def)
next
  case (Cons v ws)
  then show "list_all score_range vs \<Longrightarrow> score_range (max_or_zero vs)"
    using fold_max_range [of ws v] by (simp add: max_or_zero_def)
qed

lemma quartile_range:
  assumes "list_all score_range vs" "length vs < 2 ^ 50"
  shows "score_range (percentile_nearest_rank vs (3 / 4))"
proof (cases "vs = []")
  case True
  then show ?thesis by (simp add: percentile_nearest_rank_def score_range_def)
next
  case False
  then have "percentile_nearest_rank vs (3 / 4) \<in> set vs"
    using quartile_rank [OF False assms(2)] by blast
  then show ?thesis using assms(1) by (simp add: list_all_iff)
qed

lemma sum_list_range: "list_all score_range vs \<Longrightarrow> 0 \<le> sum_list vs \<and> sum_list vs \<le> 100 * int (length vs)"
  by (induction vs) (auto simp: score_range_def)

lemma top_average_range:
  assumes "list_all score_range vs"
  shows "0 \<le> top_average vs \<and> top_average vs \<le> 100"
proof (cases "take 10 (sorted_by_desc id vs) = []")
  case True
  then show ?thesis by (simp add: top_average_def)
next
  case False
  let ?t = "take 10 (sorted_by_desc id vs)"
  have "list_all score_range ?t"
    using assms by (auto simp: list_all_iff dest: in_set_takeD)
  then have s: "0 \<le> sum_list ?t" "sum_list ?t \<le> 100 * int (length ?t)" using sum_list_range by blast+
  have n: "0 < length ?t" using False by blast
  have "(of_int (sum_list ?t) :: rat) \<le> of_int (100 * int (length ?t))" using s(2) by (simp only: of_int_le_iff)
  then have "(of_int (sum_list ?t) :: rat) / of_nat (length ?t) \<le> 100"
    using n by (subst pos_divide_le_eq) simp_all
  moreover have "0 \<le> (of_int (sum_list ?t) :: rat) / of_nat (length ?t)" using s(1) by simp
  moreover have "fl 100 = 100" by (simp add: fl_numeral)
  ultimately have "fl (of_int (sum_list ?t) / of_nat (length ?t)) \<le> 100"
    "0 \<le> fl (of_int (sum_list ?t) / of_nat (length ?t))"
    using b64.rnd_upper b64.rnd_nonneg by blast+
  moreover have "top_average vs = fl (of_int (sum_list ?t) / of_nat (length ?t))"
    using False by (simp only: top_average_def Let_def if_False)
  ultimately show ?thesis by simp
qed

lemma fadd_mono: "a \<le> b \<Longrightarrow> c \<le> d \<Longrightarrow> fadd a c \<le> fadd b d"
  unfolding fadd_def by (intro fl_mono) simp

lemma fmul_mono: "a \<le> b \<Longrightarrow> 0 \<le> w \<Longrightarrow> fmul a w \<le> fmul b w"
  unfolding fmul_def by (intro fl_mono) (rule mult_right_mono)

lemma portfolio_range:
  assumes "list_all score_range vs" "length vs < 2 ^ 50"
  shows "of_int (max_or_zero vs) / 2 \<le> portfolio_score default_risk_config vs"
    and "portfolio_score default_risk_config vs \<le> 100"
proof -
  let ?m = "max_or_zero vs" and ?q = "percentile_nearest_rank vs (3 / 4)"
  have m: "0 \<le> ?m" "?m \<le> 100" and q: "0 \<le> ?q" "?q \<le> 100"
    using max_or_zero_range [OF assms(1)] quartile_range [OF assms] by (simp_all add: score_range_def)
  note avg = top_average_range [OF assms(1)]
  have mq: "(of_int ?m :: rat) \<le> 100" "(of_int ?q :: rat) \<le> 100" "0 \<le> (of_int ?q :: rat)"
    using m q of_int_le_iff [where 'a = rat, of ?m 100] of_int_le_iff [where 'a = rat, of ?q 100]
    by simp_all
  have "portfolio_score default_risk_config vs \<le>
      fadd (fadd (fmul 100 (fl (1 / 2))) (fmul 100 (fl (3 / 10)))) (fmul 100 (fl (2 / 10)))"
    unfolding portfolio_score_def default_site_weights
    using mq avg site_weight_sums by (intro fadd_mono fmul_mono) simp_all
  then show "portfolio_score default_risk_config vs \<le> 100" using site_weight_sums(1) by linarith
  have "fl (of_int ?m * pow2 (- 1)) = of_int ?m * pow2 (- 1)" using m by (intro fl_exact) simp_all
  then have half: "fmul (of_int ?m) (fl (1 / 2)) = of_int ?m / 2"
    by (simp add: fmul_def pow2_def site_weight_sums(5))
  have "of_int ?m / 2 \<le> fadd (fmul (of_int ?m) (fl (1 / 2))) (fmul (of_int ?q) (fl (3 / 10)))"
    unfolding half fadd_def using mq(3) site_weight_sums(2) half
    by (intro b64.rnd_add_ge) (simp_all flip: half)
  also have "\<dots> \<le> portfolio_score default_risk_config vs"
    unfolding portfolio_score_def default_site_weights fadd_def [of "fadd _ _"]
    using avg site_weight_sums(3) by (intro b64.rnd_add_ge) simp_all
  finally show "of_int ?m / 2 \<le> portfolio_score default_risk_config vs" .
qed

text \<open>Rounding a number between 0 and 1000 moves it by at most 1/64.\<close>

lemma fl_near:
  assumes "0 \<le> y" "y \<le> 1000"
  shows "\<bar>fl y - y\<bar> \<le> 1 / 64"
proof -
  let ?g = "\<lambda>k. of_int k * pow2 (- 6)"
  have g: "?g k = (of_int k :: rat) / 64" for k by (simp add: pow2_def)
  let ?lo = "\<lfloor>64 * y\<rfloor>" and ?hi = "\<lceil>64 * y\<rceil>"
  have range: "0 \<le> ?lo" "?lo \<le> 64000" "0 \<le> ?hi" "?hi \<le> 64000"
    using assms by (simp_all add: le_floor_iff floor_le_iff ceiling_le_iff le_ceiling_iff)
  have exact: "fl (?g ?lo) = ?g ?lo" "fl (?g ?hi) = ?g ?hi"
    using range by (intro fl_exact; simp)+
  have "?g ?lo \<le> y" "y \<le> ?g ?hi" unfolding g by (simp_all, linarith+)
  then have "?g ?lo \<le> fl y" "fl y \<le> ?g ?hi"
    using exact by (metis fl_mono)+
  moreover have "y \<le> ?g ?lo + 1 / 64" "?g ?hi \<le> y + 1 / 64" unfolding g by linarith+
  ultimately show ?thesis unfolding g by linarith
qed

text \<open>The portfolio part of a site score: half of the greatest asset score, three tenths of the upper
  quartile and two tenths of the average of the ten greatest.\<close>

definition site_mix :: "rat \<Rightarrow> rat \<Rightarrow> rat \<Rightarrow> rat" where
  "site_mix m q a = fadd (fadd (fmul m (fl (1 / 2))) (fmul q (fl (3 / 10)))) (fmul a (fl (2 / 10)))"

lemma site_weights_near: "\<bar>fl (3 / 10) - 3 / 10\<bar> \<le> 1 / 10000" "\<bar>fl (2 / 10) - 2 / 10\<bar> \<le> 1 / 10000"
  by code_simp+

lemma site_mix_balanced:
  assumes "0 \<le> n" "n \<le> 100"
  shows "final_score (site_mix (of_int n) (of_int n) (of_int n)) = n"
proof -
  let ?n = "of_int n :: rat"
  have n: "0 \<le> ?n" "?n \<le> 100" using assms of_int_le_iff [where 'a = rat, of n 100] by simp_all
  define q where "q = ?n * fl (3 / 10)"
  define a where "a = ?n * fl (2 / 10)"
  have prod: "\<bar>?n * w - ?n * v\<bar> \<le> 1 / 100" if "\<bar>w - v\<bar> \<le> 1 / 10000" for w v :: rat
  proof -
    have "\<bar>?n * w - ?n * v\<bar> = ?n * \<bar>w - v\<bar>" using n(1) by (simp add: abs_mult flip: right_diff_distrib)
    also have "\<dots> \<le> 100 * (1 / 10000)" using n that by (intro mult_mono) simp_all
    finally show ?thesis by simp
  qed
  have qa: "\<bar>q - ?n * (3 / 10)\<bar> \<le> 1 / 100" "\<bar>a - ?n * (2 / 10)\<bar> \<le> 1 / 100"
    unfolding q_def a_def using site_weights_near by (intro prod; simp)+
  have half: "fmul ?n (fl (1 / 2)) = ?n / 2"
    using assms fl_exact [of n "-1"] by (simp add: fmul_def pow2_def site_weight_sums(5))
  have nonneg: "0 \<le> q" "0 \<le> a" unfolding q_def a_def using n(1) site_weight_sums(2,3) by simp_all
  then have fl0: "0 \<le> fl q" "0 \<le> fl a" by (simp_all add: b64.rnd_nonneg)
  have e1: "\<bar>fl q - q\<bar> \<le> 1 / 64" "\<bar>fl a - a\<bar> \<le> 1 / 64"
    using qa n nonneg by (intro fl_near; linarith)+
  have e2: "\<bar>fl (?n / 2 + fl q) - (?n / 2 + fl q)\<bar> \<le> 1 / 64"
    using qa n e1 fl0 by (intro fl_near) linarith+
  let ?x = "fl (fl (?n / 2 + fl q) + fl a)"
  have "\<bar>?x - (fl (?n / 2 + fl q) + fl a)\<bar> \<le> 1 / 64"
    using qa n e1 e2 fl0 b64.rnd_nonneg [of "?n / 2 + fl q"] by (intro fl_near) linarith+
  then have "\<bar>?x - ?n\<bar> \<le> 1 / 4" using qa e1 e2 by linarith
  moreover have "site_mix ?n ?n ?n = ?x" 
    by (simp only: site_mix_def half fadd_def) (simp only: fmul_def q_def a_def)
  ultimately have "round_half_even (site_mix ?n ?n ?n) = n"
    using round_half_even_error [of "site_mix ?n ?n ?n"] by linarith
  then show ?thesis using assms by (simp add: final_score_def py_round_def)
qed

lemma site_mix_mono: "m \<le> m' \<Longrightarrow> q \<le> q' \<Longrightarrow> a \<le> a' \<Longrightarrow> site_mix m q a \<le> site_mix m' q' a'"
  unfolding site_mix_def using site_weight_sums by (intro fadd_mono fmul_mono) simp_all

lemma portfolio_mix:
  "portfolio_score default_risk_config vs =
     site_mix (of_int (max_or_zero vs)) (of_int (percentile_nearest_rank vs (3 / 4))) (top_average vs)"
  by (simp only: portfolio_score_def default_site_weights site_mix_def)

lemma fold_max_in: "fold max vs (v :: int) \<in> insert v (set vs)"
proof (induction vs arbitrary: v)
  case (Cons a vs)
  have "fold max vs (max a v) \<in> insert (max a v) (set vs)" by (rule Cons)
  then show ?case by (cases "a \<le> v") (auto simp: max_absorb1 max_absorb2)
qed simp

lemma max_or_zero_in: "vs \<noteq> [] \<Longrightarrow> max_or_zero vs \<in> set vs"
  using fold_max_in by (cases vs) (auto simp: max_or_zero_def)

lemma sum_list_between:
  "list_all (\<lambda>v. lo \<le> v \<and> v \<le> hi) vs \<Longrightarrow>
   int (length vs) * lo \<le> sum_list vs \<and> sum_list vs \<le> int (length vs) * (hi :: int)"
  by (induction vs) (auto simp: algebra_simps)

lemma top_average_between:
  assumes "list_all (\<lambda>v. lo \<le> v \<and> v \<le> hi) vs" "vs \<noteq> []" "0 \<le> lo" "hi \<le> 100"
  shows "of_int lo \<le> top_average vs \<and> top_average vs \<le> of_int hi"
proof -
  let ?t = "take 10 (sorted_by_desc id vs)"
  have t: "list_all (\<lambda>v. lo \<le> v \<and> v \<le> hi) ?t"
    using assms(1) by (auto simp: list_all_iff dest: in_set_takeD)
  have ne: "?t \<noteq> []" using assms(2) by (cases vs) (auto dest: arg_cong [of _ _ set])
  have lh: "lo \<le> hi" using assms(1,2) by (cases vs) auto
  have n: "(0 :: rat) < of_nat (length ?t)" using ne by (simp only: of_nat_0_less_iff length_greater_0_conv not_False_eq_True)
  have s: "(of_int (int (length ?t) * lo) :: rat) \<le> of_int (sum_list ?t)"
    "(of_int (sum_list ?t) :: rat) \<le> of_int (int (length ?t) * hi)"
    using sum_list_between [OF t] by (simp_all only: of_int_le_iff)
  let ?a = "(of_int (sum_list ?t) :: rat) / of_nat (length ?t)"
  have "of_int lo \<le> ?a" "?a \<le> of_int hi"
    using s n by (simp_all add: pos_le_divide_eq pos_divide_le_eq mult.commute)
  moreover have "fl (of_int lo) = of_int lo" "fl (of_int hi) = of_int hi"
    using assms(3,4) lh by (simp_all)
  ultimately have "of_int lo \<le> fl ?a" "fl ?a \<le> of_int hi" using b64.rnd_lower b64.rnd_upper by blast+
  moreover have "top_average vs = fl ?a" using ne by (simp only: top_average_def Let_def if_False)
  ultimately show ?thesis by simp
qed

lemma portfolio_between:
  assumes "list_all (\<lambda>v. lo \<le> v \<and> v \<le> hi) vs" "vs \<noteq> []" "0 \<le> lo" "hi \<le> 100" "length vs < 2 ^ 50"
  shows "lo \<le> final_score (portfolio_score default_risk_config vs) \<and>
    final_score (portfolio_score default_risk_config vs) \<le> hi"
proof -
  let ?m = "max_or_zero vs" and ?q = "percentile_nearest_rank vs (3 / 4)"
  have "lo \<le> ?m" "?m \<le> hi" using max_or_zero_in [OF assms(2)] assms(1) by (auto simp: list_all_iff)
  moreover have "?q \<in> set vs" using quartile_rank [OF assms(2,5)] by blast
  then have "lo \<le> ?q" "?q \<le> hi" using assms(1) by (auto simp: list_all_iff)
  moreover note top_average_between [OF assms(1-4)]
  ultimately have "site_mix (of_int lo) (of_int lo) (of_int lo) \<le> portfolio_score default_risk_config vs"
    "portfolio_score default_risk_config vs \<le> site_mix (of_int hi) (of_int hi) (of_int hi)"
    unfolding portfolio_mix by (intro site_mix_mono; simp)+
  then have "final_score (site_mix (of_int lo) (of_int lo) (of_int lo)) \<le> final_score (portfolio_score default_risk_config vs)"
    "final_score (portfolio_score default_risk_config vs) \<le> final_score (site_mix (of_int hi) (of_int hi) (of_int hi))"
    by (intro final_score_mono; simp)+
  moreover have "lo \<le> hi" using assms(1,2) by (cases vs) auto
  ultimately show ?thesis using assms(3,4) site_mix_balanced by simp
qed

lemma no_contributions: "finding_contributions config [] = Inr ([], 0)"
  by (simp add: finding_contributions_def contributions_of_def)

lemma site_score_parts:
  assumes "site_score config scores direct site = Inr s"
    "finding_contributions config direct = Inr (factors, w)"
  shows "ss_score s = final_score (fadd (portfolio_score config (map as_score scores))
      (direct_component config (portfolio_score config (map as_score scores)) w))"
    "ss_band s = risk_band (ss_score s)"
  using assms(1) unfolding site_score_def Let_def assms(2) bind_result_simps prod.case bind_result_eq_Inr_iff
  by (elim exE conjE, simp only: sum.inject, elim subst, simp)+

lemma site_score_range:
  assumes "site_score default_risk_config scores direct site = Inr s"
    and "list_all score_range (map as_score scores)" "length scores < 2 ^ 50"
  shows "max_or_zero (map as_score scores) \<le> 2 * ss_score s + 1 \<and> ss_score s \<le> 100 \<and>
    final_score (portfolio_score default_risk_config (map as_score scores)) \<le> ss_score s \<and>
    ss_band s = risk_band (ss_score s)"
proof -
  let ?p = "portfolio_score default_risk_config (map as_score scores)"
  let ?m = "max_or_zero (map as_score scores)"
  obtain fw where fw: "finding_contributions default_risk_config direct = Inr fw"
    using assms(1) unfolding site_score_def Let_def bind_result_eq_Inr_iff by blast
  obtain factors w where "fw = (factors, w)" by (cases fw)
  note fc = fw [unfolded this]
  note s = site_score_parts [OF assms(1) fc]
  note p = portfolio_range [OF assms(2), unfolded length_map, OF assms(3)]
  have "score_range ?m" by (rule max_or_zero_range [OF assms(2)])
  then have m: "0 \<le> ?m" "?m \<le> 100" by (simp_all add: score_range_def)
  have "0 \<le> w" using finding_contributions_range [OF default_config_nonneg default_config_tight fc] by blast
  moreover have "0 \<le> fsub 100 ?p" unfolding fsub_def using p(2) by (intro b64.rnd_nonneg) simp
  ultimately have "0 \<le> direct_component default_risk_config ?p w"
    using site_weight_sums(4) by (simp add: direct_component_def default_site_weights)
  then have "?p \<le> fadd ?p (direct_component default_risk_config ?p w)"
    unfolding fadd_def [of ?p] by (intro b64.rnd_add_ge) (simp_all add: portfolio_score_def)
  then have up: "final_score ?p \<le> ss_score s" unfolding s by (rule final_score_mono)
  have "final_score (of_int ?m / 2) \<le> final_score ?p" by (rule final_score_mono [OF p(1)])
  moreover have "?m div 2 \<le> final_score (of_int ?m / 2)"
  proof -
    have "?m div 2 = \<lfloor>(of_int ?m :: rat) / 2\<rfloor>" using floor_divide_of_int_eq [of ?m 2, where 'a = rat] by simp
    also have "\<dots> \<le> py_round (of_int ?m / 2)" unfolding py_round_def using round_half_even_bounds by blast
    finally show ?thesis using m by (simp add: final_score_def)
  qed
  ultimately have "?m \<le> 2 * ss_score s + 1" using up by linarith
  then show ?thesis using up s final_score_range by simp
qed


text \<open>C39. With the built-in weights the score of a site with assets is never below the lowest of their scores,
  never lowered by findings attached to the site itself, at most 100, and, when the site has no findings of
  its own, not above the highest of their scores: so assets of one score give exactly that score.  It is also
  at least half of the highest asset score, up to rounding.\<close>

theorem site_score_between:
  assumes "site_score default_risk_config scores direct site = Inr s" "scores \<noteq> []"
    and "list_all (\<lambda>a. lo \<le> as_score a \<and> as_score a \<le> hi) scores" "0 \<le> lo" "hi \<le> 100"
    and "length scores < 2 ^ 50"
  shows "lo \<le> ss_score s \<and> ss_score s \<le> 100 \<and> (direct = [] \<longrightarrow> ss_score s \<le> hi) \<and>
    max_or_zero (map as_score scores) \<le> 2 * ss_score s + 1 \<and>
    final_score (portfolio_score default_risk_config (map as_score scores)) \<le> ss_score s \<and>
    ss_band s = risk_band (ss_score s)"
proof -
  let ?p = "portfolio_score default_risk_config (map as_score scores)"
  have in_range: "list_all (\<lambda>v. lo \<le> v \<and> v \<le> hi) (map as_score scores)" using assms(3) by (simp add: list_all_iff)
  note between = portfolio_between [OF in_range _ assms(4,5)]
  have "list_all score_range (map as_score scores)"
    using assms(3-5) by (auto simp: list_all_iff score_range_def)
  note floor = site_score_range [OF assms(1) this assms(6)]
  have "ss_score s = final_score ?p" if "direct = []"
  proof -
    have "finding_contributions default_risk_config direct = Inr ([], 0)" by (simp add: that no_contributions)
    from site_score_parts(1) [OF assms(1) this] show ?thesis
      by (simp add: direct_component_def fadd_def fmul_def fdiv_def portfolio_score_def)
  qed
  with between floor assms(2,6) show ?thesis by simp
qed

section \<open>Sample runs\<close>

definition sample_finding :: "string \<Rightarrow> string \<Rightarrow> pydict" where
  "sample_finding name sev =
     [(''finding_id'', PStr name), (''severity'', PStr sev), (''category'', PStr ''identity''),
      (''confidence'', PFloat (Finite 1)), (''evidence_freshness'', PStr ''fresh''),
      (''status'', PStr ''active''), (''asset_id'', PStr ''a1''), (''site_id'', PStr ''s1'')]"

definition kev_finding :: pydict where
  "kev_finding =
     [(''finding_id'', PStr ''f1''), (''rule_id'', PStr ''vulnerable-component''), (''confidence'', PInt 1),
      (''evidence'', PList [PDict [(''evidence_type'', PStr ''kev-prioritization''),
                                   (''evidence_ref'', PStr ''kev_1''), (''freshness'', PStr ''fresh'')],
                            PDict [(''evidence_type'', PStr ''kev-prioritization-ransomware''),
                                   (''evidence_ref'', PStr ''kev_2''), (''freshness'', PStr ''fresh'')]])]"

lemma finding_contributions_order_witness:
  "finding_contributions default_risk_config [sample_finding ''f1'' ''high'', sample_finding ''f2'' ''critical''] =
   finding_contributions default_risk_config [sample_finding ''f2'' ''critical'', sample_finding ''f1'' ''high'']"
  by (rule finding_contributions_order) (simp_all add: sample_finding_def text_or_def)

lemma upper_quartile_rank_witness: "percentile_nearest_rank [10, 90, 40, 20] (3 / 4) \<in> {10, 90, 40, 20}"
  using upper_quartile_rank [of "[10, 90, 40, 20]"] by simp

lemma map_sum_Inr: "map_sum id f r = Inr v \<Longrightarrow> \<exists>x. r = Inr x \<and> f x = v"
  by (cases r) auto

lemma finding_contributions_bounded_witness:
  "\<exists>factors. finding_contributions default_risk_config
     [sample_finding ''f1'' ''high'', sample_finding ''f2'' ''critical''] = Inr (factors, 35) \<and>
   length factors = 2"
proof -
  have "map_sum id snd (finding_contributions default_risk_config
     [sample_finding ''f1'' ''high'', sample_finding ''f2'' ''critical'']) = Inr 35" by code_simp
  then obtain factors where fc: "finding_contributions default_risk_config
     [sample_finding ''f1'' ''high'', sample_finding ''f2'' ''critical''] = Inr (factors, 35)"
    by (auto dest!: map_sum_Inr)
  from finding_contributions_bounded [OF default_config_nonneg default_config_tight fc] fc
  show ?thesis by simp
qed

lemma kev_contributions_bounded_witness:
  "\<exists>factors weight. kev_contributions [kev_finding] = Inr (factors, weight) \<and> weight \<le> 20"
proof -
  have "map_sum id length (kev_candidates [] [kev_finding]) = Inr 2" by code_simp
  then obtain cs where "kev_candidates [] [kev_finding] = Inr cs" by (auto dest!: map_sum_Inr)
  then obtain factors weight where k: "kev_contributions [kev_finding] = Inr (factors, weight)"
    by (cases "kev_loop 1 0 (sort_key candidate_key cs)") (simp add: kev_contributions_def)
  from kev_contributions_bounded [OF k] k show ?thesis by blast
qed

lemma sample_contributions:
  "\<exists>factors. finding_contributions default_risk_config [sample_finding ''f1'' ''high''] = Inr (factors, 25)"
proof -
  have "map_sum id snd (finding_contributions default_risk_config [sample_finding ''f1'' ''high'']) = Inr 25"
    by code_simp
  then show ?thesis by (auto dest!: map_sum_Inr)
qed

lemma sample_group: "group_of (findings_by_asset [sample_finding ''f1'' ''high'']) (''s1'', ''a1'') =
    [sample_finding ''f1'' ''high'']"
  by (simp add: findings_by_asset_def sample_finding_def open_status_def push_group_def, simp add: group_of_def)

lemma calculate_asset_risk_sound_witness:
  "\<exists>s. calculate_asset_risk default_risk_config [[(''site_id'', PStr ''s1''), (''asset_id'', PStr ''a1'')]]
     [sample_finding ''f1'' ''high''] = Inr [s] \<and> as_score s = 25 \<and> as_finding_count s = 1"
proof -
  let ?asset = "[(''site_id'', PStr ''s1''), (''asset_id'', PStr ''a1'')]"
  let ?run = "calculate_asset_risk default_risk_config [?asset] [sample_finding ''f1'' ''high'']"
  have ids: "asset_ids ?asset = (''s1'', ''a1'')" by (simp add: asset_ids_def text_or_def py_or_def)
  have kev: "kev_contributions [sample_finding ''f1'' ''high''] = Inr ([], 0)"
    by (simp add: kev_contributions_def sample_finding_def)
  have score: "final_score (min (fadd 25 0) 100) = 25" by code_simp
  obtain factors where fc: "finding_contributions default_risk_config [sample_finding ''f1'' ''high''] = Inr (factors, 25)"
    using sample_contributions by blast
  obtain s where s: "asset_score default_risk_config [sample_finding ''f1'' ''high''] ''s1'' ''a1'' ?asset = Inr s"
    "as_score s = 25" "as_site_id s = ''s1''" "as_asset_id s = ''a1''"
    by (simp add: asset_score_def fc kev score Let_def)
  then have run: "?run = Inr [s]"
    by (simp add: calculate_asset_risk_def ids sample_group)
  have "as_finding_count s = 1"
    using calculate_asset_risk_sound [OF run] s(3,4)
    by (simp add: sample_finding_def open_status_def)
  with run s(2) show ?thesis by blast
qed

definition sample_score :: AssetRiskScore where
  "sample_score = \<lparr>as_site_id = ''s1'', as_asset_id = ''a1'', as_score = 49, as_band = ''moderate'',
     as_formula_version = FORMULA_VERSION, as_finding_count = 2, as_data_as_of = None, as_factors = []\<rparr>"

lemma site_score_between_witness:
  "\<exists>s. site_score default_risk_config [sample_score] [] ''s1'' = Inr s \<and> ss_score s = 49"
proof -
  obtain s where s: "site_score default_risk_config [sample_score] [] ''s1'' = Inr s"
    by (simp add: site_score_def no_contributions Let_def latest_def sample_score_def)
  from site_score_between [OF s, where lo = 49 and hi = 49] s show ?thesis by (simp add: sample_score_def)
qed

end
