(* ===== verification/Py_Iso.thy ===== *)
theory Py_Iso
  imports Py_Time
begin

text \<open>
  \<^verbatim>\<open>datetime.fromisoformat\<close> (Python 3.12) and \<^verbatim>\<open>astimezone(timezone.utc)\<close> on its result: calendar and
  week dates, with and without separators, an optional time with fractions and an optional offset.
  A parsed value is the local instant and its offset, both in microseconds.
\<close>

section \<open>Calendar arithmetic\<close>

definition leap_year :: "int \<Rightarrow> bool" where
  "leap_year y \<longleftrightarrow> y mod 4 = 0 \<and> (y mod 100 \<noteq> 0 \<or> y mod 400 = 0)"

definition days_in_month :: "int \<Rightarrow> int \<Rightarrow> int" where
  "days_in_month y m =
     (if m = 2 then (if leap_year y then 29 else 28)
      else if m \<in> {4, 6, 9, 11} then 30 else 31)"

text \<open>The number of days from 1970-01-01 to a date.\<close>

definition days_of_civil :: "int \<Rightarrow> int \<Rightarrow> int \<Rightarrow> int" where
  "days_of_civil y m d =
     (let y = (if m \<le> 2 then y - 1 else y);
          era = y div 400;
          yoe = y mod 400;
          doy = (153 * (if m > 2 then m - 3 else m + 9) + 2) div 5 + d - 1;
          doe = yoe * 365 + yoe div 4 - yoe div 100 + doy
      in era * 146097 + doe - 719468)"

definition valid_date :: "int \<Rightarrow> int \<Rightarrow> int \<Rightarrow> bool" where
  "valid_date y m d \<longleftrightarrow> 1 \<le> y \<and> y \<le> 9999 \<and> 1 \<le> m \<and> m \<le> 12 \<and> 1 \<le> d \<and> d \<le> days_in_month y m"

text \<open>The Monday of ISO week 1 of a year, and a date given by year, week and weekday.\<close>

definition iso_week1_monday :: "int \<Rightarrow> int" where
  "iso_week1_monday y =
     (let first = days_of_civil y 1 1; wd = (first + 3) mod 7
      in first - wd + (if wd > 3 then 7 else 0))"

definition date_of_week :: "int \<Rightarrow> int \<Rightarrow> int \<Rightarrow> int option" where
  "date_of_week y w d =
     (let first = days_of_civil y 1 1;
          first_weekday = (first + 3) mod 7;
          weeks = (if first_weekday = 3 \<or> (first_weekday = 2 \<and> leap_year y) then 53 else 52);
          n = iso_week1_monday y + (w - 1) * 7 + (d - 1)
      in if 1 \<le> y \<and> y \<le> 9999 \<and> 1 \<le> w \<and> w \<le> weeks \<and> 1 \<le> d \<and> d \<le> 7
            \<and> days_of_civil 1 1 1 \<le> n \<and> n \<le> days_of_civil 9999 12 31
         then Some n else None)"

section \<open>Scanning\<close>

definition digits :: "string \<Rightarrow> nat \<Rightarrow> nat \<Rightarrow> int option" where
  "digits s start n =
     (let t = take n (drop start s)
      in if length t = n \<and> list_all is_digit t then Some (int_of_digits t) else None)"

definition char_at :: "string \<Rightarrow> nat \<Rightarrow> char option" where
  "char_at s i = (if i < length s then Some (s ! i) else None)"

text \<open>\<^verbatim>\<open>_find_isoformat_datetime_separator\<close> for a text of at least seven characters.\<close>

definition date_length :: "string \<Rightarrow> nat option" where
  "date_length s =
     (let n = length s
      in if n = 7 then Some 7
         else if char_at s 4 = Some (CHR ''-'')
         then (if char_at s 5 = Some (CHR ''W'')
               then (if n > 8 \<and> char_at s 8 = Some (CHR ''-'')
                     then (if n = 9 then None
                           else if n > 10 \<and> is_digit (s ! 10) then Some 8 else Some 10)
                     else Some 8)
               else Some 10)
         else if char_at s 4 = Some (CHR ''W'')
         then (let i = 7 + length (takeWhile is_digit (drop 7 s))
               in if i < 9 then Some i else if even i then Some 7 else Some 8)
         else Some 8)"

definition parse_iso_date :: "string \<Rightarrow> int option" where
  "parse_iso_date s =
     (let sep = (char_at s 4 = Some (CHR ''-'')); p = (if sep then 5 else 4)
      in case digits s 0 4 of
           None \<Rightarrow> None
         | Some y \<Rightarrow>
             if char_at s p = Some (CHR ''W'')
             then (case digits s (p + 1) 2 of
                     None \<Rightarrow> None
                   | Some w \<Rightarrow>
                       if length s = p + 3 then date_of_week y w 1
                       else if (char_at s (p + 3) = Some (CHR ''-'')) \<noteq> sep then None
                       else let q = (if sep then p + 4 else p + 3)
                            in if length s \<noteq> q + 1 then None
                               else Option.bind (digits s q 1) (date_of_week y w))
             else (case digits s p 2 of
                     None \<Rightarrow> None
                   | Some m \<Rightarrow>
                       if (char_at s (p + 2) = Some (CHR ''-'')) \<noteq> sep then None
                       else let q = (if sep then p + 3 else p + 2)
                            in if length s \<noteq> q + 2 then None
                               else (case digits s q 2 of
                                       None \<Rightarrow> None
                                     | Some d \<Rightarrow>
                                         if valid_date y m d then Some (days_of_civil y m d) else None)))"

text \<open>
  \<^verbatim>\<open>parse_hh_mm_ss_ff\<close>: two digits each for hours, minutes and seconds, all with colons or all
  without; the second component is what follows the fields, if anything does.  \<open>at_end\<close> says that the text
  ends where the whole text ends; only before an offset may a stray character follow a field.
\<close>

definition parse_fraction :: "bool \<Rightarrow> string \<Rightarrow> int option" where
  "parse_fraction at_end s =
     (let t = take 6 s
      in if t = [] \<or> \<not> list_all is_digit t \<or> at_end \<and> \<not> list_all is_digit s then None
         else Some (int_of_digits t * 10 ^ (6 - length t)))"

fun clock_fields :: "nat \<Rightarrow> bool \<Rightarrow> bool option \<Rightarrow> string \<Rightarrow> (int list \<times> int) option" where
  "clock_fields 0 at_end sep s = map_option (Pair []) (parse_fraction at_end s)"
| "clock_fields (Suc n) at_end sep s =
     (case (digits s 0 2, drop 2 s) of
        (None, _) \<Rightarrow> None
      | (Some v, []) \<Rightarrow> Some ([v], 0)
      | (Some v, c # r) \<Rightarrow>
          let colons = (case sep of None \<Rightarrow> c = CHR '':'' | Some b \<Rightarrow> b)
          in if r = [] then (if at_end then None else Some ([v], 0))
             else if colons \<and> c = CHR '':''
             then map_option (apfst ((#) v)) (clock_fields n at_end (Some colons) r)
             else if c = CHR ''.'' \<or> c = CHR '','' then map_option (Pair [v]) (parse_fraction at_end r)
             else if \<not> colons
             then map_option (apfst ((#) v)) (clock_fields n at_end (Some colons) (c # r))
             else None)"

definition field :: "int list \<Rightarrow> nat \<Rightarrow> int" where
  "field vs i = (if i < length vs then vs ! i else 0)"

definition clock_seconds :: "int list \<Rightarrow> int" where
  "clock_seconds vs = (field vs 0 * 60 + field vs 1) * 60 + field vs 2"

definition valid_clock :: "int list \<Rightarrow> bool" where
  "valid_clock vs \<longleftrightarrow> field vs 0 < 24 \<and> field vs 1 < 60 \<and> field vs 2 < 60"

text \<open>The offset: \<^verbatim>\<open>Z\<close>, or a sign and a clock of less than a day; zero seconds mean UTC.\<close>

definition parse_offset :: "string \<Rightarrow> timedelta option" where
  "parse_offset s =
     (if hd s = CHR ''Z'' then (if tl s = [] then Some 0 else None)
      else case clock_fields 3 True None (tl s) of
             None \<Rightarrow> None
           | Some (vs, us) \<Rightarrow>
               let z = (if clock_seconds vs = 0 then 0 else clock_seconds vs * 1000000 + us)
               in if days 1 \<le> z then None else Some (if hd s = CHR ''-'' then - z else z))"

text \<open>The time of day and, if there is one, the offset.\<close>

definition parse_iso_time :: "string \<Rightarrow> (timedelta \<times> timedelta option) option" where
  "parse_iso_time s =
     (let clock = takeWhile (\<lambda>c. c \<notin> {CHR ''+'', CHR ''-'', CHR ''Z''}) s;
          zone = dropWhile (\<lambda>c. c \<notin> {CHR ''+'', CHR ''-'', CHR ''Z''}) s
      in case (clock_fields 3 (zone = []) None clock,
               if zone = [] then Some None else map_option Some (parse_offset zone)) of
           (Some (vs, us), Some offset) \<Rightarrow>
             if valid_clock vs then Some (clock_seconds vs * 1000000 + us, offset) else None
         | _ \<Rightarrow> None)"

section \<open>fromisoformat and astimezone\<close>

definition from_isoformat :: "string \<Rightarrow> (instant \<times> timedelta option) option" where
  "from_isoformat s =
     (if length s < 7 then None
      else case date_length s of
             None \<Rightarrow> None
           | Some n \<Rightarrow>
               (case parse_iso_date (take n s) of
                  None \<Rightarrow> None
                | Some day \<Rightarrow>
                    if length s \<le> n then Some (days day, None)
                    else (case parse_iso_time (drop (n + 1) s) of
                            None \<Rightarrow> None
                          | Some (us, offset) \<Rightarrow> Some (days day + us, offset))))"

definition min_instant :: instant where
  "min_instant = days (days_of_civil 1 1 1)"

definition max_instant :: instant where
  "max_instant = days (days_of_civil 9999 12 31) + days 1 - 1"

text \<open>\<^verbatim>\<open>value.astimezone(timezone.utc)\<close>: outside the years 1 to 9999 it raises.\<close>

definition astimezone_utc :: "instant \<Rightarrow> timedelta \<Rightarrow> instant result" where
  "astimezone_utc local_us offset =
     (let t = local_us - offset
      in if min_instant \<le> t \<and> t \<le> max_instant then Inr t else Inl OverflowError)"

text \<open>\<^verbatim>\<open>value.replace("Z", "+00:00")\<close>.\<close>

definition replace_z :: "string \<Rightarrow> string" where
  "replace_z s = concat (map (\<lambda>c. if c = CHR ''Z'' then ''+00:00'' else [c]) s)"

end
