(* ===== verification/Component_Normalization.thy ===== *)
theory Component_Normalization
  imports Component_Identity Py_Number Py_Iso Sha256
begin

text \<open>
  Per-asset normalisation of component evidence in
  \<^verbatim>\<open>backend/app/component_intelligence.py\<close>: the source context of a payload, the entries of an asset,
  one normalised component per entry, the dictionary of an asset's components, the source snapshots and
  the payload loop.  Aware datetimes are instants; \<^verbatim>\<open>received_at\<close> is the server's clock, at least five
  minutes before the end of year 9999.
\<close>

section \<open>Constants and records\<close>

definition MAX_COMPONENTS_PER_ASSET :: nat where "MAX_COMPONENTS_PER_ASSET = 2000"
definition MAX_COMPONENT_METADATA_FIELDS :: nat where "MAX_COMPONENT_METADATA_FIELDS = 8"
definition MAX_COMPONENT_EVIDENCE_IDS :: nat where "MAX_COMPONENT_EVIDENCE_IDS = 16"
definition MAX_COMPONENT_FUTURE_SKEW :: timedelta where "MAX_COMPONENT_FUTURE_SKEW = minutes 5"
definition DEFAULT_COMPONENT_FRESH_HOURS :: int where "DEFAULT_COMPONENT_FRESH_HOURS = 72"
definition DEFAULT_COMPONENT_STALE_HOURS :: int where "DEFAULT_COMPONENT_STALE_HOURS = 24 * 30"

definition FIRMWARE_EVIDENCE_TYPES :: "string list" where
  "FIRMWARE_EVIDENCE_TYPES =
     [''direct'', ''vendor-reported'', ''collector-reported'', ''inferred'', ''unknown'']"

text \<open>\<^verbatim>\<open>sorted(SAFE_METADATA_FIELDS)\<close>.\<close>

definition SAFE_METADATA_FIELDS :: "string list" where
  "SAFE_METADATA_FIELDS =
     [''channel'', ''description'', ''edition'', ''install_state'', ''language'', ''release'',
      ''repository'', ''service_pack'']"

record NormalizedComponent =
  nc_component_id :: string
  nc_asset_id :: string
  nc_site_id :: string
  nc_component_type :: string
  nc_ecosystem :: string
  nc_namespace :: "string option"
  nc_vendor :: "string option"
  nc_name :: string
  nc_normalized_name :: string
  nc_version :: "string option"
  nc_normalized_version :: "string option"
  nc_architecture :: "string option"
  nc_package_manager :: "string option"
  nc_canonical_identifier :: "string option"
  nc_cpe_hint :: "string option"
  nc_install_scope :: string
  nc_source_type :: string
  nc_source_id :: string
  nc_firmware_evidence_type :: string
  nc_evidence_ids :: "string list"
  nc_observed_at :: instant
  nc_first_seen_at :: instant
  nc_last_seen_at :: instant
  nc_freshness :: string
  nc_confidence :: rat
  nc_normalization_status :: string
  nc_metadata :: "(string \<times> string) list"
  nc_inventory_complete :: bool
  nc_collection_source_id :: "string option"
  nc_source_record_id :: "string option"
  nc_evidence_method :: "string option"

record ComponentSourceSnapshot =
  css_source_snapshot_id :: string
  css_canonical_collection_id :: string
  css_site_id :: string
  css_asset_id :: string
  css_agent_source_id :: string
  css_collection_source_id :: string
  css_platform :: string
  css_collection_status :: string
  css_observed_at :: instant
  css_record_count :: nat
  css_truncated :: bool
  css_error_code :: "string option"
  css_limitations :: "string list"

section \<open>Times and confidence\<close>

fun utc_value :: "pyval \<Rightarrow> instant \<Rightarrow> instant result" where
  "utc_value (PTime t) received_at = Inr (min t (received_at + MAX_COMPONENT_FUTURE_SKEW))"
| "utc_value (PStr s) received_at =
     (case from_isoformat (replace_z s) of
        None \<Rightarrow> Inr received_at
      | Some (_, None) \<Rightarrow> Inr received_at
      | Some (local_time, Some offset) \<Rightarrow>
          bind_result (astimezone_utc local_time offset)
            (\<lambda>candidate. Inr (min candidate (received_at + MAX_COMPONENT_FUTURE_SKEW))))"
| "utc_value _ received_at = Inr received_at"

definition component_freshness :: "instant \<Rightarrow> instant \<Rightarrow> string" where
  "component_freshness observed now =
     (let age = max 0 (now - observed)
      in if age \<le> hours DEFAULT_COMPONENT_FRESH_HOURS then ''fresh''
         else if age \<le> hours DEFAULT_COMPONENT_STALE_HOURS then ''aging''
         else ''stale'')"

section \<open>The source of a payload\<close>

definition source_context :: "pydict \<Rightarrow> pydict \<Rightarrow> bool \<Rightarrow> string \<times> string \<times> bool" where
  "source_context payload asset source_authenticated =
     (let declared_type = normalized_token (get payload ''sensor_type'') 64;
          observation_source = normalized_token (get payload ''observation_source'') 64;
          source = bounded_text
            (py_or (py_or (get payload ''sensor_id'') (get payload ''agent_id''))
                   (get asset ''source_agent_id'')) 160;
          source_or = (\<lambda>fallback. if source = [] then fallback else source)
      in if \<not> source_authenticated
         then (''untrusted-ingestion'', ''untrusted-local-inventory'', False)
         else if declared_type \<in> {''endpoint-collector'', ''endpoint-agent'', ''collector''}
         then (''endpoint-collector'', source_or ''endpoint-source'', True)
         else if declared_type = ''passive-network-sensor''
         then (''passive-network-sensor'', source_or ''passive-source'', False)
         else if declared_type = ''connector''
         then (''reviewed-connector'', source_or ''connector-source'', True)
         else if observation_source \<in> {''endpoint-inventory'', ''local-inventory''}
         then (''connector'', source_or ''connector-source'', False)
         else if observation_source = ''passive-network''
         then (''passive-network-sensor'', source_or ''passive-source'', False)
         else (''connector'', source_or ''connector-source'', False))"

section \<open>The entries of an asset\<close>

definition COMPONENT_FIELDS :: "(string \<times> pyval) list" where
  "COMPONENT_FIELDS =
     [(''components'', PNone), (''software'', PStr ''application''),
      (''packages'', PStr ''operating-system-package''), (''firmware'', PStr ''firmware'')]"

fun dict_items :: "pyval \<Rightarrow> pydict" where
  "dict_items (PDict d) = d"
| "dict_items _ = []"

fun new_entry :: "pyval \<Rightarrow> pyval \<Rightarrow> pydict list" where
  "new_entry default_type (PDict d) = [AList.update ''_default_component_type'' default_type d]"
| "new_entry default_type (PStr s) = [[(''name'', PStr s), (''_default_component_type'', default_type)]]"
| "new_entry default_type _ = []"

text \<open>One pass over \<^verbatim>\<open>entries\<close>; the flag is the early return of the whole function.\<close>

fun add_entries :: "pyval \<Rightarrow> pyval list \<Rightarrow> pydict list \<Rightarrow> pydict list \<times> bool" where
  "add_entries default_type [] collected = (collected, False)"
| "add_entries default_type (e # es) collected =
     (let collected = collected @ new_entry default_type e
      in if MAX_COMPONENTS_PER_ASSET \<le> length collected then (collected, True)
         else add_entries default_type es collected)"

definition field_entries :: "pydict \<Rightarrow> string \<Rightarrow> pyval list" where
  "field_entries container field_name =
     (case get container field_name of
        PDict d \<Rightarrow> if field_name = ''firmware'' then [PDict d] else []
      | PList es \<Rightarrow> take MAX_COMPONENTS_PER_ASSET es
      | _ \<Rightarrow> [])"

fun walk_fields :: "(pydict \<times> string \<times> pyval) list \<Rightarrow> pydict list \<Rightarrow> pydict list" where
  "walk_fields [] collected = collected"
| "walk_fields ((container, field_name, default_type) # rest) collected =
     (let (collected, full) = add_entries default_type (field_entries container field_name) collected
      in if full then collected else walk_fields rest collected)"

definition component_entries :: "pydict \<Rightarrow> pydict list" where
  "component_entries asset =
     walk_fields
       (concat (map (\<lambda>container. map (Pair container) COMPONENT_FIELDS)
          [asset, dict_items (get asset ''metadata'')])) []"

section \<open>Metadata, evidence and identifiers\<close>

fun collect_metadata :: "pydict \<Rightarrow> string list \<Rightarrow> (string \<times> string) list \<Rightarrow> (string \<times> string) list" where
  "collect_metadata d [] found = found"
| "collect_metadata d (key # keys) found =
     (let text = bounded_text (get d key) 160;
          found = (if text = [] then found else found @ [(key, text)])
      in if MAX_COMPONENT_METADATA_FIELDS \<le> length found then found
         else collect_metadata d keys found)"

fun safe_metadata :: "pyval \<Rightarrow> (string \<times> string) list" where
  "safe_metadata (PDict d) = collect_metadata d SAFE_METADATA_FIELDS []"
| "safe_metadata _ = []"

text \<open>\<^verbatim>\<open>[a-z][a-z0-9_-]{3,79}\<close> and \<^verbatim>\<open>[a-z0-9][a-z0-9._-]{0,63}\<close>, both with \<^verbatim>\<open>re.fullmatch\<close>.\<close>

definition evidence_claim :: "string \<Rightarrow> bool" where
  "evidence_claim s \<longleftrightarrow>
     4 \<le> length s \<and> length s \<le> 80 \<and> is_lower (hd s) \<and>
     list_all (\<lambda>c. is_lower c \<or> is_digit c \<or> c = CHR ''_'' \<or> c = CHR ''-'') s"

definition source_token :: "string \<Rightarrow> bool" where
  "source_token s \<longleftrightarrow>
     s \<noteq> [] \<and> length s \<le> 64 \<and> (is_lower (hd s) \<or> is_digit (hd s)) \<and>
     list_all (\<lambda>c. is_lower c \<or> is_digit c \<or> c = CHR ''.'' \<or> c = CHR ''_'' \<or> c = CHR ''-'') s"

definition nul :: string where "nul = [char_of (0 :: int)]"
definition unit_separator :: string where "unit_separator = [char_of (31 :: int)]"

definition evidence_claims :: "pydict \<Rightarrow> string list" where
  "evidence_claims entry =
     filter evidence_claim
       (map (\<lambda>v. bounded_text v 80)
          (take MAX_COMPONENT_EVIDENCE_IDS (list_items (get entry ''evidence_ids''))))"

definition evidence_ids_for ::
  "pydict \<Rightarrow> string \<Rightarrow> string \<Rightarrow> string \<Rightarrow> string \<Rightarrow> string list" where
  "evidence_ids_for entry site asset source identity =
     (let claims = evidence_claims entry
      in fromkeys
           (map (\<lambda>claim. digest_id ''cpe_'' (py_join nul [site, asset, source, identity, claim]))
              (if claims = [] then [''server-observation''] else claims)))"

definition component_id_for ::
  "string \<Rightarrow> string \<Rightarrow> string \<Rightarrow> string option \<Rightarrow> string \<Rightarrow> string" where
  "component_id_for site asset identity arch scope =
     digest_id ''cmp_''
       (py_join nul
          [site, asset, casefold identity, case arch of None \<Rightarrow> [] | Some a \<Rightarrow> a, scope])"

section \<open>One normalised component\<close>

text \<open>
  The pieces of \<^verbatim>\<open>_normalized_component\<close>, each a function of the entry and of what was computed before it.
  \<open>pp_field\<close> is \<^verbatim>\<open>parsed_purl.f if parsed_purl else None\<close>.
\<close>

fun pystr :: "string option \<Rightarrow> pyval" where
  "pystr None = PNone"
| "pystr (Some s) = PStr s"

definition pp_field :: "ParsedPurl option \<Rightarrow> (ParsedPurl \<Rightarrow> string option) \<Rightarrow> pyval" where
  "pp_field parsed f = (case parsed of None \<Rightarrow> PNone | Some p \<Rightarrow> pystr (f p))"

definition initial_type :: "pydict \<Rightarrow> pyval" where
  "initial_type entry =
     py_or (py_or (py_or (get entry ''component_type'') (get entry ''type''))
                  (get entry ''_default_component_type'')) (PStr [])"

definition entry_ecosystem :: "pydict \<Rightarrow> ParsedPurl option \<Rightarrow> string" where
  "entry_ecosystem entry parsed =
     (case parsed of
        Some p \<Rightarrow> pp_ecosystem p
      | None \<Rightarrow> normalize_ecosystem (py_or (get entry ''ecosystem'') (get entry ''package_manager''))
                 (normalized_token (initial_type entry) 48))"

definition entry_name :: "pydict \<Rightarrow> ParsedPurl option \<Rightarrow> string" where
  "entry_name entry parsed =
     bounded_text
       (py_or (py_or (py_or (get entry ''name'') (get entry ''product'')) (get entry ''package''))
              (pp_field parsed (\<lambda>p. Some (pp_name p)))) MAX_COMPONENT_NAME"

definition entry_normalized_name :: "ParsedPurl option \<Rightarrow> string \<Rightarrow> string" where
  "entry_normalized_name parsed raw =
     normalized_token (PStr (case parsed of Some p \<Rightarrow> pp_name p | None \<Rightarrow> raw)) MAX_COMPONENT_NAME"

definition entry_namespace :: "pydict \<Rightarrow> ParsedPurl option \<Rightarrow> string \<Rightarrow> string option" where
  "entry_namespace entry parsed eco =
     (case parsed of
        Some p \<Rightarrow> pp_namespace p
      | None \<Rightarrow> canonical_purl_namespace eco
                  (nonempty (bounded_text (py_or (get entry ''namespace'') PNone) 160)))"

definition entry_vendor :: "pydict \<Rightarrow> string \<Rightarrow> string option \<Rightarrow> string option" where
  "entry_vendor entry kind ns =
     (let v = nonempty (bounded_text (py_or (get entry ''vendor'') (get entry ''manufacturer'')) 160)
      in if kind = ''firmware'' \<and> v = None \<and> ns \<noteq> None \<and> ns \<noteq> Some [] then ns else v)"

definition entry_version :: "pydict \<Rightarrow> ParsedPurl option \<Rightarrow> string option" where
  "entry_version entry parsed =
     normalize_version_text
       (py_or (py_or (get entry ''version'') (get entry ''firmware_version''))
              (pp_field parsed pp_version))"

definition entry_scope :: "pydict \<Rightarrow> string" where
  "entry_scope entry =
     (let t = normalized_token
                (py_or (py_or (get entry ''install_scope'') (get entry ''scope'')) (PStr ''system'')) 40
      in if t = [] then ''system'' else t)"

definition entry_identifier ::
  "ParsedPurl option \<Rightarrow> string \<Rightarrow> string option \<Rightarrow> string \<Rightarrow> string option" where
  "entry_identifier parsed eco ns raw =
     (case parsed of
        Some p \<Rightarrow> purl_identity (PStr (pp_canonical p))
      | None \<Rightarrow> if eco \<notin> {''generic'', ''firmware'', ''operating-system''}
                then build_purl eco ns raw None else None)"

definition entry_cpe_hint :: "pydict \<Rightarrow> string option" where
  "entry_cpe_hint entry =
     (if truthy (get entry ''cpe_reviewed'')
      then nonempty (bounded_text (py_or (get entry ''cpe_hint'') (get entry ''cpe'')) 500)
      else None)"

definition firmware_evidence :: "pydict \<Rightarrow> string \<Rightarrow> bool \<Rightarrow> string" where
  "firmware_evidence entry kind direct_source =
     (let declared = normalized_token
            (py_or (get entry ''firmware_evidence_type'') (get entry ''evidence_type'')) 40
      in if kind = ''firmware''
         then (let declared = (if declared \<notin> set FIRMWARE_EVIDENCE_TYPES
                               then (if direct_source then ''collector-reported'' else ''inferred'')
                               else declared)
               in if \<not> direct_source \<and> declared \<in> {''direct'', ''collector-reported''}
                  then ''inferred'' else declared)
         else ''unknown'')"

definition entry_identity ::
  "string option \<Rightarrow> string \<Rightarrow> string option \<Rightarrow> string option \<Rightarrow> string \<Rightarrow> string" where
  "entry_identity identifier eco v ns normalized =
     (case identifier of
        Some i \<Rightarrow> i
      | None \<Rightarrow> py_join unit_separator
                  [eco, normalized_token (pystr v) 160, case ns of None \<Rightarrow> [] | Some n \<Rightarrow> n, normalized])"

text \<open>The collector's record of its evidence: source, record and method, all three or none.\<close>

definition source_claim :: "pydict \<Rightarrow> (string \<times> string \<times> string) option" where
  "source_claim entry =
     (let source = bounded_text (get entry ''collection_source_id'') 64;
          record_id = bounded_text (get entry ''source_record_id'') 240;
          evidence = bounded_text (get entry ''evidence_method'') 64
      in if source_token source \<and> record_id \<noteq> [] \<and> source_token evidence
         then Some (source, record_id, evidence) else None)"

definition claim_identity :: "string \<Rightarrow> (string \<times> string \<times> string) option \<Rightarrow> string" where
  "claim_identity identity claim =
     (case claim of
        None \<Rightarrow> identity
      | Some (source, record_id, evidence) \<Rightarrow>
          py_join unit_separator [identity, source, record_id, evidence])"

definition component_status ::
  "string \<Rightarrow> string \<Rightarrow> string option \<Rightarrow> string option \<Rightarrow> string \<Rightarrow> string option \<Rightarrow> string option \<Rightarrow> string" where
  "component_status eco kind v ver evidence identifier ns =
     (if eco \<notin> set SUPPORTED_ECOSYSTEMS then ''unsupported-ecosystem''
      else if kind = ''firmware'' \<and> (v = None \<or> ver = None \<or> evidence \<in> {''inferred'', ''unknown''})
      then ''insufficient-firmware-evidence''
      else if ver = None then ''version-unknown''
      else if kind = ''firmware'' then ''normalized''
      else if identifier = None \<or> eco = ''generic'' \<and> v = None \<and> (ns = None \<or> ns = Some [])
      then ''identity-uncertain''
      else ''normalized'')"

text \<open>The arguments of \<^verbatim>\<open>_normalized_component\<close> that are the same for all entries of an asset.\<close>

record AssetContext =
  ctx_site_id :: string
  ctx_asset_id :: string
  ctx_source_type :: string
  ctx_source_id :: string
  ctx_direct_source :: bool
  ctx_received_at :: instant
  ctx_default_observed_at :: pyval
  ctx_default_confidence :: rat
  ctx_inventory_complete :: bool

text \<open>The component of an entry that has a name, given its time of observation and its confidence.\<close>

definition component_of ::
  "AssetContext \<Rightarrow> pydict \<Rightarrow> ParsedPurl option \<Rightarrow> instant \<Rightarrow> rat \<Rightarrow> NormalizedComponent" where
  "component_of ctx entry parsed seen conf =
     (let eco = entry_ecosystem entry parsed;
          kind = normalize_component_type (initial_type entry) eco;
          raw = entry_name entry parsed;
          normalized = entry_normalized_name parsed raw;
          ns = entry_namespace entry parsed eco;
          v = entry_vendor entry kind ns;
          ver = entry_version entry parsed;
          arch = normalize_architecture (get entry ''architecture'');
          scope = entry_scope entry;
          identifier = entry_identifier parsed eco ns raw;
          evidence = firmware_evidence entry kind (ctx_direct_source ctx);
          identity = entry_identity identifier eco v ns normalized;
          claim = source_claim entry
      in \<lparr>nc_component_id =
            component_id_for (ctx_site_id ctx) (ctx_asset_id ctx) identity arch scope,
          nc_asset_id = ctx_asset_id ctx,
          nc_site_id = ctx_site_id ctx,
          nc_component_type = kind,
          nc_ecosystem = eco,
          nc_namespace = ns,
          nc_vendor = v,
          nc_name = raw,
          nc_normalized_name = normalized,
          nc_version = ver,
          nc_normalized_version = ver,
          nc_architecture = arch,
          nc_package_manager = nonempty (normalized_token (get entry ''package_manager'') 48),
          nc_canonical_identifier = identifier,
          nc_cpe_hint = entry_cpe_hint entry,
          nc_install_scope = scope,
          nc_source_type = ctx_source_type ctx,
          nc_source_id = ctx_source_id ctx,
          nc_firmware_evidence_type = evidence,
          nc_evidence_ids =
            evidence_ids_for entry (ctx_site_id ctx) (ctx_asset_id ctx) (ctx_source_id ctx)
              (claim_identity identity claim),
          nc_observed_at = seen,
          nc_first_seen_at = seen,
          nc_last_seen_at = seen,
          nc_freshness = component_freshness seen (ctx_received_at ctx),
          nc_confidence = conf,
          nc_normalization_status = component_status eco kind v ver evidence identifier ns,
          nc_metadata = safe_metadata (get entry ''metadata''),
          nc_inventory_complete = ctx_inventory_complete ctx,
          nc_collection_source_id = map_option fst claim,
          nc_source_record_id = map_option (fst \<circ> snd) claim,
          nc_evidence_method = map_option (snd \<circ> snd) claim\<rparr>)"

definition normalized_component :: "AssetContext \<Rightarrow> pydict \<Rightarrow> NormalizedComponent option result" where
  "normalized_component ctx entry =
     (let parsed = parse_purl (py_or (get entry ''purl'') (get entry ''package_url''));
          raw = entry_name entry parsed
      in if raw = [] \<or> entry_normalized_name parsed raw = [] then Inr None
         else bind_result
                (utc_value (py_or (get entry ''observed_at'') (ctx_default_observed_at ctx))
                   (ctx_received_at ctx))
                (\<lambda>seen. bind_result
                   (confidence_or (get entry ''confidence'')
                      (if ctx_direct_source ctx then ctx_default_confidence ctx
                       else min (ctx_default_confidence ctx) (fl (55 / 100))))
                   (\<lambda>conf. Inr (Some (component_of ctx entry parsed seen conf)))))"

section \<open>The components of an asset\<close>

definition complete_requested :: "pydict \<Rightarrow> pydict \<Rightarrow> bool" where
  "complete_requested payload asset \<longleftrightarrow>
     truthy (py_or (py_or (get payload ''component_inventory_complete'')
                          (get payload ''inventory_complete''))
                   (get asset ''component_inventory_complete''))"

definition asset_observed_at :: "pydict \<Rightarrow> pydict \<Rightarrow> pyval" where
  "asset_observed_at payload asset =
     py_or (py_or (get asset ''observed_at'') (get payload ''observed_at'')) (get payload ''collected_at'')"

definition component_key :: "NormalizedComponent \<Rightarrow> instant \<times> rat \<times> string list" where
  "component_key c = (nc_observed_at c, nc_confidence c, nc_evidence_ids c)"

definition store_component ::
  "NormalizedComponent \<Rightarrow> (string, NormalizedComponent) odict \<Rightarrow> (string, NormalizedComponent) odict" where
  "store_component c components =
     (case map_of components (nc_component_id c) of
        None \<Rightarrow> AList.update (nc_component_id c) c components
      | Some existing \<Rightarrow>
          if component_key existing < component_key c
          then AList.update (nc_component_id c) c components else components)"

fun collect_components ::
  "AssetContext \<Rightarrow> pydict list \<Rightarrow> (string, NormalizedComponent) odict
     \<Rightarrow> (string, NormalizedComponent) odict result" where
  "collect_components ctx [] components = Inr components"
| "collect_components ctx (entry # entries) components =
     bind_result (normalized_component ctx entry)
       (\<lambda>c. collect_components ctx entries
              (case c of None \<Rightarrow> components | Some c \<Rightarrow> store_component c components))"

definition asset_context ::
  "pydict \<Rightarrow> pydict \<Rightarrow> instant \<Rightarrow> bool \<Rightarrow> rat \<Rightarrow> AssetContext" where
  "asset_context asset payload received_at source_authenticated default_confidence =
     (let (source_kind, source, direct_source) = source_context payload asset source_authenticated
      in \<lparr>ctx_site_id = bounded_text (get asset ''site_id'') 128,
          ctx_asset_id = bounded_text (get asset ''asset_id'') 160,
          ctx_source_type = source_kind, ctx_source_id = source, ctx_direct_source = direct_source,
          ctx_received_at = received_at,
          ctx_default_observed_at = asset_observed_at payload asset,
          ctx_default_confidence = default_confidence,
          ctx_inventory_complete = complete_requested payload asset \<and> direct_source\<rparr>)"

definition normalize_components_for_asset ::
  "pydict \<Rightarrow> pydict \<Rightarrow> instant \<Rightarrow> bool \<Rightarrow> NormalizedComponent list result" where
  "normalize_components_for_asset asset payload received_at source_authenticated =
     (if bounded_text (get asset ''site_id'') 128 = [] \<or> bounded_text (get asset ''asset_id'') 160 = []
      then Inr []
      else bind_result (confidence_or (get payload ''confidence'') (fl (8 / 10)))
             (\<lambda>default_confidence.
                map_sum id (map snd)
                  (collect_components
                     (asset_context asset payload received_at source_authenticated default_confidence)
                     (component_entries asset) [])))"

definition complete_component_inventory_scope ::
  "pydict \<Rightarrow> pydict \<Rightarrow> instant \<Rightarrow> bool \<Rightarrow> (string \<times> string \<times> string \<times> instant) option result" where
  "complete_component_inventory_scope asset payload received_at source_authenticated =
     (let site = bounded_text (get asset ''site_id'') 128;
          asset_name = bounded_text (get asset ''asset_id'') 160;
          (source_kind, source, direct_source) = source_context payload asset source_authenticated
      in if site = [] \<or> asset_name = [] \<or> source = [] \<or> source_kind \<noteq> ''endpoint-collector''
            \<or> \<not> direct_source \<or> \<not> complete_requested payload asset
         then Inr None
         else map_sum id (\<lambda>seen. Some (site, asset_name, source, seen))
                (utc_value (asset_observed_at payload asset) received_at))"

section \<open>Source snapshots\<close>

definition collection_id :: "string \<Rightarrow> bool" where
  "collection_id s \<longleftrightarrow>
     take 4 s = ''col_'' \<and> length s = 36 \<and> list_all is_hex_lower (drop 4 s)"

fun count_sources :: "pydict list \<Rightarrow> (string, nat) odict \<Rightarrow> (string, nat) odict" where
  "count_sources [] counts = counts"
| "count_sources (entry # entries) counts =
     (let source = bounded_text (get entry ''collection_source_id'') 64
      in count_sources entries
           (if source = [] then counts
            else AList.update source
                   ((case map_of counts source of None \<Rightarrow> 0 | Some n \<Rightarrow> n) + 1) counts))"

fun source_snapshots ::
  "string \<Rightarrow> string \<Rightarrow> string \<Rightarrow> string \<Rightarrow> instant \<Rightarrow> (string, nat) odict \<Rightarrow> pyval list
     \<Rightarrow> ComponentSourceSnapshot list result" where
  "source_snapshots collection site asset agent received_at counts [] = Inr []"
| "source_snapshots collection site asset agent received_at counts (PDict raw # raws) =
     (let source = bounded_text (get raw ''source_id'') 64;
          system = bounded_text (get raw ''platform'') 32;
          status = bounded_text (get raw ''status'') 16
      in if \<not> source_token source \<or> system \<notin> {''windows'', ''linux'', ''darwin''}
            \<or> status \<notin> {''complete'', ''partial'', ''unsupported'', ''failed''}
         then source_snapshots collection site asset agent received_at counts raws
         else bind_result (utc_value (get raw ''observed_at'') received_at)
                (\<lambda>seen. map_sum id
                   (Cons \<lparr>css_source_snapshot_id =
                            digest_id ''css_'' (py_join nul [collection, site, asset, agent, source]),
                          css_canonical_collection_id = collection,
                          css_site_id = site,
                          css_asset_id = asset,
                          css_agent_source_id = agent,
                          css_collection_source_id = source,
                          css_platform = system,
                          css_collection_status = status,
                          css_observed_at = seen,
                          css_record_count =
                            (case map_of counts source of None \<Rightarrow> 0 | Some n \<Rightarrow> n),
                          css_truncated = truthy (get raw ''truncated''),
                          css_error_code = nonempty (bounded_text (get raw ''error_code'') 80),
                          css_limitations =
                            fromkeys (filter (\<lambda>t. t \<noteq> [])
                              (map (\<lambda>v. bounded_text v 120)
                                 (take 8 (list_items (get raw ''limitations'')))))\<rparr>)
                   (source_snapshots collection site asset agent received_at counts raws)))"
| "source_snapshots collection site asset agent received_at counts (_ # raws) =
     source_snapshots collection site asset agent received_at counts raws"

definition component_source_snapshots_for_asset ::
  "pydict \<Rightarrow> pydict \<Rightarrow> instant \<Rightarrow> bool \<Rightarrow> string option \<Rightarrow> ComponentSourceSnapshot list result" where
  "component_source_snapshots_for_asset asset payload received_at source_authenticated collection =
     (case collection of
        None \<Rightarrow> Inr []
      | Some collection \<Rightarrow>
          if \<not> collection_id collection then Inr []
          else let site = bounded_text (get asset ''site_id'') 128;
                   asset_name = bounded_text (get asset ''asset_id'') 160;
                   (source_kind, agent, direct_source) = source_context payload asset source_authenticated
               in if site = [] \<or> asset_name = [] \<or> source_kind \<noteq> ''endpoint-collector'' \<or> \<not> direct_source
                  then Inr []
                  else source_snapshots collection site asset_name agent received_at
                         (count_sources (component_entries asset) [])
                         (take 8 (list_items (get payload ''software_sources''))))"

section \<open>The payload\<close>

definition merge_dict :: "pydict \<Rightarrow> pydict \<Rightarrow> pydict" where
  "merge_dict d updates = foldl (\<lambda>d (k, v). AList.update k v d) d updates"

definition payload_asset :: "pydict \<Rightarrow> string \<Rightarrow> nat \<Rightarrow> pydict \<Rightarrow> pydict" where
  "payload_asset payload site index raw =
     (let asset_name = bounded_text
            (py_or (py_or (py_or (get raw ''asset_id'') (get raw ''hostname'')) (get raw ''mac''))
                   (get raw ''primary_ip'')) 160;
          asset_name = (if asset_name = [] then ''observed-'' @ dec_int (int index + 1) else asset_name)
      in merge_dict raw
           [(''site_id'', PStr site), (''asset_id'', PStr asset_name),
            (''source_agent_id'', py_or (get payload ''sensor_id'') (get payload ''agent_id'')),
            (''metadata'', PDict raw)])"

fun normalize_assets ::
  "pydict \<Rightarrow> string \<Rightarrow> instant \<Rightarrow> bool \<Rightarrow> nat \<Rightarrow> pyval list \<Rightarrow> NormalizedComponent list result" where
  "normalize_assets payload site received_at authenticated index [] = Inr []"
| "normalize_assets payload site received_at authenticated index (PDict raw # raws) =
     bind_result
       (normalize_components_for_asset (payload_asset payload site index raw) payload received_at
          authenticated)
       (\<lambda>cs. map_sum id ((@) cs)
          (normalize_assets payload site received_at authenticated (Suc index) raws))"
| "normalize_assets payload site received_at authenticated index (_ # raws) =
     normalize_assets payload site received_at authenticated (Suc index) raws"

definition normalize_component_payload ::
  "pydict \<Rightarrow> string \<Rightarrow> instant \<Rightarrow> bool \<Rightarrow> NormalizedComponent list result" where
  "normalize_component_payload payload site received_at authenticated =
     normalize_assets payload site received_at authenticated 0
       (take 50000 (list_items (get payload ''assets'')))"

end
