(* ===== verification/Keyed_Best.thy ===== *)
theory Keyed_Best
  imports OAW_Prelude
begin

text \<open>
  Dictionaries that keep the greatest element for every key: the components of an asset by id, the evidence
  of a source by method and kind, the signals of a category by source.  The locale \<open>keyed_best\<close> is their
  common contract; every store operation of the model interprets it.
\<close>

definition best_in ::
  "('a \<Rightarrow> 'k) \<Rightarrow> ('a \<Rightarrow> 'r::linorder) \<Rightarrow> 'a set \<Rightarrow> ('k, 'a) odict \<Rightarrow> bool" where
  "best_in key rank seen d \<longleftrightarrow>
     distinct (map fst d) \<and>
     (\<forall>(k, x) \<in> set d. k = key x \<and> x \<in> seen) \<and>
     (\<forall>x \<in> seen. \<exists>y. (key x, y) \<in> set d \<and> rank x \<le> rank y)"

lemma set_update_iff:
  assumes "distinct (map fst d)"
  shows "(k', v') \<in> set (AList.update k v d) \<longleftrightarrow> (if k' = k then v' = v else (k', v') \<in> set d)"
proof -
  have "(k', v') \<in> set (AList.update k v d) \<longleftrightarrow> map_of (AList.update k v d) k' = Some v'"
    using assms by (simp only: map_of_eq_Some_iff distinct_update)
  moreover have "(k', v') \<in> set d \<longleftrightarrow> map_of d k' = Some v'"
    using assms by (simp only: map_of_eq_Some_iff)
  ultimately show ?thesis by (auto simp: update_conv')
qed

lemma best_in_Nil [simp]: "best_in key rank {} []"
  by (simp add: best_in_def)

lemma best_inD:
  assumes "best_in key rank seen d"
  shows "distinct (map fst d)"
    "(k, x) \<in> set d \<Longrightarrow> k = key x" "(k, x) \<in> set d \<Longrightarrow> x \<in> seen"
    "x \<in> seen \<Longrightarrow> \<exists>y. (key x, y) \<in> set d \<and> rank x \<le> rank y"
  using assms by (auto simp: best_in_def)

lemma best_in_keys: "best_in key rank seen d \<Longrightarrow> map key (map snd d) = map fst d"
  by (auto simp: best_in_def)

lemma best_in_values: "best_in key rank seen d \<Longrightarrow> set (map snd d) \<subseteq> seen"
  by (auto simp: best_in_def)

lemma best_in_covered:
  assumes "best_in key rank seen d" "(key x, y) \<in> set d" "rank x \<le> rank y"
  shows "best_in key rank (insert x seen) d"
  using assms unfolding best_in_def by blast

text \<open>If no two elements tie, the best elements are determined by the set.\<close>

lemma best_in_unique:
  assumes d: "best_in key rank seen d" and d': "best_in key rank seen d'"
    and no_tie: "\<And>x y. x \<in> seen \<Longrightarrow> y \<in> seen \<Longrightarrow> key x = key y \<Longrightarrow> rank x = rank y \<Longrightarrow> x = y"
  shows "set d = set d'"
proof -
  have sub: "set a \<subseteq> set b" if a: "best_in key rank seen a" and b: "best_in key rank seen b" for a b
  proof
    fix p assume "p \<in> set a"
    then obtain x where x: "p = (key x, x)" "x \<in> seen" "(key x, x) \<in> set a"
      using best_inD [OF a] by (metis surj_pair)
    obtain y where y: "(key x, y) \<in> set b" "rank x \<le> rank y"
      using best_inD(4) [OF b x(2)] by blast
    have "y \<in> seen" "key y = key x" using best_inD(2,3) [OF b y(1)] by auto
    obtain z where z: "(key y, z) \<in> set a" "rank y \<le> rank z"
      using best_inD(4) [OF a \<open>y \<in> seen\<close>] by blast
    have "z = x" using eq_key_imp_eq_value [OF best_inD(1) [OF a]] z(1) x(3) \<open>key y = key x\<close> by metis
    then have "y = x" using no_tie [of y x] \<open>y \<in> seen\<close> \<open>key y = key x\<close> x(2) y(2) z(2) by auto
    then show "p \<in> set b" using x y(1) by simp
  qed
  from sub [OF d d'] sub [OF d' d] show ?thesis by blast
qed

lemma best_in_mset:
  assumes "best_in key rank seen d" "best_in key rank seen d'"
    and "\<And>x y. x \<in> seen \<Longrightarrow> y \<in> seen \<Longrightarrow> key x = key y \<Longrightarrow> rank x = rank y \<Longrightarrow> x = y"
  shows "mset (map snd d) = mset (map snd d')"
proof -
  have "distinct d" "distinct d'"
    using best_inD(1) [OF assms(1)] best_inD(1) [OF assms(2)] by (simp_all add: distinct_map)
  moreover have "set d = set d'" using assms by (rule best_in_unique)
  ultimately have "mset d = mset d'" by (simp add: set_eq_iff_mset_eq_distinct)
  then show ?thesis by (simp add: mset_map)
qed

locale keyed_best =
  fixes key :: "'a \<Rightarrow> 'k" and rank :: "'a \<Rightarrow> 'r::linorder"
    and store :: "'a \<Rightarrow> ('k, 'a) odict \<Rightarrow> ('k, 'a) odict"
  assumes store_eq:
    "store x d =
       (case map_of d (key x) of
          None \<Rightarrow> AList.update (key x) x d
        | Some y \<Rightarrow> if rank y < rank x then AList.update (key x) x d else d)"
begin

lemma replace_best:
  assumes inv: "best_in key rank seen d"
    and newer: "\<And>y. (key x, y) \<in> set d \<Longrightarrow> rank y \<le> rank x"
  shows "best_in key rank (insert x seen) (AList.update (key x) x d)"
proof -
  let ?new = "AList.update (key x) x d"
  note upd = set_update_iff [OF best_inD(1) [OF inv]]
  have "\<exists>y. (key b, y) \<in> set ?new \<and> rank b \<le> rank y" if b: "b \<in> insert x seen" for b
  proof (cases "key b = key x")
    case True
    have "rank b \<le> rank x"
    proof (cases "b = x")
      case False
      then obtain y where "(key b, y) \<in> set d" "rank b \<le> rank y"
        using b best_inD(4) [OF inv] by blast
      then show ?thesis using newer [of y] True by simp
    qed simp
    then show ?thesis using True by (simp add: upd)
  next
    case False
    then show ?thesis using b best_inD(4) [OF inv, of b] by (auto simp: upd)
  qed
  moreover have "k = key y \<and> y \<in> insert x seen" if "(k, y) \<in> set ?new" for k y
    using that best_inD(2,3) [OF inv, of k y] by (simp add: upd split: if_splits)
  ultimately show ?thesis using best_inD(1) [OF inv] by (auto simp: best_in_def distinct_update)
qed

lemma store_best:
  assumes inv: "best_in key rank seen d"
  shows "best_in key rank (insert x seen) (store x d)"
proof (cases "map_of d (key x)")
  case None
  then have "(key x, y) \<notin> set d" for y by (force simp: map_of_eq_None_iff)
  then show ?thesis using replace_best [OF inv, of x] None by (simp add: store_eq)
next
  case (Some y)
  then have y: "(key x, y) \<in> set d" by (rule map_of_SomeD)
  show ?thesis
  proof (cases "rank y < rank x")
    case True
    have "rank y' \<le> rank x" if "(key x, y') \<in> set d" for y'
      using eq_key_imp_eq_value [OF best_inD(1) [OF inv] y that] True by simp
    then show ?thesis using replace_best [OF inv] True Some by (simp add: store_eq)
  next
    case False
    then have "best_in key rank (insert x seen) d"
      using best_in_covered [OF inv y] by simp
    then show ?thesis using Some False by (simp add: store_eq)
  qed
qed

lemma store_nonempty: "store x d \<noteq> []"
proof -
  have "AList.update k v d \<noteq> []" for k v by (cases d) auto
  then show ?thesis by (auto simp: store_eq split: option.split)
qed

end

end
