(* ===== verification/Normalization_Laws.thy ===== *)
theory Normalization_Laws
  imports Component_Normalization Keyed_Best
begin

text \<open>
  What the per-asset normalisation of Component_Normalization guarantees: the bounded list of entries, the
  shape of every component, the dictionary that keeps the newest evidence of a component, the limits of
  what an unauthenticated source can claim, and exactly when the normalisation fails.
\<close>

lemmas bind_Inr = bind_result_eq_Inr_iff

section \<open>Entries\<close>

definition all_entries :: "pydict \<times> string \<times> pyval \<Rightarrow> pydict list" where
  "all_entries f =
     (case f of (container, field_name, default_type) \<Rightarrow>
        concat (map (new_entry default_type) (field_entries container field_name)))"

lemma length_new_entry: "length (new_entry dt e) \<le> 1"
  by (cases e) auto

lemma add_entries_take:
  assumes "length collected < MAX_COMPONENTS_PER_ASSET"
  shows "add_entries dt es collected =
    (let found = collected @ concat (map (new_entry dt) es)
     in (take MAX_COMPONENTS_PER_ASSET found, MAX_COMPONENTS_PER_ASSET \<le> length found))"
  using assms
proof (induction dt es collected rule: add_entries.induct)
  case (2 dt e es collected)
  have "length (collected @ new_entry dt e) \<le> MAX_COMPONENTS_PER_ASSET"
    using 2(2) length_new_entry [of dt e] by simp
  then show ?case using 2 by (auto simp: Let_def)
qed simp

lemma walk_fields_take:
  "length collected < MAX_COMPONENTS_PER_ASSET \<Longrightarrow>
     walk_fields fs collected =
       take MAX_COMPONENTS_PER_ASSET (collected @ concat (map all_entries fs))"
proof (induction fs collected rule: walk_fields.induct)
  case (2 container field_name dt rest collected)
  then show ?case
    by (auto simp: add_entries_take Let_def all_entries_def)
qed simp

lemma MAX_COMPONENTS_pos: "0 < MAX_COMPONENTS_PER_ASSET"
  by (simp add: MAX_COMPONENTS_PER_ASSET_def)

text \<open>C28. The loop over two containers and four fields, with its early return inside, computes the first 2000
  entries of the plain enumeration: own fields before metadata fields, components before software,
  packages and firmware, each list in its order.
\<close>

theorem component_entries_enumeration:
  "component_entries asset =
     take 2000 (concat (map
       (\<lambda>container. concat (map
          (\<lambda>(field_name, default_type).
             concat (map (new_entry default_type) (field_entries container field_name)))
          COMPONENT_FIELDS))
       [asset, dict_items (get asset ''metadata'')]))"
  using walk_fields_take [of "[]"] MAX_COMPONENTS_pos
  by (simp add: component_entries_def COMPONENT_FIELDS_def all_entries_def MAX_COMPONENTS_PER_ASSET_def)

lemma length_component_entries: "length (component_entries asset) \<le> 2000"
  using walk_fields_take [of "[]"] MAX_COMPONENTS_pos
  by (simp add: component_entries_def MAX_COMPONENTS_PER_ASSET_def)

section \<open>Times, confidence, identifiers\<close>

lemma utc_value_bounded:
  assumes "utc_value v received_at = Inr t"
  shows "t \<le> received_at + MAX_COMPONENT_FUTURE_SKEW"
proof -
  have "received_at \<le> received_at + MAX_COMPONENT_FUTURE_SKEW"
    by (simp add: MAX_COMPONENT_FUTURE_SKEW_def duration_defs)
  then show ?thesis
    using assms by (cases "(v, received_at)" rule: utc_value.cases)
      (auto simp: bind_Inr split: option.splits)
qed

lemma utc_value_error: "utc_value v received_at = Inl e \<Longrightarrow> e = OverflowError"
  by (cases "(v, received_at)" rule: utc_value.cases)
    (auto simp: bind_result_eq_Inl_iff astimezone_utc_def Let_def split: option.splits if_splits)

definition identifier_shape :: "string \<Rightarrow> string \<Rightarrow> bool" where
  "identifier_shape pre s \<longleftrightarrow>
     take (length pre) s = pre \<and> length s = length pre + 32 \<and> list_all is_hex_lower (drop (length pre) s)"

lemma digest_id_shape: "identifier_shape pre (digest_id pre s)"
  using digest_id_lower [of _ pre s]
  by (auto simp: identifier_shape_def digest_id_def list_all_iff)

lemma length_evidence_claims: "length (evidence_claims entry) \<le> 16"
proof -
  have "length (evidence_claims entry) \<le>
    length (take MAX_COMPONENT_EVIDENCE_IDS (list_items (get entry ''evidence_ids'')))"
    unfolding evidence_claims_def by (rule order_trans [OF length_filter_le]) simp
  then show ?thesis by (simp add: MAX_COMPONENT_EVIDENCE_IDS_def)
qed

lemma evidence_ids_shape:
  "evidence_ids_for entry site asset source identity \<noteq> []"
  "distinct (evidence_ids_for entry site asset source identity)"
  "length (evidence_ids_for entry site asset source identity) \<le> 16"
  "e \<in> set (evidence_ids_for entry site asset source identity) \<Longrightarrow> identifier_shape ''cpe_'' e"
proof -
  let ?claims = "if evidence_claims entry = [] then [''server-observation''] else evidence_claims entry"
  let ?ids = "map (\<lambda>claim. digest_id ''cpe_'' (py_join nul [site, asset, source, identity, claim])) ?claims"
  have eq: "evidence_ids_for entry site asset source identity = fromkeys ?ids"
    by (simp add: evidence_ids_for_def Let_def)
  have "set ?ids \<noteq> {}" by simp
  then show "evidence_ids_for entry site asset source identity \<noteq> []"
    unfolding eq by (metis set_fromkeys list.set(1))
  show "distinct (evidence_ids_for entry site asset source identity)" by (simp add: eq)
  have "length ?ids \<le> 16" using length_evidence_claims [of entry] by simp
  then show "length (evidence_ids_for entry site asset source identity) \<le> 16"
    unfolding eq by (rule order_trans [OF length_fromkeys])
  show "e \<in> set (evidence_ids_for entry site asset source identity) \<Longrightarrow> identifier_shape ''cpe_'' e"
    unfolding eq by (auto simp: digest_id_shape)
qed

lemma length_collect_metadata:
  "length found < MAX_COMPONENT_METADATA_FIELDS \<Longrightarrow>
     length (collect_metadata d keys found) \<le> MAX_COMPONENT_METADATA_FIELDS"
  by (induction d keys found rule: collect_metadata.induct) (auto simp: Let_def)

lemma length_safe_metadata: "length (safe_metadata v) \<le> 8"
  using length_collect_metadata [of "[]"]
  by (cases v) (simp_all add: MAX_COMPONENT_METADATA_FIELDS_def)

section \<open>One component\<close>

lemma normalized_component_Some:
  assumes "normalized_component ctx entry = Inr (Some c)"
  obtains parsed seen conf where
    "parsed = parse_purl (py_or (get entry ''purl'') (get entry ''package_url''))"
    "c = component_of ctx entry parsed seen conf"
    "seen \<le> ctx_received_at ctx + MAX_COMPONENT_FUTURE_SKEW"
    "0 \<le> ctx_default_confidence ctx \<Longrightarrow> ctx_default_confidence ctx \<le> 1 \<Longrightarrow> 0 \<le> conf \<and> conf \<le> 1"
    "entry_name entry parsed \<noteq> []" "entry_normalized_name parsed (entry_name entry parsed) \<noteq> []"
proof -
  let ?parsed = "parse_purl (py_or (get entry ''purl'') (get entry ''package_url''))"
  let ?d = "if ctx_direct_source ctx then ctx_default_confidence ctx
            else min (ctx_default_confidence ctx) (fl (55 / 100))"
  from assms obtain seen conf where *:
    "utc_value (py_or (get entry ''observed_at'') (ctx_default_observed_at ctx)) (ctx_received_at ctx)
       = Inr seen"
    "confidence_or (get entry ''confidence'') ?d = Inr conf"
    "c = component_of ctx entry ?parsed seen conf"
    "entry_name entry ?parsed \<noteq> []" "entry_normalized_name ?parsed (entry_name entry ?parsed) \<noteq> []"
    by (auto simp: normalized_component_def Let_def bind_Inr split: if_splits)
  have half: "0 \<le> fl (55 / 100)" by code_simp
  have "0 \<le> conf \<and> conf \<le> 1"
    if d: "0 \<le> ctx_default_confidence ctx" "ctx_default_confidence ctx \<le> 1"
  proof (rule confidence_or_unit [OF *(2)])
    show "0 \<le> ?d" using d half by (simp only: if_split min_def) simp
    show "?d \<le> 1" using d by (simp add: min_le_iff_disj)
  qed
  with * utc_value_bounded [OF *(1)] that show thesis by blast
qed

lemma normalized_component_error:
  "normalized_component ctx entry = Inl e \<Longrightarrow> e = OverflowError"
  by (auto simp: normalized_component_def Let_def bind_result_eq_Inl_iff
      dest: utc_value_error confidence_or_error split: if_splits)

text \<open>What every component satisfies, whatever the entry it comes from.\<close>

definition well_formed_component :: "AssetContext \<Rightarrow> NormalizedComponent \<Rightarrow> bool" where
  "well_formed_component ctx c \<longleftrightarrow>
     identifier_shape ''cmp_'' (nc_component_id c) \<and>
     nc_site_id c = ctx_site_id ctx \<and> nc_asset_id c = ctx_asset_id ctx \<and>
     nc_source_type c = ctx_source_type ctx \<and> nc_inventory_complete c = ctx_inventory_complete ctx \<and>
     nc_name c \<noteq> [] \<and> length (nc_name c) \<le> 240 \<and> nc_normalized_name c \<noteq> [] \<and>
     nc_version c = nc_normalized_version c \<and>
     nc_evidence_ids c \<noteq> [] \<and> distinct (nc_evidence_ids c) \<and> length (nc_evidence_ids c) \<le> 16 \<and>
     list_all (identifier_shape ''cpe_'') (nc_evidence_ids c) \<and>
     nc_observed_at c \<le> ctx_received_at ctx + MAX_COMPONENT_FUTURE_SKEW \<and>
     nc_first_seen_at c = nc_observed_at c \<and> nc_last_seen_at c = nc_observed_at c \<and>
     0 \<le> nc_confidence c \<and> nc_confidence c \<le> 1 \<and>
     length (nc_metadata c) \<le> 8 \<and>
     (nc_collection_source_id c = None \<longleftrightarrow> nc_source_record_id c = None) \<and>
     (nc_collection_source_id c = None \<longleftrightarrow> nc_evidence_method c = None)"

lemma normalized_component_well_formed:
  assumes "normalized_component ctx entry = Inr (Some c)"
    and "0 \<le> ctx_default_confidence ctx" "ctx_default_confidence ctx \<le> 1"
  shows "well_formed_component ctx c"
proof -
  obtain parsed seen conf where *: "c = component_of ctx entry parsed seen conf"
    "seen \<le> ctx_received_at ctx + MAX_COMPONENT_FUTURE_SKEW" "0 \<le> conf \<and> conf \<le> 1"
    "entry_name entry parsed \<noteq> []" "entry_normalized_name parsed (entry_name entry parsed) \<noteq> []"
    using normalized_component_Some [OF assms(1)] assms(2,3) by metis
  have "length (entry_name entry parsed) \<le> 240"
    unfolding entry_name_def MAX_COMPONENT_NAME_def by (rule length_bounded_text)
  with *(2-) show ?thesis
    by (auto simp: well_formed_component_def *(1) component_of_def Let_def component_id_for_def
        digest_id_shape evidence_ids_shape length_safe_metadata list_all_iff)
qed

text \<open>A normalised status needs a supported ecosystem, a version and an identity.\<close>

definition status_justified :: "NormalizedComponent \<Rightarrow> bool" where
  "status_justified c \<longleftrightarrow>
     (nc_normalization_status c = ''normalized'' \<longrightarrow>
        nc_ecosystem c \<in> set SUPPORTED_ECOSYSTEMS \<and> nc_version c \<noteq> None \<and>
        (if nc_component_type c = ''firmware''
         then nc_vendor c \<noteq> None \<and>
           nc_firmware_evidence_type c \<in> {''direct'', ''vendor-reported'', ''collector-reported''}
         else nc_canonical_identifier c \<noteq> None))"

lemma firmware_evidence_cases:
  "firmware_evidence entry ''firmware'' direct \<in> set FIRMWARE_EVIDENCE_TYPES"
  by (auto simp: firmware_evidence_def Let_def FIRMWARE_EVIDENCE_TYPES_def)

lemma component_status_normalized:
  assumes "component_status eco kind v ver evidence identifier ns = ''normalized''"
  shows "eco \<in> set SUPPORTED_ECOSYSTEMS" "ver \<noteq> None"
    "kind = ''firmware'' \<Longrightarrow> v \<noteq> None \<and> evidence \<notin> {''inferred'', ''unknown''}"
    "kind \<noteq> ''firmware'' \<Longrightarrow> identifier \<noteq> None"
  using assms by (auto simp: component_status_def split: if_splits)

lemma component_of_status: "status_justified (component_of ctx entry parsed seen conf)"
proof -
  let ?c = "component_of ctx entry parsed seen conf"
  let ?e = "firmware_evidence entry ''firmware'' (ctx_direct_source ctx)"
  have "?e \<notin> {''inferred'', ''unknown''} \<Longrightarrow>
      ?e \<in> {''direct'', ''vendor-reported'', ''collector-reported''}"
    using firmware_evidence_cases [of entry "ctx_direct_source ctx"]
    by (simp add: FIRMWARE_EVIDENCE_TYPES_def)
  then show ?thesis
    by (auto simp: status_justified_def component_of_def Let_def simp del: insert_iff
        dest: component_status_normalized)
qed

lemma component_of_indirect:
  assumes "\<not> ctx_direct_source ctx"
  shows "nc_firmware_evidence_type (component_of ctx entry parsed seen conf)
    \<notin> {''direct'', ''collector-reported''}"
  using assms by (auto simp: component_of_def Let_def firmware_evidence_def)

section \<open>The components of an asset\<close>

text \<open>The dictionary of an asset keeps the newest evidence for every id.\<close>

interpretation components: keyed_best nc_component_id component_key store_component
  by unfold_locales (simp add: store_component_def)

abbreviation best_evidence ::
  "NormalizedComponent set \<Rightarrow> (string, NormalizedComponent) odict \<Rightarrow> bool" where
  "best_evidence \<equiv> best_in nc_component_id component_key"

lemma collect_components_best:
  "collect_components ctx entries components = Inr result \<Longrightarrow> best_evidence seen components \<Longrightarrow>
     best_evidence (seen \<union> {c. \<exists>e \<in> set entries. normalized_component ctx e = Inr (Some c)}) result"
proof (induction ctx entries components arbitrary: seen rule: collect_components.induct)
  case (2 ctx entry entries components)
  then obtain r where r: "normalized_component ctx entry = Inr r"
    and rest: "collect_components ctx entries
      (case r of None \<Rightarrow> components | Some c \<Rightarrow> store_component c components) = Inr result"
    by (auto simp: bind_Inr)
  show ?case
  proof (cases r)
    case None
    then have "best_evidence (seen \<union>
        {c. \<exists>e \<in> set entries. normalized_component ctx e = Inr (Some c)}) result"
      using "2.IH" [of r seen] rest "2.prems"(2) by simp
    then show ?thesis using r None by simp
  next
    case (Some c)
    then have "best_evidence (insert c seen \<union>
        {c. \<exists>e \<in> set entries. normalized_component ctx e = Inr (Some c)}) result"
      using "2.IH" [of r "insert c seen"] rest components.store_best [OF "2.prems"(2)] Some by simp
    then show ?thesis using r Some by (simp add: Collect_disj_eq)
  qed
qed simp

lemma collect_components_error: "collect_components ctx entries d = Inl e \<Longrightarrow> e = OverflowError"
  by (induction ctx entries d rule: collect_components.induct)
    (auto simp: bind_result_eq_Inl_iff dest: normalized_component_error)

lemma normalize_components_Inr:
  assumes "normalize_components_for_asset asset payload received_at auth = Inr cs" "cs \<noteq> []"
  obtains conf stored where
    "confidence_or (get payload ''confidence'') (fl (8 / 10)) = Inr conf" "0 \<le> conf" "conf \<le> 1"
    "cs = map snd stored"
    "best_evidence {c. \<exists>e \<in> set (component_entries asset).
        normalized_component (asset_context asset payload received_at auth conf) e = Inr (Some c)} stored"
proof -
  from assms obtain conf stored where *:
    "confidence_or (get payload ''confidence'') (fl (8 / 10)) = Inr conf" "cs = map snd stored"
    "collect_components (asset_context asset payload received_at auth conf) (component_entries asset) []
      = Inr stored"
    by (auto simp: normalize_components_for_asset_def bind_Inr map_sum_Inr_iff split: if_splits)
  have "0 \<le> fl (8 / 10)" "fl (8 / 10) \<le> 1" by code_simp+
  then have "0 \<le> conf" "conf \<le> 1" using confidence_or_unit [OF *(1)] by blast+
  with * collect_components_best [OF *(3), of "{}"] that show thesis
    by (simp add: best_in_def)
qed

section \<open>Properties\<close>

text \<open>C26. The components of an asset have distinct ids; every one comes from an entry of the asset, and for every
  entry that yields a component there is one with its id whose observation time, confidence and evidence
  are, in that order, at least as great.
\<close>

theorem newest_evidence_wins:
  assumes "normalize_components_for_asset asset payload received_at auth = Inr cs" "cs \<noteq> []"
  shows "distinct (map nc_component_id cs) \<and>
    (\<exists>conf. confidence_or (get payload ''confidence'') (fl (8 / 10)) = Inr conf \<and>
      (\<forall>d \<in> set cs. \<exists>e \<in> set (component_entries asset).
         normalized_component (asset_context asset payload received_at auth conf) e = Inr (Some d)) \<and>
      (\<forall>e \<in> set (component_entries asset). \<forall>c.
         normalized_component (asset_context asset payload received_at auth conf) e = Inr (Some c) \<longrightarrow>
         (\<exists>d \<in> set cs. nc_component_id d = nc_component_id c \<and>
            (nc_observed_at c, nc_confidence c, nc_evidence_ids c)
              \<le> (nc_observed_at d, nc_confidence d, nc_evidence_ids d))))"
proof -
  let ?ctx = "asset_context asset payload received_at auth"
  from assms obtain conf stored where conf:
      "confidence_or (get payload ''confidence'') (fl (8 / 10)) = Inr conf" and cs: "cs = map snd stored"
    and best: "best_evidence {c. \<exists>e \<in> set (component_entries asset).
        normalized_component (?ctx conf) e = Inr (Some c)} stored"
    by (rule normalize_components_Inr)
  have keys: "map nc_component_id cs = map fst stored"
    using best by (auto simp: cs best_in_def)
  have "\<exists>d \<in> set cs. nc_component_id d = nc_component_id c \<and> component_key c \<le> component_key d"
    if "e \<in> set (component_entries asset)" "normalized_component (?ctx conf) e = Inr (Some c)" for e c
  proof -
    have "c \<in> {c. \<exists>e \<in> set (component_entries asset). normalized_component (?ctx conf) e = Inr (Some c)}"
      using that by blast
    then obtain d where d: "(nc_component_id c, d) \<in> set stored" "component_key c \<le> component_key d"
      using best_inD(4) [OF best] by blast
    have "nc_component_id d = nc_component_id c"
      using best d(1) by (fastforce simp: best_in_def)
    with d show ?thesis by (force simp: cs)
  qed
  moreover have "\<exists>e \<in> set (component_entries asset). normalized_component (?ctx conf) e = Inr (Some d)"
    if "d \<in> set cs" for d
    using that best by (auto simp: cs best_in_def)
  ultimately show ?thesis
    using conf best keys unfolding component_key_def by (auto simp: best_in_def)
qed

lemma in_normalize_components:
  assumes "normalize_components_for_asset asset payload received_at auth = Inr cs" "c \<in> set cs"
  obtains conf e where
    "normalized_component (asset_context asset payload received_at auth conf) e = Inr (Some c)"
    "0 \<le> conf" "conf \<le> 1"
proof -
  from assms(2) have "cs \<noteq> []" by auto
  with assms(1) obtain conf stored where "0 \<le> conf" "conf \<le> 1" "cs = map snd stored"
    "best_evidence {c. \<exists>e \<in> set (component_entries asset).
        normalized_component (asset_context asset payload received_at auth conf) e = Inr (Some c)} stored"
    by (rule normalize_components_Inr)
  with assms(2) that show thesis by (auto simp: best_in_def)
qed

lemma asset_context_simps [simp]:
  "ctx_site_id (asset_context asset payload r auth conf) = bounded_text (get asset ''site_id'') 128"
  "ctx_asset_id (asset_context asset payload r auth conf) = bounded_text (get asset ''asset_id'') 160"
  "ctx_received_at (asset_context asset payload r auth conf) = r"
  "ctx_default_confidence (asset_context asset payload r auth conf) = conf"
  "ctx_source_type (asset_context asset payload r auth conf) = fst (source_context payload asset auth)"
  "ctx_source_id (asset_context asset payload r auth conf) = fst (snd (source_context payload asset auth))"
  "ctx_direct_source (asset_context asset payload r auth conf) = snd (snd (source_context payload asset auth))"
  "ctx_inventory_complete (asset_context asset payload r auth conf) =
     (complete_requested payload asset \<and> snd (snd (source_context payload asset auth)))"
  by (simp_all add: asset_context_def split_beta)

text \<open>C27. Every component of an asset is well formed: identifiers are a prefix and 32 hexadecimal digits, the
  evidence list has one to sixteen distinct entries, the observation lies at most five minutes after
  receipt, the confidence is in the unit interval, and a component is marked \<^verbatim>\<open>normalized\<close> only with a
  supported ecosystem, a version, and a package identity (for firmware: a vendor and reported evidence).
\<close>

theorem components_well_formed:
  assumes "normalize_components_for_asset asset payload received_at auth = Inr cs" "c \<in> set cs"
  shows "identifier_shape ''cmp_'' (nc_component_id c) \<and>
    nc_evidence_ids c \<noteq> [] \<and> distinct (nc_evidence_ids c) \<and> length (nc_evidence_ids c) \<le> 16 \<and>
    list_all (identifier_shape ''cpe_'') (nc_evidence_ids c) \<and>
    nc_observed_at c \<le> received_at + minutes 5 \<and> 0 \<le> nc_confidence c \<and> nc_confidence c \<le> 1 \<and>
    (nc_normalization_status c = ''normalized'' \<longrightarrow>
       nc_ecosystem c \<in> set SUPPORTED_ECOSYSTEMS \<and> nc_version c \<noteq> None \<and>
       (if nc_component_type c = ''firmware''
        then nc_vendor c \<noteq> None \<and>
          nc_firmware_evidence_type c \<in> {''direct'', ''vendor-reported'', ''collector-reported''}
        else nc_canonical_identifier c \<noteq> None))"
proof -
  obtain conf e where e:
    "normalized_component (asset_context asset payload received_at auth conf) e = Inr (Some c)"
    "0 \<le> conf" "conf \<le> 1"
    using assms by (rule in_normalize_components)
  have "well_formed_component (asset_context asset payload received_at auth conf) c"
    using e by (intro normalized_component_well_formed) simp_all
  moreover have "status_justified c"
    using normalized_component_Some [OF e(1)] component_of_status by metis
  ultimately show ?thesis
    unfolding status_justified_def well_formed_component_def MAX_COMPONENT_FUTURE_SKEW_def
    by (auto split: if_splits)
qed

lemma source_context_unauthenticated:
  "source_context payload asset False = (''untrusted-ingestion'', ''untrusted-local-inventory'', False)"
  by (simp add: source_context_def Let_def)

definition untrusted :: "NormalizedComponent \<Rightarrow> bool" where
  "untrusted c \<longleftrightarrow>
     nc_source_type c = ''untrusted-ingestion'' \<and> \<not> nc_inventory_complete c \<and>
     nc_firmware_evidence_type c \<notin> {''direct'', ''collector-reported''} \<and>
     (nc_component_type c = ''firmware'' \<and> nc_normalization_status c = ''normalized'' \<longrightarrow>
        nc_firmware_evidence_type c = ''vendor-reported'')"

lemma untrusted_component:
  assumes "normalize_components_for_asset asset payload received_at False = Inr cs" "c \<in> set cs"
  shows "untrusted c"
proof -
  obtain conf e where e:
    "normalized_component (asset_context asset payload received_at False conf) e = Inr (Some c)"
    "0 \<le> conf" "conf \<le> 1"
    using assms by (rule in_normalize_components)
  let ?ctx = "asset_context asset payload received_at False conf"
  have wf: "well_formed_component ?ctx c"
    using e by (intro normalized_component_well_formed) simp_all
  obtain parsed seen k where c: "c = component_of ?ctx e parsed seen k"
    using normalized_component_Some [OF e(1)] by metis
  have "nc_firmware_evidence_type c \<notin> {''direct'', ''collector-reported''}"
    unfolding c by (rule component_of_indirect) (simp add: source_context_unauthenticated)
  moreover have "status_justified c" unfolding c by (rule component_of_status)
  moreover have "nc_source_type c = ''untrusted-ingestion'' \<and> \<not> nc_inventory_complete c"
    using wf by (simp add: well_formed_component_def source_context_unauthenticated)
  ultimately show ?thesis unfolding untrusted_def status_justified_def by auto
qed

lemma in_normalize_assets:
  assumes "normalize_assets payload site received_at auth n raws = Inr cs" "c \<in> set cs"
  shows "\<exists>asset cs'. normalize_components_for_asset asset payload received_at auth = Inr cs' \<and> c \<in> set cs'"
  using assms
  by (induction payload site received_at auth n raws arbitrary: cs rule: normalize_assets.induct)
    (fastforce simp: bind_result_eq_Inr_iff map_sum_Inr_iff)+

text \<open>C25. An unauthenticated payload, whatever it claims, defines no complete inventory scope and no source
  snapshot, with or without components; and every component it yields carries the untrusted source type, is
  never part of a complete inventory, never has direct or collector-reported firmware evidence, and firmware
  is normalised only as vendor-reported.
\<close>

theorem unauthenticated_claims_nothing:
  "complete_component_inventory_scope asset payload received_at False = Inr None \<and>
   component_source_snapshots_for_asset asset payload received_at False collection = Inr [] \<and>
   (\<forall>cs c. normalize_component_payload payload site received_at False = Inr cs \<and> c \<in> set cs \<longrightarrow>
      nc_source_type c = ''untrusted-ingestion'' \<and> \<not> nc_inventory_complete c \<and>
      nc_firmware_evidence_type c \<notin> {''direct'', ''collector-reported''} \<and>
      (nc_component_type c = ''firmware'' \<and> nc_normalization_status c = ''normalized'' \<longrightarrow>
         nc_firmware_evidence_type c = ''vendor-reported''))"
proof -
  have "complete_component_inventory_scope asset payload received_at False = Inr None"
    by (simp add: complete_component_inventory_scope_def source_context_unauthenticated Let_def)
  moreover have "component_source_snapshots_for_asset asset payload received_at False collection = Inr []"
    by (simp add: component_source_snapshots_for_asset_def source_context_unauthenticated Let_def
        split: option.split)
  moreover have "untrusted c"
    if "normalize_component_payload payload site received_at False = Inr cs" "c \<in> set cs" for cs c
    using that unfolding normalize_component_payload_def by (metis in_normalize_assets untrusted_component)
  ultimately show ?thesis by (simp add: untrusted_def)
qed

lemma year_before_1:
  "utc_value (PStr ''0001-01-01T00:00:00+05:00'') received_at = Inl OverflowError"
proof -
  have "from_isoformat (replace_z ''0001-01-01T00:00:00+05:00'') = Some (min_instant, Some (hours 5))"
    by code_simp
  moreover have "astimezone_utc min_instant (hours 5) = Inl OverflowError" by code_simp
  ultimately show ?thesis by simp
qed

section \<open>Overflow\<close>

text \<open>
  What makes the normalisation fail: an integer confidence beyond the float range, and an aware timestamp
  whose UTC instant lies outside the years 1 to 9999.
\<close>

definition too_large :: "pyval \<Rightarrow> bool" where
  "too_large v \<longleftrightarrow> (\<exists>i. v = PInt i \<and> (\<forall>x. to_float (of_int i) \<noteq> Finite x))"

definition out_of_years :: "pyval \<Rightarrow> bool" where
  "out_of_years v \<longleftrightarrow> (\<exists>s local_time offset. v = PStr s \<and>
     from_isoformat (replace_z s) = Some (local_time, Some offset) \<and>
     \<not> (min_instant \<le> local_time - offset \<and> local_time - offset \<le> max_instant))"

definition entry_overflows :: "pydict \<Rightarrow> pydict \<Rightarrow> pydict \<Rightarrow> bool" where
  "entry_overflows payload asset entry \<longleftrightarrow>
     (let parsed = parse_purl (py_or (get entry ''purl'') (get entry ''package_url''));
          name = entry_name entry parsed
      in name \<noteq> [] \<and> entry_normalized_name parsed name \<noteq> [] \<and>
         (out_of_years (py_or (get entry ''observed_at'') (asset_observed_at payload asset)) \<or>
          too_large (get entry ''confidence'')))"

definition asset_overflows :: "pydict \<Rightarrow> pydict \<Rightarrow> bool" where
  "asset_overflows payload asset \<longleftrightarrow>
     bounded_text (get asset ''site_id'') 128 \<noteq> [] \<and> bounded_text (get asset ''asset_id'') 160 \<noteq> [] \<and>
     (too_large (get payload ''confidence'') \<or> list_ex (entry_overflows payload asset) (component_entries asset))"

lemma confidence_or_Inl: "confidence_or v d = Inl e \<longleftrightarrow> e = OverflowError \<and> too_large v"
  by (cases "(v, d)" rule: confidence_or.cases)
    (auto simp: too_large_def split: pyfloat.splits if_splits sum.splits)

lemma utc_value_Inl: "utc_value v received_at = Inl e \<longleftrightarrow> e = OverflowError \<and> out_of_years v"
  by (cases "(v, received_at)" rule: utc_value.cases)
    (auto simp: bind_result_eq_Inl_iff astimezone_utc_def out_of_years_def Let_def split: option.splits if_splits)

lemma normalized_component_Inl:
  assumes "ctx_default_observed_at ctx = asset_observed_at payload asset"
  shows "normalized_component ctx entry = Inl e \<longleftrightarrow> e = OverflowError \<and> entry_overflows payload asset entry"
proof (cases "utc_value (py_or (get entry ''observed_at'') (asset_observed_at payload asset)) (ctx_received_at ctx)")
  case (Inl e')
  then have "e' = OverflowError" "out_of_years (py_or (get entry ''observed_at'') (asset_observed_at payload asset))"
    by (simp_all add: utc_value_Inl)
  with Inl show ?thesis by (auto simp: normalized_component_def entry_overflows_def Let_def assms)
next
  case (Inr seen)
  then have "\<not> out_of_years (py_or (get entry ''observed_at'') (asset_observed_at payload asset))"
    by (metis utc_value_Inl Inr_not_Inl)
  with Inr show ?thesis
    by (auto simp: normalized_component_def entry_overflows_def Let_def assms bind_result_eq_Inl_iff
        confidence_or_Inl)
qed

lemma collect_components_Inl:
  assumes "ctx_default_observed_at ctx = asset_observed_at payload asset"
  shows "collect_components ctx entries d = Inl e \<longleftrightarrow>
    e = OverflowError \<and> list_ex (entry_overflows payload asset) entries"
proof (induction entries arbitrary: d)
  case (Cons entry entries)
  then show ?case
    using normalized_component_Inl [OF assms, of entry]
    by (cases "normalized_component ctx entry") (auto simp: bind_result_eq_Inl_iff)
qed simp

lemma normalize_components_Inl:
  "normalize_components_for_asset asset payload received_at auth = Inl e \<longleftrightarrow>
     e = OverflowError \<and> asset_overflows payload asset"
proof -
  have "ctx_default_observed_at (asset_context asset payload received_at auth conf) = asset_observed_at payload asset" for conf
    by (simp add: asset_context_def split_beta)
  note collect = collect_components_Inl [OF this]
  show ?thesis
  proof (cases "confidence_or (get payload ''confidence'') (fl (8 / 10))")
    case (Inl e')
    then have "e' = OverflowError" "too_large (get payload ''confidence'')" by (simp_all add: confidence_or_Inl)
    with Inl show ?thesis by (auto simp: normalize_components_for_asset_def asset_overflows_def)
  next
    case (Inr conf)
    then have "\<not> too_large (get payload ''confidence'')" by (metis confidence_or_Inl Inr_not_Inl)
    with Inr show ?thesis
      by (auto simp: normalize_components_for_asset_def asset_overflows_def map_sum_Inl_iff collect)
  qed
qed

lemma normalize_assets_Inl:
  "normalize_assets payload site received_at auth n raws = Inl e \<longleftrightarrow>
     e = OverflowError \<and> (\<exists>i<length raws. \<exists>d. raws ! i = PDict d \<and>
       asset_overflows payload (payload_asset payload site (n + i) d))"
proof (induction payload site received_at auth n raws rule: normalize_assets.induct)
  case (2 payload site received_at auth n raw raws)
  show ?case
    using 2 normalize_components_Inl [of "payload_asset payload site n raw" payload received_at auth]
    by (cases "normalize_components_for_asset (payload_asset payload site n raw) payload received_at auth")
      (auto simp: bind_result_eq_Inl_iff map_sum_Inl_iff Ex_less_Suc2)
qed (simp_all add: Ex_less_Suc2)

text \<open>C29. Normalising a payload fails exactly when, among its first 50000 assets, one with an id has a named entry
  whose own or inherited timestamp has a time zone and lies, in UTC, before the year 1 or after the year 9999,
  or whose confidence is an integer beyond the float range (the payload's own confidence counts for every
  asset); the error is \<^verbatim>\<open>OverflowError\<close>, and the whole payload is lost.  No other text in the place of a
  timestamp, and no other confidence, makes it fail.  (Texts are ASCII here, so encoding never fails.)
\<close>

theorem normalization_errors:
  "normalize_component_payload payload site received_at auth = Inl e \<longleftrightarrow>
     e = OverflowError \<and>
     (\<exists>i<length (take 50000 (list_items (get payload ''assets''))). \<exists>d.
        list_items (get payload ''assets'') ! i = PDict d \<and>
        asset_overflows payload (payload_asset payload site i d))"
  unfolding normalize_component_payload_def normalize_assets_Inl by auto

text \<open>An asset with one named software entry, and a payload whose only timestamp overflows.\<close>

definition example_asset :: pydict where
  "example_asset =
     [(''site_id'', PStr ''s''), (''asset_id'', PStr ''a''), (''software'', PList [PStr ''curl''])]"

definition example_entry :: pydict where
  "example_entry = [(''name'', PStr ''curl''), (''_default_component_type'', PStr ''application'')]"

definition overflow_entry :: pydict where
  "overflow_entry = [(''name'', PStr ''x''), (''observed_at'', PStr ''0001-01-01T00:00:00+05:00'')]"

definition overflow_asset :: pydict where
  "overflow_asset = [(''asset_id'', PStr ''a''), (''software'', PList [PDict overflow_entry])]"

definition overflow_payload :: pydict where
  "overflow_payload = [(''assets'', PList [PDict overflow_asset])]"

lemma example_components:
  "\<exists>c. normalize_components_for_asset example_asset [] 0 auth = Inr [c]"
proof -
  have entries: "component_entries example_asset = [example_entry]" by code_simp
  have named: "entry_name example_entry None \<noteq> []"
    "entry_normalized_name None (entry_name example_entry None) \<noteq> []" by code_simp+
  have purl: "parse_purl (py_or (get example_entry ''purl'') (get example_entry ''package_url'')) = None"
    by code_simp
  have ids: "bounded_text (get example_asset ''site_id'') 128 \<noteq> []"
    "bounded_text (get example_asset ''asset_id'') 160 \<noteq> []" by code_simp+
  have "asset_observed_at [] example_asset = PNone" by code_simp
  then have "\<exists>c. normalized_component (asset_context example_asset [] 0 auth d) example_entry = Inr (Some c)" for d
    using named by (auto simp: normalized_component_def purl Let_def asset_context_def split_beta)
      (auto simp: example_entry_def py_or_def)
  then obtain c where "normalized_component (asset_context example_asset [] 0 auth (fl (8 / 10)))
      example_entry = Inr (Some c)" by blast
  then show ?thesis
    using ids by (simp add: normalize_components_for_asset_def entries store_component_def)
qed

theorem newest_evidence_wins_witness:
  "\<exists>c. normalize_components_for_asset example_asset [] 0 True = Inr [c] \<and>
     (\<exists>e \<in> set (component_entries example_asset). \<exists>conf.
        normalized_component (asset_context example_asset [] 0 True conf) e = Inr (Some c))"
proof -
  obtain c where c: "normalize_components_for_asset example_asset [] 0 True = Inr [c]"
    using example_components by blast
  with newest_evidence_wins [OF c] show ?thesis by auto
qed

theorem components_well_formed_witness:
  "\<exists>c. normalize_components_for_asset example_asset [] 0 True = Inr [c] \<and>
     length (nc_component_id c) = 36 \<and> nc_observed_at c \<le> minutes 5"
proof -
  obtain c where c: "normalize_components_for_asset example_asset [] 0 True = Inr [c]"
    using example_components by blast
  with components_well_formed [OF c, of c] show ?thesis by (auto simp: identifier_shape_def)
qed

definition example_payload :: pydict where
  "example_payload =
     [(''assets'', PList [PDict [(''asset_id'', PStr ''a''), (''software'', PList [PStr ''curl''])]])]"

lemma example_payload_components:
  "\<exists>c. normalize_component_payload example_payload ''s'' 0 False = Inr [c]"
proof -
  let ?a = "payload_asset example_payload ''s'' 0 [(''asset_id'', PStr ''a''), (''software'', PList [PStr ''curl''])]"
  have entries: "component_entries ?a = [example_entry, example_entry]" by code_simp
  have named: "entry_name example_entry None \<noteq> []"
    "entry_normalized_name None (entry_name example_entry None) \<noteq> []" by code_simp+
  have purl: "parse_purl (py_or (get example_entry ''purl'') (get example_entry ''package_url'')) = None"
    by code_simp
  have ids: "bounded_text (get ?a ''site_id'') 128 \<noteq> []" "bounded_text (get ?a ''asset_id'') 160 \<noteq> []"
    by code_simp+
  have absent: "asset_observed_at example_payload ?a = PNone" "get example_payload ''confidence'' = PNone"
    by code_simp+
  then have "\<exists>c. normalized_component (asset_context ?a example_payload 0 False d) example_entry = Inr (Some c)" for d
    using named by (auto simp: normalized_component_def purl Let_def asset_context_def split_beta)
      (auto simp: example_entry_def py_or_def)
  then obtain c where "normalized_component (asset_context ?a example_payload 0 False (fl (8 / 10)))
      example_entry = Inr (Some c)" by blast
  then have "normalize_components_for_asset ?a example_payload 0 False = Inr [c]"
    using ids absent by (simp add: normalize_components_for_asset_def entries store_component_def)
  then show ?thesis by (simp add: normalize_component_payload_def) (simp add: example_payload_def)
qed

theorem unauthenticated_claims_nothing_witness:
  "\<exists>c. normalize_component_payload example_payload ''s'' 0 False = Inr [c] \<and>
     nc_source_type c = ''untrusted-ingestion'' \<and> \<not> nc_inventory_complete c"
proof -
  obtain c where c: "normalize_component_payload example_payload ''s'' 0 False = Inr [c]"
    using example_payload_components by blast
  with unauthenticated_claims_nothing [of "[]" example_payload 0 None "''s''"] show ?thesis by auto
qed

lemma overflow_payload_raises:
  "normalize_component_payload overflow_payload ''s'' received_at auth = Inl OverflowError"
proof -
  let ?a = "payload_asset overflow_payload ''s'' 0 overflow_asset"
  let ?e = "AList.update ''_default_component_type'' (PStr ''application'') overflow_entry"
  have entries: "component_entries ?a = [?e, ?e]" by code_simp
  have ids: "bounded_text (get ?a ''site_id'') 128 \<noteq> []" "bounded_text (get ?a ''asset_id'') 160 \<noteq> []"
    by code_simp+
  have confidence: "get overflow_payload ''confidence'' = PNone" by code_simp
  have named: "entry_name ?e None \<noteq> []" "entry_normalized_name None (entry_name ?e None) \<noteq> []"
    by code_simp+
  have purl: "parse_purl (py_or (get ?e ''purl'') (get ?e ''package_url'')) = None" by code_simp
  have "get ?e ''observed_at'' = PStr ''0001-01-01T00:00:00+05:00''" by code_simp
  then have seen: "py_or (get ?e ''observed_at'') d = PStr ''0001-01-01T00:00:00+05:00''" for d
    by (simp add: py_or_def)
  have "normalized_component ctx ?e = Inl OverflowError" for ctx
    using named by (simp add: normalized_component_def purl Let_def seen year_before_1
        del: utc_value.simps)
  then have "normalize_components_for_asset ?a overflow_payload received_at auth = Inl OverflowError"
    using ids by (simp add: normalize_components_for_asset_def entries confidence)
  moreover have "list_items (get overflow_payload ''assets'') = [PDict overflow_asset]"
    by (simp add: overflow_payload_def)
  ultimately show ?thesis by (simp add: normalize_component_payload_def)
qed

end
