(* ===== verification/Kev_Catalog.thy ===== *)
theory Kev_Catalog
  imports Py_Iso Py_Value Sha256
begin

text \<open>
  The KEV catalog of \<^verbatim>\<open>backend/app/kev_catalog.py\<close>: identifiers and dates, the bounded walk over the
  decoded JSON, the field and catalog validators, normalisation of the CISA source, and the difference of
  two catalogs.  Reading bytes (\<^verbatim>\<open>json.loads\<close>) and pydantic's own checks of types and field lengths are not
  modelled: a record below is one whose fields pydantic has typed.  A \<^verbatim>\<open>KevValidationError\<close> is its code.
\<close>

definition MAX_KEV_RECORDS :: nat where "MAX_KEV_RECORDS = 10000"
definition MAX_KEV_TEXT :: nat where "MAX_KEV_TEXT = 4000"
definition MAX_KEV_NOTES :: nat where "MAX_KEV_NOTES = 8000"
definition MAX_JSON_DEPTH :: nat where "MAX_JSON_DEPTH = 8"
definition MAX_JSON_NODES :: nat where "MAX_JSON_NODES = 200000"

section \<open>Identifiers, text and dates\<close>

definition is_cve :: "string \<Rightarrow> bool" where
  "is_cve s \<longleftrightarrow>
     take 4 s = ''CVE-'' \<and> list_all is_digit (take 4 (drop 4 s)) \<and> take 1 (drop 8 s) = ''-'' \<and>
     list_all is_digit (drop 9 s) \<and> 4 \<le> length (drop 9 s) \<and> length (drop 9 s) \<le> 19"

definition normalize_cve :: "string \<Rightarrow> string result" where
  "normalize_cve v =
     (let normalized = map to_upper (py_strip is_space v)
      in if is_cve normalized then Inr normalized else Inl ValueError)"

definition is_cwe :: "string \<Rightarrow> bool" where
  "is_cwe s \<longleftrightarrow> take 4 s = ''CWE-'' \<and> drop 4 s \<noteq> [] \<and> list_all is_digit (drop 4 s)"

text \<open>Control characters other than tab, line feed and carriage return.\<close>

definition unsafe_control :: "char \<Rightarrow> bool" where
  "unsafe_control c \<longleftrightarrow> is_control c \<and> code c \<noteq> 9 \<and> code c \<noteq> 10 \<and> code c \<noteq> 13"

definition plain_text :: "string \<Rightarrow> nat \<Rightarrow> string result" where
  "plain_text v maximum =
     (if v = [] \<or> maximum < length v \<or> list_ex unsafe_control v then Inl ValueError else Inr v)"

text \<open>A date is its number of days since 1970-01-01.\<close>

definition is_date_text :: "string \<Rightarrow> bool" where
  "is_date_text s \<longleftrightarrow>
     length s = 10 \<and> list_all is_digit (take 4 s) \<and> s ! 4 = CHR ''-'' \<and>
     list_all is_digit (take 2 (drop 5 s)) \<and> s ! 7 = CHR ''-'' \<and> list_all is_digit (drop 8 s)"

definition parse_date :: "string \<Rightarrow> int result" where
  "parse_date s =
     (if \<not> is_date_text s then Inl ValueError
      else let y = int_of_digits (take 4 s); m = int_of_digits (take 2 (drop 5 s));
               d = int_of_digits (drop 8 s)
           in if valid_date y m d then Inr (days_of_civil y m d) else Inl ValueError)"

definition is_utc_text :: "string \<Rightarrow> bool" where
  "is_utc_text s \<longleftrightarrow>
     is_date_text (take 10 s) \<and> take 1 (drop 10 s) = ''T'' \<and>
     list_all is_digit (take 2 (drop 11 s)) \<and> take 1 (drop 13 s) = '':'' \<and>
     list_all is_digit (take 2 (drop 14 s)) \<and> take 1 (drop 16 s) = '':'' \<and>
     list_all is_digit (take 2 (drop 17 s)) \<and> 20 \<le> length s \<and> s ! (length s - 1) = CHR ''Z'' \<and>
     (let fraction = butlast (drop 19 s)
      in fraction = [] \<or>
         hd fraction = CHR ''.'' \<and> list_all is_digit (tl fraction) \<and>
         1 \<le> length (tl fraction) \<and> length (tl fraction) \<le> 9)"

definition parse_utc :: "string \<Rightarrow> instant result" where
  "parse_utc s =
     (if \<not> is_utc_text s then Inl ValueError
      else case from_isoformat (butlast s @ ''+00:00'') of
             Some (local_time, Some offset) \<Rightarrow> astimezone_utc local_time offset
           | _ \<Rightarrow> Inl ValueError)"

section \<open>The decoded JSON\<close>

type_synonym 'a kev_result = "string + 'a"

definition reject_duplicate_pairs :: "(string \<times> pyval) list \<Rightarrow> pydict kev_result" where
  "reject_duplicate_pairs pairs =
     (if distinct (map fst pairs) then Inr pairs else Inl ''kev-json-duplicate-key'')"

fun json_children :: "pyval \<Rightarrow> pyval list" where
  "json_children (PDict d) = map snd d"
| "json_children (PList vs) = vs"
| "json_children _ = []"

fun oversized :: "pyval \<Rightarrow> bool" where
  "oversized (PStr s) = (MAX_KEV_NOTES < length s)"
| "oversized _ = False"

text \<open>
  The loop of \<^verbatim>\<open>_validate_json_shape\<close>; the head of the list is the top of the stack.  Every round counts one
  node, and the node limit ends the loop.
\<close>

function walk_json :: "nat \<Rightarrow> (pyval \<times> nat) list \<Rightarrow> unit kev_result" where
  "walk_json nodes [] = Inr ()"
| "walk_json nodes ((item, depth) # stack) =
     (if MAX_JSON_NODES < nodes + 1 then Inl ''kev-json-too-complex''
      else if MAX_JSON_DEPTH < depth then Inl ''kev-json-too-deep''
      else if oversized item then Inl ''kev-string-too-large''
      else walk_json (nodes + 1)
             (map (\<lambda>child. (child, depth + 1)) (rev (json_children item)) @ stack))"
  by pat_completeness auto
termination
  by (relation "measure (\<lambda>(nodes, stack). MAX_JSON_NODES + 1 - nodes)") auto

definition validate_json_shape :: "pyval \<Rightarrow> unit kev_result" where
  "validate_json_shape v = walk_json 0 [(v, 1)]"

section \<open>The CISA source\<close>

record CisaKevRecord =
  ck_cve_id :: string
  ck_vendor_project :: string
  ck_product :: string
  ck_vulnerability_name :: string
  ck_date_added :: int
  ck_short_description :: string
  ck_required_action :: string
  ck_due_date :: int
  ck_known_ransomware_campaign_use :: "string option"
  ck_notes :: "string option"
  ck_cwes :: "string list"

fun validate_cve :: "pyval \<Rightarrow> string result" where
  "validate_cve (PStr s) = normalize_cve s"
| "validate_cve _ = Inl ValueError"

fun validate_date :: "pyval \<Rightarrow> int result" where
  "validate_date (PStr s) = parse_date s"
| "validate_date _ = Inl ValueError"

definition validate_text :: "string \<Rightarrow> string result" where
  "validate_text v = plain_text v MAX_KEV_TEXT"

definition validate_notes :: "string option \<Rightarrow> string option result" where
  "validate_notes v =
     (case v of None \<Rightarrow> Inr None | Some s \<Rightarrow> map_sum id Some (plain_text s MAX_KEV_NOTES))"

definition validate_cwes :: "string list \<Rightarrow> string list result" where
  "validate_cwes vs =
     (let normalized = map (map to_upper) vs
      in if list_ex (\<lambda>s. \<not> is_cwe s) normalized then Inl ValueError
         else if \<not> distinct normalized then Inl ValueError else Inr normalized)"

record CisaKevCatalog =
  cc_catalog_version :: string
  cc_date_released :: instant
  cc_count :: int
  cc_vulnerabilities :: "CisaKevRecord list"

definition validate_catalog :: "CisaKevCatalog \<Rightarrow> CisaKevCatalog result" where
  "validate_catalog c =
     (if cc_count c \<noteq> int (length (cc_vulnerabilities c)) then Inl ValueError
      else if \<not> distinct (map ck_cve_id (cc_vulnerabilities c)) then Inl ValueError
      else Inr c)"

section \<open>The normalised catalog\<close>

record KevRecord =
  kr_kev_record_id :: string
  kr_cve_id :: string
  kr_vendor_project :: string
  kr_product :: string
  kr_vulnerability_name :: string
  kr_date_added :: int
  kr_short_description :: string
  kr_required_action :: string
  kr_cisa_due_date :: int
  kr_ransomware_campaign_status :: string
  kr_notes :: "string option"
  kr_cwes :: "string list"

record KevCatalog =
  kc_catalog_version :: string
  kc_catalog_date_released :: instant
  kc_records :: "KevRecord list"

definition validate_records :: "KevCatalog \<Rightarrow> KevCatalog result" where
  "validate_records c =
     (let cves = map kr_cve_id (kc_records c); record_ids = map kr_kev_record_id (kc_records c)
      in if \<not> distinct cves \<or> \<not> distinct record_ids then Inl ValueError
         else if cves \<noteq> sort cves then Inl ValueError else Inr c)"

text \<open>The record of an item of a validated catalog.  \<^verbatim>\<open>KevRecord.validate_cve\<close> normalises the CVE once more; the
  item carries a normalised one already, so nothing changes.\<close>

definition kev_record_of :: "CisaKevRecord \<Rightarrow> KevRecord" where
  "kev_record_of item =
     \<lparr>kr_kev_record_id = ''kev_'' @ sha256_hex (ck_cve_id item),
      kr_cve_id = ck_cve_id item,
      kr_vendor_project = ck_vendor_project item,
      kr_product = ck_product item,
      kr_vulnerability_name = ck_vulnerability_name item,
      kr_date_added = ck_date_added item,
      kr_short_description = ck_short_description item,
      kr_required_action = ck_required_action item,
      kr_cisa_due_date = ck_due_date item,
      kr_ransomware_campaign_status =
        (case ck_known_ransomware_campaign_use item of None \<Rightarrow> ''Not supplied'' | Some u \<Rightarrow> u),
      kr_notes = ck_notes item,
      kr_cwes = ck_cwes item\<rparr>"

definition normalize_cisa_kev_catalog :: "CisaKevCatalog \<Rightarrow> KevCatalog result" where
  "normalize_cisa_kev_catalog source =
     validate_records
       \<lparr>kc_catalog_version = cc_catalog_version source,
        kc_catalog_date_released = cc_date_released source,
        kc_records = map kev_record_of (sort_key ck_cve_id (cc_vulnerabilities source))\<rparr>"

section \<open>Difference of two catalogs\<close>

text \<open>\<^verbatim>\<open>{record.cve_id: record for record in records}\<close>: a later record replaces an earlier one.\<close>

definition by_cve :: "KevRecord list \<Rightarrow> (string, KevRecord) odict" where
  "by_cve records = foldl (\<lambda>d r. AList.update (kr_cve_id r) r d) [] records"

definition cve_keys :: "KevRecord list \<Rightarrow> string list" where
  "cve_keys records = map fst (by_cve records)"

definition previous_records :: "KevCatalog option \<Rightarrow> KevRecord list" where
  "previous_records previous = (case previous of None \<Rightarrow> [] | Some c \<Rightarrow> kc_records c)"

text \<open>The keys of one catalog only, and the common keys whose records differ.\<close>

definition only_in :: "KevRecord list \<Rightarrow> KevRecord list \<Rightarrow> string list" where
  "only_in rs others = filter (\<lambda>c. c \<notin> set (cve_keys others)) (cve_keys rs)"

definition updated_in :: "KevRecord list \<Rightarrow> KevRecord list \<Rightarrow> string list" where
  "updated_in rs others =
     filter (\<lambda>c. c \<in> set (cve_keys others) \<and> map_of (by_cve rs) c \<noteq> map_of (by_cve others) c)
       (cve_keys rs)"

definition changed_cves :: "KevCatalog \<Rightarrow> KevCatalog option \<Rightarrow> string list" where
  "changed_cves current previous =
     (let rs = kc_records current; others = previous_records previous
      in sort (only_in rs others @ only_in others rs @ updated_in rs others))"

record KevPreview =
  kp_catalog_version :: string
  kp_catalog_date_released :: instant
  kp_total_records :: nat
  kp_added_records :: nat
  kp_updated_records :: nat
  kp_removed_records :: nat
  kp_ransomware_confirmed_count :: nat
  kp_changed_cves :: "string list"
  kp_changed_cve_count :: nat
  kp_changed_cves_truncated :: bool

definition preview_kev_catalog :: "KevCatalog \<Rightarrow> KevCatalog option \<Rightarrow> KevPreview" where
  "preview_kev_catalog current previous =
     (let rs = kc_records current; others = previous_records previous;
          added = only_in rs others; removed = only_in others rs; updated = updated_in rs others;
          changed = sort (added @ removed @ updated)
      in \<lparr>kp_catalog_version = kc_catalog_version current,
          kp_catalog_date_released = kc_catalog_date_released current,
          kp_total_records = length rs,
          kp_added_records = length added,
          kp_updated_records = length updated,
          kp_removed_records = length removed,
          kp_ransomware_confirmed_count =
            length (filter (\<lambda>r. kr_ransomware_campaign_status r = ''Known'') rs),
          kp_changed_cves = take 100 changed,
          kp_changed_cve_count = length changed,
          kp_changed_cves_truncated = (100 < length changed)\<rparr>)"

end
