(* ===== verification/Kev_Correlation.thy ===== *)
theory Kev_Correlation
  imports Kev_Catalog
begin

text \<open>
  \<^verbatim>\<open>backend/app/kev_correlation.py\<close>: exact correlation of affected matches with KEV records, one match at a
  time and in bounded batches.
\<close>

definition MAX_BATCH_MATCHES :: nat where "MAX_BATCH_MATCHES = 200000"
definition MAX_BATCH_CORRELATIONS :: nat where "MAX_BATCH_CORRELATIONS = 200000"

record KevCorrelation =
  kx_match_id :: string
  kx_advisory_id :: string
  kx_kev_record_id :: string
  kx_cve_id :: string
  kx_priority_status :: string

text \<open>The aliases that are CVE identifiers, each once, in order.\<close>

fun cve_aliases :: "pyval list \<Rightarrow> string list" where
  "cve_aliases [] = []"
| "cve_aliases (PStr s # vs) =
     (case normalize_cve s of Inl _ \<Rightarrow> cve_aliases vs | Inr c \<Rightarrow> c # cve_aliases vs)"
| "cve_aliases (_ # vs) = cve_aliases vs"

definition exact_cve_aliases :: "pyval list \<Rightarrow> string list" where
  "exact_cve_aliases vs = sort (remdups (cve_aliases (take 128 vs)))"

text \<open>An affected match with its identifiers and a list of aliases; everything else is skipped.\<close>

definition eligible_match :: "pydict \<Rightarrow> (string \<times> string \<times> pyval list) option" where
  "eligible_match m =
     (let match_id = py_str (py_or (get m ''match_id'') (PStr []));
          advisory_id = py_str (py_or (get m ''advisory_id'') (PStr []))
      in if get m ''match_status'' \<noteq> PStr ''affected'' \<or> match_id = [] \<or> advisory_id = [] then None
         else (case get m ''aliases'' of
                 PList aliases \<Rightarrow> Some (match_id, advisory_id, aliases)
               | _ \<Rightarrow> None))"

definition correlation_for ::
  "string \<Rightarrow> string \<Rightarrow> string \<Rightarrow> KevRecord \<Rightarrow> KevCorrelation" where
  "correlation_for match_id advisory_id cve r =
     \<lparr>kx_match_id = match_id, kx_advisory_id = advisory_id,
      kx_kev_record_id = kr_kev_record_id r, kx_cve_id = cve,
      kx_priority_status =
        (if kr_ransomware_campaign_status r = ''Known'' then ''known_exploited_ransomware''
         else ''known_exploited'')\<rparr>"

text \<open>\<^verbatim>\<open>sorted(set(aliases) & set(by_cve))\<close> and the correlation of each.\<close>

definition correlated_cves :: "(string, KevRecord) odict \<Rightarrow> pyval list \<Rightarrow> string list" where
  "correlated_cves index aliases =
     filter (\<lambda>c. c \<in> fst ` set index) (exact_cve_aliases aliases)"

definition correlate_current_affected_match :: "pydict \<Rightarrow> KevRecord list \<Rightarrow> KevCorrelation list" where
  "correlate_current_affected_match m records =
     (case eligible_match m of
        None \<Rightarrow> []
      | Some (match_id, advisory_id, aliases) \<Rightarrow>
          map (\<lambda>c. correlation_for match_id advisory_id c (the (map_of (by_cve records) c)))
            (correlated_cves (by_cve records) aliases))"

text \<open>Appending the correlations of one match; the limit is checked after each.\<close>

fun emit ::
  "nat \<Rightarrow> KevCorrelation list \<Rightarrow> KevCorrelation list \<Rightarrow> KevCorrelation list result" where
  "emit limit [] found = Inr found"
| "emit limit (k # ks) found =
     (let found = found @ [k]
      in if limit < length found then Inl ValueError else emit limit ks found)"

fun correlate_batch ::
  "(string, KevRecord) odict \<Rightarrow> nat \<Rightarrow> pydict list \<Rightarrow> string list \<Rightarrow> KevCorrelation list
     \<Rightarrow> KevCorrelation list result" where
  "correlate_batch index limit [] seen found = Inr found"
| "correlate_batch index limit (m # ms) seen found =
     (case eligible_match m of
        None \<Rightarrow> correlate_batch index limit ms seen found
      | Some (match_id, advisory_id, aliases) \<Rightarrow>
          if match_id \<in> set seen then Inl ValueError
          else bind_result
                 (emit limit
                    (map (\<lambda>c. correlation_for match_id advisory_id c (the (map_of index c)))
                       (correlated_cves index aliases)) found)
                 (\<lambda>found. correlate_batch index limit ms (match_id # seen) found))"

definition correlate_current_affected_matches ::
  "pydict list \<Rightarrow> KevRecord list \<Rightarrow> nat \<Rightarrow> nat \<Rightarrow> KevCorrelation list result" where
  "correlate_current_affected_matches ms records maximum_matches maximum_correlations =
     (if \<not> (1 \<le> maximum_matches \<and> maximum_matches \<le> MAX_BATCH_MATCHES) then Inl ValueError
      else if \<not> (1 \<le> maximum_correlations \<and> maximum_correlations \<le> MAX_BATCH_CORRELATIONS)
      then Inl ValueError
      else if maximum_matches < length ms then Inl ValueError
      else correlate_batch (by_cve records) maximum_correlations ms [] [])"

end
