(* ===== verification/Kev_Laws.thy ===== *)
theory Kev_Laws
  imports Kev_Correlation
begin

text \<open>
  Laws of the KEV catalog and its correlation: the bounded JSON walk accepts exactly the small shallow
  values, normalisation keeps every record in order, the difference of catalogs is the difference of their
  indexes, and a batch is the concatenation of its single correlations.
\<close>

section \<open>The index by CVE\<close>

lemma by_cve_step:
  "distinct (map fst d) \<Longrightarrow>
     distinct (map fst (foldl (\<lambda>d r. AList.update (kr_cve_id r) r d) d rs)) \<and>
     map_of (foldl (\<lambda>d r. AList.update (kr_cve_id r) r d) d rs) =
       map_of (rev (map (\<lambda>r. (kr_cve_id r, r)) rs) @ d)"
proof (induction rs arbitrary: d)
  case (Cons r rs)
  then show ?case
    by (auto simp: distinct_update update_conv' map_add_def fun_upd_def split: option.split)
qed simp

lemma distinct_cve_keys [simp]: "distinct (cve_keys rs)"
  using by_cve_step [of "[]" rs] by (simp add: cve_keys_def by_cve_def)

lemma map_of_by_cve: "map_of (by_cve rs) = map_of (rev (map (\<lambda>r. (kr_cve_id r, r)) rs))"
  using by_cve_step [of "[]" rs] by (simp add: by_cve_def)

lemma set_cve_keys: "c \<in> set (cve_keys rs) \<longleftrightarrow> map_of (by_cve rs) c \<noteq> None"
  by (auto simp: cve_keys_def map_of_eq_None_iff)

section \<open>The catalog\<close>

function json_values :: "pyval \<Rightarrow> pyval list" where
  "json_values v = v # concat (map json_values (json_children v))"
  by pat_completeness auto

lemma size_json_children: "c \<in> set (json_children v) \<Longrightarrow> size c < size v"
proof (induction v rule: json_children.induct)
  case (1 d)
  then obtain k where "(k, c) \<in> set d" by auto
  then have "size c < Suc (size_list (size_prod (\<lambda>_. 0) size) d)"
    by (induction d) auto
  then show ?case by simp
qed (auto simp: less_Suc_eq_le intro: size_list_estimation')

termination json_values
  by (relation "measure size") (auto intro: size_json_children)

function json_depth :: "pyval \<Rightarrow> nat" where
  "json_depth v = Suc (fold max (map json_depth (json_children v)) 0)"
  by pat_completeness auto

termination json_depth
  by (relation "measure size") (auto intro: size_json_children)

declare json_values.simps [simp del] json_depth.simps [simp del]

lemma fold_max_le: "fold max xs a \<le> n \<longleftrightarrow> a \<le> n \<and> (\<forall>x \<in> set xs. x \<le> (n::nat))"
  by (induction xs arbitrary: a) auto

lemma json_depth_le: "json_depth v \<le> Suc n \<longleftrightarrow> (\<forall>c \<in> set (json_children v). json_depth c \<le> n)"
  by (subst json_depth.simps) (simp add: fold_max_le)

lemma json_depth_pos: "0 < json_depth v"
  by (subst json_depth.simps) simp

definition json_fits :: "pyval \<times> nat \<Rightarrow> bool" where
  "json_fits p \<longleftrightarrow>
     json_depth (fst p) + snd p \<le> Suc MAX_JSON_DEPTH \<and>
     (\<forall>w \<in> set (json_values (fst p)). \<not> oversized w)"

definition json_children_at :: "pyval \<Rightarrow> nat \<Rightarrow> (pyval \<times> nat) list" where
  "json_children_at v depth = map (\<lambda>child. (child, depth + 1)) (rev (json_children v))"

definition json_weight :: "(pyval \<times> nat) list \<Rightarrow> nat" where
  "json_weight stack = length (concat (map (json_values \<circ> fst) stack))"

lemma json_values_children:
  "length (json_values v) = Suc (json_weight (json_children_at v d))"
  "set (json_values v) = insert v (\<Union>c \<in> set (json_children v). set (json_values c))"
  by (subst json_values.simps,
      simp add: json_weight_def json_children_at_def comp_def length_concat rev_map [symmetric])+

lemma json_weight_simps:
  "json_weight [] = 0"
  "json_weight ((v, d) # stack) = Suc (json_weight (json_children_at v d) + json_weight stack)"
  "json_weight (stack @ stack') = json_weight stack + json_weight stack'"
  using json_values_children(1) [of v d] by (simp_all add: json_weight_def)

lemma json_fits_children:
  assumes "depth \<le> MAX_JSON_DEPTH" "\<not> oversized v"
  shows "json_fits (v, depth) \<longleftrightarrow> (\<forall>p \<in> set (json_children_at v depth). json_fits p)"
proof -
  have "json_depth v + depth \<le> Suc MAX_JSON_DEPTH \<longleftrightarrow>
      json_depth v \<le> Suc (MAX_JSON_DEPTH - depth)"
    using assms(1) by auto
  also have "\<dots> \<longleftrightarrow> (\<forall>c \<in> set (json_children v). json_depth c \<le> MAX_JSON_DEPTH - depth)"
    by (rule json_depth_le)
  finally have "json_depth v + depth \<le> Suc MAX_JSON_DEPTH \<longleftrightarrow>
      (\<forall>c \<in> set (json_children v). json_depth c + (depth + 1) \<le> Suc MAX_JSON_DEPTH)"
    using assms(1) by fastforce
  then show ?thesis
    using assms(2) by (auto simp: json_fits_def json_children_at_def json_values_children(2) [of v])
qed

lemma walk_json_accepts:
  "walk_json nodes stack = Inr () \<longleftrightarrow>
     (stack = [] \<or> nodes + json_weight stack \<le> MAX_JSON_NODES) \<and>
     (\<forall>p \<in> set stack. json_fits p)"
proof (induction nodes stack rule: walk_json.induct)
  case (2 nodes item depth stack)
  let ?bad = "MAX_JSON_NODES < nodes + 1 \<or> MAX_JSON_DEPTH < depth \<or> oversized item"
  have pos: "0 < json_depth item" by (rule json_depth_pos)
  show ?case
  proof (cases ?bad)
    case True
    then have "\<not> (nodes + json_weight ((item, depth) # stack) \<le> MAX_JSON_NODES \<and> json_fits (item, depth))"
      using pos by (auto simp: json_fits_def json_weight_simps json_values_children(2) [of item])
    then show ?thesis using True by auto
  next
    case False
    have step: "walk_json nodes ((item, depth) # stack) =
        walk_json (nodes + 1) (json_children_at item depth @ stack)"
      using False by (simp add: json_children_at_def)
    have fits: "json_fits (item, depth) \<longleftrightarrow> (\<forall>p \<in> set (json_children_at item depth). json_fits p)"
      using False by (intro json_fits_children) simp_all
    have "walk_json (nodes + 1) (json_children_at item depth @ stack) = Inr () \<longleftrightarrow>
        (json_children_at item depth @ stack = [] \<or>
         nodes + 1 + json_weight (json_children_at item depth @ stack) \<le> MAX_JSON_NODES) \<and>
        (\<forall>p \<in> set (json_children_at item depth @ stack). json_fits p)"
      using "2.IH" False by (simp only: json_children_at_def de_Morgan_disj simp_thms not_less)
    then show ?thesis
      unfolding step using False
      by (auto simp: fits json_weight_simps)
  qed
qed simp

text \<open>C31. The stack loop over a decoded JSON value accepts it exactly when it has at most 200000 nodes, is
  nested at most eight deep and contains no string above 8000 characters, in whatever order it visits the
  nodes.
\<close>

theorem json_shape_accepts:
  "validate_json_shape v = Inr () \<longleftrightarrow>
     length (json_values v) \<le> 200000 \<and> json_depth v \<le> 8 \<and>
     (\<forall>s. PStr s \<in> set (json_values v) \<longrightarrow> length s \<le> 8000)"
proof -
  have "(\<forall>w \<in> set (json_values v). \<not> oversized w) \<longleftrightarrow>
      (\<forall>s. PStr s \<in> set (json_values v) \<longrightarrow> length s \<le> 8000)"
  proof -
    have "oversized w \<longleftrightarrow> (\<exists>s. w = PStr s \<and> 8000 < length s)" for w
      by (cases w rule: oversized.cases) (auto simp: MAX_KEV_NOTES_def)
    then show ?thesis by (auto simp: not_less) 
  qed
  then show ?thesis
    using walk_json_accepts [of 0 "[(v, 1)]"] json_values_children(1) [of v 1]
    by (simp add: validate_json_shape_def json_fits_def json_weight_simps MAX_JSON_NODES_def
        MAX_JSON_DEPTH_def del: walk_json.simps)
qed

theorem json_shape_accepts_witness:
  "validate_json_shape (PList [PDict [(''cveID'', PStr ''CVE-2024-1234'')], PInt 1]) = Inr () \<and>
   length (json_values (PList [PDict [(''cveID'', PStr ''CVE-2024-1234'')], PInt 1])) \<le> 200000"
proof -
  have "validate_json_shape (PList [PDict [(''cveID'', PStr ''CVE-2024-1234'')], PInt 1]) = Inr ()"
    by (simp add: validate_json_shape_def MAX_JSON_NODES_def MAX_JSON_DEPTH_def MAX_KEV_NOTES_def)
  with json_shape_accepts [of "PList [PDict [(''cveID'', PStr ''CVE-2024-1234'')], PInt 1]"]
  show ?thesis by blast
qed

section \<open>Normalisation\<close>

text \<open>C33. Normalising a validated CISA catalog fails only if two different CVEs have the same digest;
  otherwise it has one record per vulnerability, in CVE order, named after the digest of the CVE.
\<close>

theorem normalize_kev_records:
  assumes "validate_catalog source = Inr source"
  shows "(case normalize_cisa_kev_catalog source of
      Inl e \<Rightarrow> e = ValueError \<and> (\<exists>r \<in> set (cc_vulnerabilities source). \<exists>q \<in> set (cc_vulnerabilities source).
        ck_cve_id r \<noteq> ck_cve_id q \<and> sha256_hex (ck_cve_id r) = sha256_hex (ck_cve_id q))
    | Inr c \<Rightarrow>
        mset (kc_records c) = image_mset kev_record_of (mset (cc_vulnerabilities source)) \<and>
        sorted (map kr_cve_id (kc_records c)) \<and> distinct (map kr_cve_id (kc_records c)) \<and>
        (\<forall>r \<in> set (kc_records c). kr_kev_record_id r = ''kev_'' @ sha256_hex (kr_cve_id r)))"
proof -
  let ?vs = "sort_key ck_cve_id (cc_vulnerabilities source)"
  let ?rs = "map kev_record_of ?vs"
  have cve: "kr_cve_id (kev_record_of v) = ck_cve_id v"
    and rid: "kr_kev_record_id (kev_record_of v) = ''kev_'' @ sha256_hex (ck_cve_id v)" for v
    by (simp_all add: kev_record_of_def)
  have "distinct (map ck_cve_id (cc_vulnerabilities source))"
    using assms by (simp add: validate_catalog_def split: if_splits)
  then have dist: "distinct (map kr_cve_id ?rs)" and inj: "inj_on ck_cve_id (set ?vs)"
    by (simp_all add: comp_def cve distinct_map)
  have srt: "sorted (map kr_cve_id ?rs)" by (simp add: comp_def cve)
  then have "sort (map kr_cve_id ?rs) = map kr_cve_id ?rs" by (rule sorted_sort_id)
  then have norm: "normalize_cisa_kev_catalog source =
      (if distinct (map kr_kev_record_id ?rs)
       then Inr \<lparr>kc_catalog_version = cc_catalog_version source,
                 kc_catalog_date_released = cc_date_released source, kc_records = ?rs\<rparr>
       else Inl ValueError)"
    using dist by (simp add: normalize_cisa_kev_catalog_def validate_records_def Let_def)
  show ?thesis
  proof (cases "distinct (map kr_kev_record_id ?rs)")
    case True
    then show ?thesis using dist srt by (auto simp: norm cve rid)
  next
    case False
    have "distinct ?vs" using dist by (simp add: distinct_map comp_def cve)
    then have "\<not> inj_on (\<lambda>v. ''kev_'' @ sha256_hex (ck_cve_id v)) (set ?vs)"
      using False by (simp add: distinct_map comp_def rid)
    then obtain r q where "r \<in> set ?vs" "q \<in> set ?vs" "r \<noteq> q"
      "sha256_hex (ck_cve_id r) = sha256_hex (ck_cve_id q)"
      by (auto simp: inj_on_def)
    then show ?thesis using inj False by (auto simp: norm inj_on_def)
  qed
qed

definition sample_vulnerability :: CisaKevRecord where
  "sample_vulnerability =
     \<lparr>ck_cve_id = ''CVE-2024-1234'', ck_vendor_project = ''v'', ck_product = ''p'',
      ck_vulnerability_name = ''n'', ck_date_added = 19723, ck_short_description = ''d'',
      ck_required_action = ''a'', ck_due_date = 19744, ck_known_ransomware_campaign_use = None,
      ck_notes = None, ck_cwes = [''CWE-79'']\<rparr>"

definition sample_source :: CisaKevCatalog where
  "sample_source =
     \<lparr>cc_catalog_version = ''1'', cc_date_released = 0, cc_count = 1,
      cc_vulnerabilities = [sample_vulnerability]\<rparr>"

theorem normalize_kev_records_witness:
  "\<exists>c. normalize_cisa_kev_catalog sample_source = Inr c \<and> kc_records c = [kev_record_of sample_vulnerability]"
proof -
  have "validate_catalog sample_source = Inr sample_source"
    by (simp add: validate_catalog_def sample_source_def)
  from normalize_kev_records [OF this] show ?thesis
    by (auto simp: sample_source_def split: sum.splits)
qed

section \<open>Differences\<close>

lemma set_only_in:
  "c \<in> set (only_in rs qs) \<longleftrightarrow> map_of (by_cve rs) c \<noteq> None \<and> map_of (by_cve qs) c = None"
  by (auto simp: only_in_def set_cve_keys)

lemma set_updated_in:
  "c \<in> set (updated_in rs qs) \<longleftrightarrow> map_of (by_cve rs) c \<noteq> None \<and> map_of (by_cve qs) c \<noteq> None \<and>
     map_of (by_cve rs) c \<noteq> map_of (by_cve qs) c"
  by (auto simp: updated_in_def set_cve_keys)

lemma distinct_changes: "distinct (only_in rs qs @ only_in qs rs @ updated_in rs qs)"
  using set_only_in [of _ rs qs] set_only_in [of _ qs rs] set_updated_in [of _ rs qs]
  by (auto simp: only_in_def updated_in_def distinct_filter)

text \<open>A CVE is reported as changed exactly when the two catalogs look it up differently; the list is
  sorted without duplicates, and the preview's counts of added, removed and updated records add up to it.
\<close>

theorem changed_cves_exact:
  "(c \<in> set (changed_cves current previous) \<longleftrightarrow>
      map_of (by_cve (kc_records current)) c \<noteq> map_of (by_cve (previous_records previous)) c) \<and>
   sorted (changed_cves current previous) \<and> distinct (changed_cves current previous) \<and>
   (let p = preview_kev_catalog current previous
    in kp_changed_cve_count p = kp_added_records p + kp_removed_records p + kp_updated_records p \<and>
       kp_changed_cves p = take 100 (changed_cves current previous) \<and>
       (kp_changed_cves_truncated p \<longleftrightarrow> kp_changed_cves p \<noteq> changed_cves current previous))"
proof -
  let ?rs = "kc_records current" and ?qs = "previous_records previous"
  have "c \<in> set (changed_cves current previous) \<longleftrightarrow> map_of (by_cve ?rs) c \<noteq> map_of (by_cve ?qs) c"
    by (auto simp: changed_cves_def Let_def set_only_in set_updated_in)
  moreover have "distinct (changed_cves current previous)"
    using distinct_changes [of ?rs ?qs] by (simp add: changed_cves_def Let_def)
  moreover have "100 < length xs \<longleftrightarrow> take 100 xs \<noteq> xs" for xs :: "string list"
    by (metis length_take min.strict_order_iff min_def not_le take_all)
  ultimately show ?thesis
    by (simp add: changed_cves_def preview_kev_catalog_def Let_def)
qed

section \<open>Correlation\<close>

lemma emit_eq:
  "length found \<le> limit \<Longrightarrow>
     emit limit ks found =
       (if length (found @ ks) \<le> limit then Inr (found @ ks) else Inl ValueError)"
  by (induction limit ks found rule: emit.induct) (auto simp: Let_def)

definition eligible_ids :: "pydict list \<Rightarrow> string list" where
  "eligible_ids ms = concat (map (\<lambda>m. case eligible_match m of None \<Rightarrow> [] | Some (i, _) \<Rightarrow> [i]) ms)"

lemma correlate_batch_eq:
  assumes "length found \<le> limit"
  shows "correlate_batch (by_cve records) limit ms seen found =
    (let all = found @ concat (map (\<lambda>m. correlate_current_affected_match m records) ms)
     in if distinct (eligible_ids ms) \<and> set (eligible_ids ms) \<inter> set seen = {} \<and> length all \<le> limit
        then Inr all else Inl ValueError)"
  using assms
proof (induction ms arbitrary: seen found)
  case Nil
  then show ?case by (simp add: eligible_ids_def)
next
  case (Cons m ms)
  show ?case
  proof (cases "eligible_match m")
    case None
    then show ?thesis
      using Cons by (simp add: eligible_ids_def correlate_current_affected_match_def)
  next
    case (Some p)
    obtain i a as where p: "p = (i, a, as)" by (cases p)
    let ?ks = "correlate_current_affected_match m records"
    have step: "correlate_batch (by_cve records) limit (m # ms) seen found =
        (if i \<in> set seen then Inl ValueError
         else bind_result (emit limit ?ks found)
           (\<lambda>found. correlate_batch (by_cve records) limit ms (i # seen) found))"
      using Some by (simp add: p correlate_current_affected_match_def)
    have ids: "eligible_ids (m # ms) = i # eligible_ids ms"
      using Some by (simp add: p eligible_ids_def)
    show ?thesis
    proof (cases "i \<in> set seen \<or> limit < length (found @ ?ks)")
      case True
      then show ?thesis using emit_eq [OF Cons.prems] by (auto simp: step ids Let_def simp del: correlate_batch.simps)
    next
      case False
      then have "emit limit ?ks found = Inr (found @ ?ks)" "length (found @ ?ks) \<le> limit"
        using emit_eq [OF Cons.prems] by (simp_all add: not_less)
      then show ?thesis
        using Cons.IH [of "found @ ?ks" "i # seen"] False by (auto simp: step ids Let_def simp del: correlate_batch.simps)
    qed
  qed
qed

text \<open>C30. A batch returns the concatenation of the correlations of its matches, one match at a time; it is
  rejected exactly when a limit is out of its reviewed range or exceeded, or two eligible matches share
  an id.
\<close>

theorem correlate_batch_is_concat:
  "correlate_current_affected_matches ms records maximum_matches maximum_correlations =
    (let all = concat (map (\<lambda>m. correlate_current_affected_match m records) ms)
     in if 1 \<le> maximum_matches \<and> maximum_matches \<le> 200000 \<and>
           1 \<le> maximum_correlations \<and> maximum_correlations \<le> 200000 \<and>
           length ms \<le> maximum_matches \<and> length all \<le> maximum_correlations \<and> distinct (eligible_ids ms)
        then Inr all else Inl ValueError)"
  using correlate_batch_eq [of "[]" maximum_correlations records ms "[]"]
  by (auto simp: correlate_current_affected_matches_def MAX_BATCH_MATCHES_def
      MAX_BATCH_CORRELATIONS_def Let_def not_le not_less)

lemma set_cve_aliases: "c \<in> set (cve_aliases vs) \<longleftrightarrow> (\<exists>s. PStr s \<in> set vs \<and> normalize_cve s = Inr c)"
  by (induction vs rule: cve_aliases.induct) (auto split: sum.splits)

text \<open>C32. Only an affected match is correlated, and only through an alias among its first 128 whose
  normalised form is exactly the CVE of the record; nothing else produces or suppresses a correlation.
\<close>

theorem correlation_exact:
  "k \<in> set (correlate_current_affected_match m records) \<longleftrightarrow>
    (\<exists>aliases s r. get m ''match_status'' = PStr ''affected'' \<and> get m ''aliases'' = PList aliases \<and>
       kx_match_id k = py_str (py_or (get m ''match_id'') (PStr [])) \<and> kx_match_id k \<noteq> [] \<and>
       kx_advisory_id k = py_str (py_or (get m ''advisory_id'') (PStr [])) \<and> kx_advisory_id k \<noteq> [] \<and>
       PStr s \<in> set (take 128 aliases) \<and> normalize_cve s = Inr (kx_cve_id k) \<and>
       map_of (by_cve records) (kx_cve_id k) = Some r \<and>
       k = correlation_for (kx_match_id k) (kx_advisory_id k) (kx_cve_id k) r)"
proof -
  have fields: "kx_match_id (correlation_for i a c r) = i" "kx_advisory_id (correlation_for i a c r) = a"
    "kx_cve_id (correlation_for i a c r) = c" for i a c r
    by (simp_all add: correlation_for_def)
  have cves: "c \<in> set (correlated_cves (by_cve records) aliases) \<longleftrightarrow>
      (\<exists>s r. PStr s \<in> set (take 128 aliases) \<and> normalize_cve s = Inr c \<and>
         map_of (by_cve records) c = Some r)" for c aliases
    using set_cve_keys [of c records]
    by (auto simp: correlated_cves_def exact_cve_aliases_def set_cve_aliases cve_keys_def)
  have eligible: "eligible_match m = Some (i, a, as) \<longleftrightarrow>
      get m ''match_status'' = PStr ''affected'' \<and> get m ''aliases'' = PList as \<and>
      i = py_str (py_or (get m ''match_id'') (PStr [])) \<and> i \<noteq> [] \<and>
      a = py_str (py_or (get m ''advisory_id'') (PStr [])) \<and> a \<noteq> []" for i a as
    by (cases "get m ''aliases''") (auto simp: eligible_match_def Let_def)
  have "k \<in> set (correlate_current_affected_match m records) \<longleftrightarrow>
      (\<exists>i a as. eligible_match m = Some (i, a, as) \<and>
         (\<exists>c \<in> set (correlated_cves (by_cve records) as).
            k = correlation_for i a c (the (map_of (by_cve records) c))))"
    by (cases "eligible_match m") (auto simp: correlate_current_affected_match_def)
  also have "\<dots> \<longleftrightarrow> (\<exists>i a as. eligible_match m = Some (i, a, as) \<and>
         (\<exists>c s r. PStr s \<in> set (take 128 as) \<and> normalize_cve s = Inr c \<and>
            map_of (by_cve records) c = Some r \<and> k = correlation_for i a c r))"
    unfolding Bex_def cves by (metis option.sel)
  finally show ?thesis
    unfolding eligible using fields by metis
qed

end
