(* ===== verification/Classification.thy ===== *)
theory Classification
  imports Py_Iso Py_Value Sha256
begin

text \<open>
  Asset classification of \<^verbatim>\<open>backend/app/classification.py\<close>: evidence becomes weighted signals, the best
  evidence per source votes for a category, and scores, conflicts and status follow.  Weights and
  scores are binary64 numbers, rounded operation by operation.  A datetime is aware (its UTC instant) or
  naive; \<^verbatim>\<open>now\<close> is an argument.  Fields have the types the dataclasses declare: a confidence is a float.
\<close>

section \<open>Constants\<close>

definition CLASSIFIER_VERSION :: string where "CLASSIFIER_VERSION = ''oaw.classifier.v1''"
definition MAX_CLASSIFICATION_EVIDENCE :: nat where "MAX_CLASSIFICATION_EVIDENCE = 256"
definition MAX_CLASSIFICATION_EVIDENCE_INPUT :: nat where "MAX_CLASSIFICATION_EVIDENCE_INPUT = 4096"
definition MAX_CLASSIFICATION_EVIDENCE_PER_SOURCE :: nat where
  "MAX_CLASSIFICATION_EVIDENCE_PER_SOURCE = 48"
definition MAX_CLASSIFICATION_REFERENCES :: nat where "MAX_CLASSIFICATION_REFERENCES = 32"
definition MAX_REASON_CODES :: nat where "MAX_REASON_CODES = 12"
definition MAX_CONFLICTS :: nat where "MAX_CONFLICTS = 16"
definition MAX_FUTURE_EVIDENCE_SKEW :: timedelta where "MAX_FUTURE_EVIDENCE_SKEW = minutes 5"

definition SUPPORTED_CATEGORIES :: "string list" where
  "SUPPORTED_CATEGORIES =
     [''workstation'', ''server'', ''mobile'', ''network-device'', ''printer'', ''camera'',
      ''media-device'', ''storage'', ''iot'', ''ot-industrial'', ''virtual-machine'', ''unknown'']"

definition SUPPORTED_REASON_CODES :: "string list" where
  "SUPPORTED_REASON_CODES =
     [''direct-category'', ''direct-endpoint-os'', ''direct-device-role'',
      ''passive-dhcp-vendor-class'', ''passive-mdns-service'', ''passive-ssdp-device-type'',
      ''passive-nbns-name'', ''weak-hostname-pattern'', ''vendor-catalog-match'',
      ''independent-source-agreement'', ''material-evidence-conflict'', ''stale-evidence-discounted'',
      ''future-evidence-rejected'', ''revoked-source-discounted'', ''manufacturer-only-evidence'',
      ''insufficient-category-evidence'', ''no-category-evidence'']"

definition CATEGORY_ALIASES :: "(string \<times> string) list" where
  "CATEGORY_ALIASES =
     [(''desktop'', ''workstation''), (''laptop'', ''workstation''), (''pc'', ''workstation''),
      (''workstation'', ''workstation''), (''server'', ''server''), (''mobile'', ''mobile''),
      (''phone'', ''mobile''), (''smartphone'', ''mobile''), (''tablet'', ''mobile''),
      (''network'', ''network-device''), (''network appliance'', ''network-device''),
      (''network device'', ''network-device''), (''network-device'', ''network-device''),
      (''router'', ''network-device''), (''switch'', ''network-device''),
      (''firewall'', ''network-device''), (''access point'', ''network-device''),
      (''printer'', ''printer''), (''camera'', ''camera''), (''ip camera'', ''camera''),
      (''media'', ''media-device''), (''media device'', ''media-device''),
      (''media-device'', ''media-device''), (''storage'', ''storage''), (''nas'', ''storage''),
      (''iot'', ''iot''), (''embedded'', ''iot''), (''ot'', ''ot-industrial''),
      (''industrial'', ''ot-industrial''), (''ot-industrial'', ''ot-industrial''),
      (''virtual machine'', ''virtual-machine''), (''virtual-machine'', ''virtual-machine''),
      (''vm'', ''virtual-machine''), (''unknown'', ''unknown'')]"

section \<open>Records\<close>

datatype timestamp = Aware instant | Naive instant

record ManagedCapability =
  endpoint_collector :: string
  endpoint_security :: string
  software_inventory :: string
  patch_management :: string

record ClassificationEvidence =
  ev_evidence_id :: string
  ev_site_id :: string
  ev_asset_id :: string
  ev_source_id :: string
  ev_source_type :: string
  ev_collection_method :: string
  ev_kind :: string
  ev_value :: string
  ev_observed_at :: timestamp
  ev_direct :: bool
  ev_strength :: string
  ev_source_confidence :: pyfloat
  ev_first_seen_at :: "timestamp option"
  ev_last_seen_at :: "timestamp option"
  ev_observation_count :: int
  ev_source_revoked :: bool

definition ev_source_key :: "ClassificationEvidence \<Rightarrow> string" where
  "ev_source_key e = ev_source_type e @ char_of (0 :: int) # ev_source_id e"

definition ev_seen :: "ClassificationEvidence \<Rightarrow> timestamp" where
  "ev_seen e = (case ev_last_seen_at e of Some t \<Rightarrow> t | None \<Rightarrow> ev_observed_at e)"

record ClassificationConflict =
  cf_conflict_type :: string
  cf_selected_value :: string
  cf_conflicting_value :: string
  cf_supporting_evidence_ids :: "string list"
  cf_conflicting_evidence_ids :: "string list"
  cf_reason_code :: string

record ClassificationResult =
  cr_classification_id :: string
  cr_asset_id :: string
  cr_site_id :: string
  cr_classifier_version :: string
  cr_category :: string
  cr_subtype :: "string option"
  cr_manufacturer :: "string option"
  cr_product_hint :: "string option"
  cr_os_family :: "string option"
  cr_os_version_hint :: "string option"
  cr_managed_capability :: ManagedCapability
  cr_confidence :: rat
  cr_status :: string
  cr_supporting_evidence_ids :: "string list"
  cr_conflicting_evidence_ids :: "string list"
  cr_independent_source_count :: nat
  cr_evidence_count :: nat
  cr_first_classified_at :: instant
  cr_last_classified_at :: instant
  cr_evaluated_at :: instant
  cr_superseded_at :: "instant option"
  cr_freshness :: string
  cr_reason_codes :: "string list"
  cr_conflicts :: "ClassificationConflict list"

record Signal =
  sg_attribute :: string
  sg_value :: string
  sg_weight :: rat
  sg_evidence_id :: string
  sg_source_key :: string
  sg_direct :: bool
  sg_freshness :: string
  sg_reason_code :: string

section \<open>Text\<close>

definition removed_control :: "char \<Rightarrow> bool" where
  "removed_control c \<longleftrightarrow> is_control c \<and> code c \<noteq> 9 \<and> code c \<noteq> 10 \<and> code c \<noteq> 13"

definition collapse_space :: "string \<Rightarrow> string" where
  "collapse_space s = py_strip is_space (sub_runs is_space '' '' s)"

fun display_text :: "pyval \<Rightarrow> nat \<Rightarrow> string" where
  "display_text (PStr s) limit = take limit (collapse_space (filter (\<lambda>c. \<not> removed_control c) s))"
| "display_text _ limit = []"

definition normalized_text :: "pyval \<Rightarrow> nat \<Rightarrow> string" where
  "normalized_text v limit = casefold (display_text v limit)"

definition nul_join :: "string list \<Rightarrow> string" where
  "nul_join = py_join [char_of (0 :: int)]"

definition classification_id_for :: "string \<Rightarrow> string \<Rightarrow> string" where
  "classification_id_for site asset = digest_id ''cls_'' (nul_join [site, asset])"

definition evidence_id_for ::
  "string \<Rightarrow> string \<Rightarrow> string \<Rightarrow> string \<Rightarrow> string \<Rightarrow> string \<Rightarrow> string \<Rightarrow> string" where
  "evidence_id_for site asset source_type source_id collection_method kind v =
     ''cev_'' @ take 40 (sha256_hex (nul_join
       [display_text (PStr site) 128, display_text (PStr asset) 160,
        casefold (display_text (PStr source_type) 64), display_text (PStr source_id) 160,
        casefold (display_text (PStr collection_method) 64), casefold (display_text (PStr kind) 80),
        normalized_text (PStr v) 512]))"

definition replace_char :: "char \<Rightarrow> char \<Rightarrow> string \<Rightarrow> string" where
  "replace_char a b s = map (\<lambda>c. if c = a then b else c) s"

definition category_name :: "pyval \<Rightarrow> string option" where
  "category_name v =
     (let t = replace_char (CHR ''/'') (CHR '' '') (replace_char (CHR ''_'') (CHR '' '') (normalized_text v 80))
      in case map_of CATEGORY_ALIASES (collapse_space t) of
           Some c \<Rightarrow> if c \<in> set SUPPORTED_CATEGORIES then Some c else None
         | None \<Rightarrow> None)"

definition managed_capability_for :: "string \<Rightarrow> ManagedCapability" where
  "managed_capability_for category =
     (if category \<in> {''workstation'', ''server'', ''virtual-machine''}
      then \<lparr>endpoint_collector = ''expected'', endpoint_security = ''expected'',
            software_inventory = ''expected'', patch_management = ''expected''\<rparr>
      else if category = ''mobile''
      then \<lparr>endpoint_collector = ''expected'', endpoint_security = ''expected'',
            software_inventory = ''unknown'', patch_management = ''expected''\<rparr>
      else if category \<in> {''network-device'', ''printer'', ''camera'', ''media-device'', ''storage'', ''iot'',
                         ''ot-industrial''}
      then \<lparr>endpoint_collector = ''not-expected'', endpoint_security = ''not-expected'',
            software_inventory = ''not-expected'', patch_management = ''unknown''\<rparr>
      else \<lparr>endpoint_collector = ''unknown'', endpoint_security = ''unknown'',
            software_inventory = ''unknown'', patch_management = ''unknown''\<rparr>)"

section \<open>Freshness and confidence\<close>

definition evidence_freshness :: "timestamp option \<Rightarrow> instant \<Rightarrow> bool \<Rightarrow> string" where
  "evidence_freshness observed now source_revoked =
     (if source_revoked then ''stale''
      else case observed of
             Some (Aware t) \<Rightarrow>
               if now + MAX_FUTURE_EVIDENCE_SKEW < t then ''unknown''
               else let age = max (now - t) 0
                    in if age \<le> hours 24 then ''fresh''
                       else if age \<le> hours 72 then ''aging'' else ''stale''
           | _ \<Rightarrow> ''unknown'')"

definition freshness_factor :: "string \<Rightarrow> bool \<Rightarrow> rat" where
  "freshness_factor freshness revoked =
     (if revoked then fl (1 / 10)
      else if freshness = ''fresh'' then 1
      else if freshness = ''aging'' then fl (8 / 10)
      else if freshness = ''stale'' then fl (35 / 100)
      else fl (45 / 100))"

fun finite_confidence :: "pyfloat \<Rightarrow> rat" where
  "finite_confidence (Finite x) = max 0 (min x 1)"
| "finite_confidence _ = 1 / 2"

section \<open>Signals\<close>

fun contains :: "string \<Rightarrow> string \<Rightarrow> bool" where
  "contains needle [] = (needle = [])"
| "contains needle (c # s) = (take (length needle) (c # s) = needle \<or> contains needle s)"

definition contains_any :: "string list \<Rightarrow> string \<Rightarrow> bool" where
  "contains_any needles s = list_ex (\<lambda>n. contains n s) needles"

definition os_family :: "string \<Rightarrow> string option" where
  "os_family v =
     (let normalized = normalized_text (PStr v) 160
      in if contains ''windows'' normalized then Some ''Windows''
         else if contains_any [''macos'', ''mac os'', ''darwin''] normalized then Some ''macOS''
         else if contains_any [''ios'', ''iphone'', ''ipad''] normalized then Some ''iOS''
         else if contains ''android'' normalized then Some ''Android''
         else if contains_any [''linux'', ''ubuntu'', ''debian'', ''rhel'', ''fedora'', ''centos''] normalized
         then Some ''Linux''
         else if contains_any [''freebsd'', ''openbsd'', ''netbsd''] normalized then Some ''BSD''
         else None)"

definition signal_weight :: "ClassificationEvidence \<Rightarrow> rat \<Rightarrow> string \<Rightarrow> rat" where
  "signal_weight e weight freshness =
     max 0 (min (fmul (fmul weight (finite_confidence (ev_source_confidence e)))
                   (freshness_factor freshness (ev_source_revoked e))) (fl (99 / 100)))"

definition category_signal ::
  "ClassificationEvidence \<Rightarrow> string \<Rightarrow> rat \<Rightarrow> string \<Rightarrow> string \<Rightarrow> Signal" where
  "category_signal e category weight freshness reason =
     \<lparr>sg_attribute = ''category'', sg_value = category, sg_weight = signal_weight e weight freshness,
      sg_evidence_id = ev_evidence_id e, sg_source_key = ev_source_key e, sg_direct = ev_direct e,
      sg_freshness = freshness, sg_reason_code = reason\<rparr>"

definition attribute_signal ::
  "ClassificationEvidence \<Rightarrow> string \<Rightarrow> string \<Rightarrow> rat \<Rightarrow> string \<Rightarrow> string \<Rightarrow> Signal" where
  "attribute_signal e attribute v weight freshness reason =
     \<lparr>sg_attribute = attribute, sg_value = display_text (PStr v) 160,
      sg_weight = signal_weight e weight freshness,
      sg_evidence_id = ev_evidence_id e, sg_source_key = ev_source_key e, sg_direct = ev_direct e,
      sg_freshness = freshness, sg_reason_code = reason\<rparr>"

text \<open>The labels of a hostname: \<^verbatim>\<open>re.split(r"[^a-z0-9]+", hostname)\<close>.\<close>

definition host_labels :: "string \<Rightarrow> string list" where
  "host_labels s = split_on (CHR '' '') (sub_runs (\<lambda>c. \<not> (is_lower c \<or> is_digit c)) '' '' s)"

definition hostname_category :: "string \<Rightarrow> string option" where
  "hostname_category v =
     (let labels = host_labels (normalized_text (PStr v) 255);
          has = (\<lambda>ls. list_ex (\<lambda>l. l \<in> set labels) ls)
      in if has [''printer'', ''print'', ''laserjet''] then Some ''printer''
         else if has [''camera'', ''cam'', ''nvr''] then Some ''camera''
         else if has [''nas'', ''storage''] then Some ''storage''
         else if has [''router'', ''switch'', ''firewall'', ''gateway'', ''ap''] then Some ''network-device''
         else if has [''tv'', ''media'', ''cast''] then Some ''media-device''
         else None)"

definition known_category :: "string \<Rightarrow> string option" where
  "known_category v =
     (case category_name (PStr v) of
        Some c \<Rightarrow> if c = ''unknown'' then None else Some c
      | None \<Rightarrow> None)"

definition when_some :: "'a option \<Rightarrow> ('a \<Rightarrow> 'b) \<Rightarrow> 'b list" where
  "when_some x f = (case x of None \<Rightarrow> [] | Some a \<Rightarrow> [f a])"

text \<open>The first row of a table with a needle that occurs in the text.\<close>

definition mapped_category :: "(string list \<times> string) list \<Rightarrow> string \<Rightarrow> string option" where
  "mapped_category table normalized =
     map_option snd (find (\<lambda>(needles, _). contains_any needles normalized) table)"

definition DHCP_MAPPINGS :: "(string list \<times> string) list" where
  "DHCP_MAPPINGS =
     [([''printer'', ''jetdirect''], ''printer''), ([''camera'', ''ipc''], ''camera''),
      ([''android'', ''iphone'', ''ipad''], ''mobile''),
      ([''router'', ''switch'', ''gateway'', ''firewall'', ''accesspoint''], ''network-device''),
      ([''nas'', ''storage''], ''storage'')]"

definition MDNS_MAPPINGS :: "(string list \<times> string) list" where
  "MDNS_MAPPINGS =
     [([''_ipp'', ''_printer'', ''printer''], ''printer''),
      ([''_airplay'', ''_googlecast'', ''_raop'', ''mediarenderer''], ''media-device''),
      ([''_smb'', ''_afpovertcp'', ''_nfs''], ''storage''),
      ([''_axis-video'', ''_camera'', ''_rtsp''], ''camera'')]"

definition SSDP_MAPPINGS :: "(string list \<times> string) list" where
  "SSDP_MAPPINGS =
     [([''internetgatewaydevice'', ''wanconnectiondevice'', ''router''], ''network-device''),
      ([''mediarenderer'', ''mediaserver'', ''dial'', ''roku''], ''media-device''),
      ([''printer'', ''printbasic''], ''printer''),
      ([''camera'', ''digital_security_camera'', ''networkvideo''], ''camera''),
      ([''storage'', ''nas''], ''storage'')]"

text \<open>The signals of direct statements about the device.\<close>

definition direct_signals :: "ClassificationEvidence \<Rightarrow> string \<Rightarrow> string \<Rightarrow> string \<Rightarrow> Signal list" where
  "direct_signals e kind v freshness =
     (if ev_direct e \<and> kind \<in> {''category'', ''asset-category'', ''device-category'', ''device-type''}
      then when_some (known_category v)
             (\<lambda>c. category_signal e c (fl (98 / 100)) freshness ''direct-category'')
      else []) @
     (if ev_direct e \<and> kind \<in> {''role'', ''device-role'', ''subtype''}
      then when_some (known_category v)
             (\<lambda>c. category_signal e c (fl (94 / 100)) freshness ''direct-device-role'') @
           [attribute_signal e ''subtype'' v (fl (9 / 10)) freshness ''direct-device-role'']
      else [])"

definition os_category_signals ::
  "ClassificationEvidence \<Rightarrow> string \<Rightarrow> string \<Rightarrow> string \<Rightarrow> Signal list" where
  "os_category_signals e family normalized freshness =
     (if \<not> ev_direct e then []
      else if family \<in> {''Windows'', ''macOS''}
      then (if contains ''server'' normalized
            then [category_signal e ''server'' (fl (96 / 100)) freshness ''direct-endpoint-os'']
            else [category_signal e ''workstation'' (fl (91 / 100)) freshness ''direct-endpoint-os''])
      else if family \<in> {''Android'', ''iOS''}
      then [category_signal e ''mobile'' (fl (96 / 100)) freshness ''direct-endpoint-os'']
      else [])"

definition os_signals :: "ClassificationEvidence \<Rightarrow> string \<Rightarrow> string \<Rightarrow> string \<Rightarrow> Signal list" where
  "os_signals e kind v freshness =
     (if kind \<in> {''os'', ''os-family'', ''platform'', ''platform-os''}
      then (case os_family v of
              None \<Rightarrow> []
            | Some family \<Rightarrow>
                attribute_signal e ''os_family'' family
                  (if ev_direct e then fl (98 / 100) else fl (55 / 100)) freshness
                  (if ev_direct e then ''direct-endpoint-os'' else ''insufficient-category-evidence'')
                # os_category_signals e family (casefold v) freshness)
      else []) @
     (if kind \<in> {''os-version'', ''version'', ''platform-version''} \<and> ev_direct e
      then [attribute_signal e ''os_version_hint'' v (fl (9 / 10)) freshness ''direct-endpoint-os'']
      else [])"

definition product_signals :: "ClassificationEvidence \<Rightarrow> string \<Rightarrow> string \<Rightarrow> string \<Rightarrow> Signal list" where
  "product_signals e kind v freshness =
     (if kind \<in> {''manufacturer'', ''vendor'', ''hardware-vendor''}
      then [attribute_signal e ''manufacturer'' v (if ev_direct e then fl (95 / 100) else fl (62 / 100))
              freshness ''manufacturer-only-evidence'']
      else []) @
     (if kind \<in> {''oui-manufacturer'', ''mac-vendor''}
      then [attribute_signal e ''manufacturer'' v (fl (72 / 100)) freshness ''vendor-catalog-match'']
      else []) @
     (if kind \<in> {''product'', ''model'', ''product-model''}
      then [attribute_signal e ''product_hint'' v (if ev_direct e then fl (92 / 100) else fl (55 / 100))
              freshness
              (if ev_direct e then ''direct-device-role'' else ''insufficient-category-evidence'')]
      else [])"

text \<open>The signals of passive observation: DHCP, mDNS, SSDP and names.\<close>

definition passive_signals ::
  "ClassificationEvidence \<Rightarrow> string \<Rightarrow> string \<Rightarrow> string \<Rightarrow> string \<Rightarrow> Signal list" where
  "passive_signals e kind observed_by v freshness =
     (if observed_by = ''dhcp'' \<or> kind \<in> {''dhcp-vendor-class'', ''vendor-class''}
      then when_some (mapped_category DHCP_MAPPINGS (casefold v))
             (\<lambda>c. category_signal e c (fl (73 / 100)) freshness ''passive-dhcp-vendor-class'')
      else []) @
     (if observed_by = ''mdns'' \<or> kind \<in> {''mdns-service'', ''service'', ''service-name''}
      then when_some (mapped_category MDNS_MAPPINGS (casefold v))
             (\<lambda>c. category_signal e c (fl (78 / 100)) freshness ''passive-mdns-service'')
      else []) @
     (if observed_by = ''ssdp'' \<or> kind \<in> {''ssdp-device-type'', ''device-urn'', ''ssdp-server''}
      then when_some (mapped_category SSDP_MAPPINGS (casefold v))
             (\<lambda>c. category_signal e c (fl (76 / 100)) freshness ''passive-ssdp-device-type'')
      else []) @
     (if observed_by = ''nbns'' \<or> kind \<in> {''nbns-name'', ''netbios-name''}
      then when_some (hostname_category v)
             (\<lambda>c. category_signal e c (fl (43 / 100)) freshness ''passive-nbns-name'')
      else []) @
     (if kind \<in> {''hostname'', ''host-name'', ''dns-name'', ''nbns-name''}
      then when_some (hostname_category v)
             (\<lambda>c. category_signal e c (fl (34 / 100)) freshness ''weak-hostname-pattern'')
      else [])"

definition signals_for_evidence :: "instant \<Rightarrow> ClassificationEvidence \<Rightarrow> Signal list" where
  "signals_for_evidence now e =
     (let kind = replace_char (CHR ''_'') (CHR ''-'') (normalized_text (PStr (ev_kind e)) 80);
          observed_by = normalized_text (PStr (ev_collection_method e)) 64;
          v = display_text (PStr (ev_value e)) 512;
          freshness = evidence_freshness (Some (ev_seen e)) now (ev_source_revoked e)
      in direct_signals e kind v freshness @ os_signals e kind v freshness @
         product_signals e kind v freshness @ passive_signals e kind observed_by v freshness)"

section \<open>Effective evidence\<close>

definition evidence_timestamp :: "ClassificationEvidence \<Rightarrow> instant" where
  "evidence_timestamp e = (case ev_seen e of Aware t \<Rightarrow> t | Naive _ \<Rightarrow> min_instant)"

definition evidence_key :: "ClassificationEvidence \<Rightarrow> string \<times> string \<times> string" where
  "evidence_key e =
     (ev_source_key e, normalized_text (PStr (ev_collection_method e)) 64,
      normalized_text (PStr (ev_kind e)) 80)"

definition store_evidence ::
  "ClassificationEvidence \<Rightarrow> (string \<times> string \<times> string, ClassificationEvidence) odict
     \<Rightarrow> (string \<times> string \<times> string, ClassificationEvidence) odict" where
  "store_evidence e latest =
     (case map_of latest (evidence_key e) of
        None \<Rightarrow> AList.update (evidence_key e) e latest
      | Some previous \<Rightarrow>
          if evidence_timestamp previous < evidence_timestamp e
          then AList.update (evidence_key e) e latest else latest)"

fun latest_evidence ::
  "instant \<Rightarrow> ClassificationEvidence list \<Rightarrow> (string \<times> string \<times> string, ClassificationEvidence) odict
     \<Rightarrow> bool \<Rightarrow> (string \<times> string \<times> string, ClassificationEvidence) odict \<times> bool" where
  "latest_evidence now [] latest rejected = (latest, rejected)"
| "latest_evidence now (e # es) latest rejected =
     (if now + MAX_FUTURE_EVIDENCE_SKEW < evidence_timestamp e
      then latest_evidence now es latest True
      else latest_evidence now es (store_evidence e latest) rejected)"

definition strength_priority :: "string \<Rightarrow> int" where
  "strength_priority s = (if s = ''direct'' then 2 else if s = ''medium'' then 1 else 0)"

definition evidence_order :: "ClassificationEvidence \<Rightarrow> bool \<times> int \<times> rat \<times> instant \<times> string" where
  "evidence_order e =
     (ev_direct e, strength_priority (ev_strength e), finite_confidence (ev_source_confidence e),
      evidence_timestamp e, ev_evidence_id e)"

fun select_bounded ::
  "ClassificationEvidence list \<Rightarrow> ClassificationEvidence list \<Rightarrow> (string, nat) odict
     \<Rightarrow> ClassificationEvidence list" where
  "select_bounded [] selected per_source = selected"
| "select_bounded (e # es) selected per_source =
     (let source_count = (case map_of per_source (ev_source_key e) of None \<Rightarrow> 0 | Some n \<Rightarrow> n)
      in if MAX_CLASSIFICATION_EVIDENCE_PER_SOURCE \<le> source_count
         then select_bounded es selected per_source
         else let selected = selected @ [e];
                  per_source = AList.update (ev_source_key e) (source_count + 1) per_source
              in if MAX_CLASSIFICATION_EVIDENCE \<le> length selected then selected
                 else select_bounded es selected per_source)"

definition select_effective_evidence ::
  "ClassificationEvidence list \<Rightarrow> instant \<Rightarrow> ClassificationEvidence list \<times> bool" where
  "select_effective_evidence es now =
     (let (latest, rejected) = latest_evidence now (take MAX_CLASSIFICATION_EVIDENCE_INPUT es) [] False
      in (select_bounded (sorted_by_desc evidence_order (map snd latest)) [] [], rejected))"

section \<open>Attributes and conflicts\<close>

definition best_attribute :: "Signal list \<Rightarrow> string \<Rightarrow> string option \<times> string list \<times> rat" where
  "best_attribute signals attribute =
     (let candidates = sorted_by_desc (\<lambda>s. (sg_weight s, sg_direct s, sg_value s))
            (filter (\<lambda>s. sg_attribute s = attribute \<and> sg_value s \<noteq> []) signals)
      in case candidates of
           [] \<Rightarrow> (None, [], 0)
         | selected # _ \<Rightarrow>
             (Some (sg_value selected),
              take MAX_CLASSIFICATION_REFERENCES (map sg_evidence_id
                (filter (\<lambda>s. casefold (sg_value s) = casefold (sg_value selected)) candidates)),
              sg_weight selected))"

text \<open>
  \<^verbatim>\<open>votes.setdefault(value, {})\<close>, then the best signal of the source; both loops of the code differ only in
  the key of a vote and in the rank that decides.
\<close>

type_synonym votes = "(string, (string, Signal) odict) odict"

definition store_vote ::
  "(Signal \<Rightarrow> 'r::linorder) \<Rightarrow> Signal \<Rightarrow> (string, Signal) odict \<Rightarrow> (string, Signal) odict" where
  "store_vote rank s source_votes =
     (case map_of source_votes (sg_source_key s) of
        None \<Rightarrow> AList.update (sg_source_key s) s source_votes
      | Some previous \<Rightarrow>
          if rank previous < rank s then AList.update (sg_source_key s) s source_votes
          else source_votes)"

definition cast_vote :: "(Signal \<Rightarrow> 'r::linorder) \<Rightarrow> string \<Rightarrow> Signal \<Rightarrow> votes \<Rightarrow> votes" where
  "cast_vote rank v s votes =
     AList.update v (store_vote rank s (case map_of votes v of None \<Rightarrow> [] | Some d \<Rightarrow> d)) votes"

definition value_score :: "Signal list \<Rightarrow> rat" where
  "value_score ss =
     (let strongest = fold max (map sg_weight ss) 0;
          agreement = min (fmul (of_nat (length ss - 1)) (fl (5 / 100))) (fl (1 / 10))
      in min (fadd strongest agreement) (fl (99 / 100)))"

type_synonym ranked = "string \<times> rat \<times> bool \<times> Signal list"

definition ranked_votes :: "votes \<Rightarrow> ranked list" where
  "ranked_votes votes =
     sorted_by_desc (\<lambda>(v, score, direct, ss). (score, direct, v))
       (map (\<lambda>(v, by_source).
          let ss = map snd by_source in (v, value_score ss, list_ex sg_direct ss, ss)) votes)"

definition material_conflict :: "ranked \<Rightarrow> ranked \<Rightarrow> bool" where
  "material_conflict selected conflicting =
     (case (selected, conflicting) of
        ((_, _, selected_direct, selected_signals), (_, score, direct, signals)) \<Rightarrow>
          \<not> (sg_source_key ` set signals \<subseteq> sg_source_key ` set selected_signals) \<and>
          (selected_direct \<and> direct \<and> fl (55 / 100) \<le> score \<or>
           selected_direct \<and> fl (62 / 100) \<le> score \<or>
           \<not> selected_direct \<and> fl (58 / 100) \<le> score))"

definition conflict_of ::
  "string \<Rightarrow> (string \<Rightarrow> string) \<Rightarrow> ranked \<Rightarrow> ranked \<Rightarrow> ClassificationConflict" where
  "conflict_of conflict_type display selected conflicting =
     (case (selected, conflicting) of
        ((v, _, _, ss), (v', _, _, ss')) \<Rightarrow>
          \<lparr>cf_conflict_type = conflict_type, cf_selected_value = display v,
           cf_conflicting_value = display v',
           cf_supporting_evidence_ids = take MAX_CLASSIFICATION_REFERENCES (map sg_evidence_id ss),
           cf_conflicting_evidence_ids = take MAX_CLASSIFICATION_REFERENCES (map sg_evidence_id ss'),
           cf_reason_code = ''material-evidence-conflict''\<rparr>)"

definition top_conflict ::
  "string \<Rightarrow> (string \<Rightarrow> string) \<Rightarrow> ranked list \<Rightarrow> ClassificationConflict option" where
  "top_conflict conflict_type display rs =
     (case rs of
        a # b # _ \<Rightarrow>
          if material_conflict a b then Some (conflict_of conflict_type display a b) else None
      | _ \<Rightarrow> None)"

fun attribute_votes ::
  "string \<Rightarrow> Signal list \<Rightarrow> votes \<Rightarrow> (string, string) odict \<Rightarrow> votes \<times> (string, string) odict" where
  "attribute_votes attribute [] votes displayed = (votes, displayed)"
| "attribute_votes attribute (s # ss) votes displayed =
     (if sg_attribute s \<noteq> attribute \<or> sg_value s = []
      then attribute_votes attribute ss votes displayed
      else let normalized = casefold (sg_value s)
           in attribute_votes attribute ss
                (cast_vote (\<lambda>s. (sg_weight s, sg_direct s)) normalized s votes)
                (if map_of displayed normalized = None
                 then AList.update normalized (sg_value s) displayed else displayed))"

definition attribute_conflict :: "Signal list \<Rightarrow> string \<Rightarrow> string \<Rightarrow> ClassificationConflict option" where
  "attribute_conflict signals attribute conflict_type =
     (let (votes, displayed) = attribute_votes attribute signals [] []
      in top_conflict conflict_type (\<lambda>v. the (map_of displayed v)) (ranked_votes votes))"

fun category_votes :: "Signal list \<Rightarrow> votes \<Rightarrow> votes" where
  "category_votes [] votes = votes"
| "category_votes (s # ss) votes =
     (if sg_attribute s \<noteq> ''category'' \<or> sg_value s = ''unknown'' then category_votes ss votes
      else category_votes ss (cast_vote (\<lambda>s. (sg_direct s, sg_weight s)) (sg_value s) s votes))"

section \<open>The classification\<close>

definition seen_freshness :: "instant \<Rightarrow> ClassificationEvidence \<Rightarrow> string" where
  "seen_freshness now e = evidence_freshness (Some (ev_seen e)) now (ev_source_revoked e)"

definition overall_freshness :: "ClassificationEvidence list \<Rightarrow> instant \<Rightarrow> string" where
  "overall_freshness es now =
     (let states = map (seen_freshness now) es
      in case find (\<lambda>s. s \<in> set states) [''fresh'', ''aging'', ''stale'', ''unknown''] of
           Some s \<Rightarrow> s | None \<Rightarrow> ''unknown'')"

definition reason_codes :: "Signal list \<Rightarrow> string list \<Rightarrow> string list" where
  "reason_codes signals extra =
     take MAX_REASON_CODES
       (fromkeys (filter (\<lambda>c. c \<in> set SUPPORTED_REASON_CODES) (map sg_reason_code signals @ extra)))"

text \<open>Everything \<^verbatim>\<open>classify_asset\<close> derives from the signals and their ranking before it decides the status.\<close>

record Assessment =
  as_signals :: "Signal list"
  as_ranked :: "ranked list"
  as_conflicts :: "ClassificationConflict list"
  as_manufacturer :: "string option \<times> string list \<times> rat"
  as_subtype :: "string option \<times> string list \<times> rat"
  as_product :: "string option \<times> string list \<times> rat"
  as_os_family :: "string option \<times> string list \<times> rat"
  as_os_version :: "string option \<times> string list \<times> rat"

definition option_list :: "'a option \<Rightarrow> 'a list" where
  "option_list x = (case x of None \<Rightarrow> [] | Some a \<Rightarrow> [a])"

definition assess :: "Signal list \<Rightarrow> Assessment" where
  "assess signals =
     (let ranked = ranked_votes (category_votes signals [])
      in \<lparr>as_signals = signals, as_ranked = ranked,
          as_conflicts =
            option_list (top_conflict ''category'' id ranked) @
            option_list (attribute_conflict signals ''subtype'' ''device-role'') @
            option_list (attribute_conflict signals ''os_family'' ''os-family'') @
            option_list (attribute_conflict signals ''os_version_hint'' ''os-version''),
          as_manufacturer = best_attribute signals ''manufacturer'',
          as_subtype = best_attribute signals ''subtype'',
          as_product = best_attribute signals ''product_hint'',
          as_os_family = best_attribute signals ''os_family'',
          as_os_version = best_attribute signals ''os_version_hint''\<rparr>)"

definition selected_signals :: "Assessment \<Rightarrow> Signal list" where
  "selected_signals a = (case as_ranked a of [] \<Rightarrow> [] | (_, _, _, ss) # _ \<Rightarrow> ss)"

definition best_score :: "Assessment \<Rightarrow> rat" where
  "best_score a = (case as_ranked a of [] \<Rightarrow> 0 | (_, score, _) # _ \<Rightarrow> score)"

definition supporting_ids :: "Assessment \<Rightarrow> string list" where
  "supporting_ids a =
     fromkeys (map sg_evidence_id (selected_signals a) @
       concat (map (\<lambda>r. fst (snd r))
         [as_manufacturer a, as_subtype a, as_product a, as_os_family a, as_os_version a]))"

text \<open>The conflicting ids: those of the second category if the conflict is about categories, then all others.\<close>

definition conflicting_signals :: "Assessment \<Rightarrow> Signal list" where
  "conflicting_signals a =
     (case as_ranked a of
        p # (c, score, direct, ss) # _ \<Rightarrow>
          if material_conflict p (c, score, direct, ss) then ss else []
      | _ \<Rightarrow> [])"

definition conflicting_ids :: "Assessment \<Rightarrow> string list" where
  "conflicting_ids a =
     take MAX_CLASSIFICATION_REFERENCES (fromkeys
       (map sg_evidence_id (conflicting_signals a) @
        concat (map cf_conflicting_evidence_ids (as_conflicts a))))"

definition raw_confidence :: "Assessment \<Rightarrow> rat" where
  "raw_confidence a =
     (let present = length (filter (\<lambda>r. fst r \<noteq> None \<and> fst r \<noteq> Some [])
            [as_manufacturer a, as_subtype a, as_product a, as_os_family a]);
          completeness_bonus = min (fmul (fl (2 / 100)) (of_nat present)) (fl (8 / 100));
          conflict_penalty = (if as_conflicts a = [] then 0 else fl (22 / 100))
      in max 0 (min (fsub (fadd (best_score a) completeness_bonus) conflict_penalty) (fl (99 / 100))))"

text \<open>Category, status, unrounded confidence and the reason that goes with the status.\<close>

definition decide :: "Assessment \<Rightarrow> string \<times> string \<times> rat \<times> string list" where
  "decide a =
     (let category = (case as_ranked a of [] \<Rightarrow> ''unknown'' | (c, _) # _ \<Rightarrow> c)
      in if as_conflicts a \<noteq> [] then (category, ''conflicting'', raw_confidence a, [])
         else if as_ranked a = []
         then (category, if as_signals a = [] then ''unknown'' else ''insufficient-evidence'',
               min (fold max (map sg_weight (as_signals a)) 0) (fl (39 / 100)),
               [if as_signals a = [] then ''no-category-evidence'' else ''insufficient-category-evidence''])
         else if fl (72 / 100) \<le> best_score a then (category, ''classified'', raw_confidence a, [])
         else if fl (45 / 100) \<le> best_score a then (category, ''partially-classified'', raw_confidence a, [])
         else (''unknown'', ''insufficient-evidence'', min (raw_confidence a) (fl (44 / 100)),
               [''insufficient-category-evidence'']))"

definition first_classified :: "pydict option \<Rightarrow> instant \<Rightarrow> instant" where
  "first_classified previous evaluated =
     (case previous of
        None \<Rightarrow> evaluated
      | Some d \<Rightarrow> (case get d ''first_classified_at'' of PTime t \<Rightarrow> t | _ \<Rightarrow> evaluated))"

text \<open>The reasons in the order the code appends them.\<close>

definition extra_reasons ::
  "bool \<Rightarrow> ClassificationEvidence list \<Rightarrow> instant \<Rightarrow> Assessment \<Rightarrow> string list \<Rightarrow> string list" where
  "extra_reasons rejected es now a status_reasons =
     (if rejected then [''future-evidence-rejected''] else []) @
     map (\<lambda>_. ''material-evidence-conflict'') (as_conflicts a) @
     (if 1 < card (sg_source_key ` set (selected_signals a)) then [''independent-source-agreement''] else []) @
     (if list_ex (\<lambda>e. seen_freshness now e = ''stale'') es then [''stale-evidence-discounted''] else []) @
     (if list_ex ev_source_revoked es then [''revoked-source-discounted''] else []) @
     status_reasons"

definition classify_asset ::
  "string \<Rightarrow> string \<Rightarrow> ClassificationEvidence list \<Rightarrow> instant \<Rightarrow> pydict option \<Rightarrow> ClassificationResult" where
  "classify_asset site asset evidence now previous =
     (let (es, rejected) = select_effective_evidence evidence now;
          a = assess (concat (map (signals_for_evidence now) es));
          (category, status, confidence, status_reasons) = decide a;
          referenced = filter
            (\<lambda>e. ev_evidence_id e \<in> set (supporting_ids a) \<union> set (conflicting_ids a)) es
      in \<lparr>cr_classification_id = classification_id_for site asset,
          cr_asset_id = display_text (PStr asset) 160,
          cr_site_id = display_text (PStr site) 128,
          cr_classifier_version = CLASSIFIER_VERSION,
          cr_category = category,
          cr_subtype = fst (as_subtype a),
          cr_manufacturer = fst (as_manufacturer a),
          cr_product_hint = fst (as_product a),
          cr_os_family = fst (as_os_family a),
          cr_os_version_hint = fst (as_os_version a),
          cr_managed_capability = managed_capability_for category,
          cr_confidence = py_round4 confidence,
          cr_status = status,
          cr_supporting_evidence_ids = take MAX_CLASSIFICATION_REFERENCES (supporting_ids a),
          cr_conflicting_evidence_ids = conflicting_ids a,
          cr_independent_source_count = card (sg_source_key ` set (selected_signals a)),
          cr_evidence_count = length es,
          cr_first_classified_at = first_classified previous now,
          cr_last_classified_at = now,
          cr_evaluated_at = now,
          cr_superseded_at = None,
          cr_freshness = overall_freshness (if referenced = [] then es else referenced) now,
          cr_reason_codes = reason_codes (as_signals a) (extra_reasons rejected es now a status_reasons),
          cr_conflicts = take MAX_CONFLICTS (as_conflicts a)\<rparr>)"

end
