(* ===== verification/Classification_Laws.thy ===== *)
theory Classification_Laws
  imports Classification Keyed_Best
begin

text \<open>
  Laws of the classification: one vote per source and category, bounded scores, what evidence can and cannot
  decide, and independence of the order of the evidence.
\<close>

section \<open>Votes\<close>

interpretation evidence: keyed_best evidence_key evidence_timestamp store_evidence
  by unfold_locales (simp add: store_evidence_def)

interpretation weight_votes:
  keyed_best sg_source_key "\<lambda>s. (sg_weight s, sg_direct s)" "store_vote (\<lambda>s. (sg_weight s, sg_direct s))"
  by unfold_locales (simp add: store_vote_def)

interpretation direct_votes:
  keyed_best sg_source_key "\<lambda>s. (sg_direct s, sg_weight s)" "store_vote (\<lambda>s. (sg_direct s, sg_weight s))"
  by unfold_locales (simp add: store_vote_def)

text \<open>The votes for every value: the best signal of each source among the signals with that value.\<close>

definition votes_best ::
  "(Signal \<Rightarrow> 'r::linorder) \<Rightarrow> (Signal \<Rightarrow> string) \<Rightarrow> Signal set \<Rightarrow> votes \<Rightarrow> bool" where
  "votes_best rank f S votes \<longleftrightarrow>
     distinct (map fst votes) \<and>
     (\<forall>(v, d) \<in> set votes. d \<noteq> [] \<and> best_in sg_source_key rank {s \<in> S. f s = v} d) \<and>
     f ` S = fst ` set votes"

lemma votes_best_Nil [simp]: "votes_best rank f {} []"
  by (simp add: votes_best_def)

lemma votes_best_lookup:
  assumes "votes_best rank f S votes"
  shows "best_in sg_source_key rank {s \<in> S. f s = v} (case map_of votes v of None \<Rightarrow> [] | Some d \<Rightarrow> d)"
proof (cases "map_of votes v")
  case None
  then have "v \<notin> f ` S" using assms by (simp add: votes_best_def map_of_eq_None_iff)
  then have "{s \<in> S. f s = v} = {}" by auto
  then show ?thesis using None by (simp only: option.case best_in_Nil)
next
  case (Some d)
  then show ?thesis using assms map_of_SomeD [OF Some] by (auto simp: votes_best_def)
qed

lemma votes_best_cast:
  assumes inv: "votes_best rank f S votes"
    and store: "keyed_best sg_source_key rank (store_vote rank)"
  shows "votes_best rank f (insert s S) (cast_vote rank (f s) s votes)"
proof -
  let ?d = "store_vote rank s (case map_of votes (f s) of None \<Rightarrow> [] | Some d \<Rightarrow> d)"
  have dist: "distinct (map fst votes)" using inv by (simp add: votes_best_def)
  have split: "{x \<in> insert s S. f x = v} =
      (if v = f s then insert s {x \<in> S. f x = v} else {x \<in> S. f x = v})" for v
    by auto
  have new: "best_in sg_source_key rank (insert s {x \<in> S. f x = f s}) ?d" "?d \<noteq> []"
    using keyed_best.store_best [OF store votes_best_lookup [OF inv]] keyed_best.store_nonempty [OF store]
    by auto
  have "d \<noteq> [] \<and> best_in sg_source_key rank {x \<in> insert s S. f x = v} d"
    if "(v, d) \<in> set (AList.update (f s) ?d votes)" for v d
  proof (cases "v = f s")
    case True
    then show ?thesis using that new unfolding split set_update_iff [OF dist] by simp
  next
    case False
    then have "(v, d) \<in> set votes" using that by (simp add: set_update_iff [OF dist])
    then have "d \<noteq> [] \<and> best_in sg_source_key rank {x \<in> S. f x = v} d"
      using inv by (auto simp: votes_best_def)
    then show ?thesis using False unfolding split by simp
  qed
  then show ?thesis
    using inv dist by (auto simp: cast_vote_def votes_best_def distinct_update dom_update)
qed

lemma category_votes_best:
  "votes_best (\<lambda>s. (sg_direct s, sg_weight s)) sg_value S votes \<Longrightarrow>
     votes_best (\<lambda>s. (sg_direct s, sg_weight s)) sg_value
       (S \<union> {s \<in> set ss. sg_attribute s = ''category'' \<and> sg_value s \<noteq> ''unknown''})
       (category_votes ss votes)"
proof (induction ss votes arbitrary: S rule: category_votes.induct)
  case (2 s ss votes)
  let ?T = "{s \<in> set ss. sg_attribute s = ''category'' \<and> sg_value s \<noteq> ''unknown''}"
  show ?case
  proof (cases "sg_attribute s \<noteq> ''category'' \<or> sg_value s = ''unknown''")
    case True
    then have "{x \<in> set (s # ss). sg_attribute x = ''category'' \<and> sg_value x \<noteq> ''unknown''} = ?T" by auto
    then show ?thesis using 2 True by simp
  next
    case False
    then have "{x \<in> set (s # ss). sg_attribute x = ''category'' \<and> sg_value x \<noteq> ''unknown''} = insert s ?T"
      by auto
    then show ?thesis
      using "2.IH"(2) [OF False votes_best_cast [OF "2.prems" direct_votes.keyed_best_axioms]] False by simp
  qed
qed simp

lemma attribute_votes_best:
  "votes_best (\<lambda>s. (sg_weight s, sg_direct s)) (\<lambda>s. casefold (sg_value s)) S votes \<Longrightarrow>
     votes_best (\<lambda>s. (sg_weight s, sg_direct s)) (\<lambda>s. casefold (sg_value s))
       (S \<union> {s \<in> set ss. sg_attribute s = attribute \<and> sg_value s \<noteq> []})
       (fst (attribute_votes attribute ss votes displayed))"
proof (induction attribute ss votes displayed arbitrary: S rule: attribute_votes.induct)
  case (2 attribute s ss votes displayed)
  let ?T = "{s \<in> set ss. sg_attribute s = attribute \<and> sg_value s \<noteq> []}"
  show ?case
  proof (cases "sg_attribute s \<noteq> attribute \<or> sg_value s = []")
    case True
    then have "{x \<in> set (s # ss). sg_attribute x = attribute \<and> sg_value x \<noteq> []} = ?T" by auto
    then show ?thesis using 2 True by simp
  next
    case False
    then have "{x \<in> set (s # ss). sg_attribute x = attribute \<and> sg_value x \<noteq> []} = insert s ?T" by auto
    then show ?thesis
      using "2.IH"(2) [OF False refl votes_best_cast [OF "2.prems" weight_votes.keyed_best_axioms]] False
      by (simp add: Let_def)
  qed
qed simp

section \<open>Scores\<close>

text \<open>A ranked value: its signals come from different sources and its score is computed from them.\<close>

definition ranked_from :: "Signal set \<Rightarrow> ranked \<Rightarrow> bool" where
  "ranked_from S r \<longleftrightarrow>
     (case r of (v, score, direct, ss) \<Rightarrow>
        ss \<noteq> [] \<and> set ss \<subseteq> S \<and> distinct (map sg_source_key ss) \<and> score = value_score ss)"

lemma ranked_votes_from:
  assumes "votes_best rank f S votes" "(v, score, direct, ss) \<in> set (ranked_votes votes)"
  shows "ranked_from S (v, score, direct, ss)" "s \<in> set ss \<Longrightarrow> f s = v"
proof -
  obtain d where d: "(v, d) \<in> set votes" "ss = map snd d" "score = value_score ss"
    using assms(2) by (auto simp: ranked_votes_def Let_def)
  then have best: "d \<noteq> []" "best_in sg_source_key rank {s \<in> S. f s = v} d"
    using assms(1) by (auto simp: votes_best_def)
  then have "set ss \<subseteq> {s \<in> S. f s = v}" "distinct (map sg_source_key ss)"
    using best_in_values [OF best(2)] best_in_keys [OF best(2)] best_inD(1) [OF best(2)]
    unfolding d(2) by (simp_all only:)
  then show "ranked_from S (v, score, direct, ss)" "s \<in> set ss \<Longrightarrow> f s = v"
    using d best(1) by (auto simp: ranked_from_def)
qed

lemma fold_max_rat: "fold max xs a \<le> (b::rat) \<longleftrightarrow> a \<le> b \<and> (\<forall>x \<in> set xs. x \<le> b)"
  by (induction xs arbitrary: a) auto

lemma fold_max_ge: "a \<le> fold max xs (a::rat)"
  by (induction xs arbitrary: a) (auto intro: order_trans [OF max.cobounded2])

lemma fadd_mono2: "a \<le> a' \<Longrightarrow> b \<le> b' \<Longrightarrow> fadd a b \<le> fadd a' b'"
  by (simp add: fadd_def fl_mono add_mono)

lemma value_score_le:
  assumes "0 \<le> w" "\<And>s. s \<in> set ss \<Longrightarrow> sg_weight s \<le> w"
  shows "value_score ss \<le> fadd w (fl (1 / 10))"
proof -
  have "fold max (map sg_weight ss) 0 \<le> w" using assms by (simp add: fold_max_rat)
  then show ?thesis
    unfolding value_score_def Let_def by (intro min.coboundedI1 fadd_mono2 min.cobounded2)
qed

lemma value_score_range: "0 \<le> value_score ss \<and> value_score ss \<le> fl (99 / 100)"
proof -
  have nn: "0 \<le> fl (5 / 100)" "0 \<le> fl (1 / 10)" "0 \<le> fl (99 / 100)" by code_simp+
  then have "0 \<le> min (fmul (of_nat (length ss - 1)) (fl (5 / 100))) (fl (1 / 10))"
    by (simp only: min_def fmul_def) (simp add: b64.rnd_mult_nonneg)
  then show ?thesis
    using nn fold_max_ge [of 0 "map sg_weight ss"] by (simp add: value_score_def Let_def)
qed

lemma value_score_strong:
  assumes "fl (72 / 100) \<le> value_score ss"
  shows "\<exists>s \<in> set ss. fl (61 / 100) < sg_weight s"
proof (rule ccontr)
  assume "\<not> ?thesis"
  then have "\<And>s. s \<in> set ss \<Longrightarrow> sg_weight s \<le> fl (61 / 100)" by (simp only: bex_simps not_less)
  moreover have "0 \<le> fl (61 / 100)" by code_simp
  ultimately have "value_score ss \<le> fadd (fl (61 / 100)) (fl (1 / 10))" by (intro value_score_le)
  moreover have "fadd (fl (61 / 100)) (fl (1 / 10)) < fl (72 / 100)" by code_simp
  ultimately show False using assms by simp
qed

text \<open>Signals of at most this weight decide nothing: even with full agreement they stay below 0.45.\<close>

definition weak_weight :: rat where
  "weak_weight = fmul (fl (98 / 100)) (fl (35 / 100))"

lemma weak_weight_facts:
  "0 \<le> weak_weight" "fadd weak_weight (fl (1 / 10)) < fl (45 / 100)" "weak_weight < fl (39 / 100)"
  "fl (45 / 100) \<le> fl (55 / 100)" "fl (45 / 100) \<le> fl (58 / 100)" "fl (45 / 100) \<le> fl (62 / 100)"
  "fl (45 / 100) \<le> fl (72 / 100)"
  by code_simp+

lemma weak_score:
  assumes "ranked_from S (v, score, direct, ss)" "\<And>s. s \<in> S \<Longrightarrow> sg_weight s \<le> weak_weight"
  shows "score < fl (45 / 100)"
proof -
  have "value_score ss \<le> fadd weak_weight (fl (1 / 10))"
    using assms weak_weight_facts(1) by (intro value_score_le) (auto simp: ranked_from_def)
  then show ?thesis using assms(1) weak_weight_facts(2) by (simp add: ranked_from_def)
qed

lemma weak_no_conflict:
  assumes "\<And>r. r \<in> set rs \<Longrightarrow> fst (snd r) < fl (45 / 100)"
  shows "top_conflict t display rs = None"
proof (cases rs)
  case (Cons a rs')
  show ?thesis
  proof (cases rs')
    case (Cons b rs'')
    obtain v score direct ss where b: "b = (v, score, direct, ss)" by (cases b)
    have "score < fl (45 / 100)" using assms [of b] \<open>rs = a # rs'\<close> Cons b by simp
    then have "\<not> material_conflict a b"
      using weak_weight_facts(4-6) by (auto simp: material_conflict_def b split: prod.split)
    then show ?thesis using \<open>rs = a # rs'\<close> Cons by (simp add: top_conflict_def)
  qed (simp add: top_conflict_def Cons)
qed (simp add: top_conflict_def)

section \<open>Signals\<close>

lemma finite_confidence_range: "0 \<le> finite_confidence c" "finite_confidence c \<le> 1"
  by (cases c; simp)+

lemma freshness_factor_range: "0 \<le> freshness_factor f r" "freshness_factor f r \<le> 1"
  "freshness_factor ''stale'' r \<le> fl (35 / 100)"
proof -
  have "0 \<le> fl (1 / 10)" "0 \<le> fl (8 / 10)" "0 \<le> fl (35 / 100)" "0 \<le> fl (45 / 100)"
    "fl (1 / 10) \<le> 1" "fl (8 / 10) \<le> 1" "fl (35 / 100) \<le> 1" "fl (45 / 100) \<le> 1"
    "fl (1 / 10) \<le> fl (35 / 100)" by code_simp+
  then show "0 \<le> freshness_factor f r" "freshness_factor f r \<le> 1"
    "freshness_factor ''stale'' r \<le> fl (35 / 100)"
    unfolding freshness_factor_def by simp_all
qed

lemma fmul_le: "0 \<le> a \<Longrightarrow> a \<le> a' \<Longrightarrow> 0 \<le> b \<Longrightarrow> b \<le> b' \<Longrightarrow> fmul a b \<le> fmul a' b'"
  by (simp add: fmul_def fl_mono mult_mono)

lemma fmul_nonneg: "0 \<le> a \<Longrightarrow> 0 \<le> b \<Longrightarrow> 0 \<le> fmul a b"
  by (simp add: fmul_def b64.rnd_mult_nonneg)

lemma fmul_shrink: "0 \<le> a \<Longrightarrow> fl a = a \<Longrightarrow> 0 \<le> b \<Longrightarrow> b \<le> 1 \<Longrightarrow> fmul a b \<le> a"
  using fmul_le [of a a b 1] by (simp add: fmul_def)

lemma signal_weight_le:
  assumes "0 \<le> w" "fl w = w"
  shows "0 \<le> signal_weight e w f" "signal_weight e w f \<le> w" "signal_weight e w f \<le> fl (99 / 100)"
    "freshness_factor f (ev_source_revoked e) \<le> k \<Longrightarrow> signal_weight e w f \<le> fmul w k"
proof -
  let ?c = "finite_confidence (ev_source_confidence e)" and ?k = "freshness_factor f (ev_source_revoked e)"
  have c: "0 \<le> fmul w ?c" "fmul w ?c \<le> w" "fl (fmul w ?c) = fmul w ?c"
    using assms finite_confidence_range [of "ev_source_confidence e"]
    by (simp_all add: fmul_nonneg fmul_shrink)
  have k: "0 \<le> ?k" "?k \<le> 1" by (rule freshness_factor_range)+
  have nn: "0 \<le> fl (99 / 100)" by code_simp
  have prod: "0 \<le> fmul (fmul w ?c) ?k" "fmul (fmul w ?c) ?k \<le> w"
    using c k fmul_shrink [of "fmul w ?c" ?k] by (simp_all add: fmul_nonneg)
  show "0 \<le> signal_weight e w f" "signal_weight e w f \<le> w" "signal_weight e w f \<le> fl (99 / 100)"
    using prod nn assms(1) unfolding signal_weight_def by (simp_all add: min.coboundedI1)
  show "signal_weight e w f \<le> fmul w k" if "?k \<le> k"
  proof -
    have "fmul (fmul w ?c) ?k \<le> fmul w k" using c k that by (intro fmul_le) simp_all
    moreover have "0 \<le> fmul w k" using assms(1) k that by (intro fmul_nonneg) simp_all
    ultimately show ?thesis unfolding signal_weight_def by (simp add: min.coboundedI1)
  qed
qed

text \<open>Every signal of an evidence has one of the static weights, discounted, and its source.\<close>

definition SIGNAL_WEIGHTS :: "rat list" where
  "SIGNAL_WEIGHTS =
     map (\<lambda>n. fl (of_int n / 100)) [98, 94, 90, 55, 96, 91, 95, 62, 72, 92, 73, 78, 76, 43, 34]"

definition signal_of :: "instant \<Rightarrow> ClassificationEvidence \<Rightarrow> Signal \<Rightarrow> bool" where
  "signal_of now e s \<longleftrightarrow>
     sg_weight s \<in> (\<lambda>w. signal_weight e w (seen_freshness now e)) ` set SIGNAL_WEIGHTS \<and>
     sg_source_key s = ev_source_key e \<and> sg_evidence_id s = ev_evidence_id e \<and> sg_direct s = ev_direct e"

lemma signal_of_category:
  "w \<in> set SIGNAL_WEIGHTS \<Longrightarrow> signal_of now e (category_signal e c w (seen_freshness now e) r)"
  by (simp add: signal_of_def category_signal_def)

lemma signal_of_attribute:
  "w \<in> set SIGNAL_WEIGHTS \<Longrightarrow> signal_of now e (attribute_signal e a v w (seen_freshness now e) r)"
  by (simp add: signal_of_def attribute_signal_def)

lemma static_weights:
  "fl (98 / 100) \<in> set SIGNAL_WEIGHTS" "fl (94 / 100) \<in> set SIGNAL_WEIGHTS" "fl (9 / 10) \<in> set SIGNAL_WEIGHTS"
  "fl (55 / 100) \<in> set SIGNAL_WEIGHTS" "fl (96 / 100) \<in> set SIGNAL_WEIGHTS" "fl (91 / 100) \<in> set SIGNAL_WEIGHTS"
  "fl (95 / 100) \<in> set SIGNAL_WEIGHTS" "fl (62 / 100) \<in> set SIGNAL_WEIGHTS" "fl (72 / 100) \<in> set SIGNAL_WEIGHTS"
  "fl (92 / 100) \<in> set SIGNAL_WEIGHTS" "fl (73 / 100) \<in> set SIGNAL_WEIGHTS" "fl (78 / 100) \<in> set SIGNAL_WEIGHTS"
  "fl (76 / 100) \<in> set SIGNAL_WEIGHTS" "fl (43 / 100) \<in> set SIGNAL_WEIGHTS" "fl (34 / 100) \<in> set SIGNAL_WEIGHTS"
  by (simp_all add: SIGNAL_WEIGHTS_def)

lemma static_weight_range:
  assumes "w \<in> set SIGNAL_WEIGHTS"
  shows "0 \<le> w" "w \<le> fl (98 / 100)" "fl w = w"
proof -
  have "list_all (\<lambda>w. 0 \<le> w \<and> w \<le> fl (98 / 100)) SIGNAL_WEIGHTS" by code_simp
  then show "0 \<le> w" "w \<le> fl (98 / 100)" using assms by (auto simp: list_all_iff)
  show "fl w = w" using assms by (auto simp: SIGNAL_WEIGHTS_def)
qed

lemma set_when_some: "x \<in> set (when_some c f) \<longleftrightarrow> (\<exists>a. c = Some a \<and> x = f a)"
  by (cases c) (auto simp: when_some_def)

text \<open>Rules that walk through the list of blocks without looking at their conditions.\<close>

lemma signals_append: "(\<forall>s \<in> set xs. P s) \<Longrightarrow> (\<forall>s \<in> set ys. P s) \<Longrightarrow> \<forall>s \<in> set (xs @ ys). P s"
  and signals_if: "(\<forall>s \<in> set xs. P s) \<Longrightarrow> \<forall>s \<in> set (if c then xs else []). P s"
  and signals_choice: "(\<forall>s \<in> set xs. P s) \<Longrightarrow> (\<forall>s \<in> set ys. P s) \<Longrightarrow> \<forall>s \<in> set (if c then xs else ys). P s"
  and signals_some: "(\<And>a. P (f a)) \<Longrightarrow> \<forall>s \<in> set (when_some m f). P s"
  and signals_one: "P x \<Longrightarrow> (\<forall>s \<in> set xs. P s) \<Longrightarrow> \<forall>s \<in> set (x # xs). P s"
  and signals_none: "\<forall>s \<in> set []. P s"
  by (auto simp: when_some_def split: option.splits)

lemma weight_if: "a \<in> W \<Longrightarrow> b \<in> W \<Longrightarrow> (if c then a else b) \<in> W"
  by simp

lemmas signal_intros =
  signals_append signals_if signals_choice signals_some signals_one signals_none
  signal_of_category signal_of_attribute static_weights weight_if

lemma direct_signals_of:
  "\<forall>s \<in> set (direct_signals e kind v (seen_freshness now e)). signal_of now e s"
  unfolding direct_signals_def by (intro signal_intros)

lemma os_signals_of:
  "\<forall>s \<in> set (os_signals e kind v (seen_freshness now e)). signal_of now e s"
proof -
  have "\<forall>s \<in> set (os_category_signals e family n (seen_freshness now e)). signal_of now e s" for family n
    unfolding os_category_signals_def by (intro signal_intros)
  then have "\<forall>s \<in> set (case os_family v of None \<Rightarrow> [] | Some family \<Rightarrow>
      attribute_signal e ''os_family'' family
        (if ev_direct e then fl (98 / 100) else fl (55 / 100)) (seen_freshness now e)
        (if ev_direct e then ''direct-endpoint-os'' else ''insufficient-category-evidence'')
      # os_category_signals e family (casefold v) (seen_freshness now e)). signal_of now e s"
    by (cases "os_family v"; simp only: option.case; intro signal_intros)
  then show ?thesis
    unfolding os_signals_def by (intro signal_intros)
qed

lemma product_signals_of:
  "\<forall>s \<in> set (product_signals e kind v (seen_freshness now e)). signal_of now e s"
  unfolding product_signals_def by (intro signal_intros)

lemma passive_signals_of:
  "\<forall>s \<in> set (passive_signals e kind observed_by v (seen_freshness now e)). signal_of now e s"
  unfolding passive_signals_def by (intro signal_intros)

lemma signals_for_evidence_of:
  "s \<in> set (signals_for_evidence now e) \<Longrightarrow> signal_of now e s"
  unfolding signals_for_evidence_def Let_def seen_freshness_def [symmetric]
  using direct_signals_of os_signals_of product_signals_of passive_signals_of by (metis UnE set_append)

lemma signal_of_range: "signal_of now e s \<Longrightarrow> 0 \<le> sg_weight s \<and> sg_weight s \<le> fl (99 / 100)"
  using signal_weight_le static_weight_range by (auto simp: signal_of_def)

text \<open>Stale and revoked evidence gives weak signals only.\<close>

lemma stale_signal_weak:
  assumes "signal_of now e s" "seen_freshness now e = ''stale''"
  shows "sg_weight s \<le> weak_weight"
proof -
  obtain w where w: "w \<in> set SIGNAL_WEIGHTS" "sg_weight s = signal_weight e w ''stale''"
    using assms by (auto simp: signal_of_def)
  have "sg_weight s \<le> fmul w (fl (35 / 100))"
    unfolding w(2) using static_weight_range [OF w(1)]
    by (intro signal_weight_le(4) freshness_factor_range(3))
  also have "\<dots> \<le> weak_weight"
  proof -
    have "0 \<le> fl (35 / 100)" by code_simp
    then show ?thesis unfolding weak_weight_def using static_weight_range [OF w(1)] by (intro fmul_le) simp_all
  qed
  finally show ?thesis .
qed

text \<open>A plain hostname: no passive method and one of the hostname kinds.\<close>

definition hostname_only :: "ClassificationEvidence \<Rightarrow> bool" where
  "hostname_only e \<longleftrightarrow>
     replace_char (CHR ''_'') (CHR ''-'') (normalized_text (PStr (ev_kind e)) 80)
       \<in> {''hostname'', ''host-name'', ''dns-name''} \<and>
     normalized_text (PStr (ev_collection_method e)) 64 \<notin> {''dhcp'', ''mdns'', ''ssdp'', ''nbns''}"

lemma hostname_signals:
  assumes "hostname_only e" "s \<in> set (signals_for_evidence now e)"
  shows "sg_attribute s = ''category'' \<and> sg_weight s = signal_weight e (fl (34 / 100)) (seen_freshness now e)"
proof -
  let ?v = "display_text (PStr (ev_value e)) 512"
  have "signals_for_evidence now e = when_some (hostname_category ?v)
      (\<lambda>c. category_signal e c (fl (34 / 100)) (seen_freshness now e) ''weak-hostname-pattern'')"
    using assms(1)
    unfolding signals_for_evidence_def Let_def seen_freshness_def [symmetric] hostname_only_def
    by (elim conjE insertE; simp add: direct_signals_def os_signals_def product_signals_def passive_signals_def)
  then show ?thesis using assms(2) by (auto simp: set_when_some category_signal_def)
qed

lemma hostname_signal_weak:
  assumes "hostname_only e" "s \<in> set (signals_for_evidence now e)"
  shows "sg_weight s \<le> weak_weight"
proof -
  have "0 \<le> fl (34 / 100)" "fl (34 / 100) \<le> weak_weight" by code_simp+
  then show ?thesis
    using hostname_signals [OF assms] signal_weight_le(2) [of "fl (34 / 100)" e "seen_freshness now e"] by simp
qed

section \<open>Effective evidence\<close>

definition future_evidence :: "instant \<Rightarrow> ClassificationEvidence \<Rightarrow> bool" where
  "future_evidence now e \<longleftrightarrow> now + MAX_FUTURE_EVIDENCE_SKEW < evidence_timestamp e"

abbreviation latest_in ::
  "ClassificationEvidence set \<Rightarrow> (string \<times> string \<times> string, ClassificationEvidence) odict \<Rightarrow> bool" where
  "latest_in \<equiv> best_in evidence_key evidence_timestamp"

lemma latest_evidence_in:
  "latest_in S latest \<Longrightarrow>
     latest_in (S \<union> {e \<in> set es. \<not> future_evidence now e}) (fst (latest_evidence now es latest rejected)) \<and>
     snd (latest_evidence now es latest rejected) = (rejected \<or> (\<exists>e \<in> set es. future_evidence now e))"
proof (induction now es latest rejected arbitrary: S rule: latest_evidence.induct)
  case (2 now e es latest rejected)
  let ?T = "{e \<in> set es. \<not> future_evidence now e}"
  show ?case
  proof (cases "future_evidence now e")
    case True
    then have "{x \<in> set (e # es). \<not> future_evidence now x} = ?T" by auto
    then show ?thesis using 2 True by (simp add: future_evidence_def)
  next
    case False
    then have "{x \<in> set (e # es). \<not> future_evidence now x} = insert e ?T" by auto
    then show ?thesis
      using "2.IH"(2) [OF _ evidence.store_best [OF "2.prems", of e]] False
      by (simp add: future_evidence_def)
  qed
qed simp

lemma latest_evidence_empty:
  "latest_in {e \<in> set es. \<not> future_evidence now e} (fst (latest_evidence now es [] False))"
  "snd (latest_evidence now es [] False) = (\<exists>e \<in> set es. future_evidence now e)"
  using latest_evidence_in [of "{}" "[]" es now False] by simp_all

lemma select_bounded_facts:
  "set (select_bounded es selected counts) \<subseteq> set es \<union> set selected \<and>
   (length selected < MAX_CLASSIFICATION_EVIDENCE \<longrightarrow>
      length (select_bounded es selected counts) \<le> MAX_CLASSIFICATION_EVIDENCE)"
  by (induction es selected counts rule: select_bounded.induct) (auto simp: Let_def)

lemma selected_evidence:
  "set (fst (select_effective_evidence es now)) \<subseteq> {e \<in> set es. \<not> future_evidence now e}"
  "length (fst (select_effective_evidence es now)) \<le> 256"
proof -
  let ?es = "take MAX_CLASSIFICATION_EVIDENCE_INPUT es"
  let ?latest = "fst (latest_evidence now ?es [] False)"
  have eq: "fst (select_effective_evidence es now) =
      select_bounded (sorted_by_desc evidence_order (map snd ?latest)) [] []"
    by (simp add: select_effective_evidence_def split_beta)
  have "set (fst (select_effective_evidence es now)) \<subseteq> set (map snd ?latest)"
    using select_bounded_facts [of "sorted_by_desc evidence_order (map snd ?latest)" "[]" "[]"]
    unfolding eq by simp
  also have "\<dots> \<subseteq> {e \<in> set ?es. \<not> future_evidence now e}"
    by (rule best_in_values [OF latest_evidence_empty(1)])
  also have "\<dots> \<subseteq> {e \<in> set es. \<not> future_evidence now e}"
    using set_take_subset [of _ es] by blast
  finally show "set (fst (select_effective_evidence es now)) \<subseteq> {e \<in> set es. \<not> future_evidence now e}" .
  show "length (fst (select_effective_evidence es now)) \<le> 256"
    using select_bounded_facts [of "sorted_by_desc evidence_order (map snd ?latest)" "[]" "[]"]
    unfolding eq by (simp add: MAX_CLASSIFICATION_EVIDENCE_def)
qed

lemma sorted_by_desc_cong:
  assumes "mset xs = mset ys" "inj_on f (set xs)"
  shows "sorted_by_desc f xs = sorted_by_desc f ys"
proof -
  have "sort_key f (rev xs) = sort_key f (rev ys)"
    using assms by (intro sort_key_inj_key_eq) simp_all
  then show ?thesis by (simp add: sorted_by_desc_def)
qed

section \<open>The assessment\<close>

lemma assess_ranked:
  assumes "(v, score, direct, ss) \<in> set (as_ranked (assess signals))"
  shows "ranked_from {s \<in> set signals. sg_attribute s = ''category'' \<and> sg_value s \<noteq> ''unknown''}
      (v, score, direct, ss)"
    "s \<in> set ss \<Longrightarrow> sg_value s = v"
proof -
  note best = category_votes_best [OF votes_best_Nil, of signals]
  have mem: "(v, score, direct, ss) \<in> set (ranked_votes (category_votes signals []))"
    using assms by (simp add: assess_def Let_def)
  show "ranked_from {s \<in> set signals. sg_attribute s = ''category'' \<and> sg_value s \<noteq> ''unknown''}
      (v, score, direct, ss)"
    using ranked_votes_from(1) [OF best mem] by simp
  show "s \<in> set ss \<Longrightarrow> sg_value s = v" by (rule ranked_votes_from(2) [OF best mem])
qed

lemma attribute_ranked:
  assumes "(v, score, direct, ss) \<in> set (ranked_votes (fst (attribute_votes attribute signals [] [])))"
  shows "ranked_from {s \<in> set signals. sg_attribute s = attribute \<and> sg_value s \<noteq> []} (v, score, direct, ss)"
  using ranked_votes_from(1) [OF attribute_votes_best [OF votes_best_Nil] assms] by simp

lemma weak_no_attribute_conflict:
  assumes "\<And>s. s \<in> set signals \<Longrightarrow> sg_weight s \<le> weak_weight"
  shows "attribute_conflict signals attribute t = None"
proof -
  have "fst (snd r) < fl (45 / 100)"
    if "r \<in> set (ranked_votes (fst (attribute_votes attribute signals [] [])))" for r
  proof -
    obtain v score direct ss where r: "r = (v, score, direct, ss)" by (cases r)
    have "score < fl (45 / 100)"
      using weak_score [OF attribute_ranked [OF that [unfolded r]]] assms by simp
    then show ?thesis by (simp add: r)
  qed
  then show ?thesis unfolding attribute_conflict_def split_beta Let_def by (rule weak_no_conflict)
qed

text \<open>Weak signals leave the category undecided.\<close>

lemma weak_decides_nothing:
  assumes weak: "\<And>s. s \<in> set signals \<Longrightarrow> sg_weight s \<le> weak_weight"
    and nonneg: "\<And>s. s \<in> set signals \<Longrightarrow> 0 \<le> sg_weight s"
  shows "\<exists>conf status reasons. decide (assess signals) = (''unknown'', status, conf, reasons) \<and>
    status \<in> {''unknown'', ''insufficient-evidence''} \<and> conf \<le> fl (44 / 100) \<and> as_conflicts (assess signals) = []"
proof -
  have ranked: "fst (snd r) < fl (45 / 100)" if "r \<in> set (as_ranked (assess signals))" for r
  proof -
    obtain v score direct ss where r: "r = (v, score, direct, ss)" by (cases r)
    have "score < fl (45 / 100)"
      using weak_score [OF assess_ranked(1) [OF that [unfolded r]]] weak by simp
    then show ?thesis by (simp add: r)
  qed
  have conflicts: "as_conflicts (assess signals) = []"
    using weak_no_conflict [OF ranked] weak_no_attribute_conflict [OF weak]
    by (simp add: assess_def Let_def option_list_def)
  have "fl (39 / 100) \<le> fl (44 / 100)" by code_simp
  show ?thesis
  proof (cases "as_ranked (assess signals)")
    case Nil
    then show ?thesis
      using conflicts \<open>fl (39 / 100) \<le> fl (44 / 100)\<close> by (simp add: decide_def min.coboundedI2)
  next
    case (Cons r rs)
    then have "best_score (assess signals) < fl (45 / 100)"
      using ranked [of r] by (cases r) (simp add: best_score_def)
    then show ?thesis
      using Cons conflicts weak_weight_facts(7) by (simp add: decide_def Let_def not_le [symmetric])
  qed
qed

section \<open>Properties\<close>

lemma classify_asset_parts:
  "cr_category (classify_asset site asset es now p) =
     fst (decide (assess (concat (map (signals_for_evidence now) (fst (select_effective_evidence es now))))))"
  "cr_status (classify_asset site asset es now p) =
     fst (snd (decide (assess (concat (map (signals_for_evidence now) (fst (select_effective_evidence es now)))))))"
  "cr_managed_capability (classify_asset site asset es now p) =
     managed_capability_for (cr_category (classify_asset site asset es now p))"
  "cr_confidence (classify_asset site asset es now p) = py_round4
     (fst (snd (snd (decide (assess (concat (map (signals_for_evidence now)
       (fst (select_effective_evidence es now)))))))))"
  by (simp_all add: classify_asset_def Let_def split_beta)

lemma effective_signal:
  assumes "s \<in> set (concat (map (signals_for_evidence now) (fst (select_effective_evidence es now))))"
  obtains e where "e \<in> set es" "\<not> future_evidence now e" "s \<in> set (signals_for_evidence now e)"
    "signal_of now e s"
  using assms selected_evidence(1) [of es now] signals_for_evidence_of by fastforce

text \<open>C34. When every item of evidence of an asset is stale, comes from a revoked source, or is only a hostname, no
  category is decided: whatever the amount, the confidence and the agreement of the items, the asset stays \<^verbatim>\<open>unknown\<close>, its management is
  \<^verbatim>\<open>unknown\<close>, and the confidence stays at most 0.44.
\<close>

theorem weak_evidence_undecided:
  assumes "\<And>e. e \<in> set evidence \<Longrightarrow> seen_freshness now e = ''stale'' \<or> ev_source_revoked e \<or> hostname_only e"
  shows "cr_category (classify_asset site asset evidence now previous) = ''unknown'' \<and>
    cr_status (classify_asset site asset evidence now previous) \<in> {''unknown'', ''insufficient-evidence''} \<and>
    endpoint_collector (cr_managed_capability (classify_asset site asset evidence now previous)) = ''unknown'' \<and>
    cr_confidence (classify_asset site asset evidence now previous) \<le> py_round4 (fl (44 / 100))"
proof -
  let ?ss = "concat (map (signals_for_evidence now) (fst (select_effective_evidence evidence now)))"
  have weak: "sg_weight s \<le> weak_weight \<and> 0 \<le> sg_weight s" if mem: "s \<in> set ?ss" for s
  proof -
    obtain e where e: "e \<in> set evidence" "s \<in> set (signals_for_evidence now e)" "signal_of now e s"
      using effective_signal [OF mem] by metis
    have "ev_source_revoked e \<Longrightarrow> seen_freshness now e = ''stale''"
      by (simp add: seen_freshness_def evidence_freshness_def)
    then show ?thesis
      using assms [OF e(1)] stale_signal_weak [OF e(3)] hostname_signal_weak [OF _ e(2)]
        signal_of_range [OF e(3)] by blast
  qed
  then obtain conf status reasons where d: "decide (assess ?ss) = (''unknown'', status, conf, reasons)"
    "status \<in> {''unknown'', ''insufficient-evidence''}" "conf \<le> fl (44 / 100)"
    using weak_decides_nothing [of ?ss] by blast
  then show ?thesis
    using py_round4_mono [OF d(3)] by (simp add: classify_asset_parts managed_capability_for_def)
qed

text \<open>C35. A \<^verbatim>\<open>classified\<close> asset has no conflict, a known category, and a signal for exactly that category with a
  weight above 0.61 from evidence that is among the evidence given, not from the future, not revoked
  and not stale.
\<close>

theorem classified_is_backed:
  assumes "cr_status (classify_asset site asset evidence now previous) = ''classified''"
  shows "cr_conflicts (classify_asset site asset evidence now previous) = [] \<and>
    cr_category (classify_asset site asset evidence now previous) \<noteq> ''unknown'' \<and>
    (\<exists>e \<in> set evidence. \<exists>s \<in> set (signals_for_evidence now e).
       sg_attribute s = ''category'' \<and>
       sg_value s = cr_category (classify_asset site asset evidence now previous) \<and>
       fl (61 / 100) < sg_weight s \<and> \<not> future_evidence now e \<and>
       \<not> ev_source_revoked e \<and> seen_freshness now e \<noteq> ''stale'')"
proof -
  let ?ss = "concat (map (signals_for_evidence now) (fst (select_effective_evidence evidence now)))"
  let ?a = "assess ?ss"
  have status: "fst (snd (decide ?a)) = ''classified''" using assms by (simp add: classify_asset_parts)
  then obtain v score direct ss rs where r: "as_ranked ?a = (v, score, direct, ss) # rs"
    and none: "as_conflicts ?a = []" and cat: "fst (decide ?a) = v" and high: "fl (72 / 100) \<le> score"
    by (auto simp: decide_def Let_def best_score_def split: if_splits list.splits prod.splits)
  have mem: "(v, score, direct, ss) \<in> set (as_ranked ?a)" by (simp add: r)
  have origin: "score = value_score ss" "set ss \<subseteq> {s \<in> set ?ss. sg_attribute s = ''category'' \<and> sg_value s \<noteq> ''unknown''}"
    using assess_ranked(1) [OF mem] by (simp_all add: ranked_from_def)
  obtain s where s: "s \<in> set ss" "fl (61 / 100) < sg_weight s"
    using value_score_strong [of ss] high origin(1) by auto
  then have sv: "sg_value s = v" "sg_attribute s = ''category''" "v \<noteq> ''unknown''" "s \<in> set ?ss"
    using assess_ranked(2) [OF mem] origin(2) by auto
  obtain e where e: "e \<in> set evidence" "\<not> future_evidence now e" "s \<in> set (signals_for_evidence now e)"
    "signal_of now e s"
    using effective_signal [OF sv(4)] by metis
  have "weak_weight \<le> fl (61 / 100)" by code_simp
  then have "seen_freshness now e \<noteq> ''stale''" using stale_signal_weak [OF e(4)] s(2) by auto
  moreover have "ev_source_revoked e \<Longrightarrow> seen_freshness now e = ''stale''"
    by (simp add: seen_freshness_def evidence_freshness_def)
  moreover have "cr_conflicts (classify_asset site asset evidence now previous) = []"
    using none by (simp add: classify_asset_def Let_def split_beta)
  ultimately show ?thesis using e s sv cat by (auto simp: classify_asset_parts)
qed

text \<open>C36. The classification does not depend on the order of the evidence, provided that at most 4096 items are
  given, their ids are distinct, and no two of them have the same source, method, kind and time.
\<close>

theorem classification_order:
  assumes "mset es = mset es'" "length es \<le> 4096" "distinct (map ev_evidence_id es)"
    and "distinct (map (\<lambda>e. (evidence_key e, evidence_timestamp e)) es)"
  shows "classify_asset site asset es now previous = classify_asset site asset es' now previous"
proof -
  have sets: "set es = set es'" using assms(1) by (rule mset_eq_setD)
  have takes: "take MAX_CLASSIFICATION_EVIDENCE_INPUT es = es" "take MAX_CLASSIFICATION_EVIDENCE_INPUT es' = es'"
    using assms(2) mset_eq_length [OF assms(1)] by (simp_all add: MAX_CLASSIFICATION_EVIDENCE_INPUT_def)
  let ?l = "fst (latest_evidence now es [] False)" and ?l' = "fst (latest_evidence now es' [] False)"
  have best: "latest_in {e \<in> set es. \<not> future_evidence now e} ?l"
    "latest_in {e \<in> set es. \<not> future_evidence now e} ?l'"
    using latest_evidence_empty(1) [of es now] latest_evidence_empty(1) [of es' now] by (simp_all add: sets)
  have "inj_on (\<lambda>e. (evidence_key e, evidence_timestamp e)) (set es)"
    using assms(4) by (simp add: distinct_map)
  then have "mset (map snd ?l) = mset (map snd ?l')"
    by (intro best_in_mset [OF best]) (auto simp: inj_on_def)
  moreover have "inj_on evidence_order (set (map snd ?l))"
  proof -
    have "inj_on ev_evidence_id (set es)" using assms(3) by (simp add: distinct_map)
    then have "inj_on evidence_order (set es)" by (auto simp: inj_on_def evidence_order_def)
    moreover have "set (map snd ?l) \<subseteq> set es" using best_in_values [OF best(1)] by blast
    ultimately show ?thesis by (rule inj_on_subset)
  qed
  ultimately have "sorted_by_desc evidence_order (map snd ?l) = sorted_by_desc evidence_order (map snd ?l')"
    by (rule sorted_by_desc_cong)
  moreover have "snd (latest_evidence now es [] False) = snd (latest_evidence now es' [] False)"
    by (simp add: latest_evidence_empty(2) sets)
  ultimately have "select_effective_evidence es now = select_effective_evidence es' now"
    by (simp add: select_effective_evidence_def takes split_beta)
  then show ?thesis by (simp add: classify_asset_def)
qed

section \<open>Bounds\<close>

definition supported_signal :: "Signal \<Rightarrow> bool" where
  "supported_signal s \<longleftrightarrow> (sg_attribute s = ''category'' \<longrightarrow> sg_value s \<in> set SUPPORTED_CATEGORIES)"

lemma supported_attribute: "a \<noteq> ''category'' \<Longrightarrow> supported_signal (attribute_signal e a v w f r)"
  by (simp add: supported_signal_def attribute_signal_def)

lemma supported_category: "c \<in> set SUPPORTED_CATEGORIES \<Longrightarrow> supported_signal (category_signal e c w f r)"
  by (simp add: supported_signal_def category_signal_def)

lemma supported_some:
  assumes "\<And>c. m = Some c \<Longrightarrow> c \<in> set SUPPORTED_CATEGORIES"
  shows "\<forall>s \<in> set (when_some m (\<lambda>c. category_signal e c w f r)). supported_signal s"
  using assms by (auto simp: set_when_some supported_category)

lemma known_category_supported: "known_category v = Some c \<Longrightarrow> c \<in> set SUPPORTED_CATEGORIES"
  by (auto simp: known_category_def category_name_def Let_def split: option.splits if_splits)

lemma hostname_category_supported: "hostname_category v = Some c \<Longrightarrow> c \<in> set SUPPORTED_CATEGORIES"
  unfolding hostname_category_def Let_def SUPPORTED_CATEGORIES_def by (auto split: if_splits)

lemma mapped_category_row: "mapped_category table v = Some c \<Longrightarrow> c \<in> snd ` set table"
  unfolding mapped_category_def by (force dest: find_Some_in)

lemma mapping_supported:
  "snd ` set DHCP_MAPPINGS \<subseteq> set SUPPORTED_CATEGORIES" "snd ` set MDNS_MAPPINGS \<subseteq> set SUPPORTED_CATEGORIES"
  "snd ` set SSDP_MAPPINGS \<subseteq> set SUPPORTED_CATEGORIES"
  by code_simp+

lemma mapped_supported:
  "mapped_category DHCP_MAPPINGS v = Some c \<Longrightarrow> c \<in> set SUPPORTED_CATEGORIES"
  "mapped_category MDNS_MAPPINGS v = Some c \<Longrightarrow> c \<in> set SUPPORTED_CATEGORIES"
  "mapped_category SSDP_MAPPINGS v = Some c \<Longrightarrow> c \<in> set SUPPORTED_CATEGORIES"
  using mapped_category_row mapping_supported by blast+

lemma fixed_categories:
  "''server'' \<in> set SUPPORTED_CATEGORIES" "''workstation'' \<in> set SUPPORTED_CATEGORIES"
  "''mobile'' \<in> set SUPPORTED_CATEGORIES" "''unknown'' \<in> set SUPPORTED_CATEGORIES"
  by (simp_all add: SUPPORTED_CATEGORIES_def)

lemma direct_supported: "\<forall>s \<in> set (direct_signals e kind v f). supported_signal s"
  unfolding direct_signals_def
  by (intro signals_append signals_if signals_one signals_none supported_attribute
      supported_some [OF known_category_supported]) simp_all

lemma os_category_supported: "\<forall>s \<in> set (os_category_signals e family n f). supported_signal s"
  unfolding os_category_signals_def
  by (intro signals_choice signals_one signals_none supported_category fixed_categories)

lemma os_supported: "\<forall>s \<in> set (os_signals e kind v f). supported_signal s"
proof -
  have "\<forall>s \<in> set (case os_family v of None \<Rightarrow> [] | Some family \<Rightarrow>
      attribute_signal e ''os_family'' family w f r # os_category_signals e family n f). supported_signal s" for w r n
    using os_category_supported supported_attribute by (cases "os_family v") simp_all
  then show ?thesis
    unfolding os_signals_def
    by (intro signals_append signals_if signals_one signals_none supported_attribute) simp_all
qed

lemma product_supported: "\<forall>s \<in> set (product_signals e kind v f). supported_signal s"
  unfolding product_signals_def
  by (intro signals_append signals_if signals_one signals_none supported_attribute) simp_all

lemma passive_supported: "\<forall>s \<in> set (passive_signals e kind m v f). supported_signal s"
  unfolding passive_signals_def
  by (intro signals_append signals_if supported_some [OF mapped_supported(1)]
      supported_some [OF mapped_supported(2)] supported_some [OF mapped_supported(3)]
      supported_some [OF hostname_category_supported])

lemma signals_supported: "s \<in> set (signals_for_evidence now e) \<Longrightarrow> supported_signal s"
  using direct_supported os_supported product_supported passive_supported
  unfolding signals_for_evidence_def Let_def by (metis UnE set_append)

lemma raw_confidence_range: "0 \<le> raw_confidence a" "raw_confidence a \<le> fl (99 / 100)"
proof -
  have c: "0 \<le> fl (99 / 100)" by code_simp
  show "0 \<le> raw_confidence a" unfolding raw_confidence_def Let_def by (rule max.cobounded1)
  show "raw_confidence a \<le> fl (99 / 100)"
    unfolding raw_confidence_def Let_def by (intro max.boundedI min.cobounded2 c)
qed

lemma reason_codes_facts:
  "length (reason_codes ss x) \<le> 12" "distinct (reason_codes ss x)"
  "set (reason_codes ss x) \<subseteq> set SUPPORTED_REASON_CODES"
proof -
  let ?all = "fromkeys (filter (\<lambda>c. c \<in> set SUPPORTED_REASON_CODES) (map sg_reason_code ss @ x))"
  have eq: "reason_codes ss x = take 12 ?all" by (simp add: reason_codes_def MAX_REASON_CODES_def)
  show "length (reason_codes ss x) \<le> 12" "distinct (reason_codes ss x)" by (simp_all add: eq)
  have "set ?all \<subseteq> set SUPPORTED_REASON_CODES" by auto
  then show "set (reason_codes ss x) \<subseteq> set SUPPORTED_REASON_CODES"
    unfolding eq using set_take_subset [of 12 ?all] by blast
qed

lemma decide_confidence:
  "0 \<le> fst (snd (snd (decide a)))" "fst (snd (snd (decide a))) \<le> fl (99 / 100)"
proof -
  have c: "0 \<le> fl (39 / 100)" "0 \<le> fl (44 / 100)" "fl (39 / 100) \<le> fl (99 / 100)" by code_simp+
  show "0 \<le> fst (snd (snd (decide a)))"
    using c raw_confidence_range [of a] fold_max_ge [of 0 "map sg_weight (as_signals a)"]
    unfolding decide_def Let_def by simp
  show "fst (snd (snd (decide a))) \<le> fl (99 / 100)"
    using c raw_confidence_range [of a] unfolding decide_def Let_def
    by (simp add: min.coboundedI1 min.coboundedI2)
qed

lemma decide_category:
  "fst (decide a) = ''unknown'' \<or> (\<exists>score direct ss rs. as_ranked a = (fst (decide a), score, direct, ss) # rs)"
  by (cases "as_ranked a") (auto simp: decide_def Let_def split: if_splits)

text \<open>C37. Every classification is bounded: a supported category, a confidence in the unit interval below one,
  at most 32 references, 12 distinct supported reasons, 4 conflicts and 256 items of evidence, and no more
  independent sources than items.
\<close>

theorem classification_bounded:
  "cr_category (classify_asset site asset es now previous) \<in> set SUPPORTED_CATEGORIES \<and>
   0 \<le> cr_confidence (classify_asset site asset es now previous) \<and>
   cr_confidence (classify_asset site asset es now previous) < 1 \<and>
   length (cr_supporting_evidence_ids (classify_asset site asset es now previous)) \<le> 32 \<and>
   length (cr_conflicting_evidence_ids (classify_asset site asset es now previous)) \<le> 32 \<and>
   length (cr_reason_codes (classify_asset site asset es now previous)) \<le> 12 \<and>
   distinct (cr_reason_codes (classify_asset site asset es now previous)) \<and>
   set (cr_reason_codes (classify_asset site asset es now previous)) \<subseteq> set SUPPORTED_REASON_CODES \<and>
   length (cr_conflicts (classify_asset site asset es now previous)) \<le> 4 \<and>
   cr_evidence_count (classify_asset site asset es now previous) \<le> 256 \<and>
   cr_independent_source_count (classify_asset site asset es now previous)
     \<le> cr_evidence_count (classify_asset site asset es now previous)"
proof -
  let ?es = "fst (select_effective_evidence es now)"
  let ?a = "assess (concat (map (signals_for_evidence now) ?es))"
  let ?r = "classify_asset site asset es now previous"
  have parts: "cr_supporting_evidence_ids ?r = take 32 (supporting_ids ?a)"
    "cr_conflicting_evidence_ids ?r = conflicting_ids ?a" "cr_evidence_count ?r = length ?es"
    "cr_independent_source_count ?r = card (sg_source_key ` set (selected_signals ?a))"
    "\<exists>x. cr_reason_codes ?r = reason_codes (as_signals ?a) x" "cr_conflicts ?r = take 16 (as_conflicts ?a)"
    by (auto simp: classify_asset_def Let_def split_beta MAX_CLASSIFICATION_REFERENCES_def MAX_CONFLICTS_def)
  have "cr_category ?r \<in> set SUPPORTED_CATEGORIES"
  proof -
    consider "cr_category ?r = ''unknown''"
      | score direct ss rs where "as_ranked ?a = (cr_category ?r, score, direct, ss) # rs"
      using decide_category [of ?a] unfolding classify_asset_parts by blast
    then show ?thesis
    proof cases
      case 2
      then have mem: "(cr_category ?r, score, direct, ss) \<in> set (as_ranked ?a)" by simp
      obtain s where s: "s \<in> set ss" using assess_ranked(1) [OF mem] by (cases ss) (auto simp: ranked_from_def)
      then have "s \<in> set (concat (map (signals_for_evidence now) ?es))" "sg_attribute s = ''category''"
        "sg_value s = cr_category ?r"
        using assess_ranked [OF mem] by (auto simp: ranked_from_def)
      then show ?thesis using signals_supported by (fastforce simp: supported_signal_def)
    qed (simp add: fixed_categories)
  qed
  moreover have "0 \<le> cr_confidence ?r" "cr_confidence ?r < 1"
  proof -
    have "py_round4 (fl (99 / 100)) < 1" by code_simp
    then show "0 \<le> cr_confidence ?r" "cr_confidence ?r < 1"
      using decide_confidence [of ?a] py_round4_mono [of _ "fl (99 / 100)"]
      unfolding classify_asset_parts by (auto intro: py_round4_nonneg order_le_less_trans)
  qed
  moreover have "length (cr_reason_codes ?r) \<le> 12 \<and> distinct (cr_reason_codes ?r) \<and>
      set (cr_reason_codes ?r) \<subseteq> set SUPPORTED_REASON_CODES"
    using parts(5) reason_codes_facts by metis
  moreover have "length (cr_conflicts ?r) \<le> 4"
  proof -
    have "length (option_list x) \<le> 1" for x :: "ClassificationConflict option"
      by (cases x) (simp_all add: option_list_def)
    then have "length (as_conflicts ?a) \<le> 1 + (1 + (1 + 1))"
      unfolding assess_def Let_def by (simp only: Assessment.simps length_append) (intro add_mono)
    then show ?thesis by (simp add: parts(6))
  qed
  moreover have "cr_independent_source_count ?r \<le> cr_evidence_count ?r"
  proof -
    have "sg_source_key s \<in> ev_source_key ` set ?es" if selected: "s \<in> set (selected_signals ?a)" for s
    proof -
      obtain v score direct ss rs where r: "as_ranked ?a = (v, score, direct, ss) # rs" "s \<in> set ss"
        using selected by (cases "as_ranked ?a") (auto simp: selected_signals_def)
      then have "(v, score, direct, ss) \<in> set (as_ranked ?a)" by simp
      from assess_ranked(1) [OF this] have "s \<in> set (concat (map (signals_for_evidence now) ?es))"
        using r(2) by (auto simp: ranked_from_def)
      then show ?thesis using signals_for_evidence_of by (fastforce simp: signal_of_def)
    qed
    then have "card (sg_source_key ` set (selected_signals ?a)) \<le> card (ev_source_key ` set ?es)"
      by (intro card_mono) auto
    also have "\<dots> \<le> length ?es" by (rule order_trans [OF card_image_le card_length]) simp
    finally show ?thesis by (simp only: parts)
  qed
  ultimately show ?thesis
    using selected_evidence(2) [of es now] parts(1-3)
    by (simp add: conflicting_ids_def MAX_CLASSIFICATION_REFERENCES_def)
qed

text \<open>The family test looks for the letters \<^verbatim>\<open>ios\<close> anywhere, so that the operating system of a Cisco router
  is taken for Apple's: a direct report of it is a mobile signal of weight 0.96 and nothing else.
\<close>

theorem cisco_ios_is_mobile:
  "signals_for_evidence now
     (e\<lparr>ev_kind := ''os'', ev_collection_method := ''api'', ev_value := ''Cisco IOS XE'', ev_direct := True\<rparr>) =
   (let e = e\<lparr>ev_kind := ''os'', ev_collection_method := ''api'', ev_value := ''Cisco IOS XE'', ev_direct := True\<rparr>;
        freshness = evidence_freshness (Some (ev_seen e)) now (ev_source_revoked e)
    in [attribute_signal e ''os_family'' ''iOS'' (fl (98 / 100)) freshness ''direct-endpoint-os'',
        category_signal e ''mobile'' (fl (96 / 100)) freshness ''direct-endpoint-os''])"
proof -
  have "replace_char (CHR ''_'') (CHR ''-'') (normalized_text (PStr ''os'') 80) = ''os''"
    "normalized_text (PStr ''api'') 64 = ''api''"
    "display_text (PStr ''Cisco IOS XE'') 512 = ''Cisco IOS XE''" "os_family ''Cisco IOS XE'' = Some ''iOS''"
    by code_simp+
  then show ?thesis
    by (simp add: signals_for_evidence_def direct_signals_def os_signals_def os_category_signals_def
        product_signals_def passive_signals_def Let_def)
qed

section \<open>Examples\<close>

definition sample_evidence :: "string \<Rightarrow> string \<Rightarrow> string \<Rightarrow> bool \<Rightarrow> ClassificationEvidence" where
  "sample_evidence ident kind v direct =
     \<lparr>ev_evidence_id = ident, ev_site_id = ''s'', ev_asset_id = ''a'', ev_source_id = ''src'',
      ev_source_type = ''endpoint-agent'', ev_collection_method = ''api'', ev_kind = kind, ev_value = v,
      ev_observed_at = Aware 0, ev_direct = direct, ev_strength = ''direct'',
      ev_source_confidence = Finite 1, ev_first_seen_at = None, ev_last_seen_at = None,
      ev_observation_count = 1, ev_source_revoked = False\<rparr>"

theorem weak_evidence_undecided_witness:
  "cr_category (classify_asset ''s'' ''a'' [sample_evidence ''e1'' ''hostname'' ''printer-3'' False] 0 None)
     = ''unknown''"
proof -
  have "hostname_only (sample_evidence ''e1'' ''hostname'' ''printer-3'' False)" by code_simp
  then show ?thesis
    using weak_evidence_undecided [of "[sample_evidence ''e1'' ''hostname'' ''printer-3'' False]" 0] by simp
qed

theorem classified_is_backed_witness:
  "cr_status (classify_asset ''s'' ''a'' [sample_evidence ''e1'' ''device_type'' ''Printer'' True] 0 None)
     = ''classified'' \<and>
   cr_category (classify_asset ''s'' ''a'' [sample_evidence ''e1'' ''device_type'' ''Printer'' True] 0 None)
     \<noteq> ''unknown''"
proof -
  have "fst (snd (decide (assess (concat (map (signals_for_evidence 0)
      (fst (select_effective_evidence [sample_evidence ''e1'' ''device_type'' ''Printer'' True] 0)))))))
      = ''classified''"
    by code_simp
  then have "cr_status (classify_asset ''s'' ''a'' [sample_evidence ''e1'' ''device_type'' ''Printer'' True] 0 None)
     = ''classified''"
    by (simp only: classify_asset_parts)
  with classified_is_backed [OF this] show ?thesis by blast
qed

theorem classification_order_witness:
  "classify_asset ''s'' ''a'' [sample_evidence ''e1'' ''os'' ''Windows 11'' True,
       sample_evidence ''e2'' ''vendor'' ''Acme'' True] 0 None =
   classify_asset ''s'' ''a'' [sample_evidence ''e2'' ''vendor'' ''Acme'' True,
       sample_evidence ''e1'' ''os'' ''Windows 11'' True] 0 None"
proof (rule classification_order)
  show "distinct (map (\<lambda>e. (evidence_key e, evidence_timestamp e))
      [sample_evidence ''e1'' ''os'' ''Windows 11'' True, sample_evidence ''e2'' ''vendor'' ''Acme'' True])"
    by code_simp
qed (simp_all add: sample_evidence_def)

end
