(* ===== verification/Py_Json.thy ===== *)
theory Py_Json
  imports Py_Value Sha256
begin

text \<open>
  \<^verbatim>\<open>json.dumps(value, ensure_ascii=False, allow_nan=False, sort_keys=True, separators=(",", ":"))\<close>, the
  canonical text behind every stored digest, on the values of Py_Value.
\<close>

section \<open>Texts and numbers\<close>

definition json_escape :: "char \<Rightarrow> string" where
  "json_escape c =
     (let b = char_of (92 :: int)
      in if code c = 34 then [b, c] else if c = b then [b, b]
         else if code c = 8 then [b, CHR ''b''] else if code c = 9 then [b, CHR ''t'']
         else if code c = 10 then [b, CHR ''n''] else if code c = 12 then [b, CHR ''f'']
         else if code c = 13 then [b, CHR ''r'']
         else if code c < 32
         then b # ''u00'' @ [hex_digit (code c div 16), hex_digit (code c mod 16)]
         else [c])"

definition json_text :: "string \<Rightarrow> string" where
  "json_text s = [char_of (34 :: int)] @ concat (map json_escape s) @ [char_of (34 :: int)]"

text \<open>\<^verbatim>\<open>str(i)\<close> of an integer refuses more than 4300 digits.\<close>

definition int_text_limit :: int where
  "int_text_limit = 10 ^ 4300"

definition int_text :: "int \<Rightarrow> string result" where
  "int_text i = (if int_text_limit \<le> \<bar>i\<bar> then Inl ValueError else Inr (dec_int i))"

fun json_float :: "pyfloat \<Rightarrow> string result" where
  "json_float (Finite x) = Inr (repr_float (Finite x))"
| "json_float _ = Inl ValueError"

section \<open>Values\<close>

definition member_text :: "string \<times> string result \<Rightarrow> string result" where
  "member_text m = bind_result (snd m) (\<lambda>v. Inr (json_text (fst m) @ '':'' @ v))"

fun json_dumps :: "pyval \<Rightarrow> string result"
  and json_member :: "string \<times> pyval \<Rightarrow> string \<times> string result" where
  "json_dumps PNone = Inr ''null''"
| "json_dumps (PBool b) = Inr (if b then ''true'' else ''false'')"
| "json_dumps (PInt i) = int_text i"
| "json_dumps (PFloat f) = json_float f"
| "json_dumps (PStr s) = Inr (json_text s)"
| "json_dumps (PTime t) = Inl TypeError"
| "json_dumps (PNaive t) = Inl TypeError"
| "json_dumps (PList vs) =
     bind_result (sequence_results (map json_dumps vs)) (\<lambda>ws. Inr (''['' @ py_join '','' ws @ '']''))"
| "json_dumps (PDict d) =
     bind_result (sequence_results (map member_text (sort_key fst (map json_member d))))
       (\<lambda>ws. Inr (''{'' @ py_join '','' ws @ ''}''))"
| "json_member (k, v) = (k, json_dumps v)"

definition canonical_digest :: "pyval \<Rightarrow> string result" where
  "canonical_digest payload = bind_result (json_dumps payload) (\<lambda>s. Inr (sha256_hex s))"

section \<open>Facts\<close>

lemma int_text_ok: "\<bar>i\<bar> < 10 ^ n \<Longrightarrow> n \<le> 4300 \<Longrightarrow> int_text i = Inr (dec_int i)"
proof -
  assume i: "\<bar>i\<bar> < 10 ^ n" and n: "n \<le> 4300"
  have "(10 :: int) ^ n \<le> int_text_limit"
    unfolding int_text_limit_def using n by (intro power_increasing) simp_all
  with i show ?thesis by (simp add: int_text_def)
qed

text \<open>The canonical text does not depend on the order in which the members were written.\<close>

lemma json_dumps_member_order:
  assumes "mset d = mset d'" "distinct (map fst d)"
  shows "json_dumps (PDict d) = json_dumps (PDict d')"
proof -
  have keys: "map fst (map json_member d) = map fst d" by (induction d) auto
  have "mset (sort_key fst (map json_member d')) = mset (map json_member d)" using assms(1) by simp
  moreover have "inj_on fst (set (map json_member d))" using assms(2) keys by (metis distinct_map)
  ultimately have "sort_key fst (map json_member d) = sort_key fst (map json_member d')"
    by (intro sort_key_inj_key_eq) simp_all
  then show ?thesis by simp
qed

lemma canonical_digest_shape:
  "canonical_digest v = Inr h \<Longrightarrow> length h = 64 \<and> list_all is_hex_lower h"
  by (auto simp: canonical_digest_def bind_result_eq_Inr_iff list_all_iff sha256_hex_lower)

text \<open>A value without datetimes, non-finite floats and huge integers has a canonical text.\<close>

fun encodable :: "pyval \<Rightarrow> bool" and encodable_member :: "string \<times> pyval \<Rightarrow> bool" where
  "encodable (PInt i) \<longleftrightarrow> \<bar>i\<bar> < int_text_limit"
| "encodable (PFloat f) \<longleftrightarrow> (\<exists>x. f = Finite x)"
| "encodable (PTime _) = False"
| "encodable (PNaive _) = False"
| "encodable (PList vs) \<longleftrightarrow> list_all encodable vs"
| "encodable (PDict d) \<longleftrightarrow> list_all encodable_member d"
| "encodable _ = True"
| "encodable_member (k, v) = encodable v"

lemma json_dumps_ok:
  "encodable v \<Longrightarrow> \<exists>s. json_dumps v = Inr s"
  "encodable_member m \<Longrightarrow> \<exists>s. json_member m = (fst m, Inr s)"
proof (induction v and m rule: json_dumps_json_member.induct)
  case (8 vs)
  have "\<exists>xs. sequence_results (map json_dumps vs) = Inr xs"
    using 8 by (intro sequence_results_ok) (auto simp: list_all_iff)
  then show ?case by auto
next
  case (9 d)
  have "\<exists>xs. sequence_results (map member_text (sort_key fst (map json_member d))) = Inr xs"
    using 9 by (intro sequence_results_ok) (fastforce simp: list_all_iff member_text_def)
  then show ?case by auto
qed (auto simp: int_text_def not_le)

end
