(* ===== verification/Temporal_Contracts.thy ===== *)
theory Temporal_Contracts
  imports Py_Json Py_Number Py_Iso
begin

text \<open>
  The versioned contracts of temporal_contracts.py: the governed metric registry, the records that
  the temporal services exchange, and their validators.  A pydantic model is a record together
  with its field constraints (\<open>..._fields\<close>) and the \<^verbatim>\<open>model_validator\<close> (\<open>..._violation\<close>, the message of the first
  check that fails); constructing a model is \<open>checked\<close>.  Timestamps are instants: \<^verbatim>\<open>astimezone(utc)\<close>
  on the UTC values the services pass is the identity.
\<close>

section \<open>Exceptions and checked construction\<close>

text \<open>
  \<^verbatim>\<open>TemporalProjectionError\<close> carries a code; \<open>Contract_Error\<close> is a \<^verbatim>\<open>ValueError\<close> (pydantic's
  \<^verbatim>\<open>ValidationError\<close> is one) with its message, \<open>Runtime_Error\<close> a
  \<^verbatim>\<open>RuntimeError\<close>, \<open>Database_Error\<close> an error of the database; \<open>Invalid_Operation\<close> is raised by the
  decimal module.
\<close>

datatype temporal_error =
    Projection_Error string
  | Contract_Error string
  | Runtime_Error string
  | Database_Error
  | Invalid_Operation
  | Raised py_error

type_synonym 'a temporal = "temporal_error + 'a"

definition first_violation :: "(bool \<times> string) list \<Rightarrow> string option" where
  "first_violation cs = map_option snd (find fst cs)"

definition checked :: "bool \<Rightarrow> string option \<Rightarrow> 'a \<Rightarrow> 'a temporal" where
  "checked valid violation x =
     (if \<not> valid then Inl (Contract_Error ''invalid field'')
      else case violation of Some m \<Rightarrow> Inl (Contract_Error m) | None \<Rightarrow> Inr x)"

definition lift_py :: "'a result \<Rightarrow> 'a temporal" where
  "lift_py r = (case r of Inl e \<Rightarrow> Inl (Raised e) | Inr x \<Rightarrow> Inr x)"

text \<open>\<^verbatim>\<open>t + delta\<close>: outside the years 1 to 9999 it raises.\<close>

definition add_time :: "instant \<Rightarrow> timedelta \<Rightarrow> instant temporal" where
  "add_time t d =
     (if min_instant \<le> t + d \<and> t + d \<le> max_instant then Inr (t + d) else Inl (Raised OverflowError))"

section \<open>Literals\<close>

datatype signal_freshness = Fresh_Current | Fresh_Stale | Fresh_Unknown
datatype signal_quality = Quality_Observed | Quality_Missing | Quality_Incomplete | Quality_Stale
datatype backfill_state = Live | Backfilled | Late_Arriving
datatype expectation_method = Rolling_Robust | Seasonal_Robust
datatype expectation_confidence = Confidence_None | Confidence_Low | Confidence_Medium | Confidence_High
datatype expectation_quality = Insufficient | Limited | Sufficient
datatype deviation_direction = Inside | Above | Below | Direction_Unknown
datatype assessment_state =
  Blocked | Within_Range | Outside_Policy | Pending_Persistence | Candidate
datatype deviation_reason =
    Observation_Unavailable
  | Observation_Incomplete
  | Observation_Stale
  | Observation_Untrusted
  | Expectation_Range_Unavailable
  | Expectation_Confidence_Low
  | Expectation_Quality_Low
  | Expectation_Provenance_Invalid
  | Within_Expected_Range
  | Direction_Not_Admitted
  | Persistence_Not_Met
  | Deviation_Candidate

fun freshness_text :: "signal_freshness \<Rightarrow> string" where
  "freshness_text Fresh_Current = ''current''"
| "freshness_text Fresh_Stale = ''stale''"
| "freshness_text Fresh_Unknown = ''unknown''"

fun quality_text :: "signal_quality \<Rightarrow> string" where
  "quality_text Quality_Observed = ''observed''"
| "quality_text Quality_Missing = ''missing''"
| "quality_text Quality_Incomplete = ''incomplete''"
| "quality_text Quality_Stale = ''stale''"

fun backfill_text :: "backfill_state \<Rightarrow> string" where
  "backfill_text Live = ''live''"
| "backfill_text Backfilled = ''backfilled''"
| "backfill_text Late_Arriving = ''late-arriving''"

fun method_text :: "expectation_method \<Rightarrow> string" where
  "method_text Rolling_Robust = ''rolling_robust_baseline''"
| "method_text Seasonal_Robust = ''seasonal_robust_baseline''"

fun confidence_text :: "expectation_confidence \<Rightarrow> string" where
  "confidence_text Confidence_None = ''none''"
| "confidence_text Confidence_Low = ''low''"
| "confidence_text Confidence_Medium = ''medium''"
| "confidence_text Confidence_High = ''high''"

fun expectation_quality_text :: "expectation_quality \<Rightarrow> string" where
  "expectation_quality_text Insufficient = ''insufficient''"
| "expectation_quality_text Limited = ''limited''"
| "expectation_quality_text Sufficient = ''sufficient''"

fun direction_text :: "deviation_direction \<Rightarrow> string" where
  "direction_text Inside = ''inside''"
| "direction_text Above = ''above''"
| "direction_text Below = ''below''"
| "direction_text Direction_Unknown = ''unknown''"

section \<open>Constants and patterns\<close>

definition TEMPORAL_SIGNAL_SCHEMA_VERSION :: string where
  "TEMPORAL_SIGNAL_SCHEMA_VERSION = ''oaw.temporal-signal.v1''"

definition TEMPORAL_SERIES_SCHEMA_VERSION :: string where
  "TEMPORAL_SERIES_SCHEMA_VERSION = ''oaw.temporal-series.v1''"

definition TEMPORAL_EXPECTATION_SCHEMA_VERSION :: string where
  "TEMPORAL_EXPECTATION_SCHEMA_VERSION = ''oaw.temporal-expectation.v1''"

definition TEMPORAL_DEVIATION_ASSESSMENT_SCHEMA_VERSION :: string where
  "TEMPORAL_DEVIATION_ASSESSMENT_SCHEMA_VERSION = ''oaw.temporal-deviation-assessment.v1''"

definition TEMPORAL_PROJECTION_VERSION :: string where
  "TEMPORAL_PROJECTION_VERSION = ''1''"

definition TEMPORAL_EXPECTATION_METHOD_VERSION :: string where
  "TEMPORAL_EXPECTATION_METHOD_VERSION = ''1''"

definition TEMPORAL_DEVIATION_POLICY_VERSION :: string where
  "TEMPORAL_DEVIATION_POLICY_VERSION = ''1''"

definition MAX_TEMPORAL_HISTORY_DAYS :: int where
  "MAX_TEMPORAL_HISTORY_DAYS = 366"

definition MAX_TEMPORAL_BUCKETS :: int where
  "MAX_TEMPORAL_BUCKETS = 366"

definition TEMPORAL_EXPECTATION_HISTORY_BUCKETS :: nat where
  "TEMPORAL_EXPECTATION_HISTORY_BUCKETS = 56"

definition MAX_TEMPORAL_DEVIATION_ASSESSMENTS :: nat where
  "MAX_TEMPORAL_DEVIATION_ASSESSMENTS = 3"

definition MAX_TEMPORAL_DEVIATION_SUPPORTING_ASSESSMENTS :: nat where
  "MAX_TEMPORAL_DEVIATION_SUPPORTING_ASSESSMENTS = MAX_TEMPORAL_DEVIATION_ASSESSMENTS - 1"

definition MAX_TEMPORAL_DEVIATION_REASON_CODES :: nat where
  "MAX_TEMPORAL_DEVIATION_REASON_CODES = 8"

definition text_between :: "nat \<Rightarrow> nat \<Rightarrow> string \<Rightarrow> bool" where
  "text_between lo hi s \<longleftrightarrow> lo \<le> length s \<and> length s \<le> hi"

definition optional_text :: "nat \<Rightarrow> string option \<Rightarrow> bool" where
  "optional_text hi s = (case s of None \<Rightarrow> True | Some t \<Rightarrow> text_between 1 hi t)"

text \<open>\<^verbatim>\<open>^[a-z][a-z0-9_]*(?:\.[a-z][a-z0-9_]*)+$\<close>\<close>

definition metric_key_segment :: "string \<Rightarrow> bool" where
  "metric_key_segment w \<longleftrightarrow>
     w \<noteq> [] \<and> is_lower (hd w) \<and> list_all (\<lambda>c. is_lower c \<or> is_digit c \<or> c = CHR ''_'') w"

definition matches_METRIC_KEY :: "string \<Rightarrow> bool" where
  "matches_METRIC_KEY s \<longleftrightarrow>
     2 \<le> length (split_on (CHR ''.'') s) \<and> list_all metric_key_segment (split_on (CHR ''.'') s)"

definition matches_SITE_ID :: "string \<Rightarrow> bool" where
  "matches_SITE_ID s \<longleftrightarrow>
     s \<noteq> [] \<and> list_all (\<lambda>c. is_alnum c \<or> c \<in> {CHR ''.'', CHR ''_'', CHR ''-''}) s"

text \<open>\<^verbatim>\<open>^pre[0-9a-f]{n}$\<close>\<close>

definition matches_hex :: "string \<Rightarrow> nat \<Rightarrow> string \<Rightarrow> bool" where
  "matches_hex pre n s \<longleftrightarrow>
     take (length pre) s = pre \<and> length s = length pre + n \<and> list_all is_hex_lower (drop (length pre) s)"

definition matches_SIGNAL_ID :: "string \<Rightarrow> bool" where
  "matches_SIGNAL_ID = matches_hex ''sig_'' 32"

definition matches_EXPECTATION_ID :: "string \<Rightarrow> bool" where
  "matches_EXPECTATION_ID = matches_hex ''exp_'' 32"

definition matches_ASSESSMENT_ID :: "string \<Rightarrow> bool" where
  "matches_ASSESSMENT_ID = matches_hex ''tda_'' 32"

definition matches_HISTORY_DIGEST :: "string \<Rightarrow> bool" where
  "matches_HISTORY_DIGEST = matches_hex [] 64"

text \<open>\<^verbatim>\<open>^tdp_[a-z0-9]+(?:[._-][a-z0-9]+)*$\<close> and \<^verbatim>\<open>^[1-9][0-9]{0,7}$\<close>\<close>

definition matches_POLICY_ID :: "string \<Rightarrow> bool" where
  "matches_POLICY_ID s \<longleftrightarrow>
     take 4 s = ''tdp_'' \<and>
     list_all (\<lambda>w. w \<noteq> [] \<and> list_all (\<lambda>c. is_lower c \<or> is_digit c) w)
       (split_on (CHR ''.'')
         (map (\<lambda>c. if c = CHR ''_'' \<or> c = CHR ''-'' then CHR ''.'' else c) (drop 4 s)))"

definition matches_VERSION :: "string \<Rightarrow> bool" where
  "matches_VERSION s \<longleftrightarrow>
     s \<noteq> [] \<and> length s \<le> 8 \<and> list_all is_digit s \<and> hd s \<noteq> CHR ''0''"

section \<open>Numbers\<close>

text \<open>A value of type \<^verbatim>\<open>int | float\<close>.\<close>

datatype num_value = Int_Num int | Float_Num pyfloat

fun num_is_zero :: "num_value \<Rightarrow> bool" where
  "num_is_zero (Int_Num i) = (i = 0)"
| "num_is_zero (Float_Num (Finite x)) = (x = 0)"
| "num_is_zero _ = False"

fun num_negative :: "num_value \<Rightarrow> bool" where
  "num_negative (Int_Num i) = (i < 0)"
| "num_negative (Float_Num (Finite x)) = (x < 0)"
| "num_negative (Float_Num NegInf) = True"
| "num_negative _ = False"

text \<open>\<^verbatim>\<open>Field(ge=0)\<close> with \<^verbatim>\<open>allow_inf_nan=False\<close>.\<close>

fun num_admissible :: "num_value \<Rightarrow> bool" where
  "num_admissible (Int_Num i) = (0 \<le> i)"
| "num_admissible (Float_Num (Finite x)) = (0 \<le> x)"
| "num_admissible _ = False"

fun finite_float :: "pyfloat \<Rightarrow> bool" where
  "finite_float (Finite x) = True"
| "finite_float _ = False"

text \<open>\<^verbatim>\<open>float(v)\<close>\<close>

fun float_of_num :: "num_value \<Rightarrow> rat temporal" where
  "float_of_num (Int_Num i) =
     (case to_float (of_int i) of Finite y \<Rightarrow> Inr y | _ \<Rightarrow> Inl (Raised OverflowError))"
| "float_of_num (Float_Num (Finite x)) = Inr x"
| "float_of_num (Float_Num _) = Inl (Contract_Error ''invalid field'')"

fun num_pyval :: "num_value \<Rightarrow> pyval" where
  "num_pyval (Int_Num i) = PInt i"
| "num_pyval (Float_Num f) = PFloat f"

definition optional_nonneg :: "rat option \<Rightarrow> bool" where
  "optional_nonneg x = (case x of None \<Rightarrow> True | Some y \<Rightarrow> 0 \<le> y)"

definition optional_finite :: "pyfloat option \<Rightarrow> bool" where
  "optional_finite x = (case x of None \<Rightarrow> True | Some (Finite y) \<Rightarrow> 0 \<le> y | Some _ \<Rightarrow> False)"

section \<open>The metric registry\<close>

record metric_definition =
  md_metric_key :: string
  md_name :: string
  md_description :: string
  md_entity_scope :: string
  md_unit :: string
  md_source_authority :: string
  md_granularities :: "string list"
  md_projection_version :: string
  md_freshness_seconds :: int
  md_zero_is_meaningful :: bool
  md_missing_differs_from_zero :: bool
  md_supports_asset_scope :: bool

definition TEMPORAL_METRICS :: "metric_definition list" where
  "TEMPORAL_METRICS =
  [\<lparr> md_metric_key = ''site.assets.new.count'',
      md_name = ''New assets'',
      md_description = ''Distinct canonical site asset identities whose authoritative first-seen timestamp falls in the UTC bucket.'',
      md_entity_scope = ''site'', md_unit = ''count'',
      md_source_authority = ''canonical control_tower_assets.first_seen_at'',
      md_granularities = [''daily''], md_projection_version = TEMPORAL_PROJECTION_VERSION,
      md_freshness_seconds = 129600, md_zero_is_meaningful = True,
      md_missing_differs_from_zero = True, md_supports_asset_scope = False \<rparr>,
   \<lparr> md_metric_key = ''site.collectors.active.count'',
      md_name = ''Active collectors'',
      md_description = ''Distinct enrolled endpoint-agent or passive-sensor identities with an accepted check-in in the UTC bucket.'',
      md_entity_scope = ''site'', md_unit = ''count'',
      md_source_authority = ''accepted agent_checkins'',
      md_granularities = [''daily''], md_projection_version = TEMPORAL_PROJECTION_VERSION,
      md_freshness_seconds = 90000, md_zero_is_meaningful = True,
      md_missing_differs_from_zero = True, md_supports_asset_scope = False \<rparr>,
   \<lparr> md_metric_key = ''site.findings.new.count'',
      md_name = ''New findings'',
      md_description = ''Distinct deterministic findings first opened in the UTC bucket; source coverage is evaluated from bounded finding evaluation runs.'',
      md_entity_scope = ''site'', md_unit = ''count'',
      md_source_authority = ''deterministic findings.first_seen_at'',
      md_granularities = [''daily''], md_projection_version = TEMPORAL_PROJECTION_VERSION,
      md_freshness_seconds = 129600, md_zero_is_meaningful = True,
      md_missing_differs_from_zero = True, md_supports_asset_scope = False \<rparr>,
   \<lparr> md_metric_key = ''site.vulnerabilities.new.count'',
      md_name = ''New affected vulnerability matches'',
      md_description = ''Distinct deterministic vulnerability matches first entering affected state in the UTC bucket.'',
      md_entity_scope = ''site'', md_unit = ''count'',
      md_source_authority = ''deterministic vulnerability_matches.first_matched_at'',
      md_granularities = [''daily''], md_projection_version = TEMPORAL_PROJECTION_VERSION,
      md_freshness_seconds = 172800, md_zero_is_meaningful = True,
      md_missing_differs_from_zero = True, md_supports_asset_scope = False \<rparr>,
   \<lparr> md_metric_key = ''site.inventory.collections.count'',
      md_name = ''Accepted inventory collections'',
      md_description = ''Replay-safe canonical inventory collections accepted in the UTC bucket; a retry updates its existing collection instead of adding a new fact.'',
      md_entity_scope = ''site'', md_unit = ''count'',
      md_source_authority = ''canonical_inventory_collections'',
      md_granularities = [''daily''], md_projection_version = TEMPORAL_PROJECTION_VERSION,
      md_freshness_seconds = 129600, md_zero_is_meaningful = False,
      md_missing_differs_from_zero = True, md_supports_asset_scope = False \<rparr>,
   \<lparr> md_metric_key = ''site.inventory.asset_observations.count'',
      md_name = ''Canonical asset observations'',
      md_description = ''Sum of canonical asset observations accepted across replay-safe inventory collections in the UTC bucket; this is not a distinct asset population.'',
      md_entity_scope = ''site'', md_unit = ''asset-observations'',
      md_source_authority = ''canonical_inventory_collections.canonical_asset_count'',
      md_granularities = [''daily''], md_projection_version = TEMPORAL_PROJECTION_VERSION,
      md_freshness_seconds = 129600, md_zero_is_meaningful = True,
      md_missing_differs_from_zero = True, md_supports_asset_scope = False \<rparr>]"

definition temporal_metric :: "string \<Rightarrow> metric_definition temporal" where
  "temporal_metric key =
     (case map_of (map (\<lambda>m. (md_metric_key m, m)) TEMPORAL_METRICS) key of
        Some m \<Rightarrow> Inr m
      | None \<Rightarrow> Inl (Contract_Error ''unknown temporal metric''))"

definition metric_registry_violation :: "metric_definition list \<Rightarrow> string option" where
  "metric_registry_violation ms =
     first_violation
       [(length (map md_metric_key ms) \<noteq> card (set (map md_metric_key ms)),
         ''temporal metric registry keys must be unique'')]"

section \<open>Signals\<close>

record temporal_signal =
  sg_schema_version :: string
  sg_signal_id :: string
  sg_metric_key :: string
  sg_tenant_id :: "string option"
  sg_site_id :: string
  sg_asset_id :: "string option"
  sg_bucket_start :: instant
  sg_bucket_end :: instant
  sg_granularity :: string
  sg_value :: "num_value option"
  sg_unit :: string
  sg_evidence_count :: int
  sg_source :: string
  sg_observed_at :: "instant option"
  sg_received_at :: "instant option"
  sg_freshness :: signal_freshness
  sg_complete :: bool
  sg_quality :: signal_quality
  sg_backfill :: backfill_state
  sg_projection_version :: string
  sg_generated_at :: instant

definition signal_fields :: "temporal_signal \<Rightarrow> bool" where
  "signal_fields s \<longleftrightarrow>
     sg_schema_version s = TEMPORAL_SIGNAL_SCHEMA_VERSION \<and>
     matches_SIGNAL_ID (sg_signal_id s) \<and>
     matches_METRIC_KEY (sg_metric_key s) \<and> length (sg_metric_key s) \<le> 120 \<and>
     optional_text 128 (sg_tenant_id s) \<and>
     matches_SITE_ID (sg_site_id s) \<and> text_between 1 128 (sg_site_id s) \<and>
     optional_text 160 (sg_asset_id s) \<and>
     sg_granularity s = ''daily'' \<and>
     (case sg_value s of None \<Rightarrow> True | Some v \<Rightarrow> num_admissible v) \<and>
     text_between 1 40 (sg_unit s) \<and> 0 \<le> sg_evidence_count s \<and> text_between 1 160 (sg_source s) \<and>
     text_between 1 32 (sg_projection_version s)"

definition signal_violation :: "temporal_signal \<Rightarrow> string option" where
  "signal_violation s =
     first_violation
       [(sg_bucket_end s \<le> sg_bucket_start s, ''bucket_end must be after bucket_start''),
        (sg_granularity s = ''daily'' \<and> sg_bucket_end s - sg_bucket_start s \<noteq> days 1,
         ''daily buckets must span exactly one UTC day''),
        (\<not> at_midnight (sg_bucket_start s) \<or> \<not> at_midnight (sg_bucket_end s),
         ''daily bucket boundaries must be UTC midnight''),
        (sg_value s = None \<and> sg_complete s, ''a missing value cannot be complete''),
        (sg_value s = None \<and> sg_quality s \<noteq> Quality_Missing \<and> sg_quality s \<noteq> Quality_Incomplete,
         ''a missing value must report missing or incomplete quality''),
        (sg_quality s = Quality_Observed \<and>
           (\<not> sg_complete s \<or> sg_value s = None \<or> sg_freshness s \<noteq> Fresh_Current),
         ''observed quality requires a complete current value''),
        (sg_quality s = Quality_Missing \<and>
           (sg_complete s \<or> sg_value s \<noteq> None \<or> sg_evidence_count s \<noteq> 0 \<or>
            sg_freshness s \<noteq> Fresh_Unknown),
         ''missing quality requires an uncovered null value''),
        (sg_quality s = Quality_Incomplete \<and> sg_complete s,
         ''incomplete signals cannot claim complete coverage''),
        (sg_quality s = Quality_Stale \<and>
           (\<not> sg_complete s \<or> sg_value s = None \<or> sg_freshness s \<noteq> Fresh_Stale),
         ''stale quality requires a complete stale value''),
        (sg_complete s \<and> sg_freshness s = Fresh_Stale \<and> sg_quality s \<noteq> Quality_Stale,
         ''complete stale signals must report stale quality''),
        (sg_complete s \<and> sg_observed_at s = None,
         ''complete signals require a source observation watermark''),
        (sg_backfill s = Late_Arriving \<and>
           (case sg_received_at s of None \<Rightarrow> True | Some r \<Rightarrow> r \<le> sg_bucket_end s),
         ''late-arriving signals require evidence received after bucket end''),
        ((case sg_received_at s of None \<Rightarrow> False | Some r \<Rightarrow> sg_bucket_end s < r) \<and>
           sg_backfill s \<noteq> Late_Arriving,
         ''evidence received after bucket end must be late-arriving'')]"

definition TemporalSignal :: "temporal_signal \<Rightarrow> temporal_signal temporal" where
  "TemporalSignal s = checked (signal_fields s) (signal_violation s) s"

section \<open>Series\<close>

record signal_series =
  sr_metric :: metric_definition
  sr_tenant_id :: "string option"
  sr_site_id :: string
  sr_asset_id :: "string option"
  sr_start :: instant
  sr_end :: instant
  sr_granularity :: string
  sr_generated_at :: instant
  sr_bucket_count :: int
  sr_missing_count :: int
  sr_incomplete_count :: int
  sr_maximum_count :: int
  sr_signals :: "temporal_signal list"

definition count_signals :: "(temporal_signal \<Rightarrow> bool) \<Rightarrow> temporal_signal list \<Rightarrow> int" where
  "count_signals P ss = int (length (filter P ss))"

definition series_fields :: "signal_series \<Rightarrow> bool" where
  "series_fields r \<longleftrightarrow>
     optional_text 128 (sr_tenant_id r) \<and>
     matches_SITE_ID (sr_site_id r) \<and> text_between 1 128 (sr_site_id r) \<and>
     optional_text 160 (sr_asset_id r) \<and> sr_granularity r = ''daily'' \<and>
     1 \<le> sr_bucket_count r \<and> sr_bucket_count r \<le> MAX_TEMPORAL_BUCKETS \<and>
     0 \<le> sr_missing_count r \<and> sr_missing_count r \<le> MAX_TEMPORAL_BUCKETS \<and>
     0 \<le> sr_incomplete_count r \<and> sr_incomplete_count r \<le> MAX_TEMPORAL_BUCKETS \<and>
     sr_maximum_count r = 366 \<and> int (length (sr_signals r)) \<le> MAX_TEMPORAL_BUCKETS"

text \<open>The loop over the signals, with \<^verbatim>\<open>expected_start\<close>.\<close>

fun series_loop :: "signal_series \<Rightarrow> instant \<Rightarrow> temporal_signal list \<Rightarrow> string option" where
  "series_loop r expected [] =
     (if expected \<noteq> sr_end r then Some ''series buckets must cover the requested window'' else None)"
| "series_loop r expected (s # ss) =
     (if sg_metric_key s \<noteq> md_metric_key (sr_metric r)
      then Some ''series contains a signal for another metric''
      else if sg_site_id s \<noteq> sr_site_id r \<or> sg_tenant_id s \<noteq> sr_tenant_id r
      then Some ''series contains a signal for another authority scope''
      else if sg_asset_id s \<noteq> sr_asset_id r
      then Some ''series contains a signal for another asset scope''
      else if sg_bucket_start s \<noteq> expected
      then Some ''series buckets must be contiguous and ordered''
      else series_loop r (sg_bucket_end s) ss)"

definition series_violation :: "signal_series \<Rightarrow> string option" where
  "series_violation r =
     (case first_violation
        [(sr_end r \<le> sr_start r, ''series end must be after start''),
         (int (length (sr_signals r)) \<noteq> sr_bucket_count r,
          ''series bucket_count must match the signal count''),
         (sr_missing_count r \<noteq> count_signals (\<lambda>s. sg_quality s = Quality_Missing) (sr_signals r),
          ''series missing bucket count is inconsistent''),
         (sr_incomplete_count r \<noteq> count_signals (\<lambda>s. \<not> sg_complete s) (sr_signals r),
          ''series incomplete bucket count is inconsistent'')] of
        Some m \<Rightarrow> Some m
      | None \<Rightarrow> series_loop r (sr_start r) (sr_signals r))"

definition TemporalSignalSeriesResponse :: "signal_series \<Rightarrow> signal_series temporal" where
  "TemporalSignalSeriesResponse r = checked (series_fields r) (series_violation r) r"

section \<open>Expectations\<close>

record temporal_expectation =
  te_expectation_id :: string
  te_history_digest :: string
  te_metric_key :: string
  te_tenant_id :: "string option"
  te_site_id :: string
  te_asset_id :: "string option"
  te_target_start :: instant
  te_target_end :: instant
  te_granularity :: string
  te_knowledge_cutoff :: instant
  te_generated_at :: instant
  te_history_start :: instant
  te_history_end :: instant
  te_history_bucket_count :: int
  te_usable_count :: int
  te_missing_count :: int
  te_incomplete_count :: int
  te_stale_count :: int
  te_late_count :: int
  te_method :: expectation_method
  te_method_version :: string
  te_sample_count :: int
  te_horizon_buckets :: int
  te_expected :: "rat option"
  te_lower :: "rat option"
  te_upper :: "rat option"
  te_unit :: string
  te_confidence :: expectation_confidence
  te_quality :: expectation_quality
  te_blocked_reason :: "string option"
  te_projection_version :: string
  te_authority :: string

definition expectation_fields :: "temporal_expectation \<Rightarrow> bool" where
  "expectation_fields x \<longleftrightarrow>
     matches_EXPECTATION_ID (te_expectation_id x) \<and>
     matches_HISTORY_DIGEST (te_history_digest x) \<and>
     matches_METRIC_KEY (te_metric_key x) \<and> length (te_metric_key x) \<le> 120 \<and>
     optional_text 128 (te_tenant_id x) \<and>
     matches_SITE_ID (te_site_id x) \<and> text_between 1 128 (te_site_id x) \<and>
     optional_text 160 (te_asset_id x) \<and> te_granularity x = ''daily'' \<and>
     te_history_bucket_count x = 56 \<and>
     list_all (\<lambda>n. 0 \<le> n \<and> n \<le> int TEMPORAL_EXPECTATION_HISTORY_BUCKETS)
       [te_usable_count x, te_missing_count x, te_incomplete_count x, te_stale_count x,
        te_late_count x, te_sample_count x] \<and>
     te_method_version x = ''1'' \<and> te_horizon_buckets x = 1 \<and>
     optional_nonneg (te_expected x) \<and> optional_nonneg (te_lower x) \<and> optional_nonneg (te_upper x) \<and>
     text_between 1 40 (te_unit x) \<and> text_between 1 32 (te_projection_version x) \<and>
     (te_blocked_reason x = None \<or> te_blocked_reason x = Some ''insufficient-usable-history'') \<and>
     te_authority x = ''analytical-context-only''"

text \<open>\<^verbatim>\<open>lower <= expected <= upper\<close> on optional values that are all present.\<close>

definition range_ordered :: "rat option \<Rightarrow> rat option \<Rightarrow> rat option \<Rightarrow> bool" where
  "range_ordered lower expected upper =
     (case (lower, expected, upper) of
        (Some l, Some m, Some u) \<Rightarrow> l \<le> m \<and> m \<le> u
      | _ \<Rightarrow> False)"

definition expectation_violation :: "temporal_expectation \<Rightarrow> string option" where
  "expectation_violation x =
     (let blocked = (None \<in> {te_expected x, te_lower x, te_upper x})
      in first_violation
       [(te_target_end x - te_target_start x \<noteq> days 1,
         ''expectation targets must span exactly one UTC day''),
        (\<not> list_all at_midnight
            [te_target_start x, te_target_end x, te_knowledge_cutoff x, te_history_start x,
             te_history_end x],
         ''expectation boundaries must align to UTC midnight''),
        (te_knowledge_cutoff x \<noteq> te_target_start x,
         ''knowledge_cutoff must equal the target bucket start''),
        (te_history_end x \<noteq> te_target_start x,
         ''expectation history must end at the target bucket start''),
        (te_history_end x - te_history_start x \<noteq> days (int TEMPORAL_EXPECTATION_HISTORY_BUCKETS),
         ''expectation history must cover the fixed bounded window''),
        (te_usable_count x + te_missing_count x + te_incomplete_count x + te_stale_count x
           \<noteq> te_history_bucket_count x,
         ''expectation history quality counts are inconsistent''),
        (te_usable_count x < te_sample_count x,
         ''expectation method sample cannot exceed usable history''),
        (blocked \<and> \<not> (te_expected x = None \<and> te_lower x = None \<and> te_upper x = None),
         ''expected range values must be all present or all absent''),
        (blocked \<and> te_quality x \<noteq> Insufficient,
         ''a blocked expected range must report insufficient quality''),
        (blocked \<and> (te_confidence x \<noteq> Confidence_None \<or> te_blocked_reason x = None),
         ''a blocked expected range requires no confidence and a reason''),
        (\<not> blocked \<and> \<not> range_ordered (te_lower x) (te_expected x) (te_upper x),
         ''expected range bounds must contain the expected value''),
        (\<not> blocked \<and> te_quality x = Insufficient,
         ''a populated expected range cannot be insufficient''),
        (\<not> blocked \<and> (te_confidence x = Confidence_None \<or> te_blocked_reason x \<noteq> None),
         ''a populated expected range requires confidence and no block'')])"

definition TemporalExpectation :: "temporal_expectation \<Rightarrow> temporal_expectation temporal" where
  "TemporalExpectation x = checked (expectation_fields x) (expectation_violation x) x"

section \<open>Deviation policies\<close>

record deviation_policy =
  dp_policy_id :: string
  dp_policy_version :: string
  dp_metric_key :: string
  dp_allowed_directions :: "deviation_direction list"
  dp_minimum_confidence :: expectation_confidence
  dp_required_quality :: expectation_quality
  dp_required_persistence :: int
  dp_maximum_lookback :: int
  dp_granularity :: string
  dp_entity_scope :: string

definition policy_fields :: "deviation_policy \<Rightarrow> bool" where
  "policy_fields p \<longleftrightarrow>
     matches_POLICY_ID (dp_policy_id p) \<and> length (dp_policy_id p) \<le> 160 \<and>
     matches_VERSION (dp_policy_version p) \<and>
     matches_METRIC_KEY (dp_metric_key p) \<and> length (dp_metric_key p) \<le> 120 \<and>
     list_all (\<lambda>d. d = Above \<or> d = Below) (dp_allowed_directions p) \<and>
     1 \<le> length (dp_allowed_directions p) \<and> length (dp_allowed_directions p) \<le> 2 \<and>
     dp_minimum_confidence p = Confidence_Medium \<and> dp_required_quality p = Sufficient \<and>
     1 \<le> dp_required_persistence p \<and> dp_required_persistence p \<le> 3 \<and>
     1 \<le> dp_maximum_lookback p \<and> dp_maximum_lookback p \<le> 3 \<and>
     dp_granularity p = ''daily'' \<and> dp_entity_scope p = ''site''"

definition policy_violation :: "deviation_policy \<Rightarrow> string option" where
  "policy_violation p =
     first_violation
       [(\<not> distinct (dp_allowed_directions p), ''deviation policy directions must be unique''),
        (dp_maximum_lookback p < dp_required_persistence p,
         ''deviation persistence cannot exceed its bounded lookback'')]"

section \<open>Deviation assessments\<close>

record deviation_assessment =
  da_assessment_id :: string
  da_input_digest :: string
  da_metric_key :: string
  da_tenant_id :: "string option"
  da_site_id :: string
  da_asset_id :: "string option"
  da_target_start :: instant
  da_target_end :: instant
  da_granularity :: string
  da_generated_at :: instant
  da_observation_cutoff :: instant
  da_signal_id :: string
  da_observation_digest :: string
  da_observed_value :: "rat option"
  da_observation_unit :: string
  da_observation_freshness :: signal_freshness
  da_observation_quality :: signal_quality
  da_observation_complete :: bool
  da_expectation_id :: string
  da_history_digest :: string
  da_expected :: "rat option"
  da_lower :: "rat option"
  da_upper :: "rat option"
  da_method :: expectation_method
  da_method_version :: string
  da_confidence :: expectation_confidence
  da_quality :: expectation_quality
  da_policy_id :: string
  da_policy_version :: string
  da_allowed_directions :: "deviation_direction list"
  da_required_persistence :: int
  da_direction :: deviation_direction
  da_distance :: "rat option"
  da_relative_change :: "pyfloat option"
  da_persistence :: int
  da_supporting_ids :: "string list"
  da_state :: assessment_state
  da_candidate :: bool
  da_reasons :: "deviation_reason list"
  da_authority :: string

definition assessment_fields :: "deviation_assessment \<Rightarrow> bool" where
  "assessment_fields a \<longleftrightarrow>
     matches_ASSESSMENT_ID (da_assessment_id a) \<and>
     matches_HISTORY_DIGEST (da_input_digest a) \<and>
     matches_METRIC_KEY (da_metric_key a) \<and> length (da_metric_key a) \<le> 120 \<and>
     optional_text 128 (da_tenant_id a) \<and>
     matches_SITE_ID (da_site_id a) \<and> text_between 1 128 (da_site_id a) \<and>
     optional_text 160 (da_asset_id a) \<and> da_granularity a = ''daily'' \<and>
     matches_SIGNAL_ID (da_signal_id a) \<and> matches_HISTORY_DIGEST (da_observation_digest a) \<and>
     optional_nonneg (da_observed_value a) \<and> text_between 1 40 (da_observation_unit a) \<and>
     matches_EXPECTATION_ID (da_expectation_id a) \<and> matches_HISTORY_DIGEST (da_history_digest a) \<and>
     optional_nonneg (da_expected a) \<and> optional_nonneg (da_lower a) \<and> optional_nonneg (da_upper a) \<and>
     text_between 1 32 (da_method_version a) \<and>
     matches_POLICY_ID (da_policy_id a) \<and> length (da_policy_id a) \<le> 160 \<and>
     matches_VERSION (da_policy_version a) \<and>
     list_all (\<lambda>d. d = Above \<or> d = Below) (da_allowed_directions a) \<and>
     1 \<le> length (da_allowed_directions a) \<and> length (da_allowed_directions a) \<le> 2 \<and>
     1 \<le> da_required_persistence a \<and> da_required_persistence a \<le> 3 \<and>
     optional_nonneg (da_distance a) \<and> optional_finite (da_relative_change a) \<and>
     0 \<le> da_persistence a \<and> da_persistence a \<le> 3 \<and>
     length (da_supporting_ids a) \<le> MAX_TEMPORAL_DEVIATION_SUPPORTING_ASSESSMENTS \<and>
     distinct (da_supporting_ids a) \<and> list_all matches_ASSESSMENT_ID (da_supporting_ids a) \<and>
     1 \<le> length (da_reasons a) \<and> length (da_reasons a) \<le> MAX_TEMPORAL_DEVIATION_REASON_CODES \<and>
     da_authority a = ''analytical-investigation-context-only''"

fun required_reason :: "assessment_state \<Rightarrow> deviation_reason option" where
  "required_reason Within_Range = Some Within_Expected_Range"
| "required_reason Outside_Policy = Some Direction_Not_Admitted"
| "required_reason Pending_Persistence = Some Persistence_Not_Met"
| "required_reason Candidate = Some Deviation_Candidate"
| "required_reason Blocked = None"

fun is_blocking :: "deviation_reason \<Rightarrow> bool" where
  "is_blocking Within_Expected_Range = False"
| "is_blocking Direction_Not_Admitted = False"
| "is_blocking Persistence_Not_Met = False"
| "is_blocking Deviation_Candidate = False"
| "is_blocking _ = True"

text \<open>Direction and distance of an observation against a range.\<close>

definition direction_of :: "rat \<Rightarrow> rat \<Rightarrow> rat \<Rightarrow> deviation_direction \<times> rat" where
  "direction_of observed lower upper =
     (if observed < lower then (Below, fsub lower observed)
      else if upper < observed then (Above, fsub observed upper)
      else (Inside, 0))"

text \<open>\<^verbatim>\<open>abs(observed - expected) / expected\<close>\<close>

definition relative_change_of :: "rat \<Rightarrow> rat \<Rightarrow> pyfloat" where
  "relative_change_of observed expected = to_float (\<bar>fsub observed expected\<bar> / expected)"

definition blocked_violation :: "deviation_assessment \<Rightarrow> string option" where
  "blocked_violation a =
     first_violation
       [(da_candidate a, ''a blocked assessment cannot be a candidate''),
        (da_direction a \<noteq> Direction_Unknown \<or> da_distance a \<noteq> None,
         ''a blocked assessment requires unknown direction and null distance''),
        (da_relative_change a \<noteq> None, ''a blocked assessment requires null relative change''),
        (da_persistence a \<noteq> 0 \<or> da_supporting_ids a \<noteq> [],
         ''a blocked assessment cannot claim persistence support'')]"

definition state_violation :: "deviation_assessment \<Rightarrow> string option" where
  "state_violation a =
     first_violation
       (case da_state a of
          Within_Range \<Rightarrow>
            [(da_direction a \<noteq> Inside \<or> da_candidate a,
              ''within-range assessments must be inside and non-candidates''),
             (da_persistence a \<noteq> 0 \<or> da_supporting_ids a \<noteq> [],
              ''within-range assessments cannot claim persistence'')]
        | Outside_Policy \<Rightarrow>
            [(da_direction a = Inside \<or> da_direction a \<in> set (da_allowed_directions a),
              ''outside-policy-direction must use a disallowed direction''),
             (da_candidate a \<or> da_persistence a \<noteq> 0,
              ''a disallowed direction cannot claim candidate persistence'')]
        | Pending_Persistence \<Rightarrow>
            [(da_direction a \<notin> set (da_allowed_directions a) \<or> da_candidate a,
              ''pending persistence requires an admitted non-candidate direction''),
             (\<not> (1 \<le> da_persistence a \<and> da_persistence a < da_required_persistence a),
              ''pending persistence count is inconsistent with policy'')]
        | Candidate \<Rightarrow>
            [(da_direction a \<notin> set (da_allowed_directions a) \<or> \<not> da_candidate a,
              ''candidate state requires an admitted candidate direction''),
             (da_persistence a \<noteq> da_required_persistence a,
              ''candidate persistence count must meet the policy exactly'')]
        | Blocked \<Rightarrow> [])"

definition evaluated_violation :: "deviation_assessment \<Rightarrow> string option" where
  "evaluated_violation a =
     (case (da_observed_value a, da_expected a, da_lower a, da_upper a) of
        (Some v, Some m, Some l, Some u) \<Rightarrow>
          (let (dir, dist) = direction_of v l u
           in case first_violation
                [(\<not> (l \<le> m \<and> m \<le> u), ''assessment range bounds must contain the expected value''),
                 (\<not> da_observation_complete a \<or> da_observation_freshness a \<noteq> Fresh_Current \<or>
                    da_observation_quality a \<noteq> Quality_Observed,
                  ''an evaluated assessment requires a trustworthy observation''),
                 (da_quality a \<noteq> Sufficient \<or>
                    (da_confidence a \<noteq> Confidence_Medium \<and> da_confidence a \<noteq> Confidence_High),
                  ''an evaluated assessment requires a trustworthy expectation''),
                 (da_direction a \<noteq> dir, ''assessment direction is inconsistent with its values''),
                 (da_distance a \<noteq> Some dist, ''assessment distance is inconsistent with its values''),
                 (m = 0 \<and> da_relative_change a \<noteq> None,
                  ''relative change must be null when expected is zero''),
                 (m \<noteq> 0 \<and> da_relative_change a \<noteq> Some (relative_change_of v m),
                  ''relative change is inconsistent with its values'')] of
                Some msg \<Rightarrow> Some msg
              | None \<Rightarrow>
                  (case state_violation a of
                     Some msg \<Rightarrow> Some msg
                   | None \<Rightarrow>
                       if int (length (da_supporting_ids a)) \<noteq> max 0 (da_persistence a - 1)
                       then Some ''supporting assessment count is inconsistent with persistence''
                       else None))
      | _ \<Rightarrow> Some ''an evaluated assessment requires observation and range values'')"

definition assessment_violation :: "deviation_assessment \<Rightarrow> string option" where
  "assessment_violation a =
     (let absent = [da_expected a = None, da_lower a = None, da_upper a = None]
      in case first_violation
           [(da_target_end a - da_target_start a \<noteq> days 1,
             ''deviation assessments must span exactly one UTC day''),
            (\<not> list_all at_midnight [da_target_start a, da_target_end a, da_observation_cutoff a],
             ''deviation boundaries must align to UTC midnight''),
            (da_observation_cutoff a \<noteq> da_target_end a,
             ''observation cutoff must equal the target bucket end''),
            (\<not> distinct (da_allowed_directions a), ''deviation assessment directions must be unique''),
            (\<not> distinct (da_reasons a), ''deviation reason codes must be unique''),
            (list_ex id absent \<and> \<not> list_all id absent,
             ''assessment expectation values must be all present or absent''),
            (case required_reason (da_state a) of None \<Rightarrow> False | Some r \<Rightarrow> r \<notin> set (da_reasons a),
             ''assessment state requires its matching reason code''),
            (da_state a = Blocked \<and> \<not> list_all is_blocking (da_reasons a),
             ''a blocked assessment contains a non-blocking reason''),
            (da_state a \<noteq> Blocked \<and> map Some (da_reasons a) \<noteq> [required_reason (da_state a)],
             ''an evaluated assessment requires one state reason'')] of
           Some msg \<Rightarrow> Some msg
         | None \<Rightarrow> if da_state a = Blocked then blocked_violation a else evaluated_violation a)"

definition TemporalDeviationAssessment :: "deviation_assessment \<Rightarrow> deviation_assessment temporal" where
  "TemporalDeviationAssessment a = checked (assessment_fields a) (assessment_violation a) a"

section \<open>Facts\<close>

lemma first_violation_None_iff [simp]:
  "first_violation [] = None"
  "first_violation ((b, m) # cs) = None \<longleftrightarrow> \<not> b \<and> first_violation cs = None"
  by (simp_all add: first_violation_def)

lemma first_violation_False [simp]: "first_violation ((False, m) # cs) = first_violation cs"
  by (simp add: first_violation_def)

lemma first_violation_None_iff_all: "first_violation cs = None \<longleftrightarrow> (\<forall>c \<in> set cs. \<not> fst c)"
  by (auto simp: first_violation_def find_None_iff)

lemma checked_Inr_iff [simp]:
  "checked valid violation x = Inr y \<longleftrightarrow> valid \<and> violation = None \<and> y = x"
  by (auto simp: checked_def split: option.splits)

lemma checked_errors: "checked valid violation x = Inl e \<Longrightarrow> \<exists>m. e = Contract_Error m"
  by (auto simp: checked_def split: if_splits option.splits)

lemma lift_py_Inr_iff [simp]: "lift_py r = Inr x \<longleftrightarrow> r = Inr x"
  by (simp add: lift_py_def split: sum.splits)

lemma add_time_Inr_iff:
  "add_time t d = Inr u \<longleftrightarrow> u = t + d \<and> min_instant \<le> t + d \<and> t + d \<le> max_instant"
  by (auto simp: add_time_def)

lemma matches_hex_digest_id: "matches_hex pre 32 (digest_id pre s)"
proof -
  have "list_all is_hex_lower (drop (length pre) (digest_id pre s))"
    by (auto simp: list_all_iff intro: digest_id_lower)
  then show ?thesis by (simp add: matches_hex_def) (simp add: digest_id_def)
qed

lemma matches_HISTORY_DIGEST_canonical:
  "canonical_digest v = Inr h \<Longrightarrow> matches_HISTORY_DIGEST h"
  using canonical_digest_shape [of v h] by (simp add: matches_HISTORY_DIGEST_def matches_hex_def)

end
