(* ===== verification/Temporal_Projection.thy ===== *)
theory Temporal_Projection
  imports Temporal_Contracts
begin

text \<open>
  temporal_projection.py: the projection of authoritative daily aggregates into signals, one per UTC
  day of the requested window.  The store is the parameter \<open>store\<close>, the protocol
  \<^verbatim>\<open>TemporalProjectionStore\<close>; Temporal_Store models the one of the repository.
\<close>

section \<open>Datetimes\<close>

text \<open>A datetime of the caller: its local time and, when it has a time zone, its offset.\<close>

type_synonym stamp = "instant \<times> timedelta option"

text \<open>A value that is already in UTC.\<close>

definition utc_stamp :: "instant \<Rightarrow> stamp" where
  "utc_stamp t = (t, Some 0)"

definition as_utc :: "stamp \<Rightarrow> instant temporal" where
  "as_utc v =
     (case snd v of
        None \<Rightarrow> Inl (Projection_Error ''timezone-required'')
      | Some offset \<Rightarrow> lift_py (astimezone_utc (fst v) offset))"

definition utc_daily_bucket :: "stamp \<Rightarrow> (instant \<times> instant) temporal" where
  "utc_daily_bucket v =
     bind_result (as_utc v) (\<lambda>observed.
     bind_result (add_time (midnight observed) (days 1)) (\<lambda>stop.
     Inr (midnight observed, stop)))"

section \<open>Aggregates\<close>

record aggregate =
  ag_value :: num_value
  ag_evidence_count :: int
  ag_observed_at :: "(instant \<times> timedelta) option"
  ag_received_at :: "(instant \<times> timedelta) option"
  ag_complete :: bool
  ag_coverage_observed :: bool

text \<open>\<^verbatim>\<open>ProjectionAggregate(...)\<close> with \<^verbatim>\<open>__post_init__\<close>: naive timestamps are refused.\<close>

definition zoned :: "stamp option \<Rightarrow> (instant \<times> timedelta) option temporal" where
  "zoned v =
     (case v of
        None \<Rightarrow> Inr None
      | Some (t, Some offset) \<Rightarrow> Inr (Some (t, offset))
      | Some (t, None) \<Rightarrow> Inl (Contract_Error ''temporal aggregate timestamps must include a timezone''))"

definition ProjectionAggregate ::
    "num_value \<Rightarrow> int \<Rightarrow> stamp option \<Rightarrow> stamp option \<Rightarrow> bool \<Rightarrow> bool \<Rightarrow> aggregate temporal" where
  "ProjectionAggregate v evidence observed received covered coverage =
     (if num_negative v \<or> evidence < 0
      then Inl (Contract_Error ''temporal aggregates cannot be negative'')
      else bind_result (zoned observed) (\<lambda>o'.
           bind_result (zoned received) (\<lambda>r'.
           Inr \<lparr> ag_value = v, ag_evidence_count = evidence, ag_observed_at = o',
                 ag_received_at = r', ag_complete = covered, ag_coverage_observed = coverage \<rparr>)))"

definition optional_utc :: "(instant \<times> timedelta) option \<Rightarrow> instant option temporal" where
  "optional_utc v =
     (case v of
        None \<Rightarrow> Inr None
      | Some (t, offset) \<Rightarrow> bind_result (lift_py (astimezone_utc t offset)) (\<lambda>u. Inr (Some u)))"

type_synonym projection_store =
  "metric_definition \<Rightarrow> string \<Rightarrow> instant \<Rightarrow> instant \<Rightarrow> instant option \<Rightarrow> (stamp \<times> aggregate) list temporal"

section \<open>Windows\<close>

definition validate_temporal_window ::
    "stamp \<Rightarrow> stamp \<Rightarrow> string \<Rightarrow> (instant \<times> instant \<times> int) temporal" where
  "validate_temporal_window start stop granularity =
     (if granularity \<noteq> ''daily'' then Inl (Projection_Error ''unsupported-granularity'')
      else bind_result (as_utc start) (\<lambda>s. bind_result (as_utc stop) (\<lambda>e.
        if \<not> at_midnight s \<or> \<not> at_midnight e then Inl (Projection_Error ''unaligned-window'')
        else if e \<le> s then Inl (Projection_Error ''invalid-window'')
        else let n = (e - s) div days 1
             in if n > MAX_TEMPORAL_HISTORY_DAYS \<or> n > MAX_TEMPORAL_BUCKETS
                then Inl (Projection_Error ''window-too-large'')
                else Inr (s, e, n))))"

text \<open>\<^verbatim>\<open>while cursor < end\<close>; the cursor grows by a day in every round.\<close>

declare bind_result_cong [fundef_cong]

function iter_daily_buckets :: "instant \<Rightarrow> instant \<Rightarrow> instant list temporal" where
  "iter_daily_buckets cursor stop =
     (if cursor < stop
      then bind_result (add_time cursor (days 1)) (\<lambda>c.
           bind_result (iter_daily_buckets c stop) (\<lambda>bs. Inr (cursor # bs)))
      else Inr [])"
  by pat_completeness auto
termination
  by (relation "measure (\<lambda>(c, e). nat (e - c))") (auto simp: add_time_Inr_iff days_def)

declare iter_daily_buckets.simps [simp del]

section \<open>Identity, freshness, backfill\<close>

text \<open>\<^verbatim>\<open>"\x1f".join(...)\<close>\<close>

definition unit_join :: "string list \<Rightarrow> string" where
  "unit_join = py_join [char_of (31 :: int)]"

definition temporal_signal_id ::
    "string \<Rightarrow> string \<Rightarrow> string option \<Rightarrow> instant \<Rightarrow> instant \<Rightarrow> string \<Rightarrow> string" where
  "temporal_signal_id metric_key site_id asset_id bucket_start bucket_end projection_version =
     digest_id ''sig_''
       (unit_join
         [TEMPORAL_SIGNAL_SCHEMA_VERSION, metric_key, site_id,
          (case asset_id of None \<Rightarrow> '''' | Some a \<Rightarrow> a),
          isoformat bucket_start, isoformat bucket_end, projection_version])"

definition freshness :: "metric_definition \<Rightarrow> instant \<Rightarrow> instant option \<Rightarrow> signal_freshness temporal" where
  "freshness metric bucket_end observed =
     (case observed of
        None \<Rightarrow> Inr Fresh_Unknown
      | Some t \<Rightarrow>
          bind_result (add_time bucket_end (- seconds (md_freshness_seconds metric))) (\<lambda>after.
          Inr (if t < after then Fresh_Stale else Fresh_Current)))"

definition backfill_of :: "instant \<Rightarrow> instant \<Rightarrow> instant option \<Rightarrow> backfill_state temporal" where
  "backfill_of bucket_end generated_at received =
     (if (case received of None \<Rightarrow> False | Some r \<Rightarrow> bucket_end < r) then Inr Late_Arriving
      else bind_result (utc_daily_bucket (utc_stamp generated_at)) (\<lambda>(start, _).
           Inr (if bucket_end \<le> start then Backfilled else Live)))"

section \<open>One signal\<close>

text \<open>A zero without evidence and without complete coverage is no value.\<close>

definition projected_value :: "metric_definition \<Rightarrow> aggregate \<Rightarrow> num_value option" where
  "projected_value metric a =
     (if num_is_zero (ag_value a) \<and> \<not> ag_complete a \<and> md_missing_differs_from_zero metric
         \<and> ag_evidence_count a = 0
      then None else Some (ag_value a))"

definition projected_quality ::
    "num_value option \<Rightarrow> bool \<Rightarrow> bool \<Rightarrow> signal_freshness \<Rightarrow> signal_quality" where
  "projected_quality v coverage covered fresh =
     (if v = None then (if coverage then Quality_Incomplete else Quality_Missing)
      else if \<not> covered then Quality_Incomplete
      else if fresh = Fresh_Stale then Quality_Stale else Quality_Observed)"

definition signal_record ::
    "metric_definition \<Rightarrow> string \<Rightarrow> instant \<Rightarrow> instant \<Rightarrow> instant \<Rightarrow> num_value option \<Rightarrow> int \<Rightarrow>
     instant option \<Rightarrow> instant option \<Rightarrow> signal_freshness \<Rightarrow> bool \<Rightarrow> signal_quality \<Rightarrow>
     backfill_state \<Rightarrow> temporal_signal" where
  "signal_record metric site_id bucket_start bucket_end generated_at v evidence observed received
     fresh covered quality backfill =
     \<lparr> sg_schema_version = TEMPORAL_SIGNAL_SCHEMA_VERSION,
       sg_signal_id = temporal_signal_id (md_metric_key metric) site_id None bucket_start bucket_end
         (md_projection_version metric),
       sg_metric_key = md_metric_key metric, sg_tenant_id = None, sg_site_id = site_id,
       sg_asset_id = None, sg_bucket_start = bucket_start, sg_bucket_end = bucket_end,
       sg_granularity = ''daily'', sg_value = v, sg_unit = md_unit metric,
       sg_evidence_count = evidence, sg_source = md_source_authority metric,
       sg_observed_at = observed, sg_received_at = received, sg_freshness = fresh,
       sg_complete = covered, sg_quality = quality, sg_backfill = backfill,
       sg_projection_version = md_projection_version metric, sg_generated_at = generated_at \<rparr>"

definition project_signal ::
    "metric_definition \<Rightarrow> string \<Rightarrow> instant \<Rightarrow> instant \<Rightarrow> aggregate option \<Rightarrow> instant \<Rightarrow>
     temporal_signal temporal" where
  "project_signal metric site_id bucket_start bucket_end agg generated_at =
     (case agg of
        None \<Rightarrow>
          bind_result (backfill_of bucket_end generated_at None) (\<lambda>backfill.
          TemporalSignal (signal_record metric site_id bucket_start bucket_end generated_at None 0
            None None Fresh_Unknown False Quality_Missing backfill))
      | Some a \<Rightarrow>
          bind_result (optional_utc (ag_observed_at a)) (\<lambda>observed.
          bind_result (optional_utc (ag_received_at a)) (\<lambda>received.
          bind_result (freshness metric bucket_end observed) (\<lambda>fresh.
          let v = projected_value metric a;
              covered = (ag_complete a \<and> v \<noteq> None);
              quality = projected_quality v (ag_coverage_observed a) covered fresh
          in bind_result (backfill_of bucket_end generated_at received) (\<lambda>backfill.
             TemporalSignal (signal_record metric site_id bucket_start bucket_end generated_at v
               (ag_evidence_count a) observed received fresh covered quality backfill))))))"

section \<open>Series\<close>

text \<open>The loop over the source buckets: buckets outside the window are skipped.\<close>

fun normalize_sources ::
    "instant \<Rightarrow> instant \<Rightarrow> (stamp \<times> aggregate) list \<Rightarrow> (instant, aggregate) odict \<Rightarrow>
     (instant, aggregate) odict temporal" where
  "normalize_sources start stop [] acc = Inr acc"
| "normalize_sources start stop ((bucket, a) # rest) acc =
     bind_result (as_utc bucket) (\<lambda>b.
       if \<not> (start \<le> b \<and> b < stop) then normalize_sources start stop rest acc
       else if b \<in> fst ` set acc then Inl (Projection_Error ''duplicate-source-bucket'')
       else normalize_sources start stop rest (acc @ [(b, a)]))"

definition project_day ::
    "metric_definition \<Rightarrow> string \<Rightarrow> (instant, aggregate) odict \<Rightarrow> instant \<Rightarrow> instant \<Rightarrow>
     temporal_signal temporal" where
  "project_day metric site_id sources generated_at bucket_start =
     bind_result (add_time bucket_start (days 1)) (\<lambda>bucket_end.
     project_signal metric site_id bucket_start bucket_end (map_of sources bucket_start) generated_at)"

definition series_record ::
    "metric_definition \<Rightarrow> string \<Rightarrow> instant \<Rightarrow> instant \<Rightarrow> instant \<Rightarrow> int \<Rightarrow> temporal_signal list \<Rightarrow>
     signal_series" where
  "series_record metric site_id start stop generated_at n signals =
     \<lparr> sr_metric = metric, sr_tenant_id = None, sr_site_id = site_id, sr_asset_id = None,
       sr_start = start, sr_end = stop, sr_granularity = ''daily'', sr_generated_at = generated_at,
       sr_bucket_count = n,
       sr_missing_count = count_signals (\<lambda>s. sg_quality s = Quality_Missing) signals,
       sr_incomplete_count = count_signals (\<lambda>s. \<not> sg_complete s) signals,
       sr_maximum_count = MAX_TEMPORAL_BUCKETS, sr_signals = signals \<rparr>"

definition optional_cutoff :: "stamp option \<Rightarrow> instant option temporal" where
  "optional_cutoff c =
     (case c of None \<Rightarrow> Inr None | Some v \<Rightarrow> bind_result (as_utc v) (\<lambda>t. Inr (Some t)))"

text \<open>From the normalised request to the response: the query, its buckets, one signal per day.\<close>

definition project_window ::
    "projection_store \<Rightarrow> metric_definition \<Rightarrow> string \<Rightarrow> instant \<Rightarrow> instant \<Rightarrow> int \<Rightarrow> instant option \<Rightarrow>
     instant \<Rightarrow> signal_series temporal" where
  "project_window store metric site_id start stop n cutoff generated_at =
     bind_result (store metric site_id start stop cutoff) (\<lambda>source_buckets.
     bind_result (normalize_sources start stop source_buckets []) (\<lambda>sources.
     bind_result (iter_daily_buckets start stop) (\<lambda>bs.
     bind_result (sequence_results (map (project_day metric site_id sources generated_at) bs))
       (\<lambda>signals.
     TemporalSignalSeriesResponse
       (series_record metric site_id start stop generated_at n signals)))))"

text \<open>\<^verbatim>\<open>TemporalProjectionService.series\<close>; \<open>generated_at\<close> is the argument or, without one, the clock.\<close>

definition series ::
    "projection_store \<Rightarrow> string \<Rightarrow> string \<Rightarrow> stamp \<Rightarrow> stamp \<Rightarrow> string \<Rightarrow> string option \<Rightarrow> stamp \<Rightarrow>
     stamp option \<Rightarrow> signal_series temporal" where
  "series store metric_key site_id start stop granularity asset_id generated_at knowledge_cutoff =
     (case temporal_metric metric_key of
        Inl _ \<Rightarrow> Inl (Projection_Error ''unknown-metric'')
      | Inr metric \<Rightarrow>
          if \<not> matches_SITE_ID site_id then Inl (Projection_Error ''invalid-site'')
          else if asset_id \<noteq> None \<and> \<not> md_supports_asset_scope metric
          then Inl (Projection_Error ''unsupported-scope'')
          else bind_result (validate_temporal_window start stop granularity) (\<lambda>(s, e, n).
               bind_result (as_utc generated_at) (\<lambda>now.
               bind_result (optional_cutoff knowledge_cutoff) (\<lambda>cutoff.
               if (case cutoff of None \<Rightarrow> False | Some c \<Rightarrow> c < e)
               then Inl (Projection_Error ''history-after-cutoff'')
               else bind_result (utc_daily_bucket (utc_stamp now)) (\<lambda>(_, maximum_end).
                    if maximum_end < e then Inl (Projection_Error ''future-window'')
                    else project_window store metric site_id s e n cutoff now)))))"

end
