(* ===== verification/Py_Decimal.thy ===== *)
theory Py_Decimal
  imports Py_Number
begin

text \<open>
  \<^verbatim>\<open>decimal.Decimal\<close> in the default context: 28 significant digits, ties to even, exponents down to
  -1000026.  A finite decimal is the rational it denotes.  Decimals beyond the largest exponent
  (999999) cannot be built from the integers and floats the code starts with.
\<close>

section \<open>Rounding to 28 digits\<close>

definition dec_ulp_exponent :: "rat \<Rightarrow> int" where
  "dec_ulp_exponent x = max (dec_exponent x - 27) (- 1000026)"

definition dec_pos :: "rat \<Rightarrow> rat" where
  "dec_pos x = (let e = dec_ulp_exponent x in of_int (round_half_even (x / pow10 e)) * pow10 e)"

definition dec28 :: "rat \<Rightarrow> rat" where
  "dec28 x = (if x = 0 then 0 else if 0 < x then dec_pos x else - dec_pos (- x))"

definition dec_add :: "rat \<Rightarrow> rat \<Rightarrow> rat" where
  "dec_add x y = dec28 (x + y)"

definition dec_sub :: "rat \<Rightarrow> rat \<Rightarrow> rat" where
  "dec_sub x y = dec28 (x - y)"

definition dec_mul :: "rat \<Rightarrow> rat \<Rightarrow> rat" where
  "dec_mul x y = dec28 (x * y)"

definition dec_div :: "rat \<Rightarrow> rat \<Rightarrow> rat" where
  "dec_div x y = dec28 (x / y)"

definition dec_abs :: "rat \<Rightarrow> rat" where
  "dec_abs x = dec28 \<bar>x\<bar>"

lemmas dec_op_defs = dec_add_def dec_sub_def dec_mul_def dec_div_def dec_abs_def

section \<open>Conversions\<close>

text \<open>
  \<^verbatim>\<open>x.quantize(Decimal("0.000001"), rounding=ROUND_HALF_UP)\<close>: ties away from zero; a result of more
  than 28 digits is an InvalidOperation, here \<open>None\<close>.
\<close>

definition round_half_up :: "rat \<Rightarrow> int" where
  "round_half_up x = (if 0 \<le> x then \<lfloor>x + 1 / 2\<rfloor> else - \<lfloor>- x + 1 / 2\<rfloor>)"

definition quantize6 :: "rat \<Rightarrow> rat option" where
  "quantize6 x =
     (let n = round_half_up (x * 1000000)
      in if 10 ^ 28 \<le> \<bar>n\<bar> then None else Some (of_int n / 1000000))"

text \<open>\<^verbatim>\<open>Decimal(repr(x))\<close> of a finite float: the shortest decimal that rounds to it.\<close>

definition shortest_decimal :: "rat \<Rightarrow> rat" where
  "shortest_decimal x = (let (m, e) = repr_digits 16 0 (dec_exponent x) x in of_int m * pow10 e)"

definition decimal_of_float :: "rat \<Rightarrow> rat" where
  "decimal_of_float x =
     (if x = 0 then 0 else if 0 < x then shortest_decimal x else - shortest_decimal (- x))"

section \<open>Laws\<close>

interpretation d28: radix 10 27 "- 1000026" pow10 dec_exponent dec_ulp_exponent dec_pos dec28
proof
  show "0 < x \<Longrightarrow> pow10 (dec_exponent x) \<le> x \<and> x < pow10 (dec_exponent x + 1)" for x
    by (rule dec_exponent_bounds)
qed (simp_all add: pow10_powi dec_ulp_exponent_def dec_pos_def dec28_def Let_def)

lemma dec28_ops [simp]:
  "dec28 (dec_add x y) = dec_add x y" "dec28 (dec_sub x y) = dec_sub x y"
  "dec28 (dec_mul x y) = dec_mul x y" "dec28 (dec_div x y) = dec_div x y"
  "dec28 (dec_abs x) = dec_abs x"
  by (simp_all add: dec_op_defs d28.rnd_idem)

lemma dec28_exact: "\<bar>m\<bar> < 10 ^ 28 \<Longrightarrow> - 1000026 \<le> e \<Longrightarrow> dec28 (of_int m * pow10 e) = of_int m * pow10 e"
  using d28.rnd_exact [of m e] by simp

lemma dec28_of_int: "\<bar>m\<bar> < 10 ^ 28 \<Longrightarrow> dec28 (of_int m) = of_int m"
  using dec28_exact [of m 0] by (simp add: pow10_def)

lemma round_half_up_mono: "x \<le> y \<Longrightarrow> round_half_up x \<le> round_half_up y"
proof (cases "0 \<le> x \<or> y < 0")
  case True
  assume "x \<le> y"
  with True show ?thesis by (auto simp: round_half_up_def intro: floor_mono)
next
  case False
  assume "x \<le> y"
  have "0 \<le> \<lfloor>- x + 1 / 2\<rfloor>" "0 \<le> \<lfloor>y + 1 / 2\<rfloor>" using False by auto
  then have "- \<lfloor>- x + 1 / 2\<rfloor> \<le> \<lfloor>y + 1 / 2\<rfloor>" by linarith
  with False show ?thesis unfolding round_half_up_def by auto
qed

lemma quantize6_mono:
  "x \<le> y \<Longrightarrow> quantize6 x = Some a \<Longrightarrow> quantize6 y = Some b \<Longrightarrow> a \<le> b"
  using round_half_up_mono [of "x * 1000000" "y * 1000000"]
  by (auto simp: quantize6_def Let_def divide_right_mono split: if_splits)

lemma round_half_up_zero: "round_half_up 0 = 0"
  by (simp add: round_half_up_def floor_eq_iff)

lemma quantize6_nonneg: "0 \<le> x \<Longrightarrow> quantize6 x = Some a \<Longrightarrow> 0 \<le> a"
  using round_half_up_mono [of 0 "x * 1000000"]
  by (auto simp: quantize6_def Let_def round_half_up_zero split: if_splits)

end
