(* ===== verification/Temporal_Expectation.thy ===== *)
theory Temporal_Expectation
  imports Temporal_Projection Py_Decimal
begin

text \<open>
  temporal_expectations.py: the expected range of a target day from the 56 days before it, as known
  at the start of the target day.  The projection is the parameter \<open>projection\<close>, the protocol
  \<^verbatim>\<open>ExpectationProjection\<close>, which the service obtains from \<open>series\<close>.
\<close>

section \<open>Constants and policies\<close>

definition ROLLING_SAMPLE_BUCKETS :: int where
  "ROLLING_SAMPLE_BUCKETS = 28"

definition MINIMUM_ROLLING_OBSERVATIONS :: nat where
  "MINIMUM_ROLLING_OBSERVATIONS = 7"

definition MINIMUM_SEASONAL_OBSERVATIONS :: nat where
  "MINIMUM_SEASONAL_OBSERVATIONS = 4"

definition ROBUST_MAD_SCALE :: rat where
  "ROBUST_MAD_SCALE = 14826 / 10000"

definition ROBUST_RANGE_MULTIPLIER :: rat where
  "ROBUST_RANGE_MULTIPLIER = 3"

datatype primary_method = Rolling | Seasonal

definition TEMPORAL_EXPECTATION_POLICIES :: "(string \<times> primary_method) list" where
  "TEMPORAL_EXPECTATION_POLICIES =
     [(''site.assets.new.count'', Rolling),
      (''site.collectors.active.count'', Seasonal),
      (''site.findings.new.count'', Rolling),
      (''site.vulnerabilities.new.count'', Rolling),
      (''site.inventory.collections.count'', Seasonal),
      (''site.inventory.asset_observations.count'', Seasonal)]"

type_synonym projection =
  "string \<Rightarrow> string \<Rightarrow> stamp \<Rightarrow> stamp \<Rightarrow> string \<Rightarrow> string option \<Rightarrow> stamp \<Rightarrow> stamp option \<Rightarrow>
   signal_series temporal"

section \<open>Canonical history\<close>

definition optional_pyval :: "('a \<Rightarrow> pyval) \<Rightarrow> 'a option \<Rightarrow> pyval" where
  "optional_pyval f x = (case x of None \<Rightarrow> PNone | Some y \<Rightarrow> f y)"

definition canonical_timestamp :: "instant \<Rightarrow> pyval" where
  "canonical_timestamp t = PStr (isoformat t)"

text \<open>The members of the digested object of one signal.\<close>

definition canonical_signal :: "temporal_signal \<Rightarrow> pyval" where
  "canonical_signal s =
     PDict
       [(''schema_version'', PStr (sg_schema_version s)),
        (''signal_id'', PStr (sg_signal_id s)),
        (''metric_key'', PStr (sg_metric_key s)),
        (''tenant_id'', optional_pyval PStr (sg_tenant_id s)),
        (''site_id'', PStr (sg_site_id s)),
        (''asset_id'', optional_pyval PStr (sg_asset_id s)),
        (''bucket_start'', canonical_timestamp (sg_bucket_start s)),
        (''bucket_end'', canonical_timestamp (sg_bucket_end s)),
        (''bucket_granularity'', PStr (sg_granularity s)),
        (''value'', optional_pyval num_pyval (sg_value s)),
        (''unit'', PStr (sg_unit s)),
        (''evidence_count'', PInt (sg_evidence_count s)),
        (''source'', PStr (sg_source s)),
        (''source_observed_at'', optional_pyval canonical_timestamp (sg_observed_at s)),
        (''source_received_at'', optional_pyval canonical_timestamp (sg_received_at s)),
        (''freshness'', PStr (freshness_text (sg_freshness s))),
        (''complete'', PBool (sg_complete s)),
        (''data_quality'', PStr (quality_text (sg_quality s))),
        (''backfill_state'', PStr (backfill_text (sg_backfill s))),
        (''projection_version'', PStr (sg_projection_version s))]"

definition temporal_history_digest :: "temporal_signal list \<Rightarrow> string temporal" where
  "temporal_history_digest signals =
     (if length signals \<noteq> TEMPORAL_EXPECTATION_HISTORY_BUCKETS
      then Inl (Contract_Error ''temporal history digest requires exactly 56 signals'')
      else lift_py (canonical_digest (PList (map canonical_signal
             (sort_key (\<lambda>s. (sg_bucket_start s, sg_bucket_end s, sg_signal_id s)) signals)))))"

definition temporal_expectation_id ::
    "string \<Rightarrow> string \<Rightarrow> instant \<Rightarrow> instant \<Rightarrow> instant \<Rightarrow> instant \<Rightarrow> expectation_method \<Rightarrow> string \<Rightarrow>
     string \<Rightarrow> string temporal" where
  "temporal_expectation_id metric_key site_id target_start target_end history_start history_end
     method projection_version history_digest =
     (if \<not> matches_HISTORY_DIGEST history_digest
      then Inl (Contract_Error ''history_digest must be a lowercase SHA-256 digest'')
      else Inr (digest_id ''exp_''
        (unit_join
          [TEMPORAL_EXPECTATION_SCHEMA_VERSION, metric_key, site_id, isoformat target_start,
           isoformat target_end, isoformat history_start, isoformat history_end, method_text method,
           TEMPORAL_EXPECTATION_METHOD_VERSION, projection_version, history_digest])))"

section \<open>The robust range\<close>

text \<open>The median of a list that is not empty.\<close>

definition median :: "rat list \<Rightarrow> rat" where
  "median ds =
     (let ordered = sort ds; m = length ordered div 2
      in if odd (length ordered) then ordered ! m
         else dec_div (dec_add (ordered ! (m - 1)) (ordered ! m)) 2)"

definition rounded :: "rat \<Rightarrow> rat temporal" where
  "rounded x =
     (case quantize6 x of
        None \<Rightarrow> Inl Invalid_Operation
      | Some q \<Rightarrow>
          (case to_float q of
             Finite y \<Rightarrow> Inr y
           | _ \<Rightarrow> Inl (Contract_Error ''robust expected range must produce finite values'')))"

text \<open>\<^verbatim>\<open>Decimal(str(value))\<close>; \<open>None\<close> is a decimal that is not finite.\<close>

fun decimal_of_num :: "num_value \<Rightarrow> rat option temporal" where
  "decimal_of_num (Int_Num i) = bind_result (lift_py (int_text i)) (\<lambda>_. Inr (Some (of_int i)))"
| "decimal_of_num (Float_Num (Finite x)) = Inr (Some (decimal_of_float x))"
| "decimal_of_num (Float_Num _) = Inr None"

text \<open>Center, lower and upper bound before the output rounding.\<close>

definition decimal_range :: "rat list \<Rightarrow> rat \<times> rat \<times> rat" where
  "decimal_range ds =
     (let center = median ds;
          deviation = median (map (\<lambda>d. dec_abs (dec_sub d center)) ds);
          half_width = dec_mul (dec_mul deviation ROBUST_MAD_SCALE) ROBUST_RANGE_MULTIPLIER
      in (center, max 0 (dec_sub center half_width), dec_add center half_width))"

definition robust_expected_range :: "num_value list \<Rightarrow> (rat \<times> rat \<times> rat) temporal" where
  "robust_expected_range vs =
     (if vs = [] then Inl (Contract_Error ''robust expected range requires at least one value'')
      else bind_result (sequence_results (map decimal_of_num vs)) (\<lambda>ds.
        if None \<in> set ds
        then Inl (Contract_Error ''robust expected range requires finite values'')
        else let (center, lower, upper) = decimal_range (map the ds)
             in bind_result (rounded center) (\<lambda>c.
                bind_result (rounded lower) (\<lambda>l.
                bind_result (rounded upper) (\<lambda>u.
                Inr (c, l, u))))))"

definition quality_and_confidence ::
    "nat \<Rightarrow> nat \<Rightarrow> expectation_method \<Rightarrow> expectation_quality \<times> expectation_confidence" where
  "quality_and_confidence usable sample method =
     (let coverage = fdiv (of_nat usable) (of_nat TEMPORAL_EXPECTATION_HISTORY_BUCKETS);
          strong = (if method = Seasonal_Robust then 8 else 14);
          medium = (if method = Seasonal_Robust then 6 else 10)
      in if fl (8 / 10) \<le> coverage \<and> strong \<le> sample then (Sufficient, Confidence_High)
         else if fl (1 / 2) \<le> coverage \<and> medium \<le> sample then (Sufficient, Confidence_Medium)
         else (Limited, Confidence_Low))"

section \<open>The service\<close>

definition usable_signals :: "temporal_signal list \<Rightarrow> temporal_signal list" where
  "usable_signals = filter (\<lambda>s. sg_quality s = Quality_Observed \<and> sg_value s \<noteq> None)"

definition method_sample ::
    "primary_method \<Rightarrow> temporal_signal list \<Rightarrow> instant \<Rightarrow>
     (expectation_method \<times> temporal_signal list) temporal" where
  "method_sample primary usable target =
     (let seasonal = filter (\<lambda>s. weekday (sg_bucket_start s) = weekday target) usable
      in if primary = Seasonal \<and> MINIMUM_SEASONAL_OBSERVATIONS \<le> length seasonal
         then Inr (Seasonal_Robust, seasonal)
         else bind_result (add_time target (- days ROLLING_SAMPLE_BUCKETS)) (\<lambda>cutoff.
              Inr (Rolling_Robust, filter (\<lambda>s. cutoff \<le> sg_bucket_start s) usable)))"

definition minimum_observations :: "expectation_method \<Rightarrow> nat" where
  "minimum_observations method =
     (if method = Seasonal_Robust then MINIMUM_SEASONAL_OBSERVATIONS
      else MINIMUM_ROLLING_OBSERVATIONS)"

text \<open>Expected, lower, upper, quality, confidence and blocking reason of a sample.\<close>

definition sample_range ::
    "nat \<Rightarrow> expectation_method \<Rightarrow> temporal_signal list \<Rightarrow>
     ((rat \<times> rat \<times> rat) option \<times> expectation_quality \<times> expectation_confidence \<times> string option) temporal" where
  "sample_range usable method sample =
     (if length sample < minimum_observations method
      then Inr (None, Insufficient, Confidence_None, Some ''insufficient-usable-history'')
      else bind_result (robust_expected_range (List.map_filter sg_value sample)) (\<lambda>bounds.
           let (quality, confidence) = quality_and_confidence usable (length sample) method
           in Inr (Some bounds, quality, confidence, None)))"

definition expectation_record ::
    "metric_definition \<Rightarrow> string \<Rightarrow> instant \<Rightarrow> instant \<Rightarrow> instant \<Rightarrow> instant \<Rightarrow> temporal_signal list \<Rightarrow>
     string \<Rightarrow> string \<Rightarrow> expectation_method \<Rightarrow> nat \<Rightarrow> (rat \<times> rat \<times> rat) option \<Rightarrow>
     expectation_quality \<Rightarrow> expectation_confidence \<Rightarrow> string option \<Rightarrow> temporal_expectation" where
  "expectation_record metric site_id target target_end history_start generated_at signals ident
     digest method sample_count bounds quality confidence reason =
     \<lparr> te_expectation_id = ident, te_history_digest = digest,
       te_metric_key = md_metric_key metric, te_tenant_id = None, te_site_id = site_id,
       te_asset_id = None, te_target_start = target, te_target_end = target_end,
       te_granularity = ''daily'', te_knowledge_cutoff = target, te_generated_at = generated_at,
       te_history_start = history_start, te_history_end = target,
       te_history_bucket_count = int TEMPORAL_EXPECTATION_HISTORY_BUCKETS,
       te_usable_count = count_signals (\<lambda>s. sg_quality s = Quality_Observed) signals,
       te_missing_count = count_signals (\<lambda>s. sg_quality s = Quality_Missing) signals,
       te_incomplete_count = count_signals (\<lambda>s. sg_quality s = Quality_Incomplete) signals,
       te_stale_count = count_signals (\<lambda>s. sg_quality s = Quality_Stale) signals,
       te_late_count = count_signals (\<lambda>s. sg_backfill s = Late_Arriving) signals,
       te_method = method, te_method_version = TEMPORAL_EXPECTATION_METHOD_VERSION,
       te_sample_count = int sample_count, te_horizon_buckets = 1,
       te_expected = map_option fst bounds, te_lower = map_option (fst \<circ> snd) bounds,
       te_upper = map_option (snd \<circ> snd) bounds, te_unit = md_unit metric,
       te_confidence = confidence, te_quality = quality, te_blocked_reason = reason,
       te_projection_version = md_projection_version metric,
       te_authority = ''analytical-context-only'' \<rparr>"

text \<open>From the history of a valid request to the expectation.\<close>

definition expectation_of_history ::
    "metric_definition \<Rightarrow> string \<Rightarrow> instant \<Rightarrow> instant \<Rightarrow> instant \<Rightarrow> temporal_signal list \<Rightarrow>
     temporal_expectation temporal" where
  "expectation_of_history metric site_id target history_start generated_at signals =
     bind_result (temporal_history_digest signals) (\<lambda>digest.
     case map_of TEMPORAL_EXPECTATION_POLICIES (md_metric_key metric) of
       None \<Rightarrow> Inl (Raised KeyError)
     | Some primary \<Rightarrow>
         let usable = usable_signals signals
         in bind_result (method_sample primary usable target) (\<lambda>(method, sample).
            bind_result (sample_range (length usable) method sample)
              (\<lambda>(bounds, quality, confidence, reason).
            bind_result (add_time target (days 1)) (\<lambda>target_end.
            bind_result (temporal_expectation_id (md_metric_key metric) site_id target target_end
                           history_start target method (md_projection_version metric) digest)
              (\<lambda>ident.
            TemporalExpectation
              (expectation_record metric site_id target target_end history_start generated_at
                 signals ident digest method (length sample) bounds quality confidence reason))))))"

definition expectation ::
    "projection \<Rightarrow> string \<Rightarrow> string \<Rightarrow> stamp \<Rightarrow> string \<Rightarrow> string option \<Rightarrow> stamp \<Rightarrow>
     temporal_expectation temporal" where
  "expectation projection metric_key site_id target_start granularity asset_id generated_at =
     (case temporal_metric metric_key of
        Inl _ \<Rightarrow> Inl (Projection_Error ''unknown-metric'')
      | Inr metric \<Rightarrow>
          if granularity \<noteq> ''daily'' then Inl (Projection_Error ''unsupported-granularity'')
          else bind_result (as_utc target_start) (\<lambda>target.
            if \<not> at_midnight target then Inl (Projection_Error ''unaligned-target'')
            else if asset_id \<noteq> None \<and> \<not> md_supports_asset_scope metric
            then Inl (Projection_Error ''unsupported-scope'')
            else bind_result (as_utc generated_at) (\<lambda>now.
              bind_result (utc_daily_bucket (utc_stamp now)) (\<lambda>(closed, _).
              if closed < target then Inl (Projection_Error ''future-target'')
              else bind_result (add_time target (- days (int TEMPORAL_EXPECTATION_HISTORY_BUCKETS)))
                (\<lambda>history_start.
                bind_result (projection metric_key site_id (utc_stamp history_start)
                    (utc_stamp target) ''daily'' asset_id (utc_stamp target)
                    (Some (utc_stamp target)))
                (\<lambda>history.
                if list_ex (\<lambda>s. target < sg_bucket_end s \<or> closed < sg_bucket_end s)
                     (sr_signals history)
                then Inl (Projection_Error ''open-history-bucket'')
                else expectation_of_history metric site_id target history_start now
                       (sr_signals history)))))))"

end
