(* ===== verification/Temporal_Deviation.thy ===== *)
theory Temporal_Deviation
  imports Temporal_Expectation
begin

text \<open>
  temporal_deviations.py: the assessment of one closed day against its expected range, with the
  persistence requirement of the metric's policy.  The two collaborators are the parameters
  \<open>projection\<close> and \<open>expectations\<close>, the protocols \<^verbatim>\<open>DeviationProjection\<close> and \<^verbatim>\<open>DeviationExpectation\<close>.
\<close>

section \<open>Policies\<close>

definition TEMPORAL_DEVIATION_POLICIES :: "(string \<times> deviation_policy) list" where
  "TEMPORAL_DEVIATION_POLICIES =
     [(''site.assets.new.count'',
        \<lparr> dp_policy_id = ''tdp_site_assets_new'', dp_policy_version = TEMPORAL_DEVIATION_POLICY_VERSION,
          dp_metric_key = ''site.assets.new.count'', dp_allowed_directions = [Above],
          dp_minimum_confidence = Confidence_Medium, dp_required_quality = Sufficient,
          dp_required_persistence = 1, dp_maximum_lookback = 1, dp_granularity = ''daily'',
          dp_entity_scope = ''site'' \<rparr>),
      (''site.collectors.active.count'',
        \<lparr> dp_policy_id = ''tdp_site_collectors_active'', dp_policy_version = TEMPORAL_DEVIATION_POLICY_VERSION,
          dp_metric_key = ''site.collectors.active.count'', dp_allowed_directions = [Below],
          dp_minimum_confidence = Confidence_Medium, dp_required_quality = Sufficient,
          dp_required_persistence = 1, dp_maximum_lookback = 1, dp_granularity = ''daily'',
          dp_entity_scope = ''site'' \<rparr>),
      (''site.findings.new.count'',
        \<lparr> dp_policy_id = ''tdp_site_findings_new'', dp_policy_version = TEMPORAL_DEVIATION_POLICY_VERSION,
          dp_metric_key = ''site.findings.new.count'', dp_allowed_directions = [Above],
          dp_minimum_confidence = Confidence_Medium, dp_required_quality = Sufficient,
          dp_required_persistence = 1, dp_maximum_lookback = 1, dp_granularity = ''daily'',
          dp_entity_scope = ''site'' \<rparr>),
      (''site.vulnerabilities.new.count'',
        \<lparr> dp_policy_id = ''tdp_site_vulnerabilities_new'', dp_policy_version = TEMPORAL_DEVIATION_POLICY_VERSION,
          dp_metric_key = ''site.vulnerabilities.new.count'', dp_allowed_directions = [Above],
          dp_minimum_confidence = Confidence_Medium, dp_required_quality = Sufficient,
          dp_required_persistence = 1, dp_maximum_lookback = 1, dp_granularity = ''daily'',
          dp_entity_scope = ''site'' \<rparr>),
      (''site.inventory.collections.count'',
        \<lparr> dp_policy_id = ''tdp_site_inventory_collections'', dp_policy_version = TEMPORAL_DEVIATION_POLICY_VERSION,
          dp_metric_key = ''site.inventory.collections.count'', dp_allowed_directions = [Above, Below],
          dp_minimum_confidence = Confidence_Medium, dp_required_quality = Sufficient,
          dp_required_persistence = 2, dp_maximum_lookback = 2, dp_granularity = ''daily'',
          dp_entity_scope = ''site'' \<rparr>),
      (''site.inventory.asset_observations.count'',
        \<lparr> dp_policy_id = ''tdp_site_inventory_asset_observations'', dp_policy_version = TEMPORAL_DEVIATION_POLICY_VERSION,
          dp_metric_key = ''site.inventory.asset_observations.count'', dp_allowed_directions = [Above, Below],
          dp_minimum_confidence = Confidence_Medium, dp_required_quality = Sufficient,
          dp_required_persistence = 2, dp_maximum_lookback = 2, dp_granularity = ''daily'',
          dp_entity_scope = ''site'' \<rparr>)]"

definition temporal_deviation_policy :: "string \<Rightarrow> deviation_policy temporal" where
  "temporal_deviation_policy key =
     (case map_of TEMPORAL_DEVIATION_POLICIES key of
        Some p \<Rightarrow> Inr p
      | None \<Rightarrow> Inl (Projection_Error ''unknown-metric''))"

type_synonym expectation_source =
  "string \<Rightarrow> string \<Rightarrow> stamp \<Rightarrow> string \<Rightarrow> string option \<Rightarrow> stamp \<Rightarrow> temporal_expectation temporal"

section \<open>Digests and identity\<close>

definition temporal_observation_digest :: "temporal_signal \<Rightarrow> string temporal" where
  "temporal_observation_digest s = lift_py (canonical_digest (canonical_signal s))"

definition float_pyval :: "rat \<Rightarrow> pyval" where
  "float_pyval x = PFloat (Finite x)"

definition assessment_payload ::
    "string \<Rightarrow> temporal_expectation \<Rightarrow> deviation_policy \<Rightarrow> string list \<Rightarrow> pyval" where
  "assessment_payload observation_digest x p supporting =
     PDict
       [(''schema_version'', PStr TEMPORAL_DEVIATION_ASSESSMENT_SCHEMA_VERSION),
        (''observation_digest'', PStr observation_digest),
        (''expectation'', PDict
           [(''expectation_id'', PStr (te_expectation_id x)),
            (''history_digest'', PStr (te_history_digest x)),
            (''expected'', optional_pyval float_pyval (te_expected x)),
            (''lower'', optional_pyval float_pyval (te_lower x)),
            (''upper'', optional_pyval float_pyval (te_upper x)),
            (''method'', PStr (method_text (te_method x))),
            (''method_version'', PStr (te_method_version x)),
            (''confidence'', PStr (confidence_text (te_confidence x))),
            (''data_quality'', PStr (expectation_quality_text (te_quality x)))]),
        (''policy'', PDict
           [(''policy_id'', PStr (dp_policy_id p)),
            (''policy_version'', PStr (dp_policy_version p)),
            (''allowed_directions'',
               PList (map (\<lambda>d. PStr (direction_text d)) (dp_allowed_directions p))),
            (''minimum_expectation_confidence'', PStr (confidence_text (dp_minimum_confidence p))),
            (''required_expectation_data_quality'',
               PStr (expectation_quality_text (dp_required_quality p))),
            (''required_persistence_buckets'', PInt (dp_required_persistence p)),
            (''maximum_persistence_lookback'', PInt (dp_maximum_lookback p)),
            (''supported_granularity'', PStr (dp_granularity p)),
            (''entity_scope'', PStr (dp_entity_scope p))]),
        (''supporting_assessment_ids'', PList (map PStr supporting))]"

definition temporal_assessment_input_digest ::
    "string \<Rightarrow> temporal_expectation \<Rightarrow> deviation_policy \<Rightarrow> string list \<Rightarrow> string temporal" where
  "temporal_assessment_input_digest observation_digest x p supporting =
     (if \<not> matches_HISTORY_DIGEST observation_digest
      then Inl (Contract_Error ''observation_digest must be a lowercase SHA-256 digest'')
      else if \<not> list_all matches_ASSESSMENT_ID supporting
      then Inl (Contract_Error ''supporting assessment identifier is invalid'')
      else lift_py (canonical_digest (assessment_payload observation_digest x p supporting)))"

definition temporal_deviation_assessment_id ::
    "string \<Rightarrow> string \<Rightarrow> string \<Rightarrow> instant \<Rightarrow> instant \<Rightarrow> string \<Rightarrow> string temporal" where
  "temporal_deviation_assessment_id input_digest metric_key site_id target_start target_end
     policy_version =
     (if \<not> matches_HISTORY_DIGEST input_digest
      then Inl (Contract_Error ''input_digest must be a lowercase SHA-256 digest'')
      else Inr (digest_id ''tda_''
        (unit_join
          [TEMPORAL_DEVIATION_ASSESSMENT_SCHEMA_VERSION, input_digest, metric_key, site_id,
           isoformat target_start, isoformat target_end, policy_version])))"

fun confidence_rank :: "expectation_confidence \<Rightarrow> nat" where
  "confidence_rank Confidence_None = 0"
| "confidence_rank Confidence_Low = 1"
| "confidence_rank Confidence_Medium = 2"
| "confidence_rank Confidence_High = 3"

definition confidence_meets_policy :: "expectation_confidence \<Rightarrow> expectation_confidence \<Rightarrow> bool" where
  "confidence_meets_policy c minimum \<longleftrightarrow> confidence_rank minimum \<le> confidence_rank c"

section \<open>Requests and inputs\<close>

definition validate_request ::
    "stamp \<Rightarrow> string \<Rightarrow> string option \<Rightarrow> bool \<Rightarrow> stamp \<Rightarrow> (instant \<times> instant) temporal" where
  "validate_request target_start granularity asset_id supports_asset_scope generated_at =
     (if granularity \<noteq> ''daily'' then Inl (Projection_Error ''unsupported-granularity'')
      else if asset_id \<noteq> None \<and> \<not> supports_asset_scope
      then Inl (Projection_Error ''unsupported-scope'')
      else bind_result (as_utc target_start) (\<lambda>target.
        if \<not> at_midnight target then Inl (Projection_Error ''unaligned-target'')
        else bind_result (as_utc generated_at) (\<lambda>now.
          bind_result (utc_daily_bucket (utc_stamp now)) (\<lambda>(today, _).
          if today \<le> target then Inl (Projection_Error ''open-or-future-target'')
          else Inr (target, now)))))"

definition validate_provenance ::
    "temporal_signal \<Rightarrow> temporal_expectation \<Rightarrow> string \<Rightarrow> string \<Rightarrow> string option \<Rightarrow> instant \<Rightarrow> instant \<Rightarrow>
     unit temporal" where
  "validate_provenance s x metric_key site_id asset_id target_start target_end =
     (if sg_metric_key s \<noteq> metric_key \<or> sg_site_id s \<noteq> site_id \<or> sg_asset_id s \<noteq> asset_id
         \<or> sg_bucket_start s \<noteq> target_start \<or> sg_bucket_end s \<noteq> target_end
         \<or> sg_granularity s \<noteq> ''daily''
      then Inl (Projection_Error ''observation-provenance-mismatch'')
      else if sg_signal_id s \<noteq> temporal_signal_id metric_key site_id asset_id target_start
                target_end (sg_projection_version s)
      then Inl (Projection_Error ''invalid-observation-identity'')
      else if te_metric_key x \<noteq> metric_key \<or> te_site_id x \<noteq> site_id \<or> te_asset_id x \<noteq> asset_id
         \<or> te_tenant_id x \<noteq> sg_tenant_id s \<or> te_target_start x \<noteq> target_start
         \<or> te_target_end x \<noteq> target_end \<or> te_granularity x \<noteq> sg_granularity s
         \<or> te_unit x \<noteq> sg_unit s \<or> te_projection_version x \<noteq> sg_projection_version s
         \<or> te_knowledge_cutoff x \<noteq> target_start \<or> te_authority x \<noteq> ''analytical-context-only''
      then Inl (Projection_Error ''expectation-provenance-mismatch'')
      else bind_result
        (temporal_expectation_id (te_metric_key x) (te_site_id x) (te_target_start x)
           (te_target_end x) (te_history_start x) (te_history_end x) (te_method x)
           (te_projection_version x) (te_history_digest x))
        (\<lambda>ident.
        if te_expectation_id x \<noteq> ident
        then Inl (Projection_Error ''invalid-expectation-identity'') else Inr ()))"

definition load_inputs ::
    "projection \<Rightarrow> expectation_source \<Rightarrow> string \<Rightarrow> string \<Rightarrow> instant \<Rightarrow> string option \<Rightarrow> instant \<Rightarrow>
     (temporal_signal \<times> temporal_expectation) temporal" where
  "load_inputs projection expectations metric_key site_id target_start asset_id generated_at =
     bind_result (add_time target_start (days 1)) (\<lambda>target_end.
     bind_result (projection metric_key site_id (utc_stamp target_start) (utc_stamp target_end)
         ''daily'' asset_id (utc_stamp target_end) (Some (utc_stamp target_end))) (\<lambda>r.
     if sr_bucket_count r \<noteq> 1 \<or> length (sr_signals r) \<noteq> 1
     then Inl (Projection_Error ''invalid-observation-projection'')
     else let observation = hd (sr_signals r)
          in bind_result (expectations metric_key site_id (utc_stamp target_start) ''daily'' asset_id
               (utc_stamp generated_at)) (\<lambda>x.
             bind_result (validate_provenance observation x metric_key site_id asset_id
               target_start target_end) (\<lambda>_.
             Inr (observation, x)))))"

section \<open>Building an assessment\<close>

text \<open>The loop that checks the supporting assessments, from the oldest day on.\<close>

fun supports_aligned ::
    "temporal_signal \<Rightarrow> deviation_policy \<Rightarrow> instant \<Rightarrow> deviation_assessment list \<Rightarrow> unit temporal" where
  "supports_aligned s p expected_start [] = Inr ()"
| "supports_aligned s p expected_start (a # rest) =
     bind_result (add_time expected_start (days 1)) (\<lambda>expected_end.
       if da_metric_key a \<noteq> sg_metric_key s \<or> da_site_id a \<noteq> sg_site_id s
          \<or> da_asset_id a \<noteq> sg_asset_id s \<or> da_policy_id a \<noteq> dp_policy_id p
          \<or> da_policy_version a \<noteq> dp_policy_version p \<or> da_target_start a \<noteq> expected_start
          \<or> da_target_end a \<noteq> expected_end
          \<or> (da_state a \<noteq> Pending_Persistence \<and> da_state a \<noteq> Candidate)
       then Inl (Projection_Error ''invalid-persistence-support'')
       else supports_aligned s p expected_end rest)"

definition blocking_reasons ::
    "temporal_signal \<Rightarrow> temporal_expectation \<Rightarrow> deviation_policy \<Rightarrow> deviation_reason list" where
  "blocking_reasons s x p =
     (if sg_value s = None then [Observation_Unavailable] else []) @
     (if \<not> sg_complete s then [Observation_Incomplete] else []) @
     (if sg_freshness s = Fresh_Stale then [Observation_Stale] else []) @
     (if sg_quality s \<noteq> Quality_Observed then [Observation_Untrusted] else []) @
     (if te_expected x = None \<or> te_lower x = None \<or> te_upper x = None
      then [Expectation_Range_Unavailable] else []) @
     (if te_quality x \<noteq> dp_required_quality p then [Expectation_Quality_Low] else []) @
     (if \<not> confidence_meets_policy (te_confidence x) (dp_minimum_confidence p)
      then [Expectation_Confidence_Low] else [])"

text \<open>What an assessment concludes: the fields that are computed, not copied from the inputs.\<close>

record verdict =
  vd_state :: assessment_state
  vd_direction :: deviation_direction
  vd_distance :: "rat option"
  vd_relative :: "pyfloat option"
  vd_persistence :: int
  vd_candidate :: bool
  vd_reasons :: "deviation_reason list"
  vd_supporting :: "deviation_assessment list"

definition evaluate ::
    "rat \<Rightarrow> rat \<Rightarrow> rat \<Rightarrow> rat \<Rightarrow> deviation_policy \<Rightarrow> deviation_assessment list \<Rightarrow> verdict temporal" where
  "evaluate observed expected lower upper p supporting =
     (let (direction, distance) = direction_of observed lower upper;
          relative = (if 0 < expected then Some (relative_change_of observed expected) else None)
      in if direction = Inside
         then Inr \<lparr> vd_state = Within_Range, vd_direction = direction, vd_distance = Some distance,
                    vd_relative = relative, vd_persistence = 0, vd_candidate = False,
                    vd_reasons = [Within_Expected_Range], vd_supporting = [] \<rparr>
         else if direction \<notin> set (dp_allowed_directions p)
         then Inr \<lparr> vd_state = Outside_Policy, vd_direction = direction, vd_distance = Some distance,
                    vd_relative = relative, vd_persistence = 0, vd_candidate = False,
                    vd_reasons = [Direction_Not_Admitted], vd_supporting = [] \<rparr>
         else if list_ex (\<lambda>a. da_direction a \<noteq> direction) supporting
         then Inl (Projection_Error ''invalid-persistence-direction'')
         else let persistence = 1 + int (length supporting);
                  candidate = dp_required_persistence p \<le> persistence
              in Inr \<lparr> vd_state = (if candidate then Candidate else Pending_Persistence),
                       vd_direction = direction, vd_distance = Some distance, vd_relative = relative,
                       vd_persistence = persistence, vd_candidate = candidate,
                       vd_reasons = [if candidate then Deviation_Candidate else Persistence_Not_Met],
                       vd_supporting = supporting \<rparr>)"

definition verdict_of ::
    "temporal_signal \<Rightarrow> temporal_expectation \<Rightarrow> deviation_policy \<Rightarrow> deviation_assessment list \<Rightarrow>
     verdict temporal" where
  "verdict_of s x p supporting =
     (case (blocking_reasons s x p, sg_value s, te_expected x, te_lower x, te_upper x) of
        ([], Some v, Some expected, Some lower, Some upper) \<Rightarrow>
          bind_result (float_of_num v) (\<lambda>observed. evaluate observed expected lower upper p supporting)
      | (reasons, _) \<Rightarrow>
          Inr \<lparr> vd_state = Blocked, vd_direction = Direction_Unknown, vd_distance = None,
                vd_relative = None, vd_persistence = 0, vd_candidate = False,
                vd_reasons = reasons, vd_supporting = [] \<rparr>)"

definition observed_float :: "temporal_signal \<Rightarrow> rat option temporal" where
  "observed_float s =
     (case sg_value s of
        None \<Rightarrow> Inr None
      | Some v \<Rightarrow> bind_result (float_of_num v) (\<lambda>x. Inr (Some x)))"

definition assessment_record ::
    "temporal_signal \<Rightarrow> temporal_expectation \<Rightarrow> deviation_policy \<Rightarrow> instant \<Rightarrow> verdict \<Rightarrow> string \<Rightarrow>
     string \<Rightarrow> string \<Rightarrow> rat option \<Rightarrow> deviation_assessment" where
  "assessment_record s x p generated_at v observation_digest input_digest ident observed =
     \<lparr> da_assessment_id = ident, da_input_digest = input_digest,
       da_metric_key = sg_metric_key s, da_tenant_id = sg_tenant_id s, da_site_id = sg_site_id s,
       da_asset_id = sg_asset_id s, da_target_start = sg_bucket_start s,
       da_target_end = sg_bucket_end s, da_granularity = sg_granularity s,
       da_generated_at = generated_at, da_observation_cutoff = sg_bucket_end s,
       da_signal_id = sg_signal_id s, da_observation_digest = observation_digest,
       da_observed_value = observed, da_observation_unit = sg_unit s,
       da_observation_freshness = sg_freshness s, da_observation_quality = sg_quality s,
       da_observation_complete = sg_complete s, da_expectation_id = te_expectation_id x,
       da_history_digest = te_history_digest x, da_expected = te_expected x,
       da_lower = te_lower x, da_upper = te_upper x, da_method = te_method x,
       da_method_version = te_method_version x, da_confidence = te_confidence x,
       da_quality = te_quality x, da_policy_id = dp_policy_id p,
       da_policy_version = dp_policy_version p, da_allowed_directions = dp_allowed_directions p,
       da_required_persistence = dp_required_persistence p, da_direction = vd_direction v,
       da_distance = vd_distance v, da_relative_change = vd_relative v,
       da_persistence = vd_persistence v,
       da_supporting_ids = map da_assessment_id (vd_supporting v), da_state = vd_state v,
       da_candidate = vd_candidate v, da_reasons = vd_reasons v,
       da_authority = ''analytical-investigation-context-only'' \<rparr>"

definition build_assessment ::
    "temporal_signal \<times> temporal_expectation \<Rightarrow> deviation_policy \<Rightarrow> instant \<Rightarrow>
     deviation_assessment list \<Rightarrow> deviation_assessment temporal" where
  "build_assessment inputs p generated_at supporting =
     (let (s, x) = inputs;
          ordered = sort_key (\<lambda>a. (da_target_start a, da_target_end a, da_assessment_id a)) supporting
      in if dp_required_persistence p - 1 < int (length ordered)
         then Inl (Projection_Error ''unbounded-persistence-support'')
         else bind_result (add_time (sg_bucket_start s) (- days (int (length ordered)))) (\<lambda>first.
              bind_result (supports_aligned s p first ordered) (\<lambda>_.
              bind_result (verdict_of s x p ordered) (\<lambda>v.
              bind_result (temporal_observation_digest s) (\<lambda>observation_digest.
              bind_result (temporal_assessment_input_digest observation_digest x p
                             (map da_assessment_id (vd_supporting v))) (\<lambda>input_digest.
              bind_result (temporal_deviation_assessment_id input_digest (sg_metric_key s)
                             (sg_site_id s) (sg_bucket_start s) (sg_bucket_end s)
                             (dp_policy_version p)) (\<lambda>ident.
              bind_result (observed_float s) (\<lambda>observed.
              TemporalDeviationAssessment
                (assessment_record s x p generated_at v observation_digest input_digest ident
                   observed)))))))))"

section \<open>The service\<close>

text \<open>The loop over the prior days, most recent first, until one does not support the deviation.\<close>

fun prior_support ::
    "(instant \<Rightarrow> (temporal_signal \<times> temporal_expectation) temporal) \<Rightarrow> deviation_policy \<Rightarrow> instant \<Rightarrow>
     instant \<Rightarrow> deviation_direction \<Rightarrow> int list \<Rightarrow> deviation_assessment list temporal" where
  "prior_support load p target generated_at direction [] = Inr []"
| "prior_support load p target generated_at direction (offset # offsets) =
     bind_result (add_time target (- days offset)) (\<lambda>prior_target.
     bind_result (load prior_target) (\<lambda>inputs.
     bind_result (build_assessment inputs p generated_at []) (\<lambda>prior.
     if (da_state prior \<noteq> Pending_Persistence \<and> da_state prior \<noteq> Candidate)
        \<or> da_direction prior \<noteq> direction
     then Inr []
     else bind_result (prior_support load p target generated_at direction offsets) (\<lambda>rest.
          Inr (prior # rest)))))"

definition assess_with_persistence ::
    "(instant \<Rightarrow> (temporal_signal \<times> temporal_expectation) temporal) \<Rightarrow> deviation_policy \<Rightarrow> instant \<Rightarrow>
     instant \<Rightarrow> deviation_assessment temporal" where
  "assess_with_persistence load p target now =
     bind_result (load target) (\<lambda>current_inputs.
     bind_result (build_assessment current_inputs p now []) (\<lambda>current.
     if da_state current \<noteq> Pending_Persistence then Inr current
     else if dp_maximum_lookback p < dp_required_persistence p
     then Inl (Projection_Error ''invalid-deviation-policy'')
     else bind_result (prior_support load p target now (da_direction current)
                         [1..dp_required_persistence p - 1]) (\<lambda>supporting.
          build_assessment current_inputs p now (rev supporting))))"

definition assessment ::
    "projection \<Rightarrow> expectation_source \<Rightarrow> string \<Rightarrow> string \<Rightarrow> stamp \<Rightarrow> string \<Rightarrow> string option \<Rightarrow> stamp \<Rightarrow>
     deviation_assessment temporal" where
  "assessment projection expectations metric_key site_id target_start granularity asset_id
     generated_at =
     bind_result (temporal_metric metric_key) (\<lambda>metric.
     bind_result (temporal_deviation_policy metric_key) (\<lambda>p.
     bind_result (validate_request target_start granularity asset_id
                    (md_supports_asset_scope metric) generated_at) (\<lambda>(target, now).
     assess_with_persistence (\<lambda>t. load_inputs projection expectations metric_key site_id t asset_id now) p target now)))"

text \<open>\<^verbatim>\<open>TemporalDeviationService.from_projection_store(store=store)\<close>\<close>

definition deviation_service ::
    "projection_store \<Rightarrow> string \<Rightarrow> string \<Rightarrow> stamp \<Rightarrow> string \<Rightarrow> string option \<Rightarrow> stamp \<Rightarrow>
     deviation_assessment temporal" where
  "deviation_service store = assessment (series store) (expectation (series store))"

end
