(* ===== verification/Temporal_Store.thy ===== *)
theory Temporal_Store
  imports Temporal_Projection
begin

text \<open>
  temporal_store.py: the SQL store of the projection.  A table is a list of rows with the columns
  the queries read (\<open>None\<close> is \<^verbatim>\<open>NULL\<close>, in nullable columns), and each query is its meaning: the rows
  its \<^verbatim>\<open>WHERE\<close> clause admits, grouped by UTC day, one row per group in the order of the days.  The
  as-of variant of a query adds \<^verbatim>\<open>... < :knowledge_cutoff\<close> to every \<^verbatim>\<open>WHERE\<close> clause.
\<close>

section \<open>Tables\<close>

record asset_row =
  ar_site_id :: string
  ar_asset_id :: string
  ar_first_seen_at :: instant
  ar_created_at :: instant

record collection_row =
  co_collection_id :: string
  co_site_id :: string
  co_observed_at :: instant
  co_ingested_at :: instant
  co_asset_count :: int

record checkin_row =
  ck_site_id :: string
  ck_agent_id :: "string option"
  ck_checked_in_at :: "instant option"
  ck_received_at :: instant

record finding_row =
  fr_site_id :: string
  fr_finding_id :: string
  fr_first_seen_at :: instant
  fr_created_at :: instant

record match_row =
  mr_site_id :: string
  mr_match_id :: string
  mr_first_matched_at :: "instant option"
  mr_created_at :: instant

text \<open>
  A row of finding_evaluation_runs or vulnerability_evaluation_runs; \<open>er_scoped\<close> says that one of the
  columns that narrow the scope within a site is not null.
\<close>

record evaluation_row =
  er_scope_site_id :: "string option"
  er_scoped :: bool
  er_status :: string
  er_started_at :: instant
  er_completed_at :: "instant option"
  er_data_as_of :: "instant option"

record database =
  db_sites :: "string list"
  db_assets :: "asset_row list"
  db_collections :: "collection_row list"
  db_checkins :: "checkin_row list"
  db_enrollments :: "(string \<times> string) list"
  db_findings :: "finding_row list"
  db_finding_runs :: "evaluation_row list"
  db_matches :: "match_row list"
  db_vulnerability_runs :: "evaluation_row list"

section \<open>Grouping by day\<close>

text \<open>A row of a query's result.\<close>

record sql_bucket =
  sb_bucket_start :: instant
  sb_value :: int
  sb_evidence_count :: int
  sb_observed_at :: "instant option"
  sb_received_at :: "instant option"
  sb_complete :: bool
  sb_coverage :: bool

definition known_by :: "instant option \<Rightarrow> instant \<Rightarrow> bool" where
  "known_by cutoff t = (case cutoff of None \<Rightarrow> True | Some c \<Rightarrow> t < c)"

definition in_window :: "instant \<Rightarrow> instant \<Rightarrow> instant \<Rightarrow> bool" where
  "in_window start stop t \<longleftrightarrow> start \<le> t \<and> t < stop"

definition sorted_days :: "instant list \<Rightarrow> instant list" where
  "sorted_days ts = sort (remdups (map midnight ts))"

definition on_day :: "('a \<Rightarrow> instant) \<Rightarrow> 'a list \<Rightarrow> instant \<Rightarrow> 'a list" where
  "on_day t rows b = filter (\<lambda>r. midnight (t r) = b) rows"

definition sql_max :: "instant list \<Rightarrow> instant option" where
  "sql_max ts = (case ts of [] \<Rightarrow> None | t # ts' \<Rightarrow> Some (foldl max t ts'))"

definition greatest :: "instant option \<Rightarrow> instant option \<Rightarrow> instant option" where
  "greatest a b =
     (case (a, b) of
        (None, y) \<Rightarrow> y
      | (x, None) \<Rightarrow> x
      | (Some x, Some y) \<Rightarrow> Some (max x y))"

definition count_distinct :: "('a \<Rightarrow> string) \<Rightarrow> 'a list \<Rightarrow> int" where
  "count_distinct f rows = int (length (remdups (map f rows)))"

definition coalesce :: "'a option \<Rightarrow> 'a \<Rightarrow> 'a" where
  "coalesce x d = (case x of None \<Rightarrow> d | Some y \<Rightarrow> y)"

section \<open>The queries\<close>

definition ASSETS_NEW ::
    "database \<Rightarrow> string \<Rightarrow> instant \<Rightarrow> instant \<Rightarrow> instant option \<Rightarrow> sql_bucket list" where
  "ASSETS_NEW db site start stop cutoff =
     (let events = filter (\<lambda>r. ar_site_id r = site \<and> in_window start stop (ar_first_seen_at r)
                              \<and> known_by cutoff (ar_created_at r)) (db_assets db);
          coverage = filter (\<lambda>r. co_site_id r = site \<and> in_window start stop (co_observed_at r)
                              \<and> known_by cutoff (co_ingested_at r)) (db_collections db)
      in map (\<lambda>b.
           let es = on_day ar_first_seen_at events b; cs = on_day co_observed_at coverage b
           in \<lparr> sb_bucket_start = b, sb_value = count_distinct ar_asset_id es,
                sb_evidence_count = count_distinct ar_asset_id es,
                sb_observed_at = greatest (sql_max (map ar_first_seen_at es))
                                          (sql_max (map co_observed_at cs)),
                sb_received_at = greatest (sql_max (map ar_created_at es))
                                          (sql_max (map co_ingested_at cs)),
                sb_complete = (es \<noteq> []), sb_coverage = (es \<noteq> [] \<or> cs \<noteq> []) \<rparr>)
         (sorted_days (map ar_first_seen_at events @ map co_observed_at coverage)))"

definition checkin_time :: "checkin_row \<Rightarrow> instant" where
  "checkin_time r = coalesce (ck_checked_in_at r) (ck_received_at r)"

text \<open>\<^verbatim>\<open>JOIN agent_enrollments\<close>: the check-in belongs to an agent enrolled at the same site.\<close>

definition enrolled :: "database \<Rightarrow> checkin_row \<Rightarrow> bool" where
  "enrolled db r =
     (case ck_agent_id r of None \<Rightarrow> False | Some a \<Rightarrow> (a, ck_site_id r) \<in> set (db_enrollments db))"

definition COLLECTORS_ACTIVE ::
    "database \<Rightarrow> string \<Rightarrow> instant \<Rightarrow> instant \<Rightarrow> instant option \<Rightarrow> sql_bucket list" where
  "COLLECTORS_ACTIVE db site start stop cutoff =
     (let rows = filter (\<lambda>r. enrolled db r \<and> ck_site_id r = site
                            \<and> in_window start stop (checkin_time r)
                            \<and> known_by cutoff (ck_received_at r)) (db_checkins db)
      in map (\<lambda>b.
           let rs = on_day checkin_time rows b; n = count_distinct (\<lambda>r. the (ck_agent_id r)) rs
           in \<lparr> sb_bucket_start = b, sb_value = n, sb_evidence_count = n,
                sb_observed_at = sql_max (map checkin_time rs),
                sb_received_at = sql_max (map ck_received_at rs),
                sb_complete = True, sb_coverage = True \<rparr>)
         (sorted_days (map checkin_time rows)))"

definition run_time :: "evaluation_row \<Rightarrow> instant" where
  "run_time r = coalesce (er_completed_at r) (er_started_at r)"

definition run_covers ::
    "string \<Rightarrow> instant \<Rightarrow> instant \<Rightarrow> instant option \<Rightarrow> evaluation_row \<Rightarrow> bool" where
  "run_covers site start stop cutoff r \<longleftrightarrow>
     (er_scope_site_id r = Some site \<or> er_scope_site_id r = None) \<and>
     in_window start stop (run_time r) \<and> known_by cutoff (run_time r)"

text \<open>One result row of the two queries whose coverage comes from evaluation runs.\<close>

definition evaluated_bucket ::
    "('a \<Rightarrow> instant) \<Rightarrow> ('a \<Rightarrow> instant) \<Rightarrow> ('a \<Rightarrow> string) \<Rightarrow> (evaluation_row \<Rightarrow> instant) \<Rightarrow>
     'a list \<Rightarrow> evaluation_row list \<Rightarrow> instant \<Rightarrow> sql_bucket" where
  "evaluated_bucket event_time created ident observed events runs b =
     (let es = on_day event_time events b; rs = on_day run_time runs b
      in \<lparr> sb_bucket_start = b, sb_value = count_distinct ident es,
           sb_evidence_count = count_distinct ident es,
           sb_observed_at = greatest (sql_max (map event_time es)) (sql_max (map observed rs)),
           sb_received_at = greatest (sql_max (map created es)) (sql_max (map run_time rs)),
           sb_complete = list_ex (\<lambda>r. er_status r = ''completed'' \<and> \<not> er_scoped r) rs,
           sb_coverage = (rs \<noteq> []) \<rparr>)"

definition FINDINGS_NEW ::
    "database \<Rightarrow> string \<Rightarrow> instant \<Rightarrow> instant \<Rightarrow> instant option \<Rightarrow> sql_bucket list" where
  "FINDINGS_NEW db site start stop cutoff =
     (let events = filter (\<lambda>r. fr_site_id r = site \<and> in_window start stop (fr_first_seen_at r)
                              \<and> known_by cutoff (fr_created_at r)) (db_findings db);
          runs = filter (run_covers site start stop cutoff) (db_finding_runs db)
      in map (evaluated_bucket fr_first_seen_at fr_created_at fr_finding_id
                (\<lambda>r. coalesce (er_data_as_of r) (run_time r)) events runs)
           (sorted_days (map fr_first_seen_at events @ map run_time runs)))"

definition matched_at :: "match_row \<Rightarrow> instant" where
  "matched_at r = the (mr_first_matched_at r)"

definition VULNERABILITIES_NEW ::
    "database \<Rightarrow> string \<Rightarrow> instant \<Rightarrow> instant \<Rightarrow> instant option \<Rightarrow> sql_bucket list" where
  "VULNERABILITIES_NEW db site start stop cutoff =
     (let events = filter (\<lambda>r. mr_site_id r = site \<and> mr_first_matched_at r \<noteq> None
                              \<and> in_window start stop (matched_at r)
                              \<and> known_by cutoff (mr_created_at r)) (db_matches db);
          runs = filter (run_covers site start stop cutoff) (db_vulnerability_runs db)
      in map (evaluated_bucket matched_at mr_created_at mr_match_id run_time events runs)
           (sorted_days (map matched_at events @ map run_time runs)))"

definition collection_buckets ::
    "(collection_row list \<Rightarrow> int) \<Rightarrow> database \<Rightarrow> string \<Rightarrow> instant \<Rightarrow> instant \<Rightarrow> instant option \<Rightarrow>
     sql_bucket list" where
  "collection_buckets amount db site start stop cutoff =
     (let rows = filter (\<lambda>r. co_site_id r = site \<and> in_window start stop (co_observed_at r)
                            \<and> known_by cutoff (co_ingested_at r)) (db_collections db)
      in map (\<lambda>b.
           let rs = on_day co_observed_at rows b
           in \<lparr> sb_bucket_start = b, sb_value = amount rs, sb_evidence_count = int (length rs),
                sb_observed_at = sql_max (map co_observed_at rs),
                sb_received_at = sql_max (map co_ingested_at rs),
                sb_complete = True, sb_coverage = True \<rparr>)
         (sorted_days (map co_observed_at rows)))"

definition INVENTORY_COLLECTIONS ::
    "database \<Rightarrow> string \<Rightarrow> instant \<Rightarrow> instant \<Rightarrow> instant option \<Rightarrow> sql_bucket list" where
  "INVENTORY_COLLECTIONS = collection_buckets (\<lambda>rs. int (length rs))"

definition INVENTORY_ASSET_OBSERVATIONS ::
    "database \<Rightarrow> string \<Rightarrow> instant \<Rightarrow> instant \<Rightarrow> instant option \<Rightarrow> sql_bucket list" where
  "INVENTORY_ASSET_OBSERVATIONS = collection_buckets (\<lambda>rs. sum_list (map co_asset_count rs))"

definition METRIC_QUERIES ::
    "(string \<times> (database \<Rightarrow> string \<Rightarrow> instant \<Rightarrow> instant \<Rightarrow> instant option \<Rightarrow> sql_bucket list)) list" where
  "METRIC_QUERIES =
     [(''site.assets.new.count'', ASSETS_NEW),
      (''site.collectors.active.count'', COLLECTORS_ACTIVE),
      (''site.findings.new.count'', FINDINGS_NEW),
      (''site.vulnerabilities.new.count'', VULNERABILITIES_NEW),
      (''site.inventory.collections.count'', INVENTORY_COLLECTIONS),
      (''site.inventory.asset_observations.count'', INVENTORY_ASSET_OBSERVATIONS)]"

section \<open>The store\<close>

definition project_row :: "sql_bucket \<Rightarrow> aggregate temporal" where
  "project_row r =
     ProjectionAggregate (Int_Num (sb_value r)) (sb_evidence_count r)
       (map_option utc_stamp (sb_observed_at r)) (map_option utc_stamp (sb_received_at r))
       (sb_complete r) (sb_coverage r)"

fun project_rows ::
    "sql_bucket list \<Rightarrow> (stamp \<times> aggregate) list \<Rightarrow> (stamp \<times> aggregate) list temporal" where
  "project_rows [] projected = Inr projected"
| "project_rows (r # rs) projected =
     (if utc_stamp (sb_bucket_start r) \<in> fst ` set projected
      then Inl (Runtime_Error ''temporal source query returned a duplicate bucket'')
      else bind_result (project_row r) (\<lambda>a.
           project_rows rs (projected @ [(utc_stamp (sb_bucket_start r), a)])))"

text \<open>\<^verbatim>\<open>::BIGINT\<close> fails on a value that does not fit.\<close>

definition is_bigint :: "int \<Rightarrow> bool" where
  "is_bigint v \<longleftrightarrow> - (2 ^ 63) \<le> v \<and> v < 2 ^ 63"

definition sql_store :: "database \<Rightarrow> projection_store" where
  "sql_store db metric site start stop cutoff =
     (case map_of METRIC_QUERIES (md_metric_key metric) of
        None \<Rightarrow> Inl (Contract_Error ''unsupported temporal metric query'')
      | Some query \<Rightarrow>
          if site \<notin> set (db_sites db) then Inl (Projection_Error ''site-not-found'')
          else let rows = query db site start stop cutoff
               in if \<not> list_all (\<lambda>r. is_bigint (sb_value r)) rows then Inl Database_Error
                  else project_rows rows [])"

end
