(* ===== verification/Temporal_Projection_Laws.thy ===== *)
theory Temporal_Projection_Laws
  imports Temporal_Projection
begin

text \<open>
  What the projection service promises: a response covers exactly the requested days, each signal
  satisfies the contract, and a signal is refused exactly when its aggregate contradicts itself.
\<close>

section \<open>The registry\<close>

definition governed :: "metric_definition \<Rightarrow> bool" where
  "governed m \<longleftrightarrow>
     matches_METRIC_KEY (md_metric_key m) \<and> length (md_metric_key m) \<le> 120 \<and>
     text_between 1 40 (md_unit m) \<and> text_between 1 160 (md_source_authority m) \<and>
     text_between 1 32 (md_projection_version m) \<and>
     60 \<le> md_freshness_seconds m \<and> md_freshness_seconds m \<le> 604800 \<and>
     md_missing_differs_from_zero m \<and> \<not> md_supports_asset_scope m"

lemma registry_governed: "list_all governed TEMPORAL_METRICS"
  by code_simp

lemma registry_keys: "distinct (map md_metric_key TEMPORAL_METRICS)"
  by code_simp

lemma temporal_metric_Inr:
  "temporal_metric key = Inr m \<Longrightarrow> m \<in> set TEMPORAL_METRICS \<and> md_metric_key m = key"
  by (auto simp: temporal_metric_def split: option.splits dest!: map_of_SomeD)

lemma temporal_metric_governed: "temporal_metric key = Inr m \<Longrightarrow> governed m"
  using registry_governed temporal_metric_Inr [of key m] by (simp add: list_all_iff)

section \<open>Instants within the calendar\<close>

text \<open>Far enough from both ends of the calendar for the arithmetic of the services.\<close>

definition calendar_safe :: "instant \<Rightarrow> bool" where
  "calendar_safe t \<longleftrightarrow> min_instant + days 64 \<le> t \<and> t \<le> max_instant - days 2"

definition in_calendar :: "instant \<Rightarrow> bool" where
  "in_calendar t \<longleftrightarrow> min_instant \<le> t \<and> t \<le> max_instant"

lemma calendar_safe_in: "calendar_safe t \<Longrightarrow> in_calendar t"
  by (simp add: calendar_safe_def in_calendar_def days_def)

lemma as_utc_utc_stamp: "as_utc (utc_stamp t) = (if in_calendar t then Inr t else Inl (Raised OverflowError))"
  by (simp add: as_utc_def utc_stamp_def astimezone_utc_def lift_py_def in_calendar_def)

lemma as_utc_stamp_Inr [simp]: "in_calendar t \<Longrightarrow> as_utc (utc_stamp t) = Inr t"
  by (simp add: as_utc_utc_stamp)

lemma as_utc_Inr_iff: "as_utc (utc_stamp t) = Inr u \<longleftrightarrow> in_calendar t \<and> u = t"
  by (auto simp: as_utc_utc_stamp)

lemma add_time_Inr: "in_calendar (t + d) \<Longrightarrow> add_time t d = Inr (t + d)"
  by (simp add: add_time_def in_calendar_def)

lemma add_time_iff: "add_time t d = Inr u \<longleftrightarrow> in_calendar (t + d) \<and> u = t + d"
  by (auto simp: add_time_def in_calendar_def)

lemma utc_daily_bucket_safe:
  "calendar_safe t \<Longrightarrow> utc_daily_bucket (utc_stamp t) = Inr (midnight t, midnight t + days 1)"
  using midnight_le [of t] lt_midnight_next [of t]
  by (simp add: utc_daily_bucket_def calendar_safe_in add_time_def calendar_safe_def days_def)

lemma utc_daily_bucket_Inr:
  "utc_daily_bucket (utc_stamp t) = Inr (a, b) \<Longrightarrow> a = midnight t \<and> b = midnight t + days 1"
  by (auto simp: utc_daily_bucket_def bind_result_eq_Inr_iff as_utc_Inr_iff add_time_iff)

section \<open>The days of a window\<close>

definition day_list :: "instant \<Rightarrow> nat \<Rightarrow> instant list" where
  "day_list start n = map (\<lambda>i. start + days (int i)) [0..<n]"

lemma day_list_Suc: "day_list start (Suc n) = start # day_list (start + days 1) n"
  unfolding day_list_def
  by (rule nth_equalityI) (auto simp: nth_Cons days_def simp del: upt_Suc split: nat.splits)

lemma length_day_list [simp]: "length (day_list start n) = n"
  by (simp add: day_list_def)

lemma nth_day_list [simp]: "i < n \<Longrightarrow> day_list start n ! i = start + days (int i)"
  by (simp add: day_list_def)

lemma iter_daily_buckets_days:
  "in_calendar stop \<Longrightarrow> min_instant \<le> start \<Longrightarrow> stop = start + days (int n) \<Longrightarrow>
   iter_daily_buckets start stop = Inr (day_list start n)"
proof (induction n arbitrary: start)
  case 0
  then have "\<not> start < stop" by (simp add: days_def)
  then show ?case by (subst iter_daily_buckets.simps) (simp add: day_list_def)
next
  case (Suc n)
  have lt: "start < stop" using Suc.prems by (simp add: days_def)
  have "start + days 1 \<le> stop" using Suc.prems(3) by (simp add: days_def)
  then have c: "in_calendar (start + days 1)"
    using Suc.prems by (simp add: in_calendar_def days_def)
  have "stop = start + days 1 + days (int n)" using Suc.prems(3) by (simp add: days_def)
  moreover have "min_instant \<le> start + days 1" using c by (simp add: in_calendar_def)
  ultimately have "iter_daily_buckets (start + days 1) stop = Inr (day_list (start + days 1) n)"
    using Suc.IH Suc.prems(1) by blast
  then show ?case
    by (subst iter_daily_buckets.simps) (simp only: lt c add_time_Inr bind_result_simps day_list_Suc if_True)
qed

lemma aligned_window:
  assumes "at_midnight s" "at_midnight e" "s < e"
  obtains n where "e = s + days (int n)" "0 < n" "(e - s) div days 1 = int n"
proof -
  have "86400000000 dvd e - s" using assms by (simp add: at_midnight_dvd)
  then obtain k where k: "e - s = 86400000000 * k" by (auto elim: dvdE)
  with assms(3) have "0 < k" by (simp add: zero_less_mult_iff)
  then have "e = s + days (int (nat k))" "0 < nat k" "(e - s) div days 1 = int (nat k)"
    using k by (simp_all add: days_def)
  then show ?thesis by (rule that)
qed

lemma validate_temporal_window_Inr:
  "validate_temporal_window (utc_stamp s) (utc_stamp e) g = Inr (s', e', n) \<longleftrightarrow>
   g = ''daily'' \<and> s' = s \<and> e' = e \<and> n = (e - s) div days 1 \<and> in_calendar s \<and> in_calendar e \<and>
   at_midnight s \<and> at_midnight e \<and> s < e \<and> n \<le> 366"
  by (auto simp: validate_temporal_window_def bind_result_eq_Inr_iff as_utc_Inr_iff Let_def
      MAX_TEMPORAL_HISTORY_DAYS_def MAX_TEMPORAL_BUCKETS_def)

section \<open>One signal\<close>

text \<open>
  An aggregate that does not contradict itself: complete coverage has a source watermark, and a day
  without coverage has none.
\<close>

definition consistent :: "metric_definition \<Rightarrow> aggregate \<Rightarrow> bool" where
  "consistent m a \<longleftrightarrow>
     num_admissible (ag_value a) \<and> 0 \<le> ag_evidence_count a \<and>
     (ag_complete a \<longrightarrow> ag_observed_at a \<noteq> None) \<and>
     (projected_value m a = None \<and> \<not> ag_coverage_observed a \<longrightarrow> ag_observed_at a = None)"

definition valid_site :: "string \<Rightarrow> bool" where
  "valid_site site \<longleftrightarrow> matches_SITE_ID site \<and> text_between 1 128 site"

lemma signal_fields_record:
  "governed m \<Longrightarrow>
   signal_fields (signal_record m site b e g v n o' r f c q k) \<longleftrightarrow>
   valid_site site \<and> (case v of None \<Rightarrow> True | Some x \<Rightarrow> num_admissible x) \<and> 0 \<le> n"
  by (auto simp: signal_fields_def signal_record_def governed_def valid_site_def optional_text_def
      matches_SIGNAL_ID_def temporal_signal_id_def matches_hex_digest_id)

definition late :: "instant \<Rightarrow> instant option \<Rightarrow> bool" where
  "late bucket_end received = (case received of None \<Rightarrow> False | Some r \<Rightarrow> bucket_end < r)"

lemma not_late_iff: "(case r of None \<Rightarrow> True | Some x \<Rightarrow> x \<le> e) \<longleftrightarrow> \<not> late e r"
  by (auto simp: late_def split: option.splits)

lemma backfill_of_late:
  "backfill_of e g r = Inr k \<Longrightarrow> (k = Late_Arriving) = late e r"
  by (auto simp: backfill_of_def late_def bind_result_eq_Inr_iff split: if_splits option.splits)

lemma signal_violation_record:
  assumes "at_midnight b" "(k = Late_Arriving) = late (b + days 1) r"
  shows "signal_violation (signal_record m site b (b + days 1) g v n o' r f c q k) = None \<longleftrightarrow>
    (v = None \<longrightarrow> \<not> c \<and> (q = Quality_Missing \<or> q = Quality_Incomplete)) \<and>
    (q = Quality_Observed \<longrightarrow> c \<and> v \<noteq> None \<and> f = Fresh_Current) \<and>
    (q = Quality_Missing \<longrightarrow> \<not> c \<and> v = None \<and> n = 0 \<and> f = Fresh_Unknown) \<and>
    (q = Quality_Incomplete \<longrightarrow> \<not> c) \<and>
    (q = Quality_Stale \<longrightarrow> c \<and> v \<noteq> None \<and> f = Fresh_Stale) \<and>
    (c \<and> f = Fresh_Stale \<longrightarrow> q = Quality_Stale) \<and> (c \<longrightarrow> o' \<noteq> None)"
proof -
  have day: "0 < days 1" by (simp add: days_def)
  show ?thesis
    using assms day
    by (cases q) (auto simp: signal_violation_def signal_record_def not_late_iff simp flip: late_def)
qed

lemma optional_utc_None: "optional_utc a = Inr x \<Longrightarrow> x = None \<longleftrightarrow> a = None"
  by (auto simp: optional_utc_def bind_result_eq_Inr_iff split: option.splits)

lemma freshness_total:
  assumes "governed m" "calendar_safe b"
  shows "\<exists>f. freshness m (b + days 1) obs = Inr f \<and> (f = Fresh_Unknown \<longleftrightarrow> obs = None)"
proof (cases obs)
  case None
  then show ?thesis by (simp add: freshness_def)
next
  case (Some t)
  have "in_calendar (b + days 1 + - seconds (md_freshness_seconds m))"
    using assms by (simp add: governed_def calendar_safe_def in_calendar_def days_def seconds_def)
  from add_time_Inr [OF this] Some show ?thesis by (simp add: freshness_def)
qed

lemma backfill_of_total:
  assumes "calendar_safe g"
  shows "\<exists>k. backfill_of e g r = Inr k \<and> (k = Late_Arriving \<longleftrightarrow> late e r)"
  using utc_daily_bucket_safe [OF assms] by (auto simp: backfill_of_def late_def split: option.splits)

lemma num_is_zero_admissible: "num_is_zero v \<Longrightarrow> num_admissible v"
  by (cases v rule: num_is_zero.cases) auto

text \<open>The service refuses an aggregate exactly when it contradicts itself.\<close>

lemma project_signal_total:
  assumes "governed m" "valid_site site" "at_midnight b" "calendar_safe b" "calendar_safe g"
    and "optional_utc (ag_observed_at a) = Inr obs" "optional_utc (ag_received_at a) = Inr rcv"
  shows "(\<exists>s. project_signal m site b (b + days 1) (Some a) g = Inr s) \<longleftrightarrow> consistent m a"
proof -
  obtain f where f: "freshness m (b + days 1) obs = Inr f" "f = Fresh_Unknown \<longleftrightarrow> obs = None"
    using freshness_total [OF assms(1,4)] by blast
  obtain k where k: "backfill_of (b + days 1) g rcv = Inr k" "k = Late_Arriving \<longleftrightarrow> late (b + days 1) rcv"
    using backfill_of_total [OF assms(5)] by blast
  let ?v = "projected_value m a"
  let ?c = "ag_complete a \<and> ?v \<noteq> None"
  let ?q = "projected_quality ?v (ag_coverage_observed a) ?c f"
  let ?s = "signal_record m site b (b + days 1) g ?v (ag_evidence_count a) obs rcv f ?c ?q k"
  have obs: "obs = None \<longleftrightarrow> ag_observed_at a = None" using optional_utc_None [OF assms(6)] .
  have "project_signal m site b (b + days 1) (Some a) g = TemporalSignal ?s"
    using assms(6,7) f(1) k(1) by (simp add: project_signal_def Let_def)
  then have "(\<exists>s. project_signal m site b (b + days 1) (Some a) g = Inr s)
      \<longleftrightarrow> signal_fields ?s \<and> signal_violation ?s = None"
    by (simp add: TemporalSignal_def)
  also have "\<dots> \<longleftrightarrow> consistent m a"
    unfolding signal_fields_record [OF assms(1)] signal_violation_record [OF assms(3) k(2)]
    using assms(2) f(2) obs num_is_zero_admissible [of "ag_value a"]
    by (cases f) (auto simp: consistent_def projected_quality_def projected_value_def)
  finally show ?thesis .
qed

lemma project_signal_missing:
  assumes "governed m" "valid_site site" "at_midnight b" "calendar_safe g"
  shows "\<exists>s. project_signal m site b (b + days 1) None g = Inr s"
proof -
  obtain k where k: "backfill_of (b + days 1) g None = Inr k" "k = Late_Arriving \<longleftrightarrow> late (b + days 1) None"
    using backfill_of_total [OF assms(4)] by blast
  show ?thesis
    using signal_fields_record [OF assms(1)] signal_violation_record [OF assms(3) k(2)] assms(2) k(1)
    by (simp add: project_signal_def TemporalSignal_def)
qed

text \<open>Whatever the aggregate, a returned signal satisfies its contract and stands at its place.\<close>

definition signal_at :: "metric_definition \<Rightarrow> string \<Rightarrow> instant \<Rightarrow> temporal_signal \<Rightarrow> bool" where
  "signal_at m site b s \<longleftrightarrow>
     signal_fields s \<and> signal_violation s = None \<and> sg_metric_key s = md_metric_key m \<and>
     sg_site_id s = site \<and> sg_tenant_id s = None \<and> sg_asset_id s = None \<and>
     sg_bucket_start s = b \<and> sg_bucket_end s = b + days 1 \<and> sg_unit s = md_unit m \<and>
     sg_projection_version s = md_projection_version m \<and>
     sg_signal_id s = temporal_signal_id (md_metric_key m) site None b (b + days 1)
       (md_projection_version m)"

lemma project_signal_at:
  "project_signal m site b (b + days 1) agg g = Inr s \<Longrightarrow> signal_at m site b s"
  by (auto simp: project_signal_def TemporalSignal_def bind_result_eq_Inr_iff signal_at_def
      signal_record_def Let_def split: option.splits)

lemma project_day_at: "project_day m site src g b = Inr s \<Longrightarrow> signal_at m site b s"
  by (auto simp: project_day_def bind_result_eq_Inr_iff add_time_iff intro: project_signal_at)

section \<open>Series\<close>

lemma project_window_signals:
  assumes "project_window store m site s e n cutoff g = Inr r"
    and "in_calendar e" "min_instant \<le> s" "e = s + days (int k)"
  shows "length (sr_signals r) = k \<and> (\<forall>i < k. signal_at m site (s + days (int i)) (sr_signals r ! i))"
proof -
  from assms(1) obtain src sources bs signals where
    bs: "iter_daily_buckets s e = Inr bs"
    and sig: "sequence_results (map (project_day m site sources g) bs) = Inr signals"
    and r: "r = series_record m site s e g n signals"
    by (auto simp: project_window_def bind_result_eq_Inr_iff TemporalSignalSeriesResponse_def)
  have bs': "bs = day_list s k" using bs iter_daily_buckets_days [OF assms(2-4)] by simp
  have map: "map (project_day m site sources g) (day_list s k) = map Inr signals"
    using sig bs' by (simp add: sequence_results_Inr_iff)
  then have len: "length signals = k" by (metis length_day_list length_map)
  have "signal_at m site (s + days (int i)) (signals ! i)" if "i < k" for i
  proof (rule project_day_at)
    have "map (project_day m site sources g) (day_list s k) ! i = map Inr signals ! i"
      using map by simp
    with that len show "project_day m site sources g (s + days (int i)) = Inr (signals ! i)" by simp
  qed
  with len r show ?thesis by (simp add: series_record_def)
qed

lemma project_window_record:
  "project_window store m site s e n cutoff g = Inr r \<Longrightarrow>
   \<exists>signals. r = series_record m site s e g n signals \<and> series_fields r \<and> series_violation r = None"
  by (auto simp: project_window_def bind_result_eq_Inr_iff TemporalSignalSeriesResponse_def)

lemma series_Inr:
  assumes "series store key site (utc_stamp s) (utc_stamp e) gran asset g kc = Inr r"
  obtains m now cutoff where
    "temporal_metric key = Inr m" "gran = ''daily''" "in_calendar s" "in_calendar e"
    "at_midnight s" "at_midnight e" "s < e" "(e - s) div days 1 \<le> 366" "asset = None"
    "matches_SITE_ID site" "as_utc g = Inr now" "optional_cutoff kc = Inr cutoff"
    "case cutoff of None \<Rightarrow> True | Some c \<Rightarrow> e \<le> c" "e \<le> midnight now + days 1"
    "project_window store m site s e ((e - s) div days 1) cutoff now = Inr r"
proof -
  obtain m where m: "temporal_metric key = Inr m"
    using assms by (auto simp: series_def split: sum.splits)
  have asset: "asset = None"
    using assms m temporal_metric_governed [OF m]
    by (auto simp: series_def governed_def split: if_splits)
  have site: "matches_SITE_ID site" using assms m by (auto simp: series_def split: if_splits)
  from assms m asset site obtain s' e' n now cutoff a b where
    w: "validate_temporal_window (utc_stamp s) (utc_stamp e) gran = Inr (s', e', n)"
    and now: "as_utc g = Inr now" and kc: "optional_cutoff kc = Inr cutoff"
    and c: "\<not> (case cutoff of None \<Rightarrow> False | Some c \<Rightarrow> c < e')"
    and d: "utc_daily_bucket (utc_stamp now) = Inr (a, b)" "\<not> b < e'"
    and p: "project_window store m site s' e' n cutoff now = Inr r"
    by (auto simp: series_def bind_result_eq_Inr_iff split: if_splits)
  have "case cutoff of None \<Rightarrow> True | Some c \<Rightarrow> e \<le> c"
    using c w by (auto simp: validate_temporal_window_Inr split: option.splits)
  moreover have "e \<le> midnight now + days 1"
    using d w utc_daily_bucket_Inr [OF d(1)] by (auto simp: validate_temporal_window_Inr)
  ultimately show ?thesis
    using that m asset site now kc p w by (auto simp: validate_temporal_window_Inr)
qed

text \<open>C14. A series covers its window: one signal per UTC day, in order, from the start to the end,
  each for the requested metric and site and each within its own contract; the counts are those of the
  signals.\<close>

theorem series_covers_window:
  assumes "series store key site (utc_stamp s) (utc_stamp e) gran asset g kc = Inr r"
  shows "\<exists>k. e = s + days (int k) \<and> 1 \<le> k \<and> k \<le> 366 \<and> sr_bucket_count r = int k \<and>
    length (sr_signals r) = k \<and>
    (\<forall>i < k. sg_bucket_start (sr_signals r ! i) = s + days (int i) \<and>
       sg_metric_key (sr_signals r ! i) = key \<and> sg_site_id (sr_signals r ! i) = site \<and>
       signal_fields (sr_signals r ! i) \<and> signal_violation (sr_signals r ! i) = None) \<and>
    sr_missing_count r = count_signals (\<lambda>x. sg_quality x = Quality_Missing) (sr_signals r) \<and>
    sr_incomplete_count r = count_signals (\<lambda>x. \<not> sg_complete x) (sr_signals r)"
proof -
  obtain m now cutoff where m: "temporal_metric key = Inr m"
    and w: "in_calendar s" "in_calendar e" "at_midnight s" "at_midnight e" "s < e"
      "(e - s) div days 1 \<le> 366"
    and p: "project_window store m site s e ((e - s) div days 1) cutoff now = Inr r"
    using assms by (rule series_Inr)
  obtain k where k: "e = s + days (int k)" "0 < k" "(e - s) div days 1 = int k"
    using w(3-5) by (rule aligned_window)
  have min: "min_instant \<le> s" using w(1) by (simp add: in_calendar_def)
  have key: "md_metric_key m = key" using temporal_metric_Inr [OF m] by simp
  note at = project_window_signals [OF p w(2) min k(1)]
  obtain signals where r: "r = series_record m site s e now (int k) signals"
    using project_window_record [OF p] k(3) by auto
  have "k \<le> 366" "1 \<le> k" using w(6) k by auto
  with k(1) at key r show ?thesis
    by (intro exI [of _ k]) (auto simp: signal_at_def series_record_def)
qed

section \<open>A request is answered\<close>

lemma count_signals_le: "count_signals P ss \<le> int (length ss)"
  by (simp add: count_signals_def)

lemma count_signals_nonneg: "0 \<le> count_signals P ss"
  by (simp add: count_signals_def)

lemma series_loop_None:
  "(\<forall>i < length ss. signal_at (sr_metric r) (sr_site_id r) (b + days (int i)) (ss ! i)) \<Longrightarrow>
   sr_tenant_id r = None \<Longrightarrow> sr_asset_id r = None \<Longrightarrow> sr_end r = b + days (int (length ss)) \<Longrightarrow>
   series_loop r b ss = None"
proof (induction ss arbitrary: b)
  case Nil
  then show ?case by (simp add: days_def)
next
  case (Cons s ss)
  have s: "signal_at (sr_metric r) (sr_site_id r) b s" using Cons.prems(1) by (auto simp: days_def)
  have "signal_at (sr_metric r) (sr_site_id r) (b + days 1 + days (int i)) (ss ! i)"
    if "i < length ss" for i
    using Cons.prems(1) [rule_format, of "Suc i"] that by (simp add: days_def algebra_simps)
  moreover have "sr_end r = b + days 1 + days (int (length ss))"
    using Cons.prems(4) by (simp add: days_def)
  ultimately have "series_loop r (b + days 1) ss = None"
    using Cons.IH Cons.prems(2,3) by blast
  with s Cons.prems(2,3) show ?case by (simp add: signal_at_def)
qed

lemma series_record_valid:
  assumes "valid_site site" "e = s + days (int k)" "0 < k" "k \<le> 366" "length signals = k"
    and at: "\<And>i. i < k \<Longrightarrow> signal_at m site (s + days (int i)) (signals ! i)"
  shows "series_fields (series_record m site s e g (int k) signals) \<and>
    series_violation (series_record m site s e g (int k) signals) = None"
proof
  have le: "count_signals P signals \<le> 366" for P
    using count_signals_le [of P signals] assms(4,5) by linarith
  show "series_fields (series_record m site s e g (int k) signals)"
    using assms(1,3-5) le count_signals_nonneg
    by (simp add: series_fields_def series_record_def valid_site_def optional_text_def
        MAX_TEMPORAL_BUCKETS_def)
  have "series_loop (series_record m site s e g (int k) signals) s signals = None"
    using at assms(2,5) by (intro series_loop_None) (simp_all add: series_record_def)
  moreover have "s < e" using assms(2,3) by (simp add: days_def)
  ultimately show "series_violation (series_record m site s e g (int k) signals) = None"
    using assms(5) by (simp add: series_violation_def series_record_def)
qed

text \<open>The source buckets a well-behaved store returns: distinct days in UTC.\<close>

definition utc_sources :: "(instant \<times> aggregate) list \<Rightarrow> (stamp \<times> aggregate) list" where
  "utc_sources = map (\<lambda>(b, a). (utc_stamp b, a))"

lemma normalize_sources_utc:
  "list_all (\<lambda>(b, a). in_calendar b) L \<Longrightarrow> distinct (map fst L) \<Longrightarrow>
   fst ` set L \<inter> fst ` set acc = {} \<Longrightarrow>
   normalize_sources s e (utc_sources L) acc = Inr (acc @ filter (\<lambda>(b, a). s \<le> b \<and> b < e) L)"
proof (induction L arbitrary: acc)
  case Nil
  then show ?case by (simp add: utc_sources_def)
next
  case (Cons x L)
  obtain b a where x: "x = (b, a)" by (cases x)
  have IH: "normalize_sources s e (utc_sources L) acc' =
      Inr (acc' @ filter (\<lambda>(b, a). s \<le> b \<and> b < e) L)"
    if "fst ` set L \<inter> fst ` set acc' = {}" for acc'
    using Cons.IH [OF _ _ that] Cons.prems by simp
  have "b \<notin> fst ` set acc" "fst ` set L \<inter> fst ` set acc = {}"
    "fst ` set L \<inter> fst ` set (acc @ [(b, a)]) = {}"
    using Cons.prems x by auto
  with IH Cons.prems(1) x show ?case by (simp add: utc_sources_def)
qed

definition answerable :: "metric_definition \<Rightarrow> aggregate \<Rightarrow> bool" where
  "answerable m a \<longleftrightarrow> consistent m a \<and>
     (\<exists>obs rcv. optional_utc (ag_observed_at a) = Inr obs \<and> optional_utc (ag_received_at a) = Inr rcv)"

lemma project_day_total:
  assumes "governed m" "valid_site site" "at_midnight b" "calendar_safe b" "calendar_safe g"
    and "\<And>a. map_of src b = Some a \<Longrightarrow> answerable m a"
  shows "\<exists>s. project_day m site src g b = Inr s"
proof -
  have "in_calendar (b + days 1)"
    using assms(4) by (simp add: calendar_safe_def in_calendar_def days_def)
  moreover have "\<exists>s. project_signal m site b (b + days 1) (map_of src b) g = Inr s"
    using assms project_signal_missing project_signal_total
    by (cases "map_of src b") (auto simp: answerable_def)
  ultimately show ?thesis by (simp add: project_day_def add_time_Inr)
qed

lemma project_window_total:
  assumes "governed m" "valid_site site" "calendar_safe s" "calendar_safe e" "calendar_safe g"
    and "at_midnight s" "e = s + days (int k)" "0 < k" "k \<le> 366"
    and "store m site s e cutoff = Inr (utc_sources L)"
    and "list_all (\<lambda>(b, a). in_calendar b) L" "distinct (map fst L)"
    and "list_all (\<lambda>(b, a). answerable m a) L"
  shows "\<exists>r. project_window store m site s e (int k) cutoff g = Inr r"
proof -
  let ?src = "filter (\<lambda>(b, a). s \<le> b \<and> b < e) L"
  have norm: "normalize_sources s e (utc_sources L) [] = Inr ?src"
    using normalize_sources_utc [OF assms(11,12), of "[]" s e] by simp
  have min: "min_instant \<le> s" using assms(3) by (simp add: calendar_safe_def days_def)
  have bs: "iter_daily_buckets s e = Inr (day_list s k)"
    using iter_daily_buckets_days [OF calendar_safe_in [OF assms(4)] min assms(7)] .
  have "\<exists>x. project_day m site ?src g b = Inr x" if "b \<in> set (day_list s k)" for b
  proof (rule project_day_total [OF assms(1,2) _ _ assms(5)])
    from that obtain i where i: "i < k" "b = s + days (int i)" by (auto simp: day_list_def)
    then show "at_midnight b" using assms(6) by simp
    have "days (int i) \<le> days (int k)" "0 \<le> days (int i)" using i by (simp_all add: days_def)
    then show "calendar_safe b"
      using i(2) assms(3,4,7) unfolding calendar_safe_def by linarith
    show "answerable m a" if "map_of ?src b = Some a" for a
      using map_of_SomeD [OF that] assms(13) by (auto simp: list_all_iff)
  qed
  then obtain signals where
    sig: "sequence_results (map (project_day m site ?src g) (day_list s k)) = Inr signals"
    using sequence_results_map_ok [of "day_list s k"] by blast
  then have map: "map (project_day m site ?src g) (day_list s k) = map Inr signals"
    by (simp add: sequence_results_Inr_iff)
  have len: "length signals = k" using arg_cong [OF map, of length] by simp
  let ?r = "series_record m site s e g (int k) signals"
  have at: "signal_at m site (s + days (int i)) (signals ! i)" if "i < length signals" for i
  proof (rule project_day_at)
    show "project_day m site ?src g (s + days (int i)) = Inr (signals ! i)"
      using arg_cong [OF map, of "\<lambda>xs. xs ! i"] that len by simp
  qed
  have "series_fields ?r \<and> series_violation ?r = None"
    using assms(2,6-9) len at by (intro series_record_valid) simp_all
  then show ?thesis
    using assms(10) norm bs sig by (simp add: project_window_def TemporalSignalSeriesResponse_def)
qed

end
