(* ===== verification/Temporal_Store_Laws.thy ===== *)
theory Temporal_Store_Laws
  imports Temporal_Store Temporal_Projection_Laws
begin

text \<open>
  The SQL store keeps its side of the projection's contract: distinct UTC days, aggregates that do not
  contradict themselves, and, under a knowledge cutoff, nothing that was recorded at or after it (the enrollments apart,
  which have no cutoff).
\<close>

section \<open>Databases\<close>

text \<open>
  Every instant of a row is a datetime, no collection counts a negative number of assets, and the totals
  fit into 64 bits.
\<close>

definition fits :: "'a list \<Rightarrow> bool" where
  "fits rows \<longleftrightarrow> int (length rows) < 2 ^ 63"

definition optional_in_calendar :: "instant option \<Rightarrow> bool" where
  "optional_in_calendar t = (case t of None \<Rightarrow> True | Some u \<Rightarrow> in_calendar u)"

definition run_ok :: "evaluation_row \<Rightarrow> bool" where
  "run_ok r \<longleftrightarrow> in_calendar (er_started_at r) \<and> optional_in_calendar (er_completed_at r)
     \<and> optional_in_calendar (er_data_as_of r)"

definition database_ok :: "database \<Rightarrow> bool" where
  "database_ok db \<longleftrightarrow>
     list_all (\<lambda>r. in_calendar (ar_first_seen_at r) \<and> in_calendar (ar_created_at r)) (db_assets db) \<and>
     list_all (\<lambda>r. in_calendar (co_observed_at r) \<and> in_calendar (co_ingested_at r) \<and> 0 \<le> co_asset_count r)
       (db_collections db) \<and>
     list_all (\<lambda>r. optional_in_calendar (ck_checked_in_at r) \<and> in_calendar (ck_received_at r))
       (db_checkins db) \<and>
     list_all (\<lambda>r. in_calendar (fr_first_seen_at r) \<and> in_calendar (fr_created_at r)) (db_findings db) \<and>
     list_all (\<lambda>r. optional_in_calendar (mr_first_matched_at r) \<and> in_calendar (mr_created_at r))
       (db_matches db) \<and>
     list_all run_ok (db_finding_runs db) \<and> list_all run_ok (db_vulnerability_runs db) \<and>
     fits (db_assets db) \<and> fits (db_collections db) \<and> fits (db_checkins db) \<and>
     fits (db_findings db) \<and> fits (db_matches db) \<and>
     sum_list (map co_asset_count (db_collections db)) < 2 ^ 63"

section \<open>Aggregation\<close>

lemma midnight_window:
  "at_midnight s \<Longrightarrow> in_window s e t \<Longrightarrow> s \<le> midnight t \<and> midnight t < e"
proof -
  assume s: "at_midnight s" and t: "in_window s e t"
  have "midnight s \<le> midnight t" using t by (simp add: in_window_def midnight_eq day_number_def zdiv_mono1)
  then show ?thesis using s t midnight_le [of t] by (simp add: in_window_def at_midnight_iff)
qed

lemma set_sorted_days: "set (sorted_days ts) = midnight ` set ts"
  by (simp add: sorted_days_def)

lemma distinct_sorted_days: "distinct (sorted_days ts)"
  by (simp add: sorted_days_def)

lemma foldl_max_in: "foldl max t ts \<in> insert t (set ts)"
proof (induction ts arbitrary: t)
  case (Cons a ts)
  show ?case using Cons.IH [of "max t a"] by (auto simp: max_def split: if_splits)
qed simp

lemma sql_max_in: "sql_max ts = Some t \<Longrightarrow> t \<in> set ts"
  using foldl_max_in by (fastforce simp: sql_max_def split: list.splits)

lemma sql_max_None [simp]: "sql_max ts = None \<longleftrightarrow> ts = []"
  by (simp add: sql_max_def split: list.splits)

lemma greatest_None [simp]: "greatest a b = None \<longleftrightarrow> a = None \<and> b = None"
  by (simp add: greatest_def split: option.splits)

lemma optional_sql_max:
  "(\<And>t. t \<in> set ts \<Longrightarrow> in_calendar t) \<Longrightarrow> optional_in_calendar (sql_max ts)"
  by (auto simp: optional_in_calendar_def split: option.splits dest: sql_max_in)

lemma optional_greatest:
  "optional_in_calendar a \<Longrightarrow> optional_in_calendar b \<Longrightarrow> optional_in_calendar (greatest a b)"
  by (auto simp: optional_in_calendar_def greatest_def max_def split: option.splits)

lemma count_distinct_nonneg [simp]: "0 \<le> count_distinct f rs"
  by (simp add: count_distinct_def)

lemma count_distinct_zero [simp]: "count_distinct f rs = 0 \<longleftrightarrow> rs = []"
  by (simp add: count_distinct_def)

lemma fits_filter: "fits rows \<Longrightarrow> fits (filter P rows)"
  unfolding fits_def using length_filter_le [of P rows] by linarith

lemma fits_length: "fits rows \<Longrightarrow> int (length rows) < 2 ^ 63"
  by (simp add: fits_def)

lemma fits_on_day: "fits rows \<Longrightarrow> fits (on_day t rows b)"
  by (simp add: on_day_def fits_filter)

lemma count_distinct_fits: "fits rows \<Longrightarrow> count_distinct f rows < 2 ^ 63"
  using length_remdups_leq [of "map f rows"] by (simp add: fits_def count_distinct_def)

lemma on_day_Nil_iff: "on_day t rows b = [] \<longleftrightarrow> b \<notin> (\<lambda>r. midnight (t r)) ` set rows"
  by (auto simp: on_day_def filter_empty_conv)

lemma set_on_day: "set (on_day t rows b) \<subseteq> set rows"
  by (auto simp: on_day_def)

section \<open>Result rows\<close>

definition row_sound :: "instant \<Rightarrow> instant \<Rightarrow> sql_bucket \<Rightarrow> bool" where
  "row_sound s e r \<longleftrightarrow>
     s \<le> sb_bucket_start r \<and> sb_bucket_start r < e \<and> 0 \<le> sb_value r \<and> sb_value r < 2 ^ 63 \<and>
     0 \<le> sb_evidence_count r \<and> sb_evidence_count r < 2 ^ 63 \<and>
     (sb_complete r \<longrightarrow> sb_observed_at r \<noteq> None) \<and> (\<not> sb_coverage r \<longrightarrow> sb_value r \<noteq> 0) \<and>
     optional_in_calendar (sb_observed_at r) \<and> optional_in_calendar (sb_received_at r)"

text \<open>A result made of one row per day: sound if each row is.\<close>

definition sound_result :: "instant \<Rightarrow> instant \<Rightarrow> sql_bucket list \<Rightarrow> bool" where
  "sound_result s e rows \<longleftrightarrow> distinct (map sb_bucket_start rows) \<and> list_all (row_sound s e) rows"

lemma sound_daily_rows:
  assumes "at_midnight s" "\<And>t. t \<in> set ts \<Longrightarrow> in_window s e t"
    and "\<And>b. sb_bucket_start (F b) = b"
    and "\<And>b. b \<in> midnight ` set ts \<Longrightarrow> s \<le> b \<Longrightarrow> b < e \<Longrightarrow> row_sound s e (F b)"
  shows "sound_result s e (map F (sorted_days ts))"
proof -
  have "row_sound s e (F (midnight t))" if "t \<in> set ts" for t
    using that midnight_window [OF assms(1) assms(2) [OF that]] by (intro assms(4)) auto
  then show ?thesis
    using assms(3) by (auto simp: sound_result_def list_all_iff set_sorted_days distinct_sorted_days comp_def)
qed

lemma on_day_Nil [simp]: "on_day t [] b = []"
  by (simp add: on_day_def)

lemma on_day_all: "(\<And>x. x \<in> set rows \<Longrightarrow> P x) \<Longrightarrow> x \<in> set (on_day t rows b) \<Longrightarrow> P x"
  by (auto simp: on_day_def)

text \<open>A row from one table, and a row from the events and the coverage of a day.\<close>

lemma single_row_sound:
  assumes "s \<le> b" "b < e" "rs \<noteq> []" "0 \<le> v" "v < 2 ^ 63" "0 \<le> n" "n < 2 ^ 63"
    and "\<And>x. x \<in> set rs \<Longrightarrow> in_calendar (seen x) \<and> in_calendar (received x)"
  shows "row_sound s e \<lparr> sb_bucket_start = b, sb_value = v, sb_evidence_count = n,
    sb_observed_at = sql_max (map seen rs), sb_received_at = sql_max (map received rs),
    sb_complete = True, sb_coverage = True \<rparr>"
  using assms by (auto simp: row_sound_def intro!: optional_sql_max)

lemma joined_row_sound:
  assumes "s \<le> b" "b < e" "es \<noteq> [] \<or> cs \<noteq> []" "\<not> cov \<longrightarrow> es \<noteq> []" "fits es"
    and "\<And>x. x \<in> set es \<Longrightarrow> in_calendar (seen x) \<and> in_calendar (created x)"
    and "\<And>x. x \<in> set cs \<Longrightarrow> in_calendar (observed x) \<and> in_calendar (received x)"
  shows "row_sound s e \<lparr> sb_bucket_start = b, sb_value = count_distinct f es,
    sb_evidence_count = count_distinct f es,
    sb_observed_at = greatest (sql_max (map seen es)) (sql_max (map observed cs)),
    sb_received_at = greatest (sql_max (map created es)) (sql_max (map received cs)),
    sb_complete = c, sb_coverage = cov \<rparr>"
  using assms count_distinct_fits [OF assms(5)]
  by (auto simp: row_sound_def intro!: optional_sql_max optional_greatest)

lemma on_day_nonempty:
  "b \<in> midnight ` set (map t rows) \<Longrightarrow> on_day t rows b \<noteq> []"
  by (auto simp: on_day_def filter_empty_conv)

lemma on_day_nonempty_either:
  "b \<in> midnight ` set (map t rows @ map t' rows') \<Longrightarrow> on_day t rows b \<noteq> [] \<or> on_day t' rows' b \<noteq> []"
  using on_day_nonempty [of b t rows] on_day_nonempty [of b t' rows'] by auto

lemma ASSETS_NEW_sound:
  assumes "database_ok db" "at_midnight s"
  shows "sound_result s e (ASSETS_NEW db site s e c)"
  unfolding ASSETS_NEW_def Let_def
proof (rule sound_daily_rows [OF assms(2)], goal_cases)
  case (3 b)
  show ?case
  proof (rule joined_row_sound [OF 3(2,3) on_day_nonempty_either [OF 3(1)]], goal_cases)
    case 1
    then show ?case using on_day_nonempty_either [OF 3(1)] by blast
  next
    case 2
    show ?case using assms(1) by (simp add: database_ok_def fits_on_day fits_filter)
  next
    case (3 x)
    show ?case
      by (rule on_day_all [OF _ 3]) (use assms(1) in \<open>auto simp: database_ok_def list_all_iff\<close>)
  next
    case (4 x)
    show ?case
      by (rule on_day_all [OF _ 4]) (use assms(1) in \<open>auto simp: database_ok_def list_all_iff\<close>)
  qed
qed auto

lemma COLLECTORS_ACTIVE_sound:
  assumes "database_ok db" "at_midnight s"
  shows "sound_result s e (COLLECTORS_ACTIVE db site s e c)"
  unfolding COLLECTORS_ACTIVE_def Let_def
proof (rule sound_daily_rows [OF assms(2)], goal_cases)
  case (3 b)
  show ?case
  proof (rule single_row_sound [OF 3(2,3) on_day_nonempty [OF 3(1)]], goal_cases)
    case 2
    have "fits (db_checkins db)" using assms(1) by (simp add: database_ok_def)
    then show ?case by (intro count_distinct_fits fits_on_day fits_filter)
  next
    case 4
    have "fits (db_checkins db)" using assms(1) by (simp add: database_ok_def)
    then show ?case by (intro count_distinct_fits fits_on_day fits_filter)
  next
    case (5 x)
    show ?case
      by (rule on_day_all [OF _ 5])
        (use assms(1) in \<open>auto simp: database_ok_def list_all_iff checkin_time_def coalesce_def
           optional_in_calendar_def split: option.splits\<close>)
  qed simp_all
qed auto

lemma evaluated_bucket_sound:
  assumes "s \<le> b" "b < e"
    and "b \<in> midnight ` set (map event_time events @ map run_time runs)" "fits events"
    and "\<And>x. x \<in> set events \<Longrightarrow> in_calendar (event_time x) \<and> in_calendar (created x)"
    and "\<And>r. r \<in> set runs \<Longrightarrow> in_calendar (observed r) \<and> in_calendar (run_time r)"
  shows "row_sound s e (evaluated_bucket event_time created ident observed events runs b)"
  unfolding evaluated_bucket_def Let_def
  using on_day_nonempty_either [OF assms(3)]
  by (intro joined_row_sound assms(1,2) fits_on_day assms(4))
    (auto intro: on_day_all [OF assms(5), THEN conjunct1] on_day_all [OF assms(5), THEN conjunct2]
      on_day_all [OF assms(6), THEN conjunct1] on_day_all [OF assms(6), THEN conjunct2])

lemma run_time_in_calendar: "run_ok r \<Longrightarrow> in_calendar (run_time r)"
  by (auto simp: run_ok_def run_time_def coalesce_def optional_in_calendar_def split: option.splits)

lemma run_data_in_calendar: "run_ok r \<Longrightarrow> in_calendar (coalesce (er_data_as_of r) (run_time r))"
  using run_time_in_calendar [of r]
  by (auto simp: run_ok_def coalesce_def optional_in_calendar_def split: option.splits)

lemma FINDINGS_NEW_sound:
  assumes "database_ok db" "at_midnight s"
  shows "sound_result s e (FINDINGS_NEW db site s e c)"
  unfolding FINDINGS_NEW_def Let_def
proof (rule sound_daily_rows [OF assms(2)], goal_cases)
  case (3 b)
  then show ?case
    using assms(1) run_time_in_calendar run_data_in_calendar
    by (intro evaluated_bucket_sound) (auto simp: database_ok_def list_all_iff intro: fits_filter)
qed (auto simp: run_covers_def evaluated_bucket_def Let_def)

lemma VULNERABILITIES_NEW_sound:
  assumes "database_ok db" "at_midnight s"
  shows "sound_result s e (VULNERABILITIES_NEW db site s e c)"
  unfolding VULNERABILITIES_NEW_def Let_def
proof (rule sound_daily_rows [OF assms(2)], goal_cases)
  case (3 b)
  then show ?case
    using assms(1) run_time_in_calendar
    by (intro evaluated_bucket_sound)
      (auto simp: database_ok_def list_all_iff matched_at_def optional_in_calendar_def
        intro: fits_filter)
qed (auto simp: run_covers_def evaluated_bucket_def Let_def)

lemma collection_buckets_sound:
  assumes "database_ok db" "at_midnight s"
    and "\<And>P. 0 \<le> amount (filter P (db_collections db)) \<and> amount (filter P (db_collections db)) < 2 ^ 63"
  shows "sound_result s e (collection_buckets amount db site s e c)"
  unfolding collection_buckets_def Let_def
proof (rule sound_daily_rows [OF assms(2)], goal_cases)
  case (3 b)
  show ?case
  proof (rule single_row_sound [OF 3(2,3) on_day_nonempty [OF 3(1)]], goal_cases)
    case 1
    show ?case using assms(3) by (simp add: on_day_def)
  next
    case 2
    show ?case using assms(3) by (simp add: on_day_def)
  next
    case 4
    have "fits (db_collections db)" using assms(1) by (simp add: database_ok_def)
    then show ?case by (intro fits_length fits_on_day fits_filter)
  next
    case (5 x)
    show ?case
      by (rule on_day_all [OF _ 5]) (use assms(1) in \<open>auto simp: database_ok_def list_all_iff\<close>)
  qed simp
qed auto

lemma sum_list_filter_le:
  "list_all (\<lambda>x. 0 \<le> f x) xs \<Longrightarrow>
   0 \<le> sum_list (map f (filter P xs)) \<and> sum_list (map f (filter P xs)) \<le> (sum_list (map f xs) :: int)"
  by (induction xs) auto

lemma query_sound:
  assumes "map_of METRIC_QUERIES key = Some query" "database_ok db" "at_midnight s"
  shows "sound_result s e (query db site s e c)"
proof -
  have "list_all (\<lambda>r. 0 \<le> co_asset_count r) (db_collections db)"
    using assms(2) by (auto simp: database_ok_def list_all_iff)
  then have sums: "0 \<le> sum_list (map co_asset_count (filter P (db_collections db))) \<and>
      sum_list (map co_asset_count (filter P (db_collections db))) < 2 ^ 63" for P
    using sum_list_filter_le [of co_asset_count "db_collections db" P] assms(2)
    by (auto simp: database_ok_def)
  have counts: "0 \<le> int (length (filter P (db_collections db))) \<and>
      int (length (filter P (db_collections db))) < 2 ^ 63" for P
    using fits_filter [of "db_collections db" P] assms(2) by (simp add: database_ok_def fits_def)
  have "sound_result s e (INVENTORY_COLLECTIONS db site s e c)"
    "sound_result s e (INVENTORY_ASSET_OBSERVATIONS db site s e c)"
    unfolding INVENTORY_COLLECTIONS_def INVENTORY_ASSET_OBSERVATIONS_def
    by (rule collection_buckets_sound [OF assms(2,3)], rule counts,
      rule collection_buckets_sound [OF assms(2,3)], rule sums)
  then show ?thesis
    using assms ASSETS_NEW_sound COLLECTORS_ACTIVE_sound FINDINGS_NEW_sound VULNERABILITIES_NEW_sound
    by (auto simp: METRIC_QUERIES_def split: if_splits)
qed

section \<open>The store answers\<close>

definition row_aggregate :: "sql_bucket \<Rightarrow> aggregate" where
  "row_aggregate r =
     \<lparr> ag_value = Int_Num (sb_value r), ag_evidence_count = sb_evidence_count r,
       ag_observed_at = map_option (\<lambda>t. (t, 0)) (sb_observed_at r),
       ag_received_at = map_option (\<lambda>t. (t, 0)) (sb_received_at r),
       ag_complete = sb_complete r, ag_coverage_observed = sb_coverage r \<rparr>"

lemma zoned_utc_stamp [simp]: "zoned (map_option utc_stamp t) = Inr (map_option (\<lambda>u. (u, 0)) t)"
  by (cases t) (simp_all add: zoned_def utc_stamp_def)

lemma project_row_sound: "row_sound s e r \<Longrightarrow> project_row r = Inr (row_aggregate r)"
  by (simp add: project_row_def ProjectionAggregate_def row_sound_def row_aggregate_def)

lemma inj_utc_stamp [simp]: "utc_stamp a = utc_stamp b \<longleftrightarrow> a = b"
  by (simp add: utc_stamp_def)

definition row_sources :: "sql_bucket list \<Rightarrow> (instant \<times> aggregate) list" where
  "row_sources = map (\<lambda>r. (sb_bucket_start r, row_aggregate r))"

lemma project_rows_sound:
  "list_all (row_sound s e) rows \<Longrightarrow> distinct (map sb_bucket_start rows) \<Longrightarrow>
   (\<And>r. r \<in> set rows \<Longrightarrow> utc_stamp (sb_bucket_start r) \<notin> fst ` set acc) \<Longrightarrow>
   project_rows rows acc = Inr (acc @ utc_sources (row_sources rows))"
proof (induction rows arbitrary: acc)
  case Nil
  then show ?case by (simp add: utc_sources_def row_sources_def)
next
  case (Cons r rows)
  have r: "project_row r = Inr (row_aggregate r)" using Cons.prems(1) by (auto intro: project_row_sound)
  have "utc_stamp (sb_bucket_start x) \<notin> fst ` set (acc @ [(utc_stamp (sb_bucket_start r), row_aggregate r)])"
    if "x \<in> set rows" for x
  proof -
    have "sb_bucket_start x \<noteq> sb_bucket_start r"
      using Cons.prems(2) that by (metis distinct.simps(2) imageI list.map(2) set_map)
    then show ?thesis using Cons.prems(3) [of x] that by simp
  qed
  from Cons.IH [OF _ _ this] Cons.prems r show ?case
    by (auto simp: utc_sources_def row_sources_def)
qed

lemma row_sound_bigint: "row_sound s e r \<Longrightarrow> is_bigint (sb_value r)"
  by (simp add: row_sound_def is_bigint_def)

lemma sql_store_rows:
  assumes "map_of METRIC_QUERIES (md_metric_key m) = Some query" "site \<in> set (db_sites db)"
    and "database_ok db" "at_midnight s"
  shows "sql_store db m site s e c = Inr (utc_sources (row_sources (query db site s e c)))"
  using query_sound [OF assms(1,3,4), where site = site and e = e and c = c] assms(1,2)
    project_rows_sound [of s e "query db site s e c" "[]"]
  by (auto simp: sql_store_def sound_result_def list_all_iff row_sound_bigint Let_def)

lemma row_answerable:
  assumes "row_sound s e r"
  shows "answerable m (row_aggregate r)"
proof -
  have conv: "optional_in_calendar t \<Longrightarrow> optional_utc (map_option (\<lambda>u. (u, 0)) t) = Inr t" for t
    by (cases t) (simp_all add: optional_utc_def optional_in_calendar_def astimezone_utc_def
        lift_py_def in_calendar_def)
  show ?thesis
    using assms conv
    by (auto simp: answerable_def consistent_def row_sound_def row_aggregate_def projected_value_def)
qed

lemma every_metric_queried: "list_all (\<lambda>m. map_of METRIC_QUERIES (md_metric_key m) \<noteq> None) TEMPORAL_METRICS"
  by code_simp

lemma series_total:
  assumes "temporal_metric key = Inr m" "valid_site site" "site \<in> set (db_sites db)" "database_ok db"
    and "at_midnight s" "at_midnight e" "s < e" "e \<le> s + days 366"
    and "calendar_safe s" "calendar_safe e" "calendar_safe now" "e \<le> midnight now + days 1"
    and "case kc of None \<Rightarrow> True | Some c \<Rightarrow> in_calendar c \<and> e \<le> c"
  shows "\<exists>r. series (sql_store db) key site (utc_stamp s) (utc_stamp e) ''daily'' None (utc_stamp now)
    (map_option utc_stamp kc) = Inr r"
proof -
  obtain k where k: "e = s + days (int k)" "0 < k" "(e - s) div days 1 = int k"
    using assms(5-7) by (rule aligned_window)
  then have k366: "k \<le> 366" using assms(8) by (simp add: days_def)
  have m: "m \<in> set TEMPORAL_METRICS" "governed m"
    using temporal_metric_Inr temporal_metric_governed assms(1) by auto
  then obtain query where q: "map_of METRIC_QUERIES (md_metric_key m) = Some query"
    using every_metric_queried by (auto simp: list_all_iff)
  let ?rows = "query db site s e kc"
  have rows: "distinct (map sb_bucket_start ?rows)" "list_all (row_sound s e) ?rows"
    using query_sound [OF q assms(4,5)] by (auto simp: sound_result_def)
  have L: "list_all (\<lambda>(b, a). in_calendar b) (row_sources ?rows)"
    "distinct (map fst (row_sources ?rows))" "list_all (\<lambda>(b, a). answerable m a) (row_sources ?rows)"
    using rows calendar_safe_in [OF assms(9)] calendar_safe_in [OF assms(10)]
    by (auto simp: row_sources_def list_all_iff comp_def row_answerable in_calendar_def row_sound_def
        intro: row_answerable)
  have store: "sql_store db m site s e kc = Inr (utc_sources (row_sources ?rows))"
    by (rule sql_store_rows [OF q assms(3,4,5)])
  have "\<exists>r. project_window (sql_store db) m site s e (int k) kc now = Inr r"
    by (rule project_window_total [where store = "sql_store db" and cutoff = kc,
          OF m(2) assms(2,9-11,5) k(1,2) k366 store L])
  moreover have "optional_cutoff (map_option utc_stamp kc) = Inr kc"
    using assms(13) by (cases kc) (simp_all add: optional_cutoff_def)
  moreover have "validate_temporal_window (utc_stamp s) (utc_stamp e) ''daily'' = Inr (s, e, int k)"
    using assms(5-7,9,10) k k366 by (simp add: validate_temporal_window_Inr calendar_safe_in)
  moreover have "\<not> (case kc of None \<Rightarrow> False | Some c \<Rightarrow> c < e)"
    using assms(13) by (auto split: option.splits)
  ultimately show ?thesis
    using assms(1,2,12) utc_daily_bucket_safe [OF assms(11)] calendar_safe_in [OF assms(11)]
    by (simp add: series_def valid_site_def)
qed

text \<open>C13. The projection over the SQL store answers every valid request: for a governed metric, a known
  site and a window of at most 366 closed or current UTC days that respects its knowledge cutoff, the
  service returns a series, so the aggregates of the store never violate the service's own contract.\<close>

theorem series_answers:
  assumes "temporal_metric key = Inr m" "valid_site site" "site \<in> set (db_sites db)" "database_ok db"
    and "at_midnight s" "at_midnight e" "s < e" "e \<le> s + days 366"
    and "calendar_safe s" "calendar_safe e" "calendar_safe now" "e \<le> midnight now + days 1"
    and "case kc of None \<Rightarrow> True | Some c \<Rightarrow> in_calendar c \<and> e \<le> c"
  shows "\<exists>r. series (sql_store db) key site (utc_stamp s) (utc_stamp e) ''daily'' None (utc_stamp now)
    (map_option utc_stamp kc) = Inr r"
  using assms by (rule series_total)

definition example_database :: database where
  "example_database =
     \<lparr> db_sites = [''hq''],
       db_assets = [\<lparr> ar_site_id = ''hq'', ar_asset_id = ''a1'', ar_first_seen_at = days 20000 + 7,
                      ar_created_at = days 20000 + 9 \<rparr>],
       db_collections = [], db_checkins = [], db_enrollments = [],
       db_findings = [\<lparr> fr_site_id = ''hq'', fr_finding_id = ''f1'', fr_first_seen_at = days 20001 + 3,
                        fr_created_at = days 20001 + 4 \<rparr>],
       db_finding_runs = [\<lparr> er_scope_site_id = None, er_scoped = False, er_status = ''completed'',
                            er_started_at = days 20001 + 1, er_completed_at = Some (days 20001 + 5),
                            er_data_as_of = None \<rparr>],
       db_matches = [], db_vulnerability_runs = [] \<rparr>"

lemma min_instant_eq: "min_instant = - 62135596800000000"
  by code_simp

lemma max_instant_eq: "max_instant = 253402300799999999"
  by code_simp

lemma example_database_ok: "database_ok example_database"
  by code_simp

lemma findings_metric: "\<exists>m. temporal_metric ''site.findings.new.count'' = Inr m"
  by (simp add: temporal_metric_def TEMPORAL_METRICS_def)

lemma series_answers_witness:
  "\<exists>r. series (sql_store example_database) ''site.findings.new.count'' ''hq'' (utc_stamp (days 20000))
     (utc_stamp (days 20002)) ''daily'' None (utc_stamp (days 20002 + 11))
     (Some (utc_stamp (days 20002))) = Inr r"
proof -
  obtain m where m: "temporal_metric ''site.findings.new.count'' = Inr m" using findings_metric by blast
  have site: "valid_site ''hq''" by code_simp
  have mid: "midnight (days 20002 + 11) = days 20002" by code_simp
  from series_answers [OF m site _ example_database_ok, of "days 20000" "days 20002" "days 20002 + 11"
      "Some (days 20002)"] mid
  show ?thesis
    by (simp add: example_database_def calendar_safe_def in_calendar_def min_instant_eq max_instant_eq
        days_def at_midnight_def time_of_day_def)
qed

lemma example_series:
  "\<exists>r. series (sql_store example_database) ''site.findings.new.count'' ''hq'' (utc_stamp (days 20000))
     (utc_stamp (days 20002)) ''daily'' None (utc_stamp (days 20002 + 11))
     (Some (utc_stamp (days 20002))) = Inr r"
proof -
  obtain m where m: "temporal_metric ''site.findings.new.count'' = Inr m" using findings_metric by blast
  have site: "valid_site ''hq''" by code_simp
  have mid: "midnight (days 20002 + 11) = days 20002" by code_simp
  from series_total [OF m site _ example_database_ok, of "days 20000" "days 20002" "days 20002 + 11"
      "Some (days 20002)"] mid
  show ?thesis
    by (simp add: example_database_def calendar_safe_def in_calendar_def min_instant_eq max_instant_eq
        days_def at_midnight_def time_of_day_def)
qed

lemma series_covers_window_witness:
  "\<exists>r. series (sql_store example_database) ''site.findings.new.count'' ''hq'' (utc_stamp (days 20000))
     (utc_stamp (days 20002)) ''daily'' None (utc_stamp (days 20002 + 11))
     (Some (utc_stamp (days 20002))) = Inr r \<and> sr_bucket_count r = 2"
proof -
  obtain r where r: "series (sql_store example_database) ''site.findings.new.count'' ''hq''
      (utc_stamp (days 20000)) (utc_stamp (days 20002)) ''daily'' None (utc_stamp (days 20002 + 11))
      (Some (utc_stamp (days 20002))) = Inr r"
    using example_series by blast
  from series_covers_window [OF r] obtain k where
    k: "days 20002 = days 20000 + days (int k)" "sr_bucket_count r = int k" by blast
  from k(1) have "k = 2" by (simp add: days_def)
  with r k(2) show ?thesis by auto
qed

section \<open>The knowledge cutoff\<close>

text \<open>
  The database as it was before an instant: the rows recorded before it.  An evaluation run is
  recorded when it completes.
\<close>

definition known_before :: "instant \<Rightarrow> database \<Rightarrow> database" where
  "known_before c db = db
     \<lparr> db_assets := filter (\<lambda>r. ar_created_at r < c) (db_assets db),
       db_collections := filter (\<lambda>r. co_ingested_at r < c) (db_collections db),
       db_checkins := filter (\<lambda>r. ck_received_at r < c) (db_checkins db),
       db_findings := filter (\<lambda>r. fr_created_at r < c) (db_findings db),
       db_finding_runs := filter (\<lambda>r. run_time r < c) (db_finding_runs db),
       db_matches := filter (\<lambda>r. mr_created_at r < c) (db_matches db),
       db_vulnerability_runs := filter (\<lambda>r. run_time r < c) (db_vulnerability_runs db) \<rparr>"

lemma known_before_enrollments: "db_enrollments (known_before c db) = db_enrollments db"
  by (simp add: known_before_def)

lemma filter_known: "(\<And>x. P x \<Longrightarrow> Q x) \<Longrightarrow> filter P (filter Q xs) = filter P xs"
  by (simp add: filter_filter) (metis (mono_tags, lifting))

lemma query_as_of:
  assumes "map_of METRIC_QUERIES key = Some query" "c \<le> c'"
  shows "query (known_before c' db) site s e (Some c) = query db site s e (Some c)"
proof -
  have enr: "enrolled (known_before c' db) = enrolled db"
    by (rule ext) (simp add: enrolled_def known_before_enrollments split: option.split)
  note defs = ASSETS_NEW_def COLLECTORS_ACTIVE_def FINDINGS_NEW_def VULNERABILITIES_NEW_def
    collection_buckets_def
  have a: "filter (\<lambda>r. P r \<and> Q r \<and> known_by (Some c) (f r)) (filter (\<lambda>r. f r < c') xs) =
      filter (\<lambda>r. P r \<and> Q r \<and> known_by (Some c) (f r)) xs" for P Q f and xs :: "'z list"
    using assms(2) by (intro filter_known) (auto simp: known_by_def)
  have b: "filter (\<lambda>r. P r \<and> Q r \<and> R r \<and> known_by (Some c) (f r)) (filter (\<lambda>r. f r < c') xs) =
      filter (\<lambda>r. P r \<and> Q r \<and> R r \<and> known_by (Some c) (f r)) xs" for P Q R f and xs :: "'z list"
    using assms(2) by (intro filter_known) (auto simp: known_by_def)
  have d: "filter (run_covers site s e (Some c)) (filter (\<lambda>r. run_time r < c') xs) =
      filter (run_covers site s e (Some c)) xs" for xs
    using assms(2) by (intro filter_known) (auto simp: run_covers_def known_by_def)
  have sel: "db_assets (known_before c' db) = filter (\<lambda>r. ar_created_at r < c') (db_assets db)"
    "db_collections (known_before c' db) = filter (\<lambda>r. co_ingested_at r < c') (db_collections db)"
    "db_checkins (known_before c' db) = filter (\<lambda>r. ck_received_at r < c') (db_checkins db)"
    "db_findings (known_before c' db) = filter (\<lambda>r. fr_created_at r < c') (db_findings db)"
    "db_finding_runs (known_before c' db) = filter (\<lambda>r. run_time r < c') (db_finding_runs db)"
    "db_matches (known_before c' db) = filter (\<lambda>r. mr_created_at r < c') (db_matches db)"
    "db_vulnerability_runs (known_before c' db) = filter (\<lambda>r. run_time r < c') (db_vulnerability_runs db)"
    by (simp_all add: known_before_def)
  have "ASSETS_NEW (known_before c' db) site s e (Some c) = ASSETS_NEW db site s e (Some c)"
    "COLLECTORS_ACTIVE (known_before c' db) site s e (Some c) = COLLECTORS_ACTIVE db site s e (Some c)"
    "FINDINGS_NEW (known_before c' db) site s e (Some c) = FINDINGS_NEW db site s e (Some c)"
    "VULNERABILITIES_NEW (known_before c' db) site s e (Some c) = VULNERABILITIES_NEW db site s e (Some c)"
    "collection_buckets amount (known_before c' db) site s e (Some c) =
       collection_buckets amount db site s e (Some c)" for amount
    by (simp_all only: defs sel a b d enr)
  then show ?thesis
    using assms(1)
    by (auto simp: METRIC_QUERIES_def INVENTORY_COLLECTIONS_def INVENTORY_ASSET_OBSERVATIONS_def
        split: if_splits)
qed

lemma sql_store_as_of:
  "c \<le> c' \<Longrightarrow> sql_store (known_before c' db) m site s e (Some c) = sql_store db m site s e (Some c)"
proof -
  assume c: "c \<le> c'"
  have "db_sites (known_before c' db) = db_sites db" by (simp add: known_before_def)
  then show ?thesis
    using query_as_of [OF _ c, where key = "md_metric_key m" and site = site and s = s and e = e and db = db]
    by (cases "map_of METRIC_QUERIES (md_metric_key m)") (simp_all add: sql_store_def)
qed

text \<open>
  The as-of query of the active collectors restricts the check-ins but not the enrollments it joins
  with, which have a creation time too.  So what an as-of query can see of a database is the rows
  recorded before the cutoff, the sites and, for the active collectors only, the enrollments as they
  are now.
\<close>

definition same_knowledge :: "string \<Rightarrow> instant \<Rightarrow> database \<Rightarrow> database \<Rightarrow> bool" where
  "same_knowledge key c db db' \<longleftrightarrow>
     (known_before c db)\<lparr>db_enrollments := []\<rparr> = (known_before c db')\<lparr>db_enrollments := []\<rparr> \<and>
     (key = ''site.collectors.active.count'' \<longrightarrow> db_enrollments db = db_enrollments db')"

lemma query_enrollments:
  assumes "map_of METRIC_QUERIES key = Some query" "key \<noteq> ''site.collectors.active.count''"
  shows "query (db\<lparr>db_enrollments := E\<rparr>) site s e c = query db site s e c"
  using assms
  by (auto simp: METRIC_QUERIES_def INVENTORY_COLLECTIONS_def INVENTORY_ASSET_OBSERVATIONS_def
      ASSETS_NEW_def FINDINGS_NEW_def VULNERABILITIES_NEW_def collection_buckets_def split: if_splits)

lemma sql_store_enrollments:
  assumes "md_metric_key m \<noteq> ''site.collectors.active.count''"
  shows "sql_store (db\<lparr>db_enrollments := E\<rparr>) m site s e c = sql_store db m site s e c"
  using query_enrollments [OF _ assms, where db = db and E = E and site = site and s = s and e = e and c = c]
  by (cases "map_of METRIC_QUERIES (md_metric_key m)") (simp_all add: sql_store_def)

lemma same_but_enrollments:
  assumes "r\<lparr>db_enrollments := E\<rparr> = r'\<lparr>db_enrollments := E\<rparr>" "db_enrollments r = db_enrollments r'"
  shows "r = (r' :: database)"
proof (rule database.equality)
  show "db_sites r = db_sites r'" using arg_cong [OF assms(1), of db_sites] by simp
  show "db_assets r = db_assets r'" using arg_cong [OF assms(1), of db_assets] by simp
  show "db_collections r = db_collections r'" using arg_cong [OF assms(1), of db_collections] by simp
  show "db_checkins r = db_checkins r'" using arg_cong [OF assms(1), of db_checkins] by simp
  show "db_findings r = db_findings r'" using arg_cong [OF assms(1), of db_findings] by simp
  show "db_finding_runs r = db_finding_runs r'" using arg_cong [OF assms(1), of db_finding_runs] by simp
  show "db_matches r = db_matches r'" using arg_cong [OF assms(1), of db_matches] by simp
  show "db_vulnerability_runs r = db_vulnerability_runs r'" using arg_cong [OF assms(1), of db_vulnerability_runs] by simp
qed (simp_all add: assms(2))

lemma same_knowledge_normal:
  assumes "same_knowledge key c db db'"
  shows "key = ''site.collectors.active.count'' \<Longrightarrow> known_before c db = known_before c db'"
    and "(known_before c db)\<lparr>db_enrollments := []\<rparr> = (known_before c db')\<lparr>db_enrollments := []\<rparr>"
proof -
  show n: "(known_before c db)\<lparr>db_enrollments := []\<rparr> = (known_before c db')\<lparr>db_enrollments := []\<rparr>"
    using assms unfolding same_knowledge_def by (rule conjunct1)
  assume "key = ''site.collectors.active.count''"
  then have "db_enrollments db = db_enrollments db'" using assms unfolding same_knowledge_def by blast
  then have "db_enrollments (known_before c db) = db_enrollments (known_before c db')"
    by (simp only: known_before_enrollments)
  with n show "known_before c db = known_before c db'" by (rule same_but_enrollments)
qed

lemma sql_store_same_knowledge:
  assumes "same_knowledge (md_metric_key m) c' db db'" "c \<le> c'"
  shows "sql_store db m site s e (Some c) = sql_store db' m site s e (Some c)"
proof -
  let ?q = "\<lambda>d. sql_store d m site s e (Some c)"
  have "?q (known_before c' db) = ?q (known_before c' db')"
  proof (cases "md_metric_key m = ''site.collectors.active.count''")
    case True
    then have "known_before c' db = known_before c' db'" by (rule same_knowledge_normal(1) [OF assms(1)])
    then show ?thesis by (rule arg_cong [of _ _ ?q])
  next
    case False
    have "?q (known_before c' db) = ?q ((known_before c' db)\<lparr>db_enrollments := []\<rparr>)"
      by (rule sql_store_enrollments [OF False, symmetric])
    also have "\<dots> = ?q ((known_before c' db')\<lparr>db_enrollments := []\<rparr>)"
      by (rule arg_cong [OF same_knowledge_normal(2) [OF assms(1)], of ?q])
    also have "\<dots> = ?q (known_before c' db')" by (rule sql_store_enrollments [OF False])
    finally show ?thesis .
  qed
  then show ?thesis by (simp only: sql_store_as_of [OF assms(2)])
qed

text \<open>The as-of count of active collectors is not fixed by its cutoff: an accepted check-in from before
  the cutoff counts or not depending on whether its agent is enrolled at the site when the query is
  run, so an enrollment made after the cutoff changes the past.\<close>

theorem enrollment_changes_the_past:
  assumes "ck_agent_id r = Some a" "ck_site_id r = site" "in_window s e (checkin_time r)"
    and "ck_received_at r < c" "db_checkins db = [r]" "db_enrollments db = []"
  shows "COLLECTORS_ACTIVE db site s e (Some c) = [] \<and>
    map sb_value (COLLECTORS_ACTIVE (db\<lparr>db_enrollments := [(a, site)]\<rparr>) site s e (Some c)) = [1]"
  using assms
  by (simp add: COLLECTORS_ACTIVE_def enrolled_def known_by_def sorted_days_def on_day_def
      count_distinct_def Let_def)

lemma enrollment_changes_the_past_witness:
  "COLLECTORS_ACTIVE
     (example_database\<lparr>db_checkins := [\<lparr> ck_site_id = ''hq'', ck_agent_id = Some ''ag'',
        ck_checked_in_at = None, ck_received_at = days 20000 + 5 \<rparr>]\<rparr>)
     ''hq'' (days 20000) (days 20001) (Some (days 20001)) = []"
  by (rule enrollment_changes_the_past [THEN conjunct1])
    (simp_all add: example_database_def in_window_def checkin_time_def coalesce_def days_def)

end
