(* ===== verification/Temporal_Range_Laws.thy ===== *)
theory Temporal_Range_Laws
  imports Temporal_Expectation
begin

text \<open>
  The robust range in decimal arithmetic: it is ordered, it is not negative, and it is computed without
  an exception for all values below the precision of the decimal context.
\<close>

section \<open>Decimals of floats\<close>

lemma pow10_nat: "pow10 (int n) = 10 ^ n"
  by (simp add: pow10_def)

lemma repr_digits_bounds:
  assumes "0 < x" "x < pow10 (k + 1)" "int n + int fuel = 16"
    and "repr_digits fuel n k x = (m, e)"
  shows "0 \<le> m \<and> m \<le> 10 ^ 17 \<and> k - 16 \<le> e"
  using assms(3,4)
proof (induction fuel arbitrary: n)
  have digit: "0 \<le> round_half_even (x / pow10 (k - int j)) \<and>
      round_half_even (x / pow10 (k - int j)) \<le> 10 ^ 17" if "j \<le> 16" for j
  proof
    show "0 \<le> round_half_even (x / pow10 (k - int j))"
      using assms(1) by (intro round_half_even_ge) (simp add: less_imp_le)
    have "x / pow10 (k - int j) \<le> pow10 (k + 1) / pow10 (k - int j)"
      using assms(2) by (intro divide_right_mono) (simp_all add: less_imp_le)
    also have "\<dots> = pow10 (int (Suc j))" by (simp flip: pow10_diff)
    also have "\<dots> = of_int (10 ^ Suc j)" by (simp only: pow10_nat of_int_power of_int_numeral)
    finally have "round_half_even (x / pow10 (k - int j)) \<le> 10 ^ Suc j"
      by (rule round_half_even_le)
    also have "(10 :: int) ^ Suc j \<le> 10 ^ 17" using that by (intro power_increasing) simp_all
    finally show "round_half_even (x / pow10 (k - int j)) \<le> 10 ^ 17" .
  qed
  {
    case 0
    then show ?case using digit [of 16] by auto
  next
    case (Suc fuel)
    have n: "n \<le> 16" using Suc.prems(1) by simp
    show ?case
      using Suc.prems Suc.IH [of "Suc n"] digit [OF n] n by (auto simp: Let_def split: if_splits)
  }
qed

definition machine_num :: "num_value \<Rightarrow> bool" where
  "machine_num v \<longleftrightarrow> num_admissible v \<and> (\<forall>x. v = Float_Num (Finite x) \<longrightarrow> fl x = x)"

lemma pow10_le_pow2: "pow10 (- int n) \<le> pow2 (- int n)"
proof -
  have "(2 :: rat) ^ n \<le> 10 ^ n" by (rule power_mono) simp_all
  then have "1 / 10 ^ n \<le> 1 / (2 :: rat) ^ n" by (intro frac_le) simp_all
  then show ?thesis by (cases "n = 0") (simp_all add: pow10_def pow2_def)
qed

lemma machine_float_ge:
  assumes "0 < x" "fl x = x"
  shows "pow10 (- 1074) \<le> x"
proof -
  have x: "fl_pos x = x" using assms by (simp add: fl_def)
  obtain m e where me: "fl_pos x = of_int m * pow2 e" "- 1074 \<le> e"
    using b64.rnd_pos_form [OF assms(1)] by metis
  have "0 < m" using me(1) x assms(1) by (simp add: zero_less_mult_iff)
  then have "1 * pow2 (- 1074) \<le> of_int m * pow2 e"
    using me(2) by (intro mult_mono pow2_mono) simp_all
  moreover have "pow10 (- 1074) \<le> pow2 (- 1074)" using pow10_le_pow2 [of 1074] by simp
  ultimately show ?thesis using me(1) x by simp
qed

lemma shortest_decimal_28:
  assumes "0 < x" "fl x = x"
  shows "dec28 (shortest_decimal x) = shortest_decimal x \<and> 0 \<le> shortest_decimal x"
proof -
  obtain m e where r: "repr_digits 16 0 (dec_exponent x) x = (m, e)" by fastforce
  have b: "0 \<le> m" "m \<le> 10 ^ 17" "dec_exponent x - 16 \<le> e"
    using repr_digits_bounds [OF assms(1) _ _ r] dec_exponent_bounds [OF assms(1)] by auto
  have "- 1074 \<le> dec_exponent x"
    by (rule d28.mag_ge [OF assms(1) machine_float_ge [OF assms]])
  then have "dec28 (of_int m * pow10 e) = of_int m * pow10 e"
    using b by (intro dec28_exact) simp_all
  with b(1) r show ?thesis by (simp add: shortest_decimal_def less_imp_le)
qed

text \<open>A decimal that needs no rounding and is not negative.\<close>

definition exact_decimal :: "rat \<Rightarrow> bool" where
  "exact_decimal d \<longleftrightarrow> 0 \<le> d \<and> (d < 10 ^ 22 \<longrightarrow> dec28 d = d)"

lemma decimal_of_num_exact:
  assumes "machine_num v" "decimal_of_num v = Inr (Some d)"
  shows "exact_decimal d"
proof (cases v)
  case (Int_Num i)
  then have "0 \<le> i" "d = of_int i"
    using assms by (auto simp: machine_num_def bind_result_eq_Inr_iff)
  moreover have "dec28 (of_int i) = of_int i" if "(of_int i :: rat) < 10 ^ 22" "0 \<le> i"
  proof (rule dec28_of_int)
    have "i < 10 ^ 22" using that(1) by (metis of_int_less_iff of_int_numeral of_int_power)
    with that(2) show "\<bar>i\<bar> < 10 ^ 28" by simp
  qed
  ultimately show ?thesis by (simp add: exact_decimal_def)
next
  case (Float_Num f)
  with assms obtain x where x: "f = Finite x" "0 \<le> x" "fl x = x" "d = decimal_of_float x"
    by (cases f) (auto simp: machine_num_def)
  then show ?thesis
    using shortest_decimal_28 [of x] by (cases "x = 0") (auto simp: exact_decimal_def decimal_of_float_def d28.rnd_zero)
qed

section \<open>Medians\<close>

lemma median_index: "ds \<noteq> [] \<Longrightarrow> length ds div 2 < length ds"
  by (cases ds) simp_all

lemma median_cases:
  assumes "ds \<noteq> []"
  shows "median ds \<in> set ds \<or> (\<exists>a \<in> set ds. \<exists>b \<in> set ds. median ds = dec_div (dec_add a b) 2)"
proof -
  let ?s = "sort ds" and ?m = "length ds div 2"
  have m: "?m < length ?s" using assms by (simp add: median_index)
  then have "?s ! ?m \<in> set ds" "?s ! (?m - 1) \<in> set ds"
    by (metis nth_mem set_sort, metis less_imp_diff_less nth_mem set_sort)
  then show ?thesis by (auto simp: median_def Let_def)
qed

lemma dec28_mono: "x \<le> y \<Longrightarrow> dec28 x \<le> dec28 y"
  by (rule d28.rnd_mono)

lemma median_between:
  assumes "ds \<noteq> []" "\<And>d. d \<in> set ds \<Longrightarrow> lo \<le> d \<and> d \<le> hi"
    and "dec28 lo = lo" "dec28 (lo + lo) = lo + lo" "dec28 hi = hi" "dec28 (hi + hi) = hi + hi"
  shows "lo \<le> median ds \<and> median ds \<le> hi"
proof -
  have "lo \<le> dec_div (dec_add a b) 2 \<and> dec_div (dec_add a b) 2 \<le> hi"
    if "a \<in> set ds" "b \<in> set ds" for a b
  proof -
    have ab: "lo + lo \<le> a + b" "a + b \<le> hi + hi"
      using assms(2) [OF that(1)] assms(2) [OF that(2)] by linarith+
    have "lo + lo \<le> dec_add a b" "dec_add a b \<le> hi + hi"
      using dec28_mono [OF ab(1)] dec28_mono [OF ab(2)] assms(4,6) by (simp_all add: dec_add_def)
    then have "lo \<le> dec_add a b / 2" "dec_add a b / 2 \<le> hi" by linarith+
    then show ?thesis
      using dec28_mono [of lo "dec_add a b / 2"] dec28_mono [of "dec_add a b / 2" hi] assms(3,5)
      by (simp add: dec_div_def)
  qed
  with median_cases [OF assms(1)] assms(2) show ?thesis by metis
qed

lemma median_nonneg: "ds \<noteq> [] \<Longrightarrow> (\<And>d. d \<in> set ds \<Longrightarrow> 0 \<le> d) \<Longrightarrow> 0 \<le> median ds"
proof -
  assume ne: "ds \<noteq> []" and nn: "\<And>d. d \<in> set ds \<Longrightarrow> 0 \<le> d"
  have "0 \<le> dec_div (dec_add a b) 2" if "a \<in> set ds" "b \<in> set ds" for a b
    using nn [OF that(1)] nn [OF that(2)] by (simp add: dec_div_def dec_add_def d28.rnd_nonneg)
  with median_cases [OF ne] nn show ?thesis by metis
qed

lemma median_exact:
  assumes "ds \<noteq> []" "\<And>d. d \<in> set ds \<Longrightarrow> exact_decimal d"
  shows "exact_decimal (median ds)"
proof -
  have "exact_decimal (dec_div (dec_add a b) 2)" if "a \<in> set ds" "b \<in> set ds" for a b
    using assms(2) [OF that(1)] assms(2) [OF that(2)]
    by (simp add: exact_decimal_def) (simp add: dec_div_def dec_add_def d28.rnd_nonneg)
  with median_cases [OF assms(1)] assms(2) show ?thesis by metis
qed

section \<open>The range\<close>

definition half_width :: "rat list \<Rightarrow> rat" where
  "half_width ds =
     dec_mul (dec_mul (median (map (\<lambda>d. dec_abs (dec_sub d (median ds))) ds)) ROBUST_MAD_SCALE)
       ROBUST_RANGE_MULTIPLIER"

lemma decimal_range_half_width:
  "decimal_range ds =
     (median ds, max 0 (dec_sub (median ds) (half_width ds)), dec_add (median ds) (half_width ds))"
  by (simp add: decimal_range_def half_width_def Let_def)

lemma half_width_nonneg: "ds \<noteq> [] \<Longrightarrow> 0 \<le> half_width ds"
  unfolding half_width_def
  by (auto simp: dec_mul_def dec_abs_def ROBUST_MAD_SCALE_def ROBUST_RANGE_MULTIPLIER_def
      intro!: d28.rnd_nonneg mult_nonneg_nonneg median_nonneg)

lemma rounded_Inr: "rounded x = Inr y \<Longrightarrow> \<exists>q. quantize6 x = Some q \<and> y = fl q"
  by (auto simp: rounded_def to_float_def Let_def split: option.splits if_splits)

lemma rounded_small: "rounded x = Inr y \<Longrightarrow> 0 \<le> x \<Longrightarrow> x < 10 ^ 22"
proof -
  assume "rounded x = Inr y" and x: "0 \<le> x"
  then have "\<lfloor>x * 1000000 + 1 / 2\<rfloor> < 10 ^ 28"
    using rounded_Inr [of x y] by (auto simp: quantize6_def Let_def round_half_up_def split: if_splits)
  then have "x * 1000000 + 1 / 2 < 10 ^ 28" by (simp add: floor_less_iff)
  then show ?thesis by simp
qed

lemma rounded_mono: "rounded x = Inr a \<Longrightarrow> rounded y = Inr b \<Longrightarrow> x \<le> y \<Longrightarrow> a \<le> b"
  using rounded_Inr [of x a] rounded_Inr [of y b] quantize6_mono [of x y] by (auto intro: fl_mono)

lemma rounded_nonneg: "rounded x = Inr a \<Longrightarrow> 0 \<le> x \<Longrightarrow> 0 \<le> a"
  using rounded_Inr [of x a] quantize6_nonneg [of x] by (auto intro: b64.rnd_nonneg)

lemma robust_range_bounds:
  assumes "robust_expected_range vs = Inr (expected, lower, upper)" "list_all machine_num vs"
  shows "0 \<le> lower \<and> lower \<le> expected \<and> expected \<le> upper"
proof -
  from assms(1) obtain ds where
    ne: "vs \<noteq> []" and seq: "sequence_results (map decimal_of_num vs) = Inr ds" and fin: "None \<notin> set ds"
    and c: "rounded (median (map the ds)) = Inr expected"
    and l: "rounded (max 0 (dec_sub (median (map the ds)) (half_width (map the ds)))) = Inr lower"
    and u: "rounded (dec_add (median (map the ds)) (half_width (map the ds))) = Inr upper"
    by (auto simp: robust_expected_range_def decimal_range_half_width bind_result_eq_Inr_iff
        split: if_splits)
  have map: "map decimal_of_num vs = map Inr ds" using seq by (simp add: sequence_results_Inr_iff)
  then have ne': "map the ds \<noteq> []" using ne by (cases ds) auto
  have exact: "exact_decimal d" if "d \<in> set (map the ds)" for d
  proof -
    from that fin obtain i where i: "i < length ds" "ds ! i = Some d"
      by (auto simp: in_set_conv_nth)
    have len: "length vs = length ds" using arg_cong [OF map, of length] by simp
    then have "decimal_of_num (vs ! i) = Inr (Some d)"
      using arg_cong [OF map, of "\<lambda>xs. xs ! i"] i by simp
    then show ?thesis using assms(2) i(1) len by (intro decimal_of_num_exact) (auto simp: list_all_length)
  qed
  let ?m = "median (map the ds)" and ?h = "half_width (map the ds)"
  have m: "exact_decimal ?m" using median_exact [OF ne' exact] .
  have m0: "0 \<le> ?m" using m by (simp add: exact_decimal_def)
  have m28: "dec28 ?m = ?m" using m rounded_small [OF c m0] by (simp add: exact_decimal_def)
  have h: "0 \<le> ?h" using half_width_nonneg [OF ne'] .
  have "dec_sub ?m ?h \<le> ?m" unfolding dec_sub_def by (rule d28.rnd_sub_le [OF m28 h])
  then have "lower \<le> expected" using m0 by (intro rounded_mono [OF l c]) simp
  moreover have "expected \<le> upper"
    unfolding dec_add_def
    by (rule rounded_mono [OF c u]) (simp add: dec_add_def d28.rnd_add_ge [OF m28 h])
  moreover have "0 \<le> lower" by (rule rounded_nonneg [OF l]) simp
  ultimately show ?thesis by simp
qed

text \<open>Values up to \<open>10 ^ 21\<close> keep every intermediate result below the 28 digits of the context.\<close>

definition value_limit :: rat where
  "value_limit = 10 ^ 21"

lemma rounded_ok:
  assumes "0 \<le> x" "x \<le> 6 * value_limit"
  shows "\<exists>y. rounded x = Inr y"
proof -
  let ?n = "round_half_up (x * 1000000)"
  have n0: "0 \<le> ?n" using assms(1) by (simp add: round_half_up_def)
  have "x * 1000000 + 1 / 2 < of_int (10 ^ 28)" using assms(2) by (simp add: value_limit_def)
  then have "?n < 10 ^ 28" using assms(1) by (simp add: round_half_up_def floor_less_iff)
  then have q: "quantize6 x = Some (of_int ?n / 1000000)" using n0 by (simp add: quantize6_def Let_def)
  have "of_int ?n / 1000000 \<le> (of_int (10 ^ 28) / 1000000 :: rat)"
  proof (rule divide_right_mono)
    show "(of_int ?n :: rat) \<le> of_int (10 ^ 28)" using \<open>?n < 10 ^ 28\<close> by (simp only: of_int_le_iff)
  qed simp
  then have le: "of_int ?n / 1000000 \<le> (pow2 100 :: rat)" by (simp add: pow2_def)
  have "fl (pow2 100) = pow2 100" using fl_exact [of 1 100] by simp
  then have "fl (of_int ?n / 1000000) \<le> pow2 100" using fl_mono [OF le] by simp
  moreover have "pow2 100 \<le> max_finite" by (simp add: max_finite_eval pow2_def)
  moreover have "0 \<le> fl (of_int ?n / 1000000)" using n0 by (intro b64.rnd_nonneg) simp
  moreover have "0 \<le> max_finite" by (simp add: max_finite_eval)
  ultimately show ?thesis using q by (simp add: rounded_def to_float_def Let_def)
qed

text \<open>A rounded value is zero or at least a millionth, give or take the rounding to a float.\<close>

definition float_micro :: "rat \<Rightarrow> bool" where
  "float_micro y \<longleftrightarrow> (y = 0 \<or> pow2 (- 20) \<le> y) \<and> y \<le> pow2 74"

lemma rounded_micro:
  assumes "rounded x = Inr y" "0 \<le> x"
  shows "float_micro y"
proof -
  obtain q where q: "quantize6 x = Some q" "y = fl q" using rounded_Inr [OF assms(1)] by blast
  define n where "n = round_half_up (x * 1000000)"
  have n: "n < 10 ^ 28" "q = of_int n / 1000000"
    using q(1) by (simp_all add: n_def quantize6_def Let_def split: if_splits)
  have fixed: "fl (pow2 74) = pow2 74" "fl (pow2 (- 20)) = pow2 (- 20)"
    using fl_exact [of 1 74] fl_exact [of 1 "- 20"] by simp_all
  have n0: "0 \<le> n" using quantize6_nonneg [OF assms(2) q(1)] n(2) by (simp add: zero_le_divide_iff)
  have "(of_int n :: rat) \<le> of_int (10 ^ 28)" using n(1) by (simp only: of_int_le_iff)
  then have "q \<le> of_int (10 ^ 28) / 1000000" unfolding n(2) by (rule divide_right_mono) simp
  then have "q \<le> pow2 74" by (simp add: pow2_def)
  then have top: "y \<le> pow2 74" using fl_mono [of q "pow2 74"] by (simp add: q fixed)
  show ?thesis
  proof (cases "n = 0")
    case True
    then show ?thesis by (simp add: float_micro_def q(2) n(2))
  next
    case False
    with n0 have "(1 :: rat) \<le> of_int n" by simp
    then have "pow2 (- 20) \<le> q" unfolding n(2) by (simp add: pow2_def field_simps)
    then show ?thesis using top fl_mono [of "pow2 (- 20)" q] by (simp add: float_micro_def q(2) fixed)
  qed
qed

lemma robust_center_micro:
  assumes "robust_expected_range vs = Inr (expected, lower, upper)" "list_all machine_num vs"
  shows "float_micro expected"
proof -
  from assms(1) obtain x where x: "rounded x = Inr expected"
    by (auto simp: robust_expected_range_def decimal_range_half_width bind_result_eq_Inr_iff
        split: if_splits)
  have "0 \<le> expected" using robust_range_bounds [OF assms] by linarith
  show ?thesis
  proof (cases "0 \<le> x")
    case True
    then show ?thesis by (rule rounded_micro [OF x])
  next
    case False
    obtain z where z: "rounded 0 = Inr z" using rounded_ok [of 0] by (auto simp: value_limit_def)
    have "expected \<le> z" using False by (intro rounded_mono [OF x z]) simp
    moreover have "z = 0" using z by (auto simp: rounded_def quantize6_def round_half_up_zero to_float_def max_finite_eval)
    ultimately show ?thesis using \<open>0 \<le> expected\<close> by (simp add: float_micro_def)
  qed
qed

text \<open>C12. Whenever the robust range of admissible values is computed, it is ordered and not negative:
  the rounding to 28 digits, to six decimals and to a float keeps lower at most expected at most upper.\<close>

theorem robust_range_ordered:
  assumes "robust_expected_range vs = Inr (expected, lower, upper)" "list_all machine_num vs"
  shows "0 \<le> lower \<and> lower \<le> expected \<and> expected \<le> upper"
  using assms by (rule robust_range_bounds)

section \<open>The range is computed\<close>

definition moderate :: "num_value \<Rightarrow> bool" where
  "moderate v \<longleftrightarrow> (case v of Int_Num i \<Rightarrow> 0 \<le> i \<and> i \<le> 10 ^ 21 | Float_Num _ \<Rightarrow> False)"

lemma dec28_numeral: "(numeral n :: int) < 10 ^ 28 \<Longrightarrow> dec28 (numeral n) = numeral n"
  using dec28_of_int [of "numeral n"] by simp

lemma moderate_machine: "moderate v \<Longrightarrow> machine_num v"
  by (auto simp: moderate_def machine_num_def split: num_value.splits)

lemma moderate_decimal:
  assumes "moderate v"
  shows "\<exists>d. decimal_of_num v = Inr (Some d) \<and> 0 \<le> d \<and> d \<le> value_limit"
proof (cases v)
  case (Int_Num i)
  with assms have i: "0 \<le> i" "i \<le> 10 ^ 21" by (simp_all add: moderate_def)
  have "int_text i = Inr (dec_int i)"
    using i by (intro int_text_ok [where n = 22]) simp_all
  moreover have "(of_int i :: rat) \<le> value_limit"
    unfolding value_limit_def using i(2) by (metis of_int_le_iff of_int_numeral of_int_power)
  ultimately show ?thesis using i Int_Num by (simp add: lift_py_def)
next
  case (Float_Num f)
  with assms show ?thesis by (simp add: moderate_def)
qed

lemma dec28_limit: "0 \<le> n \<Longrightarrow> n \<le> 100000 \<Longrightarrow> dec28 (of_int n * (value_limit / 10000)) = of_int n * (value_limit / 10000)"
  using dec28_exact [of n 17] by (simp add: value_limit_def pow10_def)

lemma dec28_le_limit:
  "x \<le> of_int n * (value_limit / 10000) \<Longrightarrow> 0 \<le> n \<Longrightarrow> n \<le> 100000 \<Longrightarrow>
   dec28 x \<le> of_int n * (value_limit / 10000)"
  by (metis dec28_limit dec28_mono)

lemma limit_exact: "dec28 value_limit = value_limit" "dec28 (value_limit + value_limit) = value_limit + value_limit"
  using dec28_limit [of 10000] dec28_limit [of 20000] by simp_all

lemma median_limit:
  "ds \<noteq> [] \<Longrightarrow> (\<And>d. d \<in> set ds \<Longrightarrow> 0 \<le> d \<and> d \<le> value_limit) \<Longrightarrow>
   0 \<le> median ds \<and> median ds \<le> value_limit"
  using median_between [of ds 0 value_limit] limit_exact by (simp add: d28.rnd_zero)

lemma deviation_limit:
  assumes "0 \<le> d \<and> d \<le> value_limit" "0 \<le> m \<and> m \<le> value_limit"
  shows "0 \<le> dec_abs (dec_sub d m) \<and> dec_abs (dec_sub d m) \<le> value_limit"
proof -
  have "- value_limit \<le> d - m" "d - m \<le> value_limit" using assms by linarith+
  then have "dec28 (- value_limit) \<le> dec_sub d m" "dec_sub d m \<le> dec28 value_limit"
    unfolding dec_sub_def by (intro dec28_mono; simp)+
  then have "\<bar>dec_sub d m\<bar> \<le> value_limit" by (simp add: d28.rnd_uminus limit_exact abs_le_iff)
  then have "dec_abs (dec_sub d m) \<le> value_limit"
    unfolding dec_abs_def using dec28_mono limit_exact(1) by metis
  then show ?thesis by (simp add: dec_abs_def d28.rnd_nonneg)
qed

lemma half_width_limit:
  assumes "ds \<noteq> []" "\<And>d. d \<in> set ds \<Longrightarrow> 0 \<le> d \<and> d \<le> value_limit"
  shows "half_width ds \<le> of_int 44478 * (value_limit / 10000)"
proof -
  let ?devs = "map (\<lambda>d. dec_abs (dec_sub d (median ds))) ds"
  have "0 \<le> x \<and> x \<le> value_limit" if "x \<in> set ?devs" for x
    using that deviation_limit [OF assms(2) median_limit [OF assms]] by auto
  then have mad: "0 \<le> median ?devs \<and> median ?devs \<le> value_limit"
    using assms(1) by (intro median_limit) auto
  have "dec_mul (median ?devs) ROBUST_MAD_SCALE \<le> of_int 14826 * (value_limit / 10000)"
    unfolding dec_mul_def using mad
    by (intro dec28_le_limit) (simp_all add: ROBUST_MAD_SCALE_def)
  then show ?thesis
    unfolding half_width_def dec_mul_def [of _ ROBUST_RANGE_MULTIPLIER]
    by (intro dec28_le_limit) (simp_all add: ROBUST_RANGE_MULTIPLIER_def)
qed

text \<open>The robust range of a sample of counts up to \<open>10 ^ 21\<close> is always computed: no decimal operation
  and no output rounding raises.\<close>

lemma robust_range_computed:
  assumes "vs \<noteq> []" "list_all moderate vs"
  shows "\<exists>expected lower upper. robust_expected_range vs = Inr (expected, lower, upper)"
proof -
  let ?d = "\<lambda>v. THE d. decimal_of_num v = Inr (Some d)"
  let ?ds = "map ?d vs"
  have d: "decimal_of_num v = Inr (Some (?d v)) \<and> 0 \<le> ?d v \<and> ?d v \<le> value_limit" if "v \<in> set vs" for v
    using moderate_decimal [of v] that assms(2) by (auto simp: list_all_iff)
  then have seq: "sequence_results (map decimal_of_num vs) = Inr (map Some ?ds)"
    by (simp add: sequence_results_Inr_iff)
  have ne: "?ds \<noteq> []" using assms(1) by simp
  have bounded: "0 \<le> x \<and> x \<le> value_limit" if "x \<in> set ?ds" for x using that d by auto
  have m: "0 \<le> median ?ds" "median ?ds \<le> value_limit" using median_limit [OF ne bounded] by auto
  have h: "0 \<le> half_width ?ds" "half_width ?ds \<le> of_int 44478 * (value_limit / 10000)"
    using half_width_nonneg [OF ne] half_width_limit [OF ne bounded] by auto
  have L: "0 \<le> value_limit" by (simp add: value_limit_def)
  obtain c where c: "rounded (median ?ds) = Inr c" using rounded_ok [OF m(1)] m(2) L by auto
  have "dec_sub (median ?ds) (half_width ?ds) \<le> dec28 value_limit"
    unfolding dec_sub_def using m h by (intro dec28_mono) linarith
  then obtain l where l: "rounded (max 0 (dec_sub (median ?ds) (half_width ?ds))) = Inr l"
    using rounded_ok [of "max 0 (dec_sub (median ?ds) (half_width ?ds))"] L limit_exact(1) by auto
  have "dec_add (median ?ds) (half_width ?ds) \<le> of_int 60000 * (value_limit / 10000)"
    unfolding dec_add_def using m h by (intro dec28_le_limit) simp_all
  moreover have "0 \<le> dec_add (median ?ds) (half_width ?ds)"
    unfolding dec_add_def using m h by (intro d28.rnd_nonneg) simp
  ultimately obtain u where u: "rounded (dec_add (median ?ds) (half_width ?ds)) = Inr u"
    using rounded_ok [of "dec_add (median ?ds) (half_width ?ds)"] by auto
  show ?thesis
    using assms(1) seq c l u
    by (auto simp: robust_expected_range_def decimal_range_half_width comp_def)
qed

lemma robust_range_ordered_witness:
  "\<exists>c l u. robust_expected_range [Int_Num 3, Int_Num 12, Int_Num 7] = Inr (c, l, u) \<and>
     0 \<le> l \<and> l \<le> c \<and> c \<le> u"
proof -
  have vs: "list_all moderate [Int_Num 3, Int_Num 12, Int_Num 7]" by (simp add: moderate_def)
  then have machine: "list_all machine_num [Int_Num 3, Int_Num 12, Int_Num 7]"
    by (auto intro: moderate_machine)
  from robust_range_computed [OF _ vs] obtain c l u where
    "robust_expected_range [Int_Num 3, Int_Num 12, Int_Num 7] = Inr (c, l, u)" by auto
  with robust_range_ordered [OF this machine] show ?thesis by blast
qed

end
