(* ===== verification/Temporal_Expectation_Laws.thy ===== *)
theory Temporal_Expectation_Laws
  imports Temporal_Store_Laws Temporal_Range_Laws
begin

text \<open>
  The expectation service over the SQL store: every valid request is answered, an answer conforms to
  its contract, and it depends on nothing recorded at or after the start of its target day (the enrollments of
  the active collectors apart).
\<close>

section \<open>Histories\<close>

lemma encodable_signal:
  assumes "\<bar>sg_evidence_count s\<bar> < int_text_limit"
    and "case sg_value s of Some (Int_Num i) \<Rightarrow> \<bar>i\<bar> < int_text_limit
           | Some (Float_Num f) \<Rightarrow> \<exists>x. f = Finite x | None \<Rightarrow> True"
  shows "encodable (canonical_signal s)"
proof -
  have "encodable (optional_pyval num_pyval (sg_value s))"
    using assms(2) by (auto simp: optional_pyval_def split: option.splits num_value.splits)
  moreover have "encodable (optional_pyval PStr t)" for t
    by (simp add: optional_pyval_def split: option.split)
  moreover have "encodable (optional_pyval canonical_timestamp t)" for t
    by (simp add: optional_pyval_def canonical_timestamp_def split: option.split)
  ultimately show ?thesis using assms(1) by (simp add: canonical_signal_def canonical_timestamp_def)
qed

text \<open>A signal whose numbers stay small.\<close>

definition small_signal :: "temporal_signal \<Rightarrow> bool" where
  "small_signal s \<longleftrightarrow>
     0 \<le> sg_evidence_count s \<and> sg_evidence_count s < 2 ^ 63 \<and>
     (case sg_value s of None \<Rightarrow> True | Some v \<Rightarrow> moderate v)"

lemma int_text_limit_gt: "10 ^ 22 < int_text_limit"
proof -
  have "(10 :: int) ^ 22 < 10 ^ 4300" by (rule power_strict_increasing) simp_all
  then show ?thesis by (simp only: int_text_limit_def)
qed

lemma small_signal_encodable: "small_signal s \<Longrightarrow> encodable (canonical_signal s)"
  using int_text_limit_gt
  by (intro encodable_signal)
    (auto simp: small_signal_def moderate_def split: option.splits num_value.splits)

lemma history_digest_total:
  assumes "length signals = 56" "list_all small_signal signals"
  shows "\<exists>h. temporal_history_digest signals = Inr h \<and> matches_HISTORY_DIGEST h"
proof -
  let ?ordered = "sort_key (\<lambda>s. (sg_bucket_start s, sg_bucket_end s, sg_signal_id s)) signals"
  have "encodable (PList (map canonical_signal ?ordered))"
    using assms(2) by (auto simp: list_all_iff small_signal_encodable)
  from json_dumps_ok(1) [OF this] obtain h where
    "canonical_digest (PList (map canonical_signal ?ordered)) = Inr h"
    by (auto simp: canonical_digest_def simp del: json_dumps.simps)
  then show ?thesis
    using assms(1) matches_HISTORY_DIGEST_canonical
    by (simp add: temporal_history_digest_def TEMPORAL_EXPECTATION_HISTORY_BUCKETS_def lift_py_def)
qed

section \<open>Counts and samples\<close>

lemma quality_counts_sum:
  "count_signals (\<lambda>s. sg_quality s = Quality_Observed) ss
   + count_signals (\<lambda>s. sg_quality s = Quality_Missing) ss
   + count_signals (\<lambda>s. sg_quality s = Quality_Incomplete) ss
   + count_signals (\<lambda>s. sg_quality s = Quality_Stale) ss = int (length ss)"
proof (induction ss)
  case (Cons s ss)
  then show ?case by (cases "sg_quality s") (simp_all add: count_signals_def)
qed (simp add: count_signals_def)

text \<open>An observed signal has a value, so the usable signals are the observed ones.\<close>

lemma observed_has_value:
  "signal_violation s = None \<Longrightarrow> sg_quality s = Quality_Observed \<Longrightarrow> sg_value s \<noteq> None"
  by (auto simp: signal_violation_def)

lemma usable_count:
  assumes "list_all (\<lambda>s. signal_violation s = None) ss"
  shows "int (length (usable_signals ss)) = count_signals (\<lambda>s. sg_quality s = Quality_Observed) ss"
proof -
  have "usable_signals ss = filter (\<lambda>s. sg_quality s = Quality_Observed) ss"
    unfolding usable_signals_def using assms observed_has_value
    by (intro filter_cong) (auto simp: list_all_iff)
  then show ?thesis by (simp add: count_signals_def)
qed

lemma method_sample_total:
  assumes "in_calendar (target - days 28)"
  obtains m P where "method_sample primary usable target = Inr (m, filter P usable)"
  using assms add_time_Inr [of target "- days 28"]
  by (cases "primary = Seasonal \<and> MINIMUM_SEASONAL_OBSERVATIONS \<le>
        length (filter (\<lambda>s. weekday (sg_bucket_start s) = weekday target) usable)")
    (auto simp: method_sample_def ROLLING_SAMPLE_BUCKETS_def Let_def)

definition range_ok ::
    "(rat \<times> rat \<times> rat) option \<times> expectation_quality \<times> expectation_confidence \<times> string option \<Rightarrow> bool" where
  "range_ok r \<longleftrightarrow>
     (case r of
        (None, q, c, b) \<Rightarrow> q = Insufficient \<and> c = Confidence_None \<and> b = Some ''insufficient-usable-history''
      | (Some (m, l, u), q, c, b) \<Rightarrow>
          0 \<le> l \<and> l \<le> m \<and> m \<le> u \<and> float_micro m \<and> q \<noteq> Insufficient \<and> c \<noteq> Confidence_None \<and> b = None)"

lemma graded_quality:
  "(if A then (Sufficient, Confidence_High) else if B then (Sufficient, Confidence_Medium)
    else (Limited, Confidence_Low)) = (q, c) \<Longrightarrow> q \<noteq> Insufficient \<and> c \<noteq> Confidence_None"
  by (cases A; cases B) auto

lemma quality_and_confidence_range:
  "quality_and_confidence n k m = (q, c) \<Longrightarrow> q \<noteq> Insufficient \<and> c \<noteq> Confidence_None"
  unfolding quality_and_confidence_def Let_def by (rule graded_quality)

lemma sample_range_ok:
  assumes "sample_range n m sample = Inr r" "list_all machine_num (List.map_filter sg_value sample)"
  shows "range_ok r"
proof (cases "length sample < minimum_observations m")
  case True
  with assms(1) show ?thesis by (auto simp: sample_range_def range_ok_def)
next
  case False
  let ?r = "robust_expected_range (List.map_filter sg_value sample)"
  obtain q c where q: "quality_and_confidence n (length sample) m = (q, c)"
    by (cases "quality_and_confidence n (length sample) m")
  from False assms(1) obtain bounds where bounds: "?r = Inr bounds"
    by (cases ?r) (simp_all add: sample_range_def)
  with False assms(1) q have r: "r = (Some bounds, q, c, None)" by (simp add: sample_range_def)
  obtain e l u where b: "bounds = (e, l, u)" by (cases bounds)
  have "r = (Some (e, l, u), q, c, None)" by (simp add: r b)
  with robust_range_bounds [OF bounds [unfolded b] assms(2)]
    robust_center_micro [OF bounds [unfolded b] assms(2)] quality_and_confidence_range [OF q]
  show ?thesis by (simp add: range_ok_def)
qed

lemma map_filter_set: "x \<in> set (List.map_filter f xs) \<longleftrightarrow> (\<exists>y \<in> set xs. f y = Some x)"
  by (induction xs) (auto simp: List.map_filter_simps split: option.splits)

lemma map_filter_Nil: "(\<And>y. y \<in> set xs \<Longrightarrow> f y \<noteq> None) \<Longrightarrow> List.map_filter f xs = [] \<longleftrightarrow> xs = []"
proof (cases xs)
  case (Cons a ys)
  assume "\<And>y. y \<in> set xs \<Longrightarrow> f y \<noteq> None"
  with Cons obtain b where "f a = Some b" by fastforce
  with Cons show ?thesis by (simp add: List.map_filter_simps)
qed simp

lemma sample_range_total:
  assumes "\<And>s. s \<in> set sample \<Longrightarrow> small_signal s \<and> sg_value s \<noteq> None"
  shows "\<exists>r. sample_range n m sample = Inr r \<and> range_ok r"
proof -
  let ?vs = "List.map_filter sg_value sample"
  have vs: "list_all moderate ?vs"
    using assms by (fastforce simp: list_all_iff map_filter_set small_signal_def)
  then have machine: "list_all machine_num ?vs" by (auto simp: list_all_iff moderate_machine)
  have "\<exists>r. sample_range n m sample = Inr r"
  proof (cases "length sample < minimum_observations m")
    case True
    then show ?thesis by (simp add: sample_range_def)
  next
    case False
    have "minimum_observations m \<noteq> 0"
      by (simp add: minimum_observations_def MINIMUM_SEASONAL_OBSERVATIONS_def
          MINIMUM_ROLLING_OBSERVATIONS_def)
    with False have "sample \<noteq> []" by auto
    then have "?vs \<noteq> []" using map_filter_Nil [of sample sg_value] assms by blast
    from robust_range_computed [OF this vs] False show ?thesis
      by (auto simp: sample_range_def split: prod.split)
  qed
  with sample_range_ok machine show ?thesis by blast
qed

section \<open>The contract of an expectation\<close>

lemma expectation_fields_record:
  assumes "governed m" "valid_site site" "matches_HISTORY_DIGEST h" "length ss = 56" "k \<le> 56"
    and "range_ok (r, q, c, b)"
  shows "expectation_fields (expectation_record m site t e hs g ss (digest_id ''exp_'' x) h meth k r q c b)"
proof -
  have counts: "0 \<le> count_signals P ss \<and> count_signals P ss \<le> 56" for P
    using count_signals_nonneg [of P ss] count_signals_le [of P ss] assms(4) by simp
  have bounds: "optional_nonneg (map_option fst r)" "optional_nonneg (map_option (fst \<circ> snd) r)"
    "optional_nonneg (map_option (snd \<circ> snd) r)"
    using assms(6) by (auto simp: range_ok_def optional_nonneg_def split: option.splits)
  have reason: "b = None \<or> b = Some ''insufficient-usable-history''"
    using assms(6) by (auto simp: range_ok_def split: option.splits)
  show ?thesis
    using assms(1-3,5) counts bounds reason matches_hex_digest_id
    by (simp add: expectation_fields_def expectation_record_def governed_def valid_site_def
        optional_text_def matches_EXPECTATION_ID_def TEMPORAL_EXPECTATION_HISTORY_BUCKETS_def
        TEMPORAL_EXPECTATION_METHOD_VERSION_def)
qed

lemma expectation_violation_record:
  assumes "at_midnight t" "length ss = 56" "list_all (\<lambda>s. signal_violation s = None) ss"
    and "k \<le> length (usable_signals ss)" "range_ok (r, q, c, b)"
  shows "expectation_violation
    (expectation_record m site t (t + days 1) (t - days 56) g ss ident h meth k r q c b) = None"
proof -
  have used: "int k \<le> count_signals (\<lambda>s. sg_quality s = Quality_Observed) ss"
    using assms(4) usable_count [OF assms(3)] by linarith
  have sum: "count_signals (\<lambda>s. sg_quality s = Quality_Observed) ss
     + count_signals (\<lambda>s. sg_quality s = Quality_Missing) ss
     + count_signals (\<lambda>s. sg_quality s = Quality_Incomplete) ss
     + count_signals (\<lambda>s. sg_quality s = Quality_Stale) ss = 56"
    using quality_counts_sum [of ss] assms(2) by simp
  have hist: "t - (t - days 56) = days 56" by simp
  show ?thesis
  proof (cases r)
    case None
    with assms(1,5) used sum hist show ?thesis
      by (simp add: expectation_violation_def expectation_record_def range_ok_def
          TEMPORAL_EXPECTATION_HISTORY_BUCKETS_def)
  next
    case (Some x)
    with assms(1,5) used sum hist show ?thesis
      by (cases x) (simp add: expectation_violation_def expectation_record_def range_ok_def
          range_ordered_def TEMPORAL_EXPECTATION_HISTORY_BUCKETS_def)
  qed
qed

lemma every_metric_has_policy:
  "list_all (\<lambda>m. map_of TEMPORAL_EXPECTATION_POLICIES (md_metric_key m) \<noteq> None) TEMPORAL_METRICS"
  by code_simp

text \<open>An expectation of the service: its identity is the one of its parts, its range is a range.\<close>

definition expectation_at ::
    "metric_definition \<Rightarrow> string \<Rightarrow> instant \<Rightarrow> instant \<Rightarrow> temporal_expectation \<Rightarrow> bool" where
  "expectation_at m site t g x \<longleftrightarrow>
     (\<exists>ss ident h meth k r q c b.
        x = expectation_record m site t (t + days 1) (t - days 56) g ss ident h meth k r q c b \<and>
        temporal_expectation_id (md_metric_key m) site t (t + days 1) (t - days 56) t meth
          (md_projection_version m) h = Inr ident \<and>
        range_ok (r, q, c, b) \<and> expectation_fields x \<and> expectation_violation x = None)"

lemma expectation_of_history_total:
  assumes m: "m \<in> set TEMPORAL_METRICS" "governed m" "valid_site site"
    and t: "at_midnight t" "calendar_safe t"
    and ss: "length ss = 56" "list_all (\<lambda>s. signal_violation s = None) ss" "list_all small_signal ss"
  shows "\<exists>x. expectation_of_history m site t (t - days 56) g ss = Inr x \<and> expectation_at m site t g x"
proof -
  obtain h where h: "temporal_history_digest ss = Inr h" "matches_HISTORY_DIGEST h"
    using history_digest_total [OF ss(1,3)] by blast
  obtain p where p: "map_of TEMPORAL_EXPECTATION_POLICIES (md_metric_key m) = Some p"
    using every_metric_has_policy m(1) by (auto simp: list_all_iff)
  have cal: "in_calendar (t - days 28)" "in_calendar (t + days 1)"
    using t(2) by (simp_all add: calendar_safe_def in_calendar_def days_def)
  obtain meth P where ms: "method_sample p (usable_signals ss) t = Inr (meth, filter P (usable_signals ss))"
    using method_sample_total [OF cal(1)] .
  let ?sample = "filter P (usable_signals ss)"
  have "small_signal s \<and> sg_value s \<noteq> None" if "s \<in> set ?sample" for s
    using that ss(3) by (auto simp: usable_signals_def list_all_iff)
  then obtain r where r: "sample_range (length (usable_signals ss)) meth ?sample = Inr r" "range_ok r"
    using sample_range_total by blast
  obtain b q c z where rr: "r = (b, q, c, z)" by (cases r)
  have k: "length ?sample \<le> length (usable_signals ss)" by (rule length_filter_le)
  have "length (usable_signals ss) \<le> 56"
    using ss(1) length_filter_le [of "\<lambda>s. sg_quality s = Quality_Observed \<and> sg_value s \<noteq> None" ss]
    by (simp add: usable_signals_def)
  with k have k56: "length ?sample \<le> 56" by linarith
  let ?ident = "digest_id ''exp_''
    (unit_join
      [TEMPORAL_EXPECTATION_SCHEMA_VERSION, md_metric_key m, site, isoformat t, isoformat (t + days 1),
       isoformat (t - days 56), isoformat t, method_text meth,
       TEMPORAL_EXPECTATION_METHOD_VERSION, md_projection_version m, h])"
  let ?x = "expectation_record m site t (t + days 1) (t - days 56) g ss ?ident h meth (length ?sample) b q c z"
  have ident: "temporal_expectation_id (md_metric_key m) site t (t + days 1) (t - days 56) t meth
      (md_projection_version m) h = Inr ?ident"
    using h(2) by (simp add: temporal_expectation_id_def)
  have ok: "expectation_fields ?x" "expectation_violation ?x = None"
    using expectation_fields_record [OF m(2,3) h(2) ss(1) k56 r(2) [unfolded rr]]
      expectation_violation_record [OF t(1) ss(1,2) k r(2) [unfolded rr]] by blast+
  have "expectation_of_history m site t (t - days 56) g ss = Inr ?x"
    using h(1) p ms r(1) add_time_Inr [OF cal(2)] ident ok
    by (simp add: expectation_of_history_def rr TemporalExpectation_def)
  moreover have "expectation_at m site t g ?x"
    unfolding expectation_at_def using ident r(2) rr ok by blast
  ultimately show ?thesis by blast
qed

section \<open>The history is small\<close>

definition small_aggregate :: "aggregate \<Rightarrow> bool" where
  "small_aggregate a \<longleftrightarrow>
     moderate (ag_value a) \<and> 0 \<le> ag_evidence_count a \<and> ag_evidence_count a < 2 ^ 63"

lemma project_signal_value:
  "project_signal m site b e agg g = Inr s \<Longrightarrow>
   sg_value s = (case agg of None \<Rightarrow> None | Some a \<Rightarrow> projected_value m a) \<and>
   sg_evidence_count s = (case agg of None \<Rightarrow> 0 | Some a \<Rightarrow> ag_evidence_count a)"
  by (cases agg) (auto simp: project_signal_def TemporalSignal_def bind_result_eq_Inr_iff
      signal_record_def Let_def)

lemma project_signal_small:
  "project_signal m site b e agg g = Inr s \<Longrightarrow> (\<And>a. agg = Some a \<Longrightarrow> small_aggregate a) \<Longrightarrow> small_signal s"
  using project_signal_value [of m site b e agg g s]
  by (cases agg) (simp_all add: small_signal_def small_aggregate_def projected_value_def)

lemma normalize_sources_subset:
  "normalize_sources s e L acc = Inr r \<Longrightarrow> snd ` set r \<subseteq> snd ` set acc \<union> snd ` set L"
proof (induction s e L acc arbitrary: r rule: normalize_sources.induct)
  case (2 s e bucket a rest acc)
  from 2(3) obtain b where b: "as_utc bucket = Inr b"
    by (auto simp: bind_result_eq_Inr_iff)
  show ?case
  proof (cases "s \<le> b \<and> b < e")
    case True
    with 2(3) b have "b \<notin> fst ` set acc" by (auto split: if_splits)
    with 2(2) [OF b] 2(3) True b have "snd ` set r \<subseteq> snd ` set (acc @ [(b, a)]) \<union> snd ` set rest"
      by simp
    then show ?thesis by auto
  next
    case False
    with 2(1) [OF b] 2(3) b have "snd ` set r \<subseteq> snd ` set acc \<union> snd ` set rest" by simp
    then show ?thesis by auto
  qed
qed simp

lemma project_window_small:
  assumes "project_window store m site s e n c g = Inr r" "store m site s e c = Inr L"
    and "\<And>a. a \<in> snd ` set L \<Longrightarrow> small_aggregate a"
  shows "list_all small_signal (sr_signals r)"
proof -
  from assms(1,2) obtain src bs signals where
    src: "normalize_sources s e L [] = Inr src"
    and sig: "sequence_results (map (project_day m site src g) bs) = Inr signals"
    and r: "r = series_record m site s e g n signals"
    by (auto simp: project_window_def bind_result_eq_Inr_iff TemporalSignalSeriesResponse_def)
  have small: "small_aggregate a" if "map_of src b = Some a" for a b
    using normalize_sources_subset [OF src] map_of_SomeD [OF that] assms(3) by force
  have "map (project_day m site src g) bs = map Inr signals"
    using sig by (simp add: sequence_results_Inr_iff)
  then have "\<exists>b. project_day m site src g b = Inr x" if "x \<in> set signals" for x
    using that by (metis (no_types, lifting) imageE image_eqI set_map)
  then have "small_signal x" if "x \<in> set signals" for x
    using that small by (fastforce simp: project_day_def bind_result_eq_Inr_iff intro: project_signal_small)
  then show ?thesis by (auto simp: r series_record_def list_all_iff)
qed

lemma row_aggregate_small: "row_sound s e r \<Longrightarrow> small_aggregate (row_aggregate r)"
proof -
  assume "row_sound s e r"
  moreover have "(2 :: int) ^ 63 \<le> 10 ^ 21" by simp
  ultimately show ?thesis
    by (simp add: small_aggregate_def row_sound_def row_aggregate_def moderate_def value_limit_def)
qed

text \<open>No range and insufficient history, or an ordered range and enough of it.\<close>

definition range_or_none :: "temporal_expectation \<Rightarrow> bool" where
  "range_or_none x \<longleftrightarrow>
     (case (te_lower x, te_expected x, te_upper x) of
        (Some l, Some e, Some u) \<Rightarrow> 0 \<le> l \<and> l \<le> e \<and> e \<le> u \<and> te_quality x \<noteq> Insufficient
      | (None, None, None) \<Rightarrow> te_quality x = Insufficient \<and> te_confidence x = Confidence_None
      | _ \<Rightarrow> False)"

lemma range_or_none_record:
  "range_ok (r, q, c, b) \<Longrightarrow>
   range_or_none (expectation_record m site t t' s g ss ident h meth k r q c b)"
  by (cases r) (auto simp: range_or_none_def range_ok_def expectation_record_def)

lemma expectation_at_range: "expectation_at m site t g x \<Longrightarrow> range_or_none x"
  unfolding expectation_at_def by (elim exE conjE) (simp only: range_or_none_record)

lemma expectation_at_window:
  "expectation_at m site t g x \<Longrightarrow>
   te_target_start x = t \<and> te_knowledge_cutoff x = t \<and> te_history_start x = t - days 56 \<and>
   te_history_end x = t \<and> te_history_bucket_count x = 56"
  unfolding expectation_at_def
  by (elim exE conjE) (simp add: expectation_record_def TEMPORAL_EXPECTATION_HISTORY_BUCKETS_def)

lemma expectation_at_micro:
  "expectation_at m site t g x \<Longrightarrow> te_expected x = Some e \<Longrightarrow> float_micro e"
  unfolding expectation_at_def
  by (elim exE conjE) (auto simp: expectation_record_def range_ok_def split: option.splits)

lemma expectation_counts:
  "expectation_violation x = None \<Longrightarrow>
   te_usable_count x + te_missing_count x + te_incomplete_count x + te_stale_count x
     = te_history_bucket_count x \<and> te_sample_count x \<le> te_usable_count x"
  by (simp add: expectation_violation_def Let_def)

lemma expectation_at_violation: "expectation_at m site t g x \<Longrightarrow> expectation_violation x = None"
  unfolding expectation_at_def by blast

section \<open>The service over the store\<close>

lemma days_nonneg: "0 \<le> days 1"
  by (simp add: days_def)

lemma midnight_mono: "s \<le> t \<Longrightarrow> midnight s \<le> midnight t"
  by (simp add: midnight_eq day_number_def zdiv_mono1)

text \<open>The projection of a valid request: its signals stand at their days and stay small.\<close>

lemma sql_series:
  assumes "temporal_metric key = Inr m" "valid_site site" "site \<in> set (db_sites db)" "database_ok db"
    and "at_midnight s" "e = s + days (int k)" "0 < k" "k \<le> 366"
    and "calendar_safe s" "calendar_safe e" "in_calendar c" "e \<le> c" "calendar_safe now"
    and "e \<le> midnight now + days 1"
  shows "\<exists>r. series (sql_store db) key site (utc_stamp s) (utc_stamp e) ''daily'' None (utc_stamp now)
      (Some (utc_stamp c)) = Inr r \<and> length (sr_signals r) = k \<and> sr_bucket_count r = int k \<and>
      (\<forall>i < k. signal_at m site (s + days (int i)) (sr_signals r ! i)) \<and>
      list_all small_signal (sr_signals r)"
proof -
  have e: "at_midnight e" "s < e" "e \<le> s + days 366"
    using assms(5-8) by (simp, simp_all add: days_def)
  have "\<exists>r. series (sql_store db) key site (utc_stamp s) (utc_stamp e) ''daily'' None (utc_stamp now)
      (map_option utc_stamp (Some c)) = Inr r"
    using assms by (intro series_total e) simp_all
  then obtain r where r: "series (sql_store db) key site (utc_stamp s) (utc_stamp e) ''daily'' None
      (utc_stamp now) (Some (utc_stamp c)) = Inr r" by auto
  from r obtain m' now' cutoff where m': "temporal_metric key = Inr m'"
    and p: "project_window (sql_store db) m' site s e ((e - s) div days 1) cutoff now' = Inr r"
    by (rule series_Inr)
  from m' assms(1) have mm: "m' = m" by simp
  have min: "min_instant \<le> s" using assms(9) by (simp add: calendar_safe_def days_def)
  note at = project_window_signals [OF p calendar_safe_in [OF assms(10)] min assms(6)]
  have n: "(e - s) div days 1 = int k" using assms(6) by (simp add: days_def)
  have count: "sr_bucket_count r = int k"
    using project_window_record [OF p] by (auto simp: series_record_def n)
  obtain query where q: "map_of METRIC_QUERIES (md_metric_key m) = Some query"
    using every_metric_queried temporal_metric_Inr [OF assms(1)] by (auto simp: list_all_iff)
  have store: "sql_store db m site s e cutoff =
      Inr (utc_sources (row_sources (query db site s e cutoff)))"
    by (rule sql_store_rows [OF q assms(3,4,5)])
  have "small_aggregate a" if "a \<in> snd ` set (utc_sources (row_sources (query db site s e cutoff)))" for a
    using that query_sound [OF q assms(4,5), where site = site and e = e and c = cutoff]
    by (auto simp: utc_sources_def row_sources_def sound_result_def list_all_iff row_aggregate_small)
  from project_window_small [OF p [unfolded mm] store this] r at count mm show ?thesis by blast
qed

lemma expectation_total:
  assumes "temporal_metric key = Inr m" "valid_site site" "site \<in> set (db_sites db)" "database_ok db"
    and "at_midnight t" "calendar_safe (t - days 56)" "calendar_safe t" "calendar_safe now" "t \<le> now"
  shows "\<exists>x. expectation (series (sql_store db)) key site (utc_stamp t) ''daily'' None (utc_stamp now)
    = Inr x \<and> expectation_at m site t now x"
proof -
  have m: "m \<in> set TEMPORAL_METRICS" "governed m"
    using temporal_metric_Inr temporal_metric_governed assms(1) by auto
  have mid: "midnight t = t" using assms(5) by (simp add: at_midnight_iff)
  have hist: "t = (t - days 56) + days (int 56)" by simp
  have start: "at_midnight (t - days 56)" using assms(5) by (simp add: at_midnight_dvd days_def)
  obtain r where r: "series (sql_store db) key site (utc_stamp (t - days 56)) (utc_stamp t) ''daily'' None
      (utc_stamp t) (Some (utc_stamp t)) = Inr r" "length (sr_signals r) = 56"
    "\<forall>i < 56. signal_at m site (t - days 56 + days (int i)) (sr_signals r ! i)"
    "list_all small_signal (sr_signals r)"
    using sql_series [OF assms(1-4) start hist _ _ assms(6,7) calendar_safe_in [OF assms(7)] order_refl
        assms(7)] mid days_nonneg
    by auto
  have closed: "t \<le> midnight now"
    using midnight_mono [OF assms(9)] mid by simp
  have at: "signal_violation s = None \<and> sg_bucket_end s \<le> t" if "s \<in> set (sr_signals r)" for s
  proof -
    from that r(2) obtain i where i: "i < 56" "s = sr_signals r ! i" by (auto simp: in_set_conv_nth)
    with r(3) have "signal_at m site (t - days 56 + days (int i)) s" by simp
    moreover have "t - days 56 + days (int i) + days 1 \<le> t" using i(1) by (simp add: days_def)
    ultimately show ?thesis by (simp add: signal_at_def)
  qed
  have "\<not> list_ex (\<lambda>s. t < sg_bucket_end s \<or> midnight now < sg_bucket_end s) (sr_signals r)"
    using at closed by (fastforce simp: list_ex_iff)
  moreover have "add_time t (- days (int TEMPORAL_EXPECTATION_HISTORY_BUCKETS)) = Inr (t - days 56)"
    using add_time_Inr [of t "- days 56"] calendar_safe_in [OF assms(6)]
    by (simp add: TEMPORAL_EXPECTATION_HISTORY_BUCKETS_def)
  moreover have "list_all (\<lambda>s. signal_violation s = None) (sr_signals r)"
    using at by (simp add: list_all_iff)
  ultimately show ?thesis
    using expectation_of_history_total [OF m assms(2,5,7) r(2) _ r(4), of now] r(1) closed assms(1,5,8)
      utc_daily_bucket_safe [OF assms(8)] calendar_safe_in [OF assms(7)] calendar_safe_in [OF assms(8)]
    by (simp add: expectation_def)
qed

text \<open>C10. The expectation service over the SQL store answers every valid request: for a governed metric, a
  known site and a closed target day whose 56 days of history lie in the calendar, it returns an expectation
  over exactly that history, each day counted under one quality, which has either an ordered range from zero
  on or no range and insufficient history.\<close>

theorem expectation_answers:
  assumes "temporal_metric key = Inr m" "valid_site site" "site \<in> set (db_sites db)" "database_ok db"
    and "at_midnight t" "calendar_safe (t - days 56)" "calendar_safe t" "calendar_safe now" "t \<le> now"
  shows "\<exists>x. expectation (series (sql_store db)) key site (utc_stamp t) ''daily'' None (utc_stamp now)
      = Inr x \<and> te_history_start x = t - days 56 \<and> te_history_end x = t \<and>
      te_usable_count x + te_missing_count x + te_incomplete_count x + te_stale_count x = 56 \<and>
      te_sample_count x \<le> te_usable_count x \<and> range_or_none x"
proof -
  obtain x where x: "expectation (series (sql_store db)) key site (utc_stamp t) ''daily'' None
      (utc_stamp now) = Inr x" "expectation_at m site t now x"
    using expectation_total [OF assms] by blast
  with expectation_at_range [OF x(2)] expectation_at_window [OF x(2)]
    expectation_counts [OF expectation_at_violation [OF x(2)]]
  show ?thesis by (intro exI [of _ x]) simp
qed

lemma expectation_answers_witness:
  "\<exists>x. expectation (series (sql_store example_database)) ''site.findings.new.count'' ''hq''
     (utc_stamp (days 20000)) ''daily'' None (utc_stamp (days 20000 + 5)) = Inr x \<and> range_or_none x"
proof -
  obtain m where m: "temporal_metric ''site.findings.new.count'' = Inr m" using findings_metric by blast
  have site: "valid_site ''hq''" by code_simp
  from expectation_answers [OF m site _ example_database_ok, of "days 20000" "days 20000 + 5"]
  show ?thesis
    by (auto simp: example_database_def calendar_safe_def min_instant_eq max_instant_eq days_def
        at_midnight_def time_of_day_def)
qed

section \<open>No look-ahead\<close>

lemma series_same_knowledge:
  assumes "same_knowledge key c' db db'" "c \<le> c'"
  shows "series (sql_store db) key site s e gran asset g (Some (utc_stamp c)) =
    series (sql_store db') key site s e gran asset g (Some (utc_stamp c))"
proof (cases "temporal_metric key")
  case (Inr m)
  with assms have "sql_store db m site s e (Some c) = sql_store db' m site s e (Some c)" for s e
    by (intro sql_store_same_knowledge) (simp_all add: temporal_metric_Inr)
  with Inr show ?thesis
    by (cases "in_calendar c")
      (simp_all add: series_def optional_cutoff_def as_utc_utc_stamp project_window_def cong: if_cong)
qed (simp add: series_def)

lemma expectation_same_knowledge:
  assumes "same_knowledge key c' db db'" "t \<le> c'"
  shows "expectation (series (sql_store db)) key site (utc_stamp t) gran asset g =
    expectation (series (sql_store db')) key site (utc_stamp t) gran asset g"
  by (cases "in_calendar t"; cases "temporal_metric key")
    (simp_all add: expectation_def as_utc_utc_stamp series_same_knowledge [OF assms] cong: if_cong)

text \<open>C11. The expected range of a day does not look ahead: two databases with the same sites that agree on the
  rows recorded before the day began give the same expectation, whatever each recorded since; the enrollments,
  which the store reads without a cutoff, need to agree for the active collectors only.\<close>

theorem expectation_no_look_ahead:
  assumes "(known_before t db)\<lparr>db_enrollments := []\<rparr> = (known_before t db')\<lparr>db_enrollments := []\<rparr>"
    and "key = ''site.collectors.active.count'' \<longrightarrow> db_enrollments db = db_enrollments db'"
  shows "expectation (series (sql_store db)) key site (utc_stamp t) gran asset g =
   expectation (series (sql_store db')) key site (utc_stamp t) gran asset g"
  using assms by (intro expectation_same_knowledge [where c' = t]) (simp_all add: same_knowledge_def)

text \<open>A check-in and an enrollment made later change nothing for a findings metric.\<close>

definition later_check_in :: checkin_row where
  "later_check_in = \<lparr> ck_site_id = ''hq'', ck_agent_id = Some ''ag'', ck_checked_in_at = None,
     ck_received_at = days 20001 + 5 \<rparr>"

definition later_database :: "database \<Rightarrow> database" where
  "later_database db = db\<lparr>db_checkins := later_check_in # db_checkins db, db_enrollments := [(''ag'', ''hq'')]\<rparr>"

lemma later_database_known:
  "t \<le> days 20001 \<Longrightarrow> (known_before t (later_database db))\<lparr>db_enrollments := []\<rparr> =
     (known_before t db)\<lparr>db_enrollments := []\<rparr>"
  by (simp add: known_before_def later_database_def later_check_in_def)

lemma expectation_no_look_ahead_witness:
  "expectation (series (sql_store (later_database example_database))) ''site.findings.new.count'' ''hq''
     (utc_stamp (days 20000)) ''daily'' None (utc_stamp (days 20002)) =
   expectation (series (sql_store example_database)) ''site.findings.new.count'' ''hq''
     (utc_stamp (days 20000)) ''daily'' None (utc_stamp (days 20002))"
  by (rule expectation_no_look_ahead [OF later_database_known]) (simp_all add: days_def)

end
