(* ===== verification/Temporal_Deviation_Laws.thy ===== *)
theory Temporal_Deviation_Laws
  imports Temporal_Deviation Temporal_Expectation_Laws
begin

text \<open>
  The deviation service: when an assessment is a candidate, that it depends on nothing recorded after its
  target day (the enrollments of the active collectors apart), and that over the SQL store every valid request is answered.
\<close>

section \<open>No look-ahead\<close>

lemma prior_support_cong:
  "(\<And>n. n \<in> set ns \<Longrightarrow> load (t - days n) = load' (t - days n)) \<Longrightarrow>
   prior_support load p t g d ns = prior_support load' p t g d ns"
proof (induction ns)
  case (Cons n ns)
  then have "load (t - days n) = load' (t - days n)"
    "prior_support load p t g d ns = prior_support load' p t g d ns" by simp_all
  then show ?case by (cases "in_calendar (t - days n)") (simp_all add: add_time_def in_calendar_def cong: if_cong)
qed simp

lemma assess_with_persistence_cong:
  assumes "load t = load' t" "\<And>n. 1 \<le> n \<Longrightarrow> load (t - days n) = load' (t - days n)"
  shows "assess_with_persistence load p t now = assess_with_persistence load' p t now"
proof -
  have "prior_support load p t now d [1..k] = prior_support load' p t now d [1..k]" for d k
    using assms(2) by (intro prior_support_cong) simp
  with assms(1) show ?thesis by (simp add: assess_with_persistence_def cong: if_cong)
qed

lemma load_inputs_same_knowledge:
  assumes "same_knowledge key c db db'" "t + days 1 \<le> c"
  shows "load_inputs (series (sql_store db)) (expectation (series (sql_store db))) key site t asset now
    = load_inputs (series (sql_store db')) (expectation (series (sql_store db'))) key site t asset now"
proof -
  have "t \<le> c" using assms(2) days_nonneg by linarith
  with assms(2) show ?thesis
    by (cases "in_calendar (t + days 1)")
      (simp_all add: load_inputs_def add_time_def in_calendar_def series_same_knowledge [OF assms(1)]
        expectation_same_knowledge [OF assms(1)] Let_def cong: if_cong)
qed

lemma validate_request_Inr:
  "validate_request (utc_stamp t) gran asset scope g = Inr (t', now) \<Longrightarrow>
   t' = t \<and> gran = ''daily'' \<and> in_calendar t \<and> at_midnight t \<and> as_utc g = Inr now \<and> t < midnight now"
  by (auto simp: validate_request_def bind_result_eq_Inr_iff as_utc_Inr_iff not_le
      dest!: utc_daily_bucket_Inr split: if_splits)

text \<open>C9. An assessment does not look ahead: two databases with the same sites that agree on the rows recorded
  before the end of its target day give the same assessment, whatever each recorded since: the observation and
  every expected range it compares with, the supporting days included, are the same.  The enrollments, which
  the store reads without a cutoff, need to agree for the active collectors only.\<close>

theorem deviation_no_look_ahead:
  assumes "(known_before (t + days 1) db)\<lparr>db_enrollments := []\<rparr> =
      (known_before (t + days 1) db')\<lparr>db_enrollments := []\<rparr>"
    and "key = ''site.collectors.active.count'' \<longrightarrow> db_enrollments db = db_enrollments db'"
  shows "deviation_service (sql_store db) key site (utc_stamp t) gran asset g =
   deviation_service (sql_store db') key site (utc_stamp t) gran asset g"
proof -
  let ?load = "\<lambda>db now t. load_inputs (series (sql_store db)) (expectation (series (sql_store db)))
    key site t asset now"
  have k: "same_knowledge key (t + days 1) db db'" using assms by (simp add: same_knowledge_def)
  have "assess_with_persistence (?load db now) p t now = assess_with_persistence (?load db' now) p t now" for p now
    by (rule assess_with_persistence_cong) (simp_all add: load_inputs_same_knowledge [OF k] days_def)
  then show ?thesis
    unfolding deviation_service_def assessment_def
    by (intro bind_result_cong refl) (auto dest: validate_request_Inr)
qed

lemma deviation_no_look_ahead_witness:
  "deviation_service (sql_store (later_database example_database)) ''site.findings.new.count'' ''hq''
     (utc_stamp (days 20000)) ''daily'' None (utc_stamp (days 20002)) =
   deviation_service (sql_store example_database) ''site.findings.new.count'' ''hq''
     (utc_stamp (days 20000)) ''daily'' None (utc_stamp (days 20002))"
  by (rule deviation_no_look_ahead [OF later_database_known]) (simp_all add: days_def)

section \<open>Candidates\<close>

text \<open>A trustworthy observation beyond its trustworthy range, in a direction the policy admits.\<close>

definition beyond :: "deviation_direction \<Rightarrow> rat \<Rightarrow> rat \<Rightarrow> rat \<Rightarrow> bool" where
  "beyond d v l u \<longleftrightarrow> d = Below \<and> v < l \<or> d = Above \<and> \<not> v < l \<and> u < v"

definition deviates ::
    "deviation_policy \<Rightarrow> deviation_direction \<Rightarrow> temporal_signal \<times> temporal_expectation \<Rightarrow> bool" where
  "deviates p d inputs \<longleftrightarrow>
     (let (s, x) = inputs
      in blocking_reasons s x p = [] \<and> d \<in> set (dp_allowed_directions p) \<and>
         (case (sg_value s, te_expected x, te_lower x, te_upper x) of
            (Some v, Some _, Some l, Some u) \<Rightarrow>
              (case float_of_num v of Inr y \<Rightarrow> beyond d y l u | Inl _ \<Rightarrow> False)
          | _ \<Rightarrow> False))"

lemma beyond_direction: "beyond d v l u \<longleftrightarrow> d \<noteq> Inside \<and> fst (direction_of v l u) = d"
  by (auto simp: beyond_def direction_of_def)

lemma beyond_unique: "beyond d v l u \<Longrightarrow> beyond d' v l u \<Longrightarrow> d' = d"
  by (auto simp: beyond_def)

lemma deviates_unique: "deviates p d i \<Longrightarrow> deviates p d' i \<Longrightarrow> d' = d"
  by (cases i) (auto simp: deviates_def dest: beyond_unique split: option.splits sum.splits)

text \<open>What \<open>evaluate\<close> concludes, by cases of the direction.\<close>

lemma evaluate_Inr:
  assumes "evaluate y e l u p pr = Inr v"
  shows "if vd_direction v \<in> set (dp_allowed_directions p) \<and> beyond (vd_direction v) y l u
    then (vd_state v = Candidate \<or> vd_state v = Pending_Persistence) \<and>
      (vd_candidate v \<longleftrightarrow> dp_required_persistence p \<le> 1 + int (length pr))
    else vd_state v \<noteq> Candidate \<and> vd_state v \<noteq> Pending_Persistence \<and> \<not> vd_candidate v"
  using assms
  by (cases "direction_of y l u")
    (auto simp: evaluate_def beyond_direction Let_def split: if_splits)

text \<open>A conclusion agrees with the specification of a deviating day.\<close>

definition concludes ::
    "deviation_policy \<Rightarrow> temporal_signal \<times> temporal_expectation \<Rightarrow> nat \<Rightarrow> deviation_direction \<Rightarrow>
     assessment_state \<Rightarrow> bool \<Rightarrow> bool" where
  "concludes p inputs k d st cand \<longleftrightarrow>
     (if deviates p d inputs
      then (st = Candidate \<or> st = Pending_Persistence) \<and>
        (cand \<longleftrightarrow> st = Candidate) \<and> (cand \<longleftrightarrow> dp_required_persistence p \<le> 1 + int k)
      else st \<noteq> Candidate \<and> st \<noteq> Pending_Persistence \<and> \<not> cand \<and> (\<forall>d'. \<not> deviates p d' inputs))"

lemma evaluate_concludes:
  assumes "evaluate y e l u p pr = Inr v" "blocking_reasons s x p = []" "sg_value s = Some n"
    "te_expected x = Some e" "te_lower x = Some l" "te_upper x = Some u" "float_of_num n = Inr y"
  shows "concludes p (s, x) (length pr) (vd_direction v) (vd_state v) (vd_candidate v)"
proof -
  have dev: "deviates p d (s, x) \<longleftrightarrow> d \<in> set (dp_allowed_directions p) \<and> beyond d y l u" for d
    using assms(2-7) by (simp add: deviates_def)
  show ?thesis
    unfolding concludes_def dev using assms(1)
    by (cases "direction_of y l u")
      (auto simp: evaluate_def beyond_direction Let_def split: if_splits)
qed

lemma verdict_concludes:
  assumes "verdict_of s x p pr = Inr v"
  shows "concludes p (s, x) (length pr) (vd_direction v) (vd_state v) (vd_candidate v)"
proof (cases "blocking_reasons s x p")
  case Nil
  then obtain n e l u where n: "sg_value s = Some n" "te_expected x = Some e" "te_lower x = Some l"
      "te_upper x = Some u"
    by (auto simp: blocking_reasons_def split: if_splits)
  with Nil assms obtain y where "float_of_num n = Inr y" "evaluate y e l u p pr = Inr v"
    by (auto simp: verdict_of_def bind_result_eq_Inr_iff)
  then show ?thesis using evaluate_concludes Nil n by blast
next
  case (Cons r rs)
  with assms show ?thesis by (auto simp: verdict_of_def concludes_def deviates_def)
qed

lemma build_assessment_concludes:
  assumes "build_assessment inputs p g pr = Inr a"
  shows "concludes p inputs (length pr) (da_direction a) (da_state a) (da_candidate a)"
proof -
  obtain s x where i: "inputs = (s, x)" by (cases inputs)
  from assms i obtain v ordered where v: "verdict_of s x p ordered = Inr v" "length ordered = length pr"
    and a: "da_direction a = vd_direction v" "da_state a = vd_state v" "da_candidate a = vd_candidate v"
    by (auto simp: build_assessment_def bind_result_eq_Inr_iff TemporalDeviationAssessment_def
        assessment_record_def Let_def split: if_splits)
  from verdict_concludes [OF v(1)] show ?thesis by (simp add: a v(2) i)
qed

lemma concludes_state:
  "concludes p i k d st cand \<Longrightarrow>
   ((st = Candidate \<or> st = Pending_Persistence) \<longleftrightarrow> deviates p d i) \<and>
   (cand \<longleftrightarrow> deviates p d i \<and> dp_required_persistence p \<le> 1 + int k) \<and>
   (st = Pending_Persistence \<longleftrightarrow> deviates p d i \<and> \<not> dp_required_persistence p \<le> 1 + int k)"
  by (auto simp: concludes_def split: if_splits)

lemma concludes_direction: "concludes p i k d st cand \<Longrightarrow> deviates p d' i \<Longrightarrow> d' = d"
  by (auto simp: concludes_def dest: deviates_unique split: if_splits)

definition deviating ::
    "(instant \<Rightarrow> (temporal_signal \<times> temporal_expectation) temporal) \<Rightarrow> deviation_policy \<Rightarrow>
     deviation_direction \<Rightarrow> instant \<Rightarrow> bool" where
  "deviating load p d t \<longleftrightarrow> (case load t of Inl _ \<Rightarrow> False | Inr i \<Rightarrow> deviates p d i)"

lemma deviating_iff: "load t = Inr i \<Longrightarrow> deviating load p d t \<longleftrightarrow> deviates p d i"
  by (simp add: deviating_def)

text \<open>The loop stops at the first day that does not deviate in the direction of the target day.\<close>

lemma prior_support_Inr:
  "prior_support load p t g d ns = Inr rs \<Longrightarrow>
   length rs \<le> length ns \<and>
   (length rs = length ns \<longleftrightarrow> (\<forall>n \<in> set ns. deviating load p d (t - days n)))"
proof (induction ns arbitrary: rs)
  case (Cons n ns)
  from Cons.prems obtain i a where i: "load (t - days n) = Inr i" "build_assessment i p g [] = Inr a"
    by (auto simp: bind_result_eq_Inr_iff add_time_iff)
  note c = build_assessment_concludes [OF i(2)]
  note dev = deviating_iff [where load = load and p = p and d = d, OF i(1)]
  show ?case
  proof (cases "deviates p d i")
    case True
    with concludes_direction [OF c True] concludes_state [OF c]
    have "da_direction a = d" "da_state a = Candidate \<or> da_state a = Pending_Persistence" by auto
    with Cons.prems i obtain rs' where rs': "prior_support load p t g d ns = Inr rs'" "rs = a # rs'"
      by (auto simp: bind_result_eq_Inr_iff add_time_iff)
    from Cons.IH [OF rs'(1)] True rs'(2) show ?thesis by (auto simp: dev)
  next
    case False
    then have "\<not> (da_direction a = d \<and> (da_state a = Candidate \<or> da_state a = Pending_Persistence))"
      using concludes_state [OF c] by auto
    with Cons.prems i have "rs = []" by (auto simp: bind_result_eq_Inr_iff add_time_iff split: if_splits)
    with False show ?thesis by (simp add: dev)
  qed
qed simp

text \<open>The days of the persistence requirement: the target day and the days before it.\<close>

definition persistent ::
    "(instant \<Rightarrow> (temporal_signal \<times> temporal_expectation) temporal) \<Rightarrow> deviation_policy \<Rightarrow>
     deviation_direction \<Rightarrow> instant \<Rightarrow> bool" where
  "persistent load p d t \<longleftrightarrow>
     (\<forall>n \<in> {0..dp_required_persistence p - 1}. deviating load p d (t - days n))"

lemma persistent_iff:
  assumes "1 \<le> dp_required_persistence p" "load t = Inr i"
  shows "persistent load p d t \<longleftrightarrow> deviates p d i \<and>
    (\<forall>n \<in> set [1..dp_required_persistence p - 1]. deviating load p d (t - days n))"
proof -
  have "{0..dp_required_persistence p - 1} = insert 0 {1..dp_required_persistence p - 1}"
    using assms(1) by auto
  then show ?thesis using deviating_iff [where load = load, OF assms(2)]
    by (simp add: persistent_def days_def)
qed

lemma candidate_iff:
  assumes "assess_with_persistence load p t g = Inr a" "1 \<le> dp_required_persistence p"
  shows "da_candidate a \<longleftrightarrow> persistent load p (da_direction a) t"
    "persistent load p d t \<Longrightarrow> d = da_direction a"
proof -
  from assms(1) obtain i b where i: "load t = Inr i" "build_assessment i p g [] = Inr b"
    by (auto simp: assess_with_persistence_def bind_result_eq_Inr_iff)
  note b = build_assessment_concludes [OF i(2)]
  note split = persistent_iff [where load = load, OF assms(2) i(1)]
  have "(da_candidate a \<longleftrightarrow> persistent load p (da_direction a) t) \<and>
      (persistent load p d t \<longrightarrow> d = da_direction a)"
  proof (cases "da_state b = Pending_Persistence")
    case False
    with assms(1) i have ab: "a = b" by (simp add: assess_with_persistence_def)
    from False concludes_state [OF b] have "deviates p (da_direction b) i \<Longrightarrow> dp_required_persistence p = 1"
      using assms(2) by simp
    then show ?thesis
      using concludes_state [OF b] concludes_direction [OF b, of d] unfolding split ab
      by (cases "deviates p (da_direction b) i") auto
  next
    case True
    with assms(1) i obtain rs where
      rs: "prior_support load p t g (da_direction b) [1..dp_required_persistence p - 1] = Inr rs"
      and a: "build_assessment i p g (rev rs) = Inr a"
      by (auto simp: assess_with_persistence_def bind_result_eq_Inr_iff split: if_splits)
    note c = build_assessment_concludes [OF a]
    from True concludes_state [OF b] have dev: "deviates p (da_direction b) i" by simp
    then have dir: "da_direction b = da_direction a" by (rule concludes_direction [OF c])
    have "dp_required_persistence p \<le> 1 + int (length (rev rs)) \<longleftrightarrow>
        length rs = length [1..dp_required_persistence p - 1]"
      using prior_support_Inr [OF rs] assms(2) by auto
    then have "da_candidate a \<longleftrightarrow>
        (\<forall>n \<in> set [1..dp_required_persistence p - 1]. deviating load p (da_direction a) (t - days n))"
      using concludes_state [OF c] dev prior_support_Inr [OF rs] unfolding dir by simp
    then show ?thesis using concludes_direction [OF c, of d] dev unfolding split dir by blast
  qed
  then show "da_candidate a \<longleftrightarrow> persistent load p (da_direction a) t"
    "persistent load p d t \<Longrightarrow> d = da_direction a" by blast+
qed

lemma policies_persist:
  "list_all (\<lambda>(k, p). 1 \<le> dp_required_persistence p \<and> dp_required_persistence p \<le> dp_maximum_lookback p
     \<and> policy_fields p \<and> policy_violation p = None \<and> dp_metric_key p = k) TEMPORAL_DEVIATION_POLICIES"
  by code_simp

lemma temporal_deviation_policy_Inr:
  "temporal_deviation_policy key = Inr p \<Longrightarrow>
   1 \<le> dp_required_persistence p \<and> dp_required_persistence p \<le> dp_maximum_lookback p
     \<and> policy_fields p \<and> policy_violation p = None \<and> dp_metric_key p = key"
  using policies_persist
  by (fastforce simp: temporal_deviation_policy_def list_all_iff split: option.splits dest: map_of_SomeD)

lemma assessment_Inr:
  assumes "assessment projection expectations key site (utc_stamp t) gran asset g = Inr a"
  obtains p now where "temporal_deviation_policy key = Inr p" "as_utc g = Inr now" "t < midnight now"
    "assess_with_persistence (\<lambda>t. load_inputs projection expectations key site t asset now) p t now = Inr a"
  using assms by (auto simp: assessment_def bind_result_eq_Inr_iff dest!: validate_request_Inr)

section \<open>A request is answered\<close>

text \<open>The inputs of a day: its signal and its expectation.\<close>

definition inputs_at ::
    "metric_definition \<Rightarrow> string \<Rightarrow> instant \<Rightarrow> instant \<Rightarrow> temporal_signal \<times> temporal_expectation \<Rightarrow> bool" where
  "inputs_at m site t g i \<longleftrightarrow>
     signal_at m site t (fst i) \<and> small_signal (fst i) \<and> expectation_at m site t g (snd i)"

lemma validate_provenance_ok:
  assumes "signal_at m site t s" "expectation_at m site t g x"
  shows "validate_provenance s x (md_metric_key m) site None t (t + days 1) = Inr ()"
proof -
  have day: "sg_granularity s = ''daily''" using assms(1) by (simp add: signal_at_def signal_fields_def)
  from assms(2) have id: "temporal_expectation_id (te_metric_key x) (te_site_id x) (te_target_start x)
      (te_target_end x) (te_history_start x) (te_history_end x) (te_method x)
      (te_projection_version x) (te_history_digest x) = Inr (te_expectation_id x)"
    unfolding expectation_at_def by (elim exE conjE) (simp add: expectation_record_def)
  from assms(2) have x: "te_metric_key x = md_metric_key m \<and> te_site_id x = site \<and> te_asset_id x = None \<and>
      te_tenant_id x = None \<and> te_target_start x = t \<and> te_target_end x = t + days 1 \<and>
      te_granularity x = ''daily'' \<and> te_unit x = md_unit m \<and>
      te_projection_version x = md_projection_version m \<and> te_knowledge_cutoff x = t \<and>
      te_authority x = ''analytical-context-only''"
    unfolding expectation_at_def by (elim exE conjE) (simp add: expectation_record_def)
  show ?thesis
    using assms(1) id x day by (simp add: validate_provenance_def signal_at_def)
qed

lemma load_inputs_total:
  assumes "temporal_metric key = Inr m" "valid_site site" "site \<in> set (db_sites db)" "database_ok db"
    and "at_midnight t" "calendar_safe (t - days 56)" "calendar_safe (t + days 1)" "calendar_safe now"
    and "t \<le> now"
  shows "\<exists>i. load_inputs (series (sql_store db)) (expectation (series (sql_store db))) key site t None now
    = Inr i \<and> inputs_at m site t now i"
proof -
  have safe: "calendar_safe t" using assms(6,7) by (simp add: calendar_safe_def days_def)
  have key: "md_metric_key m = key" using temporal_metric_Inr [OF assms(1)] by simp
  have end1: "t + days 1 = t + days (int 1)" by simp
  have mid: "midnight (t + days 1) = t + days 1" using assms(5) by (simp add: at_midnight_iff flip: at_midnight_iff)
  obtain r where r: "series (sql_store db) key site (utc_stamp t) (utc_stamp (t + days 1)) ''daily'' None
      (utc_stamp (t + days 1)) (Some (utc_stamp (t + days 1))) = Inr r" "length (sr_signals r) = 1"
    "sr_bucket_count r = 1" "\<forall>i < 1. signal_at m site (t + days (int i)) (sr_signals r ! i)"
    "list_all small_signal (sr_signals r)"
    using sql_series [OF assms(1-5) end1 _ _ safe assms(7) calendar_safe_in [OF assms(7)] order_refl
        assms(7)] mid days_nonneg
    by auto
  obtain x where x: "expectation (series (sql_store db)) key site (utc_stamp t) ''daily'' None
      (utc_stamp now) = Inr x" "expectation_at m site t now x"
    using expectation_total [OF assms(1-6) safe assms(8,9)] by blast
  obtain s where s: "sr_signals r = [s]" using r(2) by (auto simp: length_Suc_conv)
  have "signal_at m site t s" "small_signal s" using r(4,5) s by (simp_all add: days_def)
  with x(2) have "inputs_at m site t now (s, x)" by (simp add: inputs_at_def)
  moreover have "load_inputs (series (sql_store db)) (expectation (series (sql_store db))) key site t
      None now = Inr (s, x)"
    using r(1,3) s x validate_provenance_ok [OF \<open>signal_at m site t s\<close> x(2)]
      add_time_Inr [OF calendar_safe_in [OF assms(7)]] key
    by (simp add: load_inputs_def)
  ultimately show ?thesis by blast
qed

lemma moderate_float:
  assumes "moderate v"
  shows "\<exists>y. float_of_num v = Inr y \<and> 0 \<le> y \<and> y \<le> pow2 74"
proof (cases v)
  case (Int_Num i)
  with assms have i: "0 \<le> i" "i \<le> 10 ^ 21" by (simp_all add: moderate_def)
  have fixed: "fl (pow2 74) = pow2 74" using fl_exact [of 1 74] by simp
  have "(of_int i :: rat) \<le> of_int (10 ^ 21)" using i(2) by (simp only: of_int_le_iff)
  then have "of_int i \<le> pow2 74" by (simp add: pow2_def)
  then have "fl (of_int i) \<le> pow2 74" using fl_mono [of "of_int i" "pow2 74"] by (simp add: fixed)
  moreover have "0 \<le> fl (of_int i)" using i(1) by (intro b64.rnd_nonneg) simp
  moreover have "pow2 74 \<le> max_finite" by (simp add: max_finite_eval pow2_def)
  ultimately show ?thesis using Int_Num by (simp add: to_float_def Let_def)
next
  case (Float_Num f)
  with assms show ?thesis by (simp add: moderate_def)
qed

lemma relative_change_finite:
  assumes "0 \<le> y" "y \<le> pow2 74" "float_micro e" "0 < e"
  shows "optional_finite (Some (relative_change_of y e))"
proof -
  have e: "pow2 (- 20) \<le> e" "e \<le> pow2 74" using assms(3,4) by (auto simp: float_micro_def)
  have fixed: "fl (pow2 74) = pow2 74" "fl (pow2 94) = pow2 94"
    using fl_exact [of 1 74] fl_exact [of 1 94] by simp_all
  have "\<bar>fsub y e\<bar> \<le> pow2 74"
    using fl_mono [of "y - e" "pow2 74"] fl_mono [of "- pow2 74" "y - e"] assms(1,2) e assms(4)
    by (auto simp: fsub_def fixed abs_le_iff)
  then have "\<bar>fsub y e\<bar> / e \<le> pow2 74 / pow2 (- 20)"
    using e(1) by (intro frac_le) simp_all
  also have "\<dots> = pow2 94" by (simp flip: pow2_diff)
  finally have "fl (\<bar>fsub y e\<bar> / e) \<le> pow2 94" using fl_mono [of _ "pow2 94"] by (simp add: fixed)
  moreover have "0 \<le> fl (\<bar>fsub y e\<bar> / e)" using assms(4) by (intro b64.rnd_nonneg) simp
  moreover have "pow2 94 \<le> max_finite" by (simp add: max_finite_eval pow2_def)
  ultimately show ?thesis
    by (simp add: relative_change_of_def to_float_def optional_finite_def Let_def)
qed

text \<open>The digests of an assessment.\<close>

lemma canonical_digest_total: "encodable v \<Longrightarrow> \<exists>h. canonical_digest v = Inr h \<and> matches_HISTORY_DIGEST h"
  using json_dumps_ok(1) [of v] matches_HISTORY_DIGEST_canonical [of v]
  by (auto simp: canonical_digest_def simp del: json_dumps.simps)

lemma observation_digest_total:
  "small_signal s \<Longrightarrow> \<exists>h. temporal_observation_digest s = Inr h \<and> matches_HISTORY_DIGEST h"
  using canonical_digest_total [OF small_signal_encodable [of s]]
  by (auto simp: temporal_observation_digest_def lift_py_def)

lemma int_text_limit_small: "\<bar>i\<bar> \<le> 10 ^ 22 \<Longrightarrow> \<bar>i\<bar> < int_text_limit"
  using int_text_limit_gt by linarith

lemma encodable_optional_float [simp]: "encodable (optional_pyval float_pyval x)"
  by (simp add: optional_pyval_def float_pyval_def split: option.split)

lemma input_digest_total:
  assumes "matches_HISTORY_DIGEST h" "list_all matches_ASSESSMENT_ID ids" "policy_fields p"
  shows "\<exists>h'. temporal_assessment_input_digest h x p ids = Inr h' \<and> matches_HISTORY_DIGEST h'"
proof -
  have "\<bar>dp_required_persistence p\<bar> < int_text_limit" "\<bar>dp_maximum_lookback p\<bar> < int_text_limit"
    using assms(3) unfolding policy_fields_def by (intro int_text_limit_small; simp)+
  then have "encodable (assessment_payload h x p ids)"
    by (simp add: assessment_payload_def list_all_iff)
  from canonical_digest_total [OF this] assms(1,2) show ?thesis
    by (auto simp: temporal_assessment_input_digest_def lift_py_def)
qed

lemma assessment_id_total:
  "matches_HISTORY_DIGEST h \<Longrightarrow>
   \<exists>a. temporal_deviation_assessment_id h key site t e ver = Inr a \<and> matches_ASSESSMENT_ID a"
  by (simp add: temporal_deviation_assessment_id_def matches_ASSESSMENT_ID_def matches_hex_digest_id)

section \<open>The contract of an assessment\<close>

text \<open>Part of the verdict that the fields check.\<close>

definition verdict_fields :: "deviation_policy \<Rightarrow> verdict \<Rightarrow> bool" where
  "verdict_fields p v \<longleftrightarrow>
     optional_nonneg (vd_distance v) \<and> optional_finite (vd_relative v) \<and>
     0 \<le> vd_persistence v \<and> vd_persistence v \<le> 3 \<and> length (vd_supporting v) \<le> 1 \<and>
     1 \<le> length (vd_reasons v) \<and> length (vd_reasons v) \<le> 8"

lemma assessment_fields_record:
  assumes "inputs_at m site t g (s, x)" "governed m" "policy_fields p" "verdict_fields p v"
    and "matches_ASSESSMENT_ID ident" "matches_HISTORY_DIGEST h" "matches_HISTORY_DIGEST h'"
    and "optional_nonneg y" "list_all (\<lambda>a. matches_ASSESSMENT_ID (da_assessment_id a)) (vd_supporting v)"
  shows "assessment_fields (assessment_record s x p now v h h' ident y)"
proof -
  have s: "signal_fields s" using assms(1) by (simp add: inputs_at_def signal_at_def)
  have x: "expectation_fields x"
    using assms(1) unfolding inputs_at_def expectation_at_def by auto
  have "distinct (map da_assessment_id (vd_supporting v))"
    using assms(4) by (cases "vd_supporting v") (auto simp: verdict_fields_def)
  with s x assms(3-9) show ?thesis
    by (simp add: assessment_fields_def assessment_record_def signal_fields_def expectation_fields_def
        policy_fields_def verdict_fields_def list.pred_map comp_def text_between_def
        MAX_TEMPORAL_DEVIATION_SUPPORTING_ASSESSMENTS_def MAX_TEMPORAL_DEVIATION_ASSESSMENTS_def
        MAX_TEMPORAL_DEVIATION_REASON_CODES_def)
qed

text \<open>The reasons are those of a table whose conditions hold.\<close>

lemma blocking_reasons_table:
  "\<exists>table. blocking_reasons s x p = map snd (filter fst table) \<and>
     map snd table = [Observation_Unavailable, Observation_Incomplete, Observation_Stale,
       Observation_Untrusted, Expectation_Range_Unavailable, Expectation_Quality_Low,
       Expectation_Confidence_Low]"
  by (rule exI [of _ "[(sg_value s = None, Observation_Unavailable),
       (\<not> sg_complete s, Observation_Incomplete), (sg_freshness s = Fresh_Stale, Observation_Stale),
       (sg_quality s \<noteq> Quality_Observed, Observation_Untrusted),
       (te_expected x = None \<or> te_lower x = None \<or> te_upper x = None, Expectation_Range_Unavailable),
       (te_quality x \<noteq> dp_required_quality p, Expectation_Quality_Low),
       (\<not> confidence_meets_policy (te_confidence x) (dp_minimum_confidence p), Expectation_Confidence_Low)]"])
    (simp add: blocking_reasons_def)

lemma blocking_reasons_distinct: "distinct (blocking_reasons s x p) \<and> length (blocking_reasons s x p) \<le> 7"
proof -
  obtain table where t: "blocking_reasons s x p = map snd (filter fst table)"
    "map snd table = [Observation_Unavailable, Observation_Incomplete, Observation_Stale,
       Observation_Untrusted, Expectation_Range_Unavailable, Expectation_Quality_Low,
       Expectation_Confidence_Low]"
    using blocking_reasons_table [of s x p] by (elim exE conjE) (rule that)
  have "distinct (map snd table)" unfolding t(2) by simp
  then have "distinct (blocking_reasons s x p)" unfolding t(1) by (rule distinct_map_filter)
  moreover have "length table = 7" using arg_cong [OF t(2), of length] by simp
  ultimately show ?thesis using length_filter_le [of fst table] by (simp add: t(1))
qed

lemma blocking_reasons_blocking: "list_all is_blocking (blocking_reasons s x p)"
  by (simp add: blocking_reasons_def)

text \<open>The inputs agree with each other, whatever the verdict.\<close>

lemma assessment_violation_blocked:
  assumes "inputs_at m site t g (s, x)" "at_midnight t" "policy_violation p = None"
    and "blocking_reasons s x p \<noteq> []"
    and "v = \<lparr> vd_state = Blocked, vd_direction = Direction_Unknown, vd_distance = None,
      vd_relative = None, vd_persistence = 0, vd_candidate = False,
      vd_reasons = blocking_reasons s x p, vd_supporting = [] \<rparr>"
  shows "assessment_violation (assessment_record s x p now v h h' ident y) = None"
proof -
  have range: "range_or_none x" using assms(1) expectation_at_range by (auto simp: inputs_at_def)
  have absent: "te_lower x = None \<longleftrightarrow> te_expected x = None" "te_upper x = None \<longleftrightarrow> te_expected x = None"
    using range by (auto simp: range_or_none_def split: option.splits)
  note reasons = blocking_reasons_distinct [of s x p] blocking_reasons_blocking [of s x p]
  have day: "sg_bucket_start s = t" "sg_bucket_end s = t + days 1"
    using assms(1) by (auto simp: inputs_at_def signal_at_def)
  have p: "distinct (dp_allowed_directions p)" using assms(3) by (simp add: policy_violation_def)
  show ?thesis
    using reasons day p assms(2)
    by (simp add: assessment_violation_def assessment_record_def blocked_violation_def assms(5) absent
        del: not_None_eq)
qed

text \<open>What an empty list of blocking reasons says of the inputs.\<close>

lemma unblocked:
  assumes "blocking_reasons s x p = []" "signal_violation s = None" "policy_fields p"
  shows "sg_complete s \<and> sg_freshness s = Fresh_Current \<and> sg_quality s = Quality_Observed \<and>
    te_quality x = Sufficient \<and> (te_confidence x = Confidence_Medium \<or> te_confidence x = Confidence_High)"
proof -
  have q: "sg_complete s" "sg_quality s = Quality_Observed" "te_quality x = Sufficient"
    "confidence_meets_policy (te_confidence x) Confidence_Medium"
    using assms(1,3) by (simp_all add: blocking_reasons_def policy_fields_def split: if_splits)
  then have "te_confidence x = Confidence_Medium \<or> te_confidence x = Confidence_High"
    by (cases "te_confidence x") (simp_all add: confidence_meets_policy_def)
  moreover have "sg_freshness s = Fresh_Current"
    using assms(2) q(2) by (simp add: signal_violation_def)
  ultimately show ?thesis using q by simp
qed

lemma direction_distance:
  "direction_of y l u = (d, r) \<Longrightarrow> 0 \<le> r \<and> d \<noteq> Direction_Unknown"
  by (auto simp: direction_of_def fsub_def intro!: b64.rnd_nonneg split: if_splits)

definition evaluated_verdict ::
    "rat \<Rightarrow> rat \<Rightarrow> rat \<Rightarrow> rat \<Rightarrow> deviation_policy \<Rightarrow> verdict \<Rightarrow> bool" where
  "evaluated_verdict y e l u p v \<longleftrightarrow>
     direction_of y l u = (vd_direction v, the (vd_distance v)) \<and> vd_distance v \<noteq> None \<and>
     vd_relative v = (if 0 < e then Some (relative_change_of y e) else None) \<and>
     vd_state v \<noteq> Blocked \<and> map Some (vd_reasons v) = [required_reason (vd_state v)] \<and>
     int (length (vd_supporting v)) = max 0 (vd_persistence v - 1) \<and>
     (vd_candidate v \<longleftrightarrow> vd_state v = Candidate) \<and>
     (case vd_state v of
        Within_Range \<Rightarrow> vd_direction v = Inside \<and> vd_persistence v = 0
      | Outside_Policy \<Rightarrow> vd_direction v \<noteq> Inside \<and>
          vd_direction v \<notin> set (dp_allowed_directions p) \<and> vd_persistence v = 0
      | Pending_Persistence \<Rightarrow> vd_direction v \<in> set (dp_allowed_directions p) \<and>
          1 \<le> vd_persistence v \<and> vd_persistence v < dp_required_persistence p
      | Candidate \<Rightarrow> vd_direction v \<in> set (dp_allowed_directions p) \<and>
          vd_persistence v = dp_required_persistence p
      | Blocked \<Rightarrow> False)"

lemma evaluate_verdict:
  assumes "evaluate y e l u p pr = Inr v" "int (length pr) \<le> dp_required_persistence p - 1"
  shows "evaluated_verdict y e l u p v \<and> (vd_supporting v = [] \<or> vd_supporting v = pr)"
  using assms
  by (cases "direction_of y l u") (auto simp: evaluate_def evaluated_verdict_def Let_def split: if_splits)

lemma evaluated_fields:
  assumes "evaluated_verdict y e l u p v" "policy_fields p" "length (vd_supporting v) \<le> 1"
    and "0 \<le> y" "y \<le> pow2 74" "float_micro e"
  shows "verdict_fields p v"
proof -
  have "vd_relative v = None \<or> 0 < e \<and> vd_relative v = Some (relative_change_of y e)"
    using assms(1) by (simp add: evaluated_verdict_def)
  then have rel: "optional_finite (vd_relative v)"
    using relative_change_finite [OF assms(4-6)] by (auto simp: optional_finite_def)
  have dist: "optional_nonneg (vd_distance v)"
    using assms(1) direction_distance by (fastforce simp: evaluated_verdict_def optional_nonneg_def)
  have "length (vd_reasons v) = 1"
    using assms(1) by (auto simp: evaluated_verdict_def dest: arg_cong [of _ _ length])
  moreover have "0 \<le> vd_persistence v" "vd_persistence v \<le> 3"
    using assms(1,2) by (auto simp: evaluated_verdict_def policy_fields_def split: assessment_state.splits)
  ultimately show ?thesis using rel dist assms(3) by (simp add: verdict_fields_def)
qed

lemma first_of_two: "(case z of None \<Rightarrow> f | Some msg \<Rightarrow> Some msg) = None \<longleftrightarrow> z = None \<and> f = None"
  by (simp split: option.split)

lemma assessment_violation_evaluated:
  assumes "inputs_at m site t g (s, x)" "at_midnight t" "policy_fields p" "policy_violation p = None"
    and "blocking_reasons s x p = []" "te_expected x = Some e" "te_lower x = Some l" "te_upper x = Some u"
    and "evaluated_verdict y e l u p v"
  shows "assessment_violation (assessment_record s x p now v h h' ident (Some y)) = None"
proof -
  let ?a = "assessment_record s x p now v h h' ident (Some y)"
  have range: "0 \<le> l" "l \<le> e" "e \<le> u"
    using expectation_at_range [of m site t g x] assms(1,6-8) by (simp_all add: inputs_at_def range_or_none_def)
  have sig: "signal_violation s = None" "sg_bucket_start s = t" "sg_bucket_end s = t + days 1"
    using assms(1) by (simp_all add: inputs_at_def signal_at_def)
  note q = unblocked [OF assms(5) sig(1) assms(3)]
  have p: "distinct (dp_allowed_directions p)" using assms(4) by (simp add: policy_violation_def)
  have v: "direction_of y l u = (vd_direction v, the (vd_distance v))" "Some (the (vd_distance v)) = vd_distance v"
    "vd_state v \<noteq> Blocked" "map Some (vd_reasons v) = [required_reason (vd_state v)]"
    using assms(9) by (simp_all add: evaluated_verdict_def)
  from v(4) obtain r where r: "vd_reasons v = [r]" "required_reason (vd_state v) = Some r" by auto
  have sup: "int (length (vd_supporting v)) = max 0 (vd_persistence v - 1)"
    using assms(9) by (simp add: evaluated_verdict_def)
  then have none: "vd_persistence v = 0 \<Longrightarrow> vd_supporting v = []" by simp
  have state: "state_violation ?a = None"
    using assms(9) none by (cases "vd_state v") (simp_all add: state_violation_def assessment_record_def evaluated_verdict_def)
  have rel: "e = 0 \<longrightarrow> vd_relative v = None" "e \<noteq> 0 \<longrightarrow> vd_relative v = Some (relative_change_of y e)"
    using assms(9) range by (auto simp: evaluated_verdict_def)
  have "evaluated_violation ?a = None"
    using q range v(1,2) rel sup state assms(6-8)
    by (auto simp: evaluated_violation_def assessment_record_def first_of_two)
  then show ?thesis
    using assms(2,6-8) sig p v(3) r
    by (simp add: assessment_violation_def assessment_record_def)
qed

section \<open>The service over the store\<close>

text \<open>An assessment of a day under a policy, as a supporting assessment has to be.\<close>

definition assessment_at ::
    "metric_definition \<Rightarrow> string \<Rightarrow> deviation_policy \<Rightarrow> instant \<Rightarrow> deviation_assessment \<Rightarrow> bool" where
  "assessment_at m site p t a \<longleftrightarrow>
     matches_ASSESSMENT_ID (da_assessment_id a) \<and> da_metric_key a = md_metric_key m \<and>
     da_site_id a = site \<and> da_asset_id a = None \<and> da_policy_id a = dp_policy_id p \<and>
     da_policy_version a = dp_policy_version p \<and> da_target_start a = t \<and> da_target_end a = t + days 1 \<and>
     assessment_fields a \<and> assessment_violation a = None"

text \<open>At most one supporting day, the day before, which deviates in the same direction.\<close>

definition support_at ::
    "metric_definition \<Rightarrow> string \<Rightarrow> deviation_policy \<Rightarrow> instant \<Rightarrow>
     temporal_signal \<times> temporal_expectation \<Rightarrow> deviation_assessment list \<Rightarrow> bool" where
  "support_at m site p t i pr \<longleftrightarrow>
     (case pr of
        [] \<Rightarrow> True
      | [a] \<Rightarrow> assessment_at m site p (t - days 1) a \<and>
          (da_state a = Pending_Persistence \<or> da_state a = Candidate) \<and>
          2 \<le> dp_required_persistence p \<and> deviates p (da_direction a) i
      | _ \<Rightarrow> False)"

lemma evaluate_total:
  assumes "\<not> list_ex (\<lambda>a. da_direction a \<noteq> fst (direction_of y l u)) pr"
  shows "\<exists>v. evaluate y e l u p pr = Inr v"
proof -
  obtain d b where d: "direction_of y l u = (d, b)" by (cases "direction_of y l u")
  with assms show ?thesis
    by (cases "d = Inside"; cases "d \<in> set (dp_allowed_directions p)") (simp_all add: evaluate_def Let_def)
qed

lemma observed_float_total:
  assumes "case sg_value s of None \<Rightarrow> True | Some n \<Rightarrow> moderate n"
  shows "\<exists>y. observed_float s = Inr y \<and> optional_nonneg y"
proof (cases "sg_value s")
  case None
  then show ?thesis by (simp add: observed_float_def optional_nonneg_def)
next
  case (Some n)
  with assms obtain y where "float_of_num n = Inr y" "0 \<le> y" using moderate_float [of n] by auto
  with Some show ?thesis by (simp add: observed_float_def optional_nonneg_def)
qed

lemma verdict_total:
  assumes "inputs_at m site t g (s, x)" "at_midnight t" "policy_fields p" "policy_violation p = None"
    and "support_at m site p t (s, x) pr" "int (length pr) \<le> dp_required_persistence p - 1"
  shows "\<exists>v y. verdict_of s x p pr = Inr v \<and> observed_float s = Inr y \<and> optional_nonneg y \<and>
    verdict_fields p v \<and> (vd_supporting v = [] \<or> vd_supporting v = pr) \<and>
    (\<forall>now h h' ident. assessment_violation (assessment_record s x p now v h h' ident y) = None)"
proof -
  have mod: "case sg_value s of None \<Rightarrow> True | Some n \<Rightarrow> moderate n"
    using assms(1) by (simp add: inputs_at_def small_signal_def)
  have pr1: "length pr \<le> 1" using assms(5) by (auto simp: support_at_def split: list.splits)
  show ?thesis
  proof (cases "blocking_reasons s x p")
    case (Cons r rs)
    obtain y where y: "observed_float s = Inr y" "optional_nonneg y"
      using observed_float_total [OF mod] by blast
    let ?v = "\<lparr> vd_state = Blocked, vd_direction = Direction_Unknown, vd_distance = None,
      vd_relative = None, vd_persistence = 0, vd_candidate = False,
      vd_reasons = blocking_reasons s x p, vd_supporting = [] \<rparr>"
    have "verdict_of s x p pr = Inr ?v" using Cons by (simp add: verdict_of_def)
    moreover have "verdict_fields p ?v"
      using blocking_reasons_distinct [of s x p] Cons
      by (simp add: verdict_fields_def optional_nonneg_def optional_finite_def)
    moreover have "assessment_violation (assessment_record s x p now ?v h h' ident y) = None" for now h h' ident
      using Cons by (intro assessment_violation_blocked [OF assms(1,2,4)]) simp_all
    ultimately show ?thesis using y by (intro exI [of _ ?v] exI [of _ y]) simp
  next
    case Nil
    then obtain n e l u where n: "sg_value s = Some n" "te_expected x = Some e" "te_lower x = Some l"
        "te_upper x = Some u"
      by (auto simp: blocking_reasons_def split: if_splits)
    obtain y where y: "float_of_num n = Inr y" "0 \<le> y" "y \<le> pow2 74"
      using mod n(1) moderate_float by auto
    have micro: "float_micro e" using expectation_at_micro [of m site t g x e] assms(1) n(2) by (simp add: inputs_at_def)
    have dev: "deviates p d (s, x) \<longleftrightarrow> d \<in> set (dp_allowed_directions p) \<and> beyond d y l u" for d
      using Nil n y(1) by (simp add: deviates_def)
    have same: "\<not> list_ex (\<lambda>a. da_direction a \<noteq> fst (direction_of y l u)) pr"
      using assms(5) by (auto simp: support_at_def dev beyond_direction split: list.splits)
    obtain v where v: "evaluate y e l u p pr = Inr v"
      using evaluate_total [OF same] by blast
    note ev = evaluate_verdict [OF v assms(6)]
    have "length (vd_supporting v) \<le> 1" using ev pr1 by auto
    then have "verdict_fields p v" using ev assms(3) y micro by (blast intro: evaluated_fields)
    moreover have "verdict_of s x p pr = Inr v" using Nil n y(1) v by (simp add: verdict_of_def)
    moreover have "assessment_violation (assessment_record s x p now v h h' ident (Some y)) = None" for now h h' ident
      using ev by (intro assessment_violation_evaluated [OF assms(1-4) Nil n(2-4)]) simp
    moreover have "observed_float s = Inr (Some y)" using n(1) y(1) by (simp add: observed_float_def)
    ultimately show ?thesis using ev y(2)
      by (intro exI [of _ v] exI [of _ "Some y"]) (simp add: optional_nonneg_def)
  qed
qed

lemma supports_aligned_support:
  assumes "support_at m site p t (s, x) pr" "inputs_at m site t g (s, x)" "calendar_safe t"
  shows "supports_aligned s p (t - days (int (length pr))) pr = Inr ()"
proof (cases pr)
  case (Cons a rest)
  then have pr: "pr = [a]" "assessment_at m site p (t - days 1) a"
    "da_state a = Pending_Persistence \<or> da_state a = Candidate"
    using assms(1) by (auto simp: support_at_def split: list.splits)
  have "add_time (t - days 1) (days 1) = Inr t"
    using add_time_Inr [of "t - days 1" "days 1"] calendar_safe_in [OF assms(3)] by simp
  with pr assms(2) show ?thesis by (auto simp: assessment_at_def inputs_at_def signal_at_def)
qed simp

lemma build_assessment_total:
  assumes "inputs_at m site t g i" "governed m" "at_midnight t" "calendar_safe t"
    and "policy_fields p" "policy_violation p = None"
    and "support_at m site p t i pr" "int (length pr) \<le> dp_required_persistence p - 1"
  shows "\<exists>a. build_assessment i p now pr = Inr a \<and> assessment_at m site p t a"
proof -
  obtain s x where i: "i = (s, x)" by (cases i)
  obtain v y where v: "verdict_of s x p pr = Inr v" "observed_float s = Inr y" "optional_nonneg y"
    "verdict_fields p v" "vd_supporting v = [] \<or> vd_supporting v = pr"
    "\<And>now h h' ident. assessment_violation (assessment_record s x p now v h h' ident y) = None"
    using verdict_total [OF assms(1) [unfolded i] assms(3,5,6) assms(7) [unfolded i] assms(8)] by blast
  have ids: "list_all (\<lambda>a. matches_ASSESSMENT_ID (da_assessment_id a)) (vd_supporting v)"
    using v(5) assms(7) by (auto simp: support_at_def assessment_at_def split: list.splits)
  obtain h where h: "temporal_observation_digest s = Inr h" "matches_HISTORY_DIGEST h"
    using observation_digest_total [of s] assms(1) by (auto simp: i inputs_at_def)
  have "list_all matches_ASSESSMENT_ID (map da_assessment_id (vd_supporting v))"
    using ids by (simp add: list.pred_map comp_def)
  from input_digest_total [OF h(2) this assms(5), of x] obtain h' where
    h': "temporal_assessment_input_digest h x p (map da_assessment_id (vd_supporting v)) = Inr h'"
      "matches_HISTORY_DIGEST h'" by blast
  obtain ident where ident: "temporal_deviation_assessment_id h' (sg_metric_key s) (sg_site_id s)
      (sg_bucket_start s) (sg_bucket_end s) (dp_policy_version p) = Inr ident" "matches_ASSESSMENT_ID ident"
    using assessment_id_total [OF h'(2)] by blast
  let ?a = "assessment_record s x p now v h h' ident y"
  have ok: "assessment_fields ?a" "assessment_violation ?a = None"
    using assessment_fields_record [OF assms(1) [unfolded i] assms(2,5) v(4) ident(2) h(2) h'(2) v(3) ids] v(6)
    by blast+
  have start: "sg_bucket_start s = t" "sg_bucket_end s = t + days 1" "sg_metric_key s = md_metric_key m"
    "sg_site_id s = site" "sg_asset_id s = None"
    using assms(1) by (auto simp: i inputs_at_def signal_at_def)
  have len: "length pr \<le> 1" using assms(7) by (auto simp: support_at_def split: list.splits)
  then have sorted: "sort_key f pr = pr" for f :: "deviation_assessment \<Rightarrow> instant \<times> instant \<times> string"
    by (cases pr) auto
  have "in_calendar (t - days (int (length pr)))"
    using assms(4) len by (cases pr) (simp_all add: calendar_safe_def in_calendar_def days_def)
  then have "add_time t (- days (int (length pr))) = Inr (t - days (int (length pr)))"
    using add_time_Inr [of t "- days (int (length pr))"] by simp
  then have "build_assessment i p now pr = Inr ?a"
    using sorted supports_aligned_support [OF assms(7) [unfolded i] assms(1) [unfolded i] assms(4)]
      v(1,2) h(1) h'(1) ident(1) ok start(1) assms(8)
    by (simp add: i build_assessment_def TemporalDeviationAssessment_def)
  moreover have "assessment_at m site p t ?a"
    using ident(2) ok start by (simp add: assessment_at_def assessment_record_def)
  ultimately show ?thesis by blast
qed

lemma every_metric_has_deviation_policy:
  "list_all (\<lambda>m. case map_of TEMPORAL_DEVIATION_POLICIES (md_metric_key m) of
     None \<Rightarrow> False | Some p \<Rightarrow> dp_required_persistence p \<le> 2) TEMPORAL_METRICS"
  by code_simp

text \<open>The persistence loop over days whose inputs load: it ends in an assessment.\<close>

lemma assess_total:
  assumes "governed m" "at_midnight t" "calendar_safe t" "calendar_safe (t - days 1)"
    and "policy_fields p" "policy_violation p = None" "dp_required_persistence p \<le> 2"
    and "load t = Inr i" "inputs_at m site t g i"
    and "load (t - days 1) = Inr i'" "inputs_at m site (t - days 1) g i'"
  shows "\<exists>a. assess_with_persistence load p t now = Inr a \<and> assessment_at m site p t a"
proof -
  have p1: "0 \<le> dp_required_persistence p - 1" "dp_required_persistence p \<le> dp_maximum_lookback p"
    using assms(5,6) by (simp_all add: policy_fields_def policy_violation_def)
  have none: "support_at m site p t' j []" for t' j by (simp add: support_at_def)
  have len0: "int (length ([] :: deviation_assessment list)) \<le> dp_required_persistence p - 1"
    using p1(1) by simp
  obtain a where a: "build_assessment i p now [] = Inr a" "assessment_at m site p t a"
    using build_assessment_total [OF assms(9,1-3,5,6) none len0] by blast
  show ?thesis
  proof (cases "da_state a = Pending_Persistence")
    case False
    with a assms(8) show ?thesis by (simp add: assess_with_persistence_def)
  next
    case True
    with concludes_state [OF build_assessment_concludes [OF a(1)]]
    have dev: "deviates p (da_direction a) i" "dp_required_persistence p = 2" using assms(7) by auto
    have mid: "at_midnight (t - days 1)" using assms(2) by simp
    obtain b where b: "build_assessment i' p now [] = Inr b" "assessment_at m site p (t - days 1) b"
      using build_assessment_total [OF assms(11,1) mid assms(4,5,6) none len0] by blast
    define rs where "rs = (if (da_state b \<noteq> Pending_Persistence \<and> da_state b \<noteq> Candidate)
      \<or> da_direction b \<noteq> da_direction a then [] else [b])"
    have "add_time t (- days 1) = Inr (t - days 1)"
      using add_time_Inr [of t "- days 1"] calendar_safe_in [OF assms(4)] by simp
    moreover have "[1..dp_required_persistence p - 1] = [1]" using dev(2) by simp
    ultimately have loop: "prior_support load p t now (da_direction a) [1..dp_required_persistence p - 1] = Inr rs"
      using assms(10) b(1) by (simp add: rs_def)
    have "support_at m site p t i (rev rs)"
      using b(2) dev by (auto simp: rs_def support_at_def)
    moreover have "int (length (rev rs)) \<le> dp_required_persistence p - 1"
      using dev(2) by (simp add: rs_def)
    ultimately obtain c where "build_assessment i p now (rev rs) = Inr c" "assessment_at m site p t c"
      using build_assessment_total [OF assms(9,1-3,5,6)] by blast
    with True a(1) assms(8) p1(2) loop show ?thesis by (simp add: assess_with_persistence_def)
  qed
qed

lemma deviation_total:
  assumes "temporal_metric key = Inr m" "valid_site site" "site \<in> set (db_sites db)" "database_ok db"
    and "at_midnight t" "calendar_safe (t - days 57)" "calendar_safe (t + days 1)" "calendar_safe now"
    and "t < midnight now"
  shows "\<exists>a p. deviation_service (sql_store db) key site (utc_stamp t) ''daily'' None (utc_stamp now) = Inr a \<and>
    temporal_deviation_policy key = Inr p \<and> assessment_at m site p t a"
proof -
  have m: "m \<in> set TEMPORAL_METRICS" "governed m" "md_metric_key m = key"
    using temporal_metric_Inr temporal_metric_governed assms(1) by auto
  obtain p where p: "temporal_deviation_policy key = Inr p" "dp_required_persistence p \<le> 2"
    using every_metric_has_deviation_policy m(1,3)
    by (fastforce simp: list_all_iff temporal_deviation_policy_def split: option.splits)
  note pol = temporal_deviation_policy_Inr [OF p(1)]
  let ?load = "\<lambda>t. load_inputs (series (sql_store db)) (expectation (series (sql_store db))) key site t None now"
  have now: "t \<le> now" "t - days 1 \<le> now" using assms(9) midnight_le [of now] by (simp_all add: days_def)
  have safe: "calendar_safe t" "calendar_safe (t - days 1)" "calendar_safe (t - days 56)"
    "calendar_safe (t - days 1 - days 56)" "calendar_safe (t - days 1 + days 1)"
    using assms(6,7) by (simp_all add: calendar_safe_def days_def)
  have mid: "at_midnight (t - days 1)" using assms(5) by simp
  obtain i where i: "?load t = Inr i" "inputs_at m site t now i"
    using load_inputs_total [OF assms(1-5) safe(3) assms(7,8) now(1)] by blast
  obtain i' where i': "?load (t - days 1) = Inr i'" "inputs_at m site (t - days 1) now i'"
    using load_inputs_total [OF assms(1-4) mid safe(4,5) assms(8) now(2)] by blast
  obtain a where a: "assess_with_persistence ?load p t now = Inr a" "assessment_at m site p t a"
    using assess_total [where load = ?load, OF m(2) assms(5) safe(1,2) _ _ p(2) i i'] pol by blast
  have "validate_request (utc_stamp t) ''daily'' None (md_supports_asset_scope m) (utc_stamp now) = Inr (t, now)"
    using assms(5,9) calendar_safe_in [OF safe(1)] calendar_safe_in [OF assms(8)] utc_daily_bucket_safe [OF assms(8)]
    by (simp add: validate_request_def)
  then show ?thesis using a p(1) assms(1) by (simp add: deviation_service_def assessment_def)
qed

text \<open>C8. The deviation service over the SQL store answers every valid request: for a governed metric, a
  known site and a closed target day, whatever the recorded counts, it returns an assessment that satisfies
  the contract of assessments; no valid request ends in an error.\<close>

theorem deviation_answers:
  assumes "temporal_metric key = Inr m" "valid_site site" "site \<in> set (db_sites db)" "database_ok db"
    and "at_midnight t" "calendar_safe (t - days 57)" "calendar_safe (t + days 1)" "calendar_safe now"
    and "t < midnight now"
  shows "\<exists>a. deviation_service (sql_store db) key site (utc_stamp t) ''daily'' None (utc_stamp now) = Inr a \<and>
    da_target_start a = t \<and> assessment_fields a \<and> assessment_violation a = None"
  using deviation_total [OF assms] by (auto simp: assessment_at_def)

lemma example_assessment:
  "\<exists>a. deviation_service (sql_store example_database) ''site.findings.new.count'' ''hq''
     (utc_stamp (days 20001)) ''daily'' None (utc_stamp (days 20002 + 5)) = Inr a"
proof -
  obtain m where m: "temporal_metric ''site.findings.new.count'' = Inr m" using findings_metric by blast
  have site: "valid_site ''hq''" by code_simp
  have mid: "midnight (days 20002 + 5) = days 20002" by code_simp
  from deviation_total [OF m site _ example_database_ok, of "days 20001" "days 20002 + 5"] mid
  show ?thesis
    by (auto simp: example_database_def calendar_safe_def min_instant_eq max_instant_eq days_def
        at_midnight_def time_of_day_def)
qed

lemma deviation_answers_witness:
  "\<exists>a. deviation_service (sql_store example_database) ''site.findings.new.count'' ''hq''
     (utc_stamp (days 20001)) ''daily'' None (utc_stamp (days 20002 + 5)) = Inr a \<and>
     assessment_violation a = None"
proof -
  obtain m where m: "temporal_metric ''site.findings.new.count'' = Inr m" using findings_metric by blast
  have site: "valid_site ''hq''" by code_simp
  have mid: "midnight (days 20002 + 5) = days 20002" by code_simp
  from deviation_answers [OF m site _ example_database_ok, of "days 20001" "days 20002 + 5"] mid
  show ?thesis
    by (auto simp: example_database_def calendar_safe_def min_instant_eq max_instant_eq days_def
        at_midnight_def time_of_day_def)
qed

text \<open>C7. An assessment is a candidate exactly if the target day and every day before it that the persistence
  requirement of the policy counts deviate: each has a trustworthy observation beyond its own trustworthy
  range, all in one direction, which the policy admits and which is the direction reported.\<close>

theorem candidate_means_persistent:
  assumes "assessment projection expectations key site (utc_stamp t) gran asset g = Inr a"
  shows "\<exists>p now. temporal_deviation_policy key = Inr p \<and> as_utc g = Inr now \<and>
    (da_candidate a \<longleftrightarrow>
      persistent (\<lambda>t. load_inputs projection expectations key site t asset now) p (da_direction a) t) \<and>
    (\<forall>d. persistent (\<lambda>t. load_inputs projection expectations key site t asset now) p d t \<longrightarrow>
      d = da_direction a)"
proof -
  obtain p now where p: "temporal_deviation_policy key = Inr p" "as_utc g = Inr now"
    "assess_with_persistence (\<lambda>t. load_inputs projection expectations key site t asset now) p t now = Inr a"
    using assms by (rule assessment_Inr)
  have "1 \<le> dp_required_persistence p" using temporal_deviation_policy_Inr [OF p(1)] by simp
  from candidate_iff [OF p(3) this] p(1,2) show ?thesis by blast
qed

lemma candidate_means_persistent_witness:
  "\<exists>a p. deviation_service (sql_store example_database) ''site.findings.new.count'' ''hq''
     (utc_stamp (days 20001)) ''daily'' None (utc_stamp (days 20002 + 5)) = Inr a \<and>
     (da_candidate a \<longleftrightarrow> persistent (\<lambda>t. load_inputs (series (sql_store example_database))
        (expectation (series (sql_store example_database))) ''site.findings.new.count'' ''hq'' t None
        (days 20002 + 5)) p (da_direction a) (days 20001))"
proof -
  obtain a where a: "deviation_service (sql_store example_database) ''site.findings.new.count'' ''hq''
     (utc_stamp (days 20001)) ''daily'' None (utc_stamp (days 20002 + 5)) = Inr a"
    using example_assessment by blast
  have now: "as_utc (utc_stamp (days 20002 + 5)) = Inr (days 20002 + 5)"
    by (simp add: in_calendar_def min_instant_eq max_instant_eq days_def)
  from candidate_means_persistent [OF a [unfolded deviation_service_def]] a now show ?thesis by auto
qed

section \<open>An unknown metric\<close>

text \<open>A metric that is not registered is a projection error of the expectation service, which its callers
  translate, but an untranslated contract error of the deviation service, whatever the other arguments.\<close>

theorem unknown_metric_errors:
  assumes "key \<notin> md_metric_key ` set TEMPORAL_METRICS"
  shows "expectation projection key site t gran asset g = Inl (Projection_Error ''unknown-metric'') \<and>
    (\<exists>msg. assessment projection expectations key site t gran asset g = Inl (Contract_Error msg))"
proof -
  have "\<exists>msg. temporal_metric key = Inl (Contract_Error msg)"
    using assms by (auto simp: temporal_metric_def map_of_eq_None_iff split: option.splits dest!: map_of_SomeD)
  then show ?thesis by (auto simp: expectation_def assessment_def)
qed

lemma unknown_metric_errors_witness:
  "expectation (series (sql_store example_database)) ''no.such'' ''hq'' (utc_stamp 0) ''daily'' None (utc_stamp 0)
     = Inl (Projection_Error ''unknown-metric'')"
  by (rule unknown_metric_errors [THEN conjunct1]) code_simp

end
