(* ===== verification/Finding_Rules.thy ===== *)
theory Finding_Rules
  imports Py_Iso Py_Number Sha256
begin

text \<open>
  The finding rules of src/backend/app/findings.py: configuration, evidence references, candidates, and one
  definition per rule.  Sites, sensors and assets are dictionaries; \<^verbatim>\<open>now\<close> and the configuration are part
  of the rule context.  A rule returns its candidates in order, or the \<^verbatim>\<open>OverflowError\<close> of a timestamp
  outside the calendar in UTC or of a confidence beyond the float range.
\<close>

section \<open>Configuration\<close>

definition RULESET_VERSION :: string where "RULESET_VERSION = ''oaw.findings.v4''"
definition MAX_FINDING_CANDIDATES :: int where "MAX_FINDING_CANDIDATES = 10000"
definition MAX_EVIDENCE_REFERENCES :: nat where "MAX_EVIDENCE_REFERENCES = 8"

definition SUPPORTED_SEVERITIES :: "string list" where
  "SUPPORTED_SEVERITIES = [''critical'', ''high'', ''medium'', ''low'', ''informational'']"

text \<open>\<^verbatim>\<open>int(raw, 10)\<close>, which refuses more than 4300 digits.\<close>

definition read_int :: "string \<Rightarrow> int option" where
  "read_int raw =
     (let (sign, body) = read_sign (py_strip is_space raw)
      in case digit_part body of
           None \<Rightarrow> None
         | Some ds \<Rightarrow> if 4300 < length ds then None else Some (sign * int_of_digits ds))"

definition bounded_int :: "(string \<times> string) list \<Rightarrow> string \<Rightarrow> int \<Rightarrow> int \<Rightarrow> int \<Rightarrow> int" where
  "bounded_int environ name fallback minimum maximum =
     (case map_of environ name of
        None \<Rightarrow> fallback
      | Some raw \<Rightarrow>
          if py_strip is_space raw = [] then fallback
          else (case read_int raw of
                  None \<Rightarrow> fallback
                | Some v \<Rightarrow> max minimum (min v maximum)))"

record FindingsConfig =
  sensor_stale_minutes :: int
  asset_stale_hours :: int
  new_asset_hours :: int
  evidence_fresh_hours :: int
  evidence_aging_hours :: int
  max_candidates :: int

definition load_findings_config :: "(string \<times> string) list \<Rightarrow> FindingsConfig" where
  "load_findings_config environ =
     (let fresh_hours = bounded_int environ ''OPENASSETWATCH_FINDINGS_EVIDENCE_FRESH_HOURS'' 24 1 168;
          aging_hours =
            bounded_int environ ''OPENASSETWATCH_FINDINGS_EVIDENCE_AGING_HOURS'' 72 fresh_hours 720
      in \<lparr> sensor_stale_minutes =
             bounded_int environ ''OPENASSETWATCH_FINDINGS_SENSOR_STALE_MINUTES'' 120 15 10080,
           asset_stale_hours = bounded_int environ ''OPENASSETWATCH_FINDINGS_ASSET_STALE_HOURS'' 72 1 720,
           new_asset_hours = bounded_int environ ''OPENASSETWATCH_FINDINGS_NEW_ASSET_HOURS'' 24 1 168,
           evidence_fresh_hours = fresh_hours,
           evidence_aging_hours = aging_hours,
           max_candidates = bounded_int environ ''OPENASSETWATCH_FINDINGS_MAX_CANDIDATES''
             MAX_FINDING_CANDIDATES 100 MAX_FINDING_CANDIDATES \<rparr>)"

section \<open>Records\<close>

record EvidenceReference =
  ref_evidence_ref :: string
  ref_evidence_type :: string
  ref_source :: string
  ref_observed_at :: "instant option"
  ref_freshness :: string
  ref_confidence :: rat
  ref_summary :: string

record FindingCandidate =
  fc_dedupe_key :: string
  fc_rule_id :: string
  fc_rule_version :: int
  fc_category :: string
  fc_subject_type :: string
  fc_site_id :: string
  fc_asset_id :: "string option"
  fc_sensor_id :: "string option"
  fc_title :: string
  fc_description :: string
  fc_recommendation :: string
  fc_severity :: string
  fc_confidence :: rat
  fc_observed_at :: "instant option"
  fc_freshness :: string
  fc_evidence :: "EvidenceReference list"

definition or_empty :: "string option \<Rightarrow> string" where
  "or_empty s = (case s of None \<Rightarrow> [] | Some t \<Rightarrow> t)"

definition candidate_subject_id :: "FindingCandidate \<Rightarrow> string" where
  "candidate_subject_id c =
     (if fc_subject_type c = ''asset'' then or_empty (fc_asset_id c)
      else if fc_subject_type c = ''sensor'' then or_empty (fc_sensor_id c)
      else fc_site_id c)"

record RuleContext =
  rx_now :: instant
  rx_config :: FindingsConfig
  rx_sites :: "pydict list"
  rx_sensors :: "pydict list"
  rx_assets :: "pydict list"

section \<open>Times, freshness and fields\<close>

fun utc_time :: "pyval \<Rightarrow> instant option result" where
  "utc_time (PTime t) = Inr (Some t)"
| "utc_time (PStr s) =
     (case from_isoformat (replace_z s) of
        None \<Rightarrow> Inr None
      | Some (_, None) \<Rightarrow> Inr None
      | Some (local_time, Some offset) \<Rightarrow>
          bind_result (astimezone_utc local_time offset) (\<lambda>t. Inr (Some t)))"
| "utc_time _ = Inr None"

text \<open>\<^verbatim>\<open>evidence_freshness\<close> of an instant that is already in UTC, and of any value.\<close>

definition freshness_at :: "instant \<Rightarrow> FindingsConfig \<Rightarrow> instant option \<Rightarrow> string" where
  "freshness_at now config observed =
     (case observed of
        None \<Rightarrow> ''unknown''
      | Some t \<Rightarrow>
          let age = max (now - t) 0
          in if age \<le> hours (evidence_fresh_hours config) then ''fresh''
             else if age \<le> hours (evidence_aging_hours config) then ''aging''
             else ''stale'')"

definition value_freshness :: "pyval \<Rightarrow> instant \<Rightarrow> FindingsConfig \<Rightarrow> string result" where
  "value_freshness v now config = bind_result (utc_time v) (\<lambda>t. Inr (freshness_at now config t))"

definition finding_confidence :: "pyval \<Rightarrow> rat \<Rightarrow> rat result" where
  "finding_confidence v fallback = confidence_or v fallback"

definition text_value :: "pyval \<Rightarrow> nat \<Rightarrow> string" where
  "text_value v limit = (case v of PStr s \<Rightarrow> take limit (py_strip is_space s) | _ \<Rightarrow> [])"

definition dict_field :: "pydict \<Rightarrow> string \<Rightarrow> pydict" where
  "dict_field d k = (case get d k of PDict e \<Rightarrow> e | _ \<Rightarrow> [])"

definition asset_metadata :: "pydict \<Rightarrow> pydict" where
  "asset_metadata asset = dict_field asset ''metadata''"

definition asset_classification :: "pydict \<Rightarrow> pydict" where
  "asset_classification asset = dict_field asset ''classification''"

fun dict_items :: "pyval list \<Rightarrow> pydict list" where
  "dict_items [] = []"
| "dict_items (PDict d # vs) = d # dict_items vs"
| "dict_items (_ # vs) = dict_items vs"

definition vulnerability_matches :: "pydict \<Rightarrow> pydict list" where
  "vulnerability_matches asset = dict_items (take 2000 (list_items (get asset ''vulnerability_matches'')))"

definition managed_expectation :: "pydict \<Rightarrow> string \<Rightarrow> string" where
  "managed_expectation asset capability =
     (case get (asset_classification asset) ''managed_capability'' of
        PDict managed \<Rightarrow>
          let v = casefold (text_value (get managed capability) 32)
          in if v \<in> {''expected'', ''not-expected'', ''unknown''} then v else ''unknown''
      | _ \<Rightarrow> ''unknown'')"

definition classification_confidence :: "pydict \<Rightarrow> rat \<Rightarrow> rat result" where
  "classification_confidence asset fallback =
     (if asset_classification asset = [] then finding_confidence (get asset ''confidence'') fallback
      else finding_confidence (get (asset_classification asset) ''confidence'') fallback)"

definition source_agent_types :: "pydict list \<Rightarrow> (string, string) odict" where
  "source_agent_types sensors =
     foldl (\<lambda>d sensor. AList.update (text_value (get sensor ''agent_id'') 160)
              (casefold (text_value (get sensor ''agent_type'') 64)) d) [] sensors"

definition has_endpoint_evidence :: "pydict \<Rightarrow> (string, string) odict \<Rightarrow> bool" where
  "has_endpoint_evidence asset source_types \<longleftrightarrow>
     map_of source_types (text_value (get asset ''source_agent_id'') 160) = Some ''endpoint-agent''
     \<or> casefold (text_value (get asset ''observation_source'') 80)
         \<in> {''endpoint-inventory'', ''local-inventory'', ''local-inventory-demo''}"

definition has_explicit_healthy_coverage :: "pydict \<Rightarrow> bool" where
  "has_explicit_healthy_coverage asset \<longleftrightarrow>
     get (asset_metadata asset) ''endpoint_security'' = PBool True
     \<or> list_ex (\<lambda>field. casefold (text_value (get (asset_metadata asset) field) 64)
           \<in> {''active'', ''covered'', ''healthy'', ''installed'', ''ok'', ''present''})
         [''security_coverage'', ''coverage_status'', ''security_tooling_status'']"

definition hex_val :: "char \<Rightarrow> int" where
  "hex_val c = (if is_digit c then code c - 48 else code c - 87)"

definition normalized_mac :: "pyval \<Rightarrow> string" where
  "normalized_mac v =
     (let candidate = map (\<lambda>c. if c = CHR ''-'' then CHR '':'' else c) (casefold (text_value v 64));
          parts = split_on (CHR '':'') candidate
      in if length parts \<noteq> 6 \<or> \<not> list_all (\<lambda>p. length p = 2 \<and> list_all is_hex_lower p) parts then []
         else let octets = map (\<lambda>p. 16 * hex_val (p ! 0) + hex_val (p ! 1)) parts
              in if list_all (\<lambda>x. x = 0) octets \<or> list_all (\<lambda>x. x = 255) octets then []
                 else if odd (hd octets) then []
                 else py_join '':'' parts)"

section \<open>Keys, evidence and candidates\<close>

text \<open>\<^verbatim>\<open>"\x00".join(...)\<close>\<close>

definition nul_join :: "string list \<Rightarrow> string" where
  "nul_join = py_join [char_of (0 :: int)]"

type_synonym resolution_key = "string \<times> string \<times> string \<times> string"

definition subject_key :: "string \<Rightarrow> string \<Rightarrow> string \<Rightarrow> string \<Rightarrow> resolution_key" where
  "subject_key rule_id subject_type site_id subject_id = (rule_id, subject_type, site_id, subject_id)"

definition dedupe_key :: "string \<Rightarrow> string \<Rightarrow> string \<Rightarrow> string \<Rightarrow> string" where
  "dedupe_key rule_id subject_type site_id subject_id =
     ''fdk_'' @ sha256_hex (nul_join [rule_id, subject_type, site_id, subject_id])"

definition evidence_ref_of :: "string \<Rightarrow> string \<Rightarrow> string \<Rightarrow> string \<Rightarrow> string" where
  "evidence_ref_of source evidence_type site_id subject_id =
     ''ev_'' @ sha256_hex (nul_join [source, evidence_type, site_id, subject_id])"

definition evidence_of ::
    "string \<Rightarrow> string \<Rightarrow> string \<Rightarrow> string \<Rightarrow> instant option \<Rightarrow> string \<Rightarrow> rat \<Rightarrow> string \<Rightarrow> EvidenceReference" where
  "evidence_of source evidence_type site_id subject_id observed_at fresh confidence summary =
     \<lparr> ref_evidence_ref = evidence_ref_of source evidence_type site_id subject_id,
       ref_evidence_type = take 64 evidence_type, ref_source = take 120 source,
       ref_observed_at = observed_at, ref_freshness = fresh,
       ref_confidence = unit_clamp confidence, ref_summary = take 240 summary \<rparr>"

text \<open>
  The keyword arguments of \<open>_candidate\<close>.  The key is that of the subject unless another identifier is
  given for it.
\<close>

record candidate_arguments =
  ca_rule_id :: string
  ca_rule_version :: int
  ca_category :: string
  ca_subject_type :: string
  ca_site_id :: string
  ca_asset_id :: "string option"
  ca_sensor_id :: "string option"
  ca_title :: string
  ca_description :: string
  ca_recommendation :: string
  ca_severity :: string
  ca_confidence :: rat
  ca_observed_at :: "instant option"
  ca_freshness :: string
  ca_evidence :: "EvidenceReference list"
  ca_dedupe_subject_id :: "string option"

definition candidate_of :: "candidate_arguments \<Rightarrow> FindingCandidate result" where
  "candidate_of a =
     (let subject_id = or_empty
            (if ca_subject_type a = ''asset'' then ca_asset_id a
             else if ca_subject_type a = ''sensor'' then ca_sensor_id a else Some (ca_site_id a));
          keyed = or_empty (ca_dedupe_subject_id a)
      in if subject_id = [] then Inl ValueError
         else Inr \<lparr> fc_dedupe_key = dedupe_key (ca_rule_id a) (ca_subject_type a) (ca_site_id a)
                      (if keyed = [] then subject_id else keyed),
                    fc_rule_id = ca_rule_id a, fc_rule_version = ca_rule_version a,
                    fc_category = ca_category a, fc_subject_type = ca_subject_type a,
                    fc_site_id = ca_site_id a, fc_asset_id = ca_asset_id a,
                    fc_sensor_id = ca_sensor_id a, fc_title = ca_title a,
                    fc_description = ca_description a, fc_recommendation = ca_recommendation a,
                    fc_severity = ca_severity a, fc_confidence = unit_clamp (ca_confidence a),
                    fc_observed_at = ca_observed_at a, fc_freshness = ca_freshness a,
                    fc_evidence = take MAX_EVIDENCE_REFERENCES (ca_evidence a) \<rparr>)"

text \<open>A rule yields one candidate.\<close>

definition yield_candidate :: "candidate_arguments \<Rightarrow> FindingCandidate list result" where
  "yield_candidate a = bind_result (candidate_of a) (\<lambda>c. Inr [c])"

section \<open>Vulnerability rules\<close>

definition VULNERABILITY_SEVERITY_ORDER :: "string list" where
  "VULNERABILITY_SEVERITY_ORDER = [''informational'', ''low'', ''medium'', ''high'', ''critical'']"

fun index_of :: "'a list \<Rightarrow> 'a \<Rightarrow> nat" where
  "index_of [] x = 0"
| "index_of (y # ys) x = (if x = y then 0 else Suc (index_of ys x))"

definition vulnerability_severity :: "pydict \<Rightarrow> string" where
  "vulnerability_severity match =
     (let raw = casefold (text_value (get match ''severity'') 32);
          severity = (if raw \<in> set SUPPORTED_SEVERITIES then raw else ''informational'')
      in if truthy (get match ''known_exploited'')
         then VULNERABILITY_SEVERITY_ORDER !
                min (index_of VULNERABILITY_SEVERITY_ORDER severity + 1)
                    (length VULNERABILITY_SEVERITY_ORDER - 1)
         else severity)"

definition kev_records_of :: "pydict \<Rightarrow> pyval list" where
  "kev_records_of match = list_items (get (dict_field match ''kev'') ''records'')"

text \<open>One evidence reference before the confidence and the time of the match are added.\<close>

type_synonym evidence_row = "string \<times> string \<times> string \<times> string \<times> string"

definition kev_evidence_row :: "pyval \<Rightarrow> evidence_row list" where
  "kev_evidence_row v =
     (case v of
        PDict kev \<Rightarrow>
          let record_id = text_value (get kev ''kev_record_id'') 80;
              cve_id = text_value (get kev ''cve_id'') 32;
              ransomware = (get kev ''ransomware_campaign_status'' = PStr ''Known'');
              ransomware_text =
                (if ransomware then ''CISA confirms ransomware campaign use''
                 else ''ransomware campaign use is unconfirmed'');
              fresh = text_value (get kev ''source_freshness'') 16
          in if record_id = [] \<or> cve_id = [] then []
             else [(record_id,
                    (if ransomware then ''kev-prioritization-ransomware'' else ''kev-prioritization''),
                    ''cisa-kev'',
                    take 500 (''Exact alias '' @ cve_id @ '' is in CISA KEV; '' @ ransomware_text
                      @ ''; CISA KEV due date '' @ py_str (get kev ''cisa_due_date'')
                      @ ''; local exploitation is not established.''),
                    (if fresh \<in> {''fresh'', ''aging'', ''stale''} then fresh else ''unknown''))]
      | _ \<Rightarrow> [])"

definition vulnerability_evidence ::
    "pydict \<Rightarrow> instant option \<Rightarrow> string \<Rightarrow> rat \<Rightarrow> EvidenceReference list" where
  "vulnerability_evidence match observed_at fresh confidence =
     (let rows =
        [(text_value (get match ''match_id'') 80, ''vulnerability-match'',
          ''deterministic-vulnerability-matcher'', ''Server-issued deterministic match result.'', fresh),
         (text_value (get match ''component_id'') 80, ''normalized-component'', ''asset_components'',
          ''Server-issued normalized component inventory record.'', fresh),
         (text_value (get match ''advisory_id'') 80, ''reviewed-advisory'', ''local-advisory-catalog'',
          ''Server-issued reviewed local advisory record.'', fresh)]
        @ concat (map kev_evidence_row (take 5 (kev_records_of match)))
      in map (\<lambda>(ident, kind, source, summary, f).
            \<lparr> ref_evidence_ref = ident, ref_evidence_type = kind, ref_source = source,
              ref_observed_at = observed_at, ref_freshness = f, ref_confidence = confidence,
              ref_summary = summary \<rparr>)
          (filter (\<lambda>(ident, _). ident \<noteq> []) (take MAX_EVIDENCE_REFERENCES rows)))"

text \<open>The instant of a match.\<close>

definition match_observed_at :: "pydict \<Rightarrow> instant option result" where
  "match_observed_at match =
     utc_time (py_or (get match ''component_last_seen_at'') (get match ''evaluated_at''))"

definition vulnerable_title :: "pydict \<Rightarrow> string" where
  "vulnerable_title match =
     (if kev_records_of match \<noteq> [] then ''KEV-prioritized vulnerable component''
      else if truthy (get match ''known_exploited'') then ''Known-exploited vulnerable component''
      else ''Confirmed vulnerable component'')"

definition vulnerable_description :: "pydict \<Rightarrow> string" where
  "vulnerable_description match =
     (let component_id = text_value (get match ''component_id'') 80;
          name = text_value (get match ''component_name'') 160;
          version = text_value (get match ''installed_version'') 160;
          kev_records = kev_records_of match;
          exact_cves = sort (remdups (map (\<lambda>kev. text_value (get kev ''cve_id'') 32)
            (filter (\<lambda>kev. truthy (get kev ''cve_id'')) (dict_items kev_records))))
      in ''Deterministic match '' @ text_value (get match ''match_id'') 80 @ '' confirms ''
         @ (if name = [] then component_id else name)
         @ '' version '' @ (if version = [] then ''unknown'' else version)
         @ '' is affected by advisory '' @ text_value (get match ''advisory_id'') 80 @ ''.''
         @ (if kev_records = [] then []
            else '' Exact CVE alias correlation lists '' @ py_join '', '' (take 5 exact_cves)
                 @ '' in CISA KEV; this prioritizes review and does not establish exploitation or ''
                 @ ''compromise of this asset.''))"

definition vulnerable_recommendation :: "pydict \<Rightarrow> string" where
  "vulnerable_recommendation match =
     (case kev_records_of match of
        [] \<Rightarrow>
          let fixed_version = text_value (get match ''fixed_version'') 160
          in if fixed_version = []
             then ''Review the cited advisory and establish a tested remediation plan; ''
                  @ ''no automatic patching occurs.''
             else ''Review and test upgrade to '' @ fixed_version @ ''; no automatic patching occurs.''
      | v # _ \<Rightarrow>
          let primary = (case v of PDict kev \<Rightarrow> kev | _ \<Rightarrow> []);
              guidance = text_value (get primary ''required_action'') 1000;
              due = text_value (PStr (py_str (py_or (get primary ''cisa_due_date'') (PStr [])))) 32
          in ''CISA guidance (text only; not executed): '' @ guidance @ '' CISA KEV due date: '' @ due
             @ ''; this is not automatically a local SLA.'')"

text \<open>The body of the loop over the matches of an asset.\<close>

definition vulnerable_component_of ::
    "RuleContext \<Rightarrow> string \<Rightarrow> string \<Rightarrow> pydict \<Rightarrow> FindingCandidate list result" where
  "vulnerable_component_of context site_id asset_id match =
     (let match_id = text_value (get match ''match_id'') 80;
          component_id = text_value (get match ''component_id'') 80;
          advisory_id = text_value (get match ''advisory_id'') 80;
          declared = text_value (get match ''component_freshness'') 32
      in if get match ''match_status'' \<noteq> PStr ''affected'' then Inr []
         else if match_id = [] \<or> component_id = [] \<or> advisory_id = [] then Inr []
         else bind_result (match_observed_at match) (\<lambda>observed_at.
              bind_result (finding_confidence (get match ''match_confidence'') 0) (\<lambda>confidence.
              let fresh = (if declared \<in> {''fresh'', ''aging'', ''stale'', ''unknown''} then declared
                           else freshness_at (rx_now context) (rx_config context) observed_at)
              in yield_candidate
                   \<lparr> ca_rule_id = ''vulnerable-component'', ca_rule_version = 2,
                     ca_category = ''vulnerability'', ca_subject_type = ''asset'',
                     ca_site_id = site_id, ca_asset_id = Some asset_id, ca_sensor_id = None,
                     ca_title = vulnerable_title match,
                     ca_description = vulnerable_description match,
                     ca_recommendation = vulnerable_recommendation match,
                     ca_severity = vulnerability_severity match, ca_confidence = confidence,
                     ca_observed_at = observed_at, ca_freshness = fresh,
                     ca_evidence = vulnerability_evidence match observed_at fresh confidence,
                     ca_dedupe_subject_id = Some match_id \<rparr>)))"

definition asset_site :: "pydict \<Rightarrow> string" where
  "asset_site d = text_value (get d ''site_id'') 128"

definition asset_ident :: "pydict \<Rightarrow> string" where
  "asset_ident d = text_value (get d ''asset_id'') 160"

definition confirmed_vulnerable_components :: "RuleContext \<Rightarrow> FindingCandidate list result" where
  "confirmed_vulnerable_components context =
     concat_results (map (\<lambda>asset.
       if asset_site asset = [] \<or> asset_ident asset = [] then Inr []
       else concat_results (map (vulnerable_component_of context (asset_site asset) (asset_ident asset))
              (vulnerability_matches asset)))
       (rx_assets context))"

text \<open>
  The two inventory rules walk through the matches of an asset alike: one candidate for every component
  that has a match of the status, at its first such match.
\<close>

definition review_candidate ::
    "RuleContext \<Rightarrow> string \<Rightarrow> rat \<Rightarrow> string \<Rightarrow> (string \<Rightarrow> string) \<Rightarrow> string \<Rightarrow> string \<Rightarrow> string \<Rightarrow> pydict \<Rightarrow>
     FindingCandidate list result" where
  "review_candidate context rule_id fallback title describe recommendation site_id asset_id match =
     (let component_id = text_value (get match ''component_id'') 80
      in bind_result (match_observed_at match) (\<lambda>observed_at.
         bind_result (finding_confidence (get match ''match_confidence'') fallback) (\<lambda>confidence.
         let fresh = freshness_at (rx_now context) (rx_config context) observed_at
         in yield_candidate
              \<lparr> ca_rule_id = rule_id, ca_rule_version = 1, ca_category = ''inventory'',
                ca_subject_type = ''asset'', ca_site_id = site_id, ca_asset_id = Some asset_id,
                ca_sensor_id = None, ca_title = title, ca_description = describe component_id,
                ca_recommendation = recommendation, ca_severity = ''informational'',
                ca_confidence = confidence, ca_observed_at = observed_at, ca_freshness = fresh,
                ca_evidence = vulnerability_evidence match observed_at fresh confidence,
                ca_dedupe_subject_id = Some component_id \<rparr>)))"

fun first_by_component :: "string \<Rightarrow> string list \<Rightarrow> pydict list \<Rightarrow> pydict list" where
  "first_by_component status seen [] = []"
| "first_by_component status seen (match # rest) =
     (let component_id = text_value (get match ''component_id'') 80
      in if get match ''match_status'' \<noteq> PStr status \<or> component_id = [] \<or> component_id \<in> set seen
         then first_by_component status seen rest
         else match # first_by_component status (component_id # seen) rest)"

definition component_version_unavailable :: "RuleContext \<Rightarrow> FindingCandidate list result" where
  "component_version_unavailable context =
     concat_results (map (\<lambda>asset.
       if asset_site asset = [] \<or> asset_ident asset = [] then Inr []
       else concat_results (map
              (review_candidate context ''component-version-unavailable'' (fl (5 / 10))
                 ''Component version unavailable''
                 (\<lambda>component_id. ''Normalized component '' @ component_id @ '' has no usable version, ''
                    @ ''so it has not been classified as vulnerable.'')
                 ''Collect a current authoritative version for deterministic evaluation.''
                 (asset_site asset) (asset_ident asset))
              (first_by_component ''version-unknown'' [] (vulnerability_matches asset))))
       (rx_assets context))"

definition advisory_identity_uncertain :: "RuleContext \<Rightarrow> FindingCandidate list result" where
  "advisory_identity_uncertain context =
     concat_results (map (\<lambda>asset.
       if asset_site asset = [] \<or> asset_ident asset = [] then Inr []
       else concat_results (map
              (review_candidate context ''advisory-identity-uncertain'' (fl (4 / 10))
                 ''Advisory identity requires review''
                 (\<lambda>component_id. ''Component '' @ component_id @ '' resembles a reviewed advisory identity ''
                    @ ''but lacks a precise canonical identifier; no vulnerability is confirmed.'')
                 (''Review package identity and provenance before treating the advisory as ''
                  @ ''applicable.'')
                 (asset_site asset) (asset_ident asset))
              (first_by_component ''identity-uncertain'' [] (vulnerability_matches asset))))
       (rx_assets context))"

section \<open>Freshness and inventory rules\<close>

definition sensor_stale_of :: "RuleContext \<Rightarrow> pydict \<Rightarrow> FindingCandidate list result" where
  "sensor_stale_of context sensor =
     (let sensor_id = text_value (get sensor ''agent_id'') 160;
          site_id = asset_site sensor
      in if casefold (text_value (get sensor ''identity_status'') 32) = ''revoked'' then Inr []
         else if sensor_id = [] \<or> site_id = [] then Inr []
         else bind_result (utc_time (get sensor ''last_seen_at'')) (\<lambda>observed_at.
              if (case observed_at of
                    None \<Rightarrow> False
                  | Some t \<Rightarrow> rx_now context - t \<le> minutes (sensor_stale_minutes (rx_config context)))
              then Inr []
              else let fresh = freshness_at (rx_now context) (rx_config context) observed_at;
                       never_seen = (observed_at = None);
                       confidence = (if never_seen then fl (9 / 10) else 1)
                   in yield_candidate
                        \<lparr> ca_rule_id = ''sensor-stale'', ca_rule_version = 1,
                          ca_category = ''freshness'', ca_subject_type = ''sensor'',
                          ca_site_id = site_id, ca_asset_id = None, ca_sensor_id = Some sensor_id,
                          ca_title = (if never_seen then ''Sensor has not reported evidence''
                                      else ''Sensor evidence is stale''),
                          ca_description =
                            (if never_seen
                             then ''The enrolled sensor has no authenticated check-in timestamp.''
                             else ''The enrolled sensor's last authenticated check-in exceeds the ''
                                  @ ''reviewed freshness threshold.''),
                          ca_recommendation =
                            ''Verify sensor service health, connectivity, identity status, and ''
                            @ ''outbound spool delivery.'',
                          ca_severity = ''medium'', ca_confidence = confidence,
                          ca_observed_at = observed_at, ca_freshness = fresh,
                          ca_evidence =
                            [evidence_of ''agent_enrollments.last_seen_at'' ''sensor-check-in'' site_id
                               sensor_id observed_at fresh confidence
                               (''Authenticated sensor check-in freshness crossed the configured ''
                                @ ''threshold.'')],
                          ca_dedupe_subject_id = None \<rparr>))"

definition sensor_stale :: "RuleContext \<Rightarrow> FindingCandidate list result" where
  "sensor_stale context = concat_results (map (sensor_stale_of context) (rx_sensors context))"

text \<open>\<^verbatim>\<open>asset.get("observed_at") or asset.get("last_seen_at")\<close>\<close>

definition asset_seen :: "pydict \<Rightarrow> pyval" where
  "asset_seen asset = py_or (get asset ''observed_at'') (get asset ''last_seen_at'')"

definition asset_stale_of :: "RuleContext \<Rightarrow> pydict \<Rightarrow> FindingCandidate list result" where
  "asset_stale_of context asset =
     (if asset_ident asset = [] \<or> asset_site asset = [] then Inr []
      else bind_result (utc_time (asset_seen asset)) (\<lambda>observed_at.
           case observed_at of
             None \<Rightarrow> Inr []
           | Some t \<Rightarrow>
               if rx_now context - t \<le> hours (asset_stale_hours (rx_config context)) then Inr []
               else let fresh = freshness_at (rx_now context) (rx_config context) observed_at
                    in bind_result (finding_confidence (get asset ''confidence'') (fl (75 / 100)))
                         (\<lambda>confidence.
                       yield_candidate
                         \<lparr> ca_rule_id = ''asset-stale'', ca_rule_version = 1,
                           ca_category = ''freshness'', ca_subject_type = ''asset'',
                           ca_site_id = asset_site asset, ca_asset_id = Some (asset_ident asset),
                           ca_sensor_id = None, ca_title = ''Asset evidence is stale'',
                           ca_description =
                             ''The normalized asset has not been refreshed within the configured ''
                             @ ''evidence window.'',
                           ca_recommendation =
                             ''Restore collection coverage before relying on this asset's current ''
                             @ ''posture.'',
                           ca_severity = ''low'', ca_confidence = confidence,
                           ca_observed_at = observed_at, ca_freshness = fresh,
                           ca_evidence =
                             [evidence_of ''control_tower_assets.observed_at'' ''asset-observation''
                                (asset_site asset) (asset_ident asset) observed_at fresh confidence
                                ''Normalized asset evidence crossed the configured stale threshold.''],
                           ca_dedupe_subject_id = None \<rparr>)))"

definition asset_stale :: "RuleContext \<Rightarrow> FindingCandidate list result" where
  "asset_stale context = concat_results (map (asset_stale_of context) (rx_assets context))"

text \<open>\<^verbatim>\<open>classification.get("category") or metadata.get("category")\<close>, in lower case.\<close>

definition asset_category :: "pydict \<Rightarrow> string" where
  "asset_category asset =
     casefold (text_value (py_or (get (asset_classification asset) ''category'')
                                 (get (asset_metadata asset) ''category'')) 80)"

definition starts_with :: "string \<Rightarrow> string \<Rightarrow> bool" where
  "starts_with s prefix \<longleftrightarrow> take (length prefix) s = prefix"

text \<open>The two early \<^verbatim>\<open>continue\<close> of the rule: the asset has a recognised category.\<close>

definition recognised_asset :: "pydict \<Rightarrow> bool" where
  "recognised_asset asset =
     (let classification = asset_classification asset; category = asset_category asset;
          status = casefold (text_value (get classification ''status'') 40)
      in if classification \<noteq> []
         then category \<noteq> [] \<and> category \<noteq> ''unknown'' \<and> status \<notin> {''unknown'', ''insufficient-evidence''}
         else category \<noteq> [] \<and> \<not> starts_with category ''unknown'')"

definition unknown_asset_of :: "RuleContext \<Rightarrow> pydict \<Rightarrow> FindingCandidate list result" where
  "unknown_asset_of context asset =
     (if asset_ident asset = [] \<or> asset_site asset = [] \<or> recognised_asset asset then Inr []
      else bind_result (utc_time (asset_seen asset)) (\<lambda>observed_at.
           bind_result (utc_time (py_or (get asset ''first_seen_at'') (get asset ''created_at'')))
             (\<lambda>first_seen_at.
           bind_result (classification_confidence asset (fl (7 / 10))) (\<lambda>classified.
           let classification = asset_classification asset;
               is_new = (case first_seen_at of
                           None \<Rightarrow> False
                         | Some t \<Rightarrow> rx_now context - t \<le> hours (new_asset_hours (rx_config context)));
               fresh = freshness_at (rx_now context) (rx_config context) observed_at;
               confidence = max (fl (35 / 100)) classified
           in yield_candidate
                \<lparr> ca_rule_id = ''unknown-asset'', ca_rule_version = 2, ca_category = ''inventory'',
                  ca_subject_type = ''asset'', ca_site_id = asset_site asset,
                  ca_asset_id = Some (asset_ident asset), ca_sensor_id = None,
                  ca_title = (if is_new then ''New unknown asset requires review''
                              else ''Unknown asset requires review''),
                  ca_description =
                    ''The normalized asset does not yet have a recognized, evidence-backed category.'',
                  ca_recommendation =
                    ''Validate ownership and expected function, then classify the asset using reviewed ''
                    @ ''inventory data.'',
                  ca_severity = (if is_new then ''medium'' else ''low''), ca_confidence = confidence,
                  ca_observed_at = observed_at, ca_freshness = fresh,
                  ca_evidence =
                    [evidence_of
                       (if classification \<noteq> [] then ''asset_classifications.status''
                        else ''control_tower_assets.metadata.category'')
                       ''asset-classification'' (asset_site asset) (asset_ident asset) observed_at fresh
                       confidence
                       (if classification \<noteq> []
                        then ''Deterministic classification is unknown or has insufficient evidence.''
                        else ''Normalized asset classification is absent or explicitly unknown.'')],
                  ca_dedupe_subject_id = None \<rparr>))))"

definition new_or_unknown_asset :: "RuleContext \<Rightarrow> FindingCandidate list result" where
  "new_or_unknown_asset context = concat_results (map (unknown_asset_of context) (rx_assets context))"

section \<open>Coverage rules\<close>

definition MANAGED_CATEGORIES :: "string list" where
  "MANAGED_CATEGORIES =
     [''computer'', ''desktop'', ''endpoint'', ''laptop'', ''server'', ''virtual-machine'', ''workstation'']"

definition passive_only :: "pydict \<Rightarrow> (string, string) odict \<Rightarrow> bool" where
  "passive_only asset sensor_types \<longleftrightarrow>
     casefold (text_value (get asset ''observation_source'') 80) = ''passive-network''
     \<or> map_of sensor_types (text_value (get asset ''source_agent_id'') 160) = Some ''network-sensor''"

text \<open>The guard of the rule: the asset is passive only although endpoint management is expected.\<close>

definition passive_gap :: "pydict \<Rightarrow> (string, string) odict \<Rightarrow> bool" where
  "passive_gap asset sensor_types \<longleftrightarrow>
     asset_ident asset \<noteq> [] \<and> asset_site asset \<noteq> [] \<and> passive_only asset sensor_types \<and>
     \<not> (truthy (get (asset_classification asset) ''endpoint_evidence_present'')
        \<or> has_endpoint_evidence asset sensor_types) \<and>
     (if asset_classification asset \<noteq> []
      then managed_expectation asset ''endpoint_collector'' = ''expected''
      else asset_category asset \<in> set MANAGED_CATEGORIES)"

definition passive_only_of ::
    "RuleContext \<Rightarrow> (string, string) odict \<Rightarrow> pydict \<Rightarrow> FindingCandidate list result" where
  "passive_only_of context sensor_types asset =
     (if \<not> passive_gap asset sensor_types then Inr []
      else bind_result (utc_time (asset_seen asset)) (\<lambda>observed_at.
           let fresh = freshness_at (rx_now context) (rx_config context) observed_at
           in if fresh \<noteq> ''fresh'' then Inr []
              else bind_result (classification_confidence asset (fl (75 / 100))) (\<lambda>confidence.
                   yield_candidate
                     \<lparr> ca_rule_id = ''passive-only-asset'', ca_rule_version = 2,
                       ca_category = ''coverage'', ca_subject_type = ''asset'',
                       ca_site_id = asset_site asset, ca_asset_id = Some (asset_ident asset),
                       ca_sensor_id = None,
                       ca_title = ''Asset is visible only through passive evidence'',
                       ca_description =
                         ''The current normalized record is backed by a passive network sensor and has ''
                         @ ''no endpoint collection evidence.'',
                       ca_recommendation =
                         ''Confirm whether endpoint management is expected for this asset class or ''
                         @ ''document a compensating control.'',
                       ca_severity = ''low'', ca_confidence = confidence,
                       ca_observed_at = observed_at, ca_freshness = fresh,
                       ca_evidence =
                         [evidence_of ''control_tower_assets.observation_source'' ''collection-coverage''
                            (asset_site asset) (asset_ident asset) observed_at fresh confidence
                            (''Fresh evidence is passive-only while deterministic managed capability ''
                             @ ''expects an endpoint collector.'')],
                       ca_dedupe_subject_id = None \<rparr>)))"

definition passive_only_assets :: "RuleContext \<Rightarrow> FindingCandidate list result" where
  "passive_only_assets context =
     concat_results (map (passive_only_of context (source_agent_types (rx_sensors context)))
       (rx_assets context))"

definition GAP_VALUES :: "string list" where
  "GAP_VALUES = [''absent'', ''degraded'', ''gap'', ''missing'', ''not-installed'', ''uncovered'']"

definition reports_gap :: "pydict \<Rightarrow> bool" where
  "reports_gap asset \<longleftrightarrow>
     get (asset_metadata asset) ''endpoint_security'' = PBool False
     \<or> list_ex (\<lambda>field. casefold (text_value (get (asset_metadata asset) field) 64) \<in> set GAP_VALUES)
         [''security_coverage'', ''coverage_status'', ''security_tooling_status'']"

definition coverage_gap :: "pydict \<Rightarrow> (string, string) odict \<Rightarrow> bool" where
  "coverage_gap asset source_types \<longleftrightarrow>
     asset_ident asset \<noteq> [] \<and> asset_site asset \<noteq> [] \<and> has_endpoint_evidence asset source_types \<and>
     (asset_classification asset = [] \<or> managed_expectation asset ''endpoint_security'' = ''expected'') \<and>
     reports_gap asset"

definition coverage_gap_of ::
    "RuleContext \<Rightarrow> (string, string) odict \<Rightarrow> pydict \<Rightarrow> FindingCandidate list result" where
  "coverage_gap_of context source_types asset =
     (if \<not> coverage_gap asset source_types then Inr []
      else bind_result (utc_time (asset_seen asset)) (\<lambda>observed_at.
           let fresh = freshness_at (rx_now context) (rx_config context) observed_at
           in if fresh \<noteq> ''fresh'' then Inr []
              else bind_result (classification_confidence asset (fl (8 / 10))) (\<lambda>confidence.
                   yield_candidate
                     \<lparr> ca_rule_id = ''security-coverage-gap'', ca_rule_version = 2,
                       ca_category = ''coverage'', ca_subject_type = ''asset'',
                       ca_site_id = asset_site asset, ca_asset_id = Some (asset_ident asset),
                       ca_sensor_id = None, ca_title = ''Explicit security coverage gap'',
                       ca_description =
                         ''Reviewed normalized metadata explicitly reports missing or degraded endpoint ''
                         @ ''security coverage.'',
                       ca_recommendation =
                         ''Validate the expected control for this asset and restore coverage or record ''
                         @ ''an approved exception.'',
                       ca_severity = ''high'', ca_confidence = confidence,
                       ca_observed_at = observed_at, ca_freshness = fresh,
                       ca_evidence =
                         [evidence_of ''control_tower_assets.metadata.security_coverage''
                            ''security-coverage'' (asset_site asset) (asset_ident asset) observed_at
                            fresh confidence
                            (''Normalized metadata reports a gap for a class whose deterministic ''
                             @ ''managed capability expects endpoint security.'')],
                       ca_dedupe_subject_id = None \<rparr>)))"

definition security_coverage_gap :: "RuleContext \<Rightarrow> FindingCandidate list result" where
  "security_coverage_gap context =
     concat_results (map (coverage_gap_of context (source_agent_types (rx_sensors context)))
       (rx_assets context))"

section \<open>Conflict rules\<close>

definition conflict_evidence_ids :: "pydict \<Rightarrow> string list" where
  "conflict_evidence_ids classification =
     take MAX_EVIDENCE_REFERENCES (filter (\<lambda>s. starts_with s ''cev_'')
       (str_values (list_items (get classification ''supporting_evidence_ids'')
                    @ list_items (get classification ''conflicting_evidence_ids''))))"

definition classification_conflict_of :: "RuleContext \<Rightarrow> pydict \<Rightarrow> FindingCandidate list result" where
  "classification_conflict_of context asset =
     (let classification = asset_classification asset
      in if asset_ident asset = [] \<or> asset_site asset = []
            \<or> text_value (get classification ''status'') 40 \<noteq> ''conflicting''
         then Inr []
         else bind_result (utc_time (get classification ''evaluated_at'')) (\<lambda>evaluated_at.
              bind_result (classification_confidence asset (fl (6 / 10))) (\<lambda>confidence.
              let fresh = freshness_at (rx_now context) (rx_config context) evaluated_at;
                  cited = map (\<lambda>ident.
                      \<lparr> ref_evidence_ref = take 80 ident, ref_evidence_type = ''classification-evidence'',
                        ref_source = ''classification_evidence'', ref_observed_at = evaluated_at,
                        ref_freshness = fresh, ref_confidence = confidence,
                        ref_summary = ''Server-issued evidence reference participates in an unresolved ''
                          @ ''deterministic classification conflict.'' \<rparr>)
                    (conflict_evidence_ids classification);
                  evidence = (if cited \<noteq> [] then cited
                    else [evidence_of ''asset_classifications.status'' ''classification-conflict''
                            (asset_site asset) (asset_ident asset) evaluated_at fresh confidence
                            (''The current deterministic classification has an unresolved material ''
                             @ ''conflict.'')])
              in yield_candidate
                   \<lparr> ca_rule_id = ''classification-conflict'', ca_rule_version = 1,
                     ca_category = ''identity'', ca_subject_type = ''asset'',
                     ca_site_id = asset_site asset, ca_asset_id = Some (asset_ident asset),
                     ca_sensor_id = None, ca_title = ''Conflicting asset classification'',
                     ca_description =
                       ''Independent evidence sources support incompatible asset classifications.'',
                     ca_recommendation =
                       ''Review the cited evidence and source freshness; do not resolve the conflict ''
                       @ ''from AI interpretation alone.'',
                     ca_severity = ''high'', ca_confidence = confidence, ca_observed_at = evaluated_at,
                     ca_freshness = fresh, ca_evidence = evidence, ca_dedupe_subject_id = None \<rparr>)))"

definition classification_conflicts :: "RuleContext \<Rightarrow> FindingCandidate list result" where
  "classification_conflicts context =
     concat_results (map (classification_conflict_of context) (rx_assets context))"

text \<open>The assets by site and hardware address, then by identifier; the last record of an identifier counts.\<close>

definition identity_groups :: "pydict list \<Rightarrow> (string \<times> string, pydict list) odict" where
  "identity_groups assets =
     group_by (\<lambda>asset. (asset_site asset, normalized_mac (get asset ''mac'')))
       (filter (\<lambda>asset. asset_site asset \<noteq> [] \<and> normalized_mac (get asset ''mac'') \<noteq> []
          \<and> asset_ident asset \<noteq> []) assets) []"

definition unique_assets :: "pydict list \<Rightarrow> (string, pydict) odict" where
  "unique_assets assets =
     foldl (\<lambda>d asset. if asset_ident asset = [] then d else AList.update (asset_ident asset) asset d)
       [] assets"

definition identity_evidence ::
    "RuleContext \<Rightarrow> string \<Rightarrow> string \<times> pydict \<Rightarrow> EvidenceReference result" where
  "identity_evidence context site_id item =
     bind_result (utc_time (asset_seen (snd item))) (\<lambda>seen.
     bind_result (finding_confidence (get (snd item) ''confidence'') (fl (8 / 10))) (\<lambda>confidence.
     Inr (evidence_of ''control_tower_assets.mac'' ''identity-correlation'' site_id (fst item) seen
       (freshness_at (rx_now context) (rx_config context) seen) confidence
       (''A normalized asset identity shares a hardware-address correlation with another asset ''
        @ ''record.''))))"

fun least :: "rat \<Rightarrow> rat list \<Rightarrow> rat" where
  "least fallback [] = fallback"
| "least fallback (x # xs) = foldl min x xs"

definition identity_conflict_of ::
    "RuleContext \<Rightarrow> string \<Rightarrow> EvidenceReference list \<Rightarrow> rat \<Rightarrow> string \<times> pydict \<Rightarrow>
     FindingCandidate list result" where
  "identity_conflict_of context site_id evidence confidence item =
     bind_result (utc_time (asset_seen (snd item))) (\<lambda>observed_at.
     yield_candidate
       \<lparr> ca_rule_id = ''identity-conflict'', ca_rule_version = 1, ca_category = ''identity'',
         ca_subject_type = ''asset'', ca_site_id = site_id, ca_asset_id = Some (fst item),
         ca_sensor_id = None, ca_title = ''Conflicting asset identity'',
         ca_description =
           ''Multiple normalized asset identities at the same site share one hardware-address ''
           @ ''correlation.'',
         ca_recommendation =
           ''Review inventory merge history and sensor evidence before consolidating or reassigning ''
           @ ''either identity.'',
         ca_severity = ''high'', ca_confidence = confidence, ca_observed_at = observed_at,
         ca_freshness = freshness_at (rx_now context) (rx_config context) observed_at,
         ca_evidence = evidence, ca_dedupe_subject_id = None \<rparr>)"

text \<open>\<^verbatim>\<open>any(evidence_freshness(...) != "fresh" for ...)\<close> stops at the first record that is not fresh.\<close>

fun all_fresh :: "RuleContext \<Rightarrow> pydict list \<Rightarrow> bool result" where
  "all_fresh context [] = Inr True"
| "all_fresh context (asset # rest) =
     bind_result (value_freshness (asset_seen asset) (rx_now context) (rx_config context)) (\<lambda>f.
     if f \<noteq> ''fresh'' then Inr False else all_fresh context rest)"

definition identity_group_conflicts ::
    "RuleContext \<Rightarrow> (string \<times> string) \<times> pydict list \<Rightarrow> FindingCandidate list result" where
  "identity_group_conflicts context grouped =
     (let site_id = fst (fst grouped); unique = unique_assets (snd grouped); ordered = sort_key fst unique
      in if length unique < 2 then Inr []
         else bind_result (all_fresh context (map snd unique)) (\<lambda>fresh.
              if \<not> fresh then Inr []
              else bind_result (sequence_results (map (identity_evidence context site_id)
                     (take MAX_EVIDENCE_REFERENCES ordered))) (\<lambda>evidence.
                   bind_result (sequence_results (map (\<lambda>item.
                     finding_confidence (get (snd item) ''confidence'') (fl (8 / 10))) unique))
                     (\<lambda>confidences.
                   concat_results (map (identity_conflict_of context site_id evidence
                     (least (fl (8 / 10)) confidences)) ordered)))))"

definition identity_conflicts :: "RuleContext \<Rightarrow> FindingCandidate list result" where
  "identity_conflicts context =
     concat_results (map (identity_group_conflicts context) (identity_groups (rx_assets context)))"

end
