(* ===== verification/Finding_Evaluation.thy ===== *)
theory Finding_Evaluation
  imports Finding_Rules
begin

text \<open>
  The rule registry and \<^verbatim>\<open>evaluate_rules\<close> of src/backend/app/findings.py: the scope of an evaluation, its
  candidates, and the findings it may resolve.  The clock and the configuration are arguments.
\<close>

section \<open>Registry\<close>

record RuleDefinition =
  rd_rule_id :: string
  rd_version :: int
  rd_category :: string
  rd_title :: string
  rd_rationale :: string
  rd_severity :: string
  rd_scope :: string
  rd_required_evidence :: "string list"
  rd_freshness_requirement :: string
  rd_remediation_guidance :: string
  rd_resolution_behavior :: string
  rd_evaluator :: "RuleContext \<Rightarrow> FindingCandidate list result"

definition RULE_REGISTRY :: "RuleDefinition list" where
  "RULE_REGISTRY =
     [\<lparr> rd_rule_id = ''sensor-stale'',
        rd_version = 1,
        rd_category = ''freshness'',
        rd_title = ''Sensor evidence is stale'',
        rd_rationale = ''Authenticated check-in freshness is authoritative for sensor health.'',
        rd_severity = ''medium'',
        rd_scope = ''sensor'',
        rd_required_evidence = [''sensor identity'', ''last authenticated check-in''],
        rd_freshness_requirement = ''Triggers when check-in exceeds the configured threshold.'',
        rd_remediation_guidance = ''Verify sensor service health, identity, connectivity, and spool delivery.'',
        rd_resolution_behavior = ''Resolve only after a current authenticated check-in.'',
        rd_evaluator = sensor_stale \<rparr>,
      \<lparr> rd_rule_id = ''asset-stale'',
        rd_version = 1,
        rd_category = ''freshness'',
        rd_title = ''Asset evidence is stale'',
        rd_rationale = ''Normalized observation time is authoritative for asset freshness.'',
        rd_severity = ''low'',
        rd_scope = ''asset'',
        rd_required_evidence = [''normalized asset identity'', ''observation timestamp''],
        rd_freshness_requirement = ''Triggers when observation age exceeds the configured threshold.'',
        rd_remediation_guidance = ''Restore collection coverage and refresh normalized evidence.'',
        rd_resolution_behavior = ''Resolve only after a fresh normalized observation.'',
        rd_evaluator = asset_stale \<rparr>,
      \<lparr> rd_rule_id = ''unknown-asset'',
        rd_version = 2,
        rd_category = ''inventory'',
        rd_title = ''Unknown asset requires review'',
        rd_rationale = (''Only missing or explicitly unknown normalized classification triggers this ''
            @ ''rule.''),
        rd_severity = ''low'',
        rd_scope = ''asset'',
        rd_required_evidence = [''normalized asset identity'', ''normalized classification''],
        rd_freshness_requirement = ''Confidence and risk contribution reflect observation freshness.'',
        rd_remediation_guidance = ''Review ownership and classify the asset using trusted inventory evidence.'',
        rd_resolution_behavior = ''Resolve only when fresh evidence supplies a recognized classification.'',
        rd_evaluator = new_or_unknown_asset \<rparr>,
      \<lparr> rd_rule_id = ''passive-only-asset'',
        rd_version = 2,
        rd_category = ''coverage'',
        rd_title = ''Asset is visible only through passive evidence'',
        rd_rationale = (''The rule reports collection coverage; it does not classify all IoT assets as ''
            @ ''risky.''),
        rd_severity = ''low'',
        rd_scope = ''asset'',
        rd_required_evidence = [''fresh passive observation'', ''managed-capability expectation''],
        rd_freshness_requirement = ''Requires fresh passive evidence.'',
        rd_remediation_guidance = (''Confirm whether endpoint management is expected or document a compensating ''
            @ ''control.''),
        rd_resolution_behavior = ''Resolve only after a fresh normalized record is no longer passive-only.'',
        rd_evaluator = passive_only_assets \<rparr>,
      \<lparr> rd_rule_id = ''security-coverage-gap'',
        rd_version = 2,
        rd_category = ''coverage'',
        rd_title = ''Explicit security coverage gap'',
        rd_rationale = ''Only explicit normalized coverage signals trigger this rule.'',
        rd_severity = ''high'',
        rd_scope = ''asset'',
        rd_required_evidence = [''fresh endpoint inventory'', ''explicit normalized coverage status''],
        rd_freshness_requirement = ''Requires fresh endpoint-origin evidence.'',
        rd_remediation_guidance = ''Restore the expected security control or record an approved exception.'',
        rd_resolution_behavior = (''Resolve only from fresh endpoint-origin evidence that no longer reports the ''
            @ ''gap.''),
        rd_evaluator = security_coverage_gap \<rparr>,
      \<lparr> rd_rule_id = ''classification-conflict'',
        rd_version = 1,
        rd_category = ''identity'',
        rd_title = ''Conflicting asset classification'',
        rd_rationale = (''Independent deterministic evidence supports incompatible current ''
            @ ''classifications.''),
        rd_severity = ''high'',
        rd_scope = ''asset'',
        rd_required_evidence = [''current classification'', ''server-issued classification evidence references''],
        rd_freshness_requirement = ''Uses current persisted classification freshness and confidence.'',
        rd_remediation_guidance = (''Review source provenance and freshness; AI may explain but cannot resolve ''
            @ ''the conflict.''),
        rd_resolution_behavior = (''Resolve only after deterministic reevaluation reports a fresh ''
            @ ''non-conflicting classification.''),
        rd_evaluator = classification_conflicts \<rparr>,
      \<lparr> rd_rule_id = ''identity-conflict'',
        rd_version = 1,
        rd_category = ''identity'',
        rd_title = ''Conflicting asset identity'',
        rd_rationale = (''A bounded same-site hardware-address correlation identifies conflicting ''
            @ ''normalized records.''),
        rd_severity = ''high'',
        rd_scope = ''asset'',
        rd_required_evidence = [''fresh site-scoped hardware address'', ''two distinct normalized asset identities''],
        rd_freshness_requirement = ''All correlated identity records must be fresh.'',
        rd_remediation_guidance = (''Review inventory merge and sensor provenance before consolidating ''
            @ ''identities.''),
        rd_resolution_behavior = (''Does not auto-resolve in v1 because a counterpart record disappearing is ''
            @ ''insufficient evidence.''),
        rd_evaluator = identity_conflicts \<rparr>,
      \<lparr> rd_rule_id = ''vulnerable-component'',
        rd_version = 2,
        rd_category = ''vulnerability'',
        rd_title = ''Confirmed vulnerable component'',
        rd_rationale = (''Only an affected result from the deterministic component-to-advisory matcher ''
            @ ''triggers this rule.''),
        rd_severity = ''high'',
        rd_scope = ''asset'',
        rd_required_evidence = [''normalized component'', ''reviewed advisory'', ''deterministic match''],
        rd_freshness_requirement = ''Requires current component evidence and a non-withdrawn reviewed advisory.'',
        rd_remediation_guidance = (''Review and test the source-backed fixed version when supplied; no automatic ''
            @ ''patching occurs.''),
        rd_resolution_behavior = (''Resolve only after current complete inventory confirms a fixed, ''
            @ ''non-affected, withdrawn, or removed component state.''),
        rd_evaluator = confirmed_vulnerable_components \<rparr>,
      \<lparr> rd_rule_id = ''component-version-unavailable'',
        rd_version = 1,
        rd_category = ''inventory'',
        rd_title = ''Component version unavailable'',
        rd_rationale = ''A missing version is an inventory-quality gap, never proof of vulnerability.'',
        rd_severity = ''informational'',
        rd_scope = ''asset'',
        rd_required_evidence = [''normalized component'', ''missing usable version''],
        rd_freshness_requirement = ''Uses current normalized component evidence.'',
        rd_remediation_guidance = ''Collect a current authoritative component version.'',
        rd_resolution_behavior = ''Resolve after a usable version is deterministically evaluated.'',
        rd_evaluator = component_version_unavailable \<rparr>,
      \<lparr> rd_rule_id = ''advisory-identity-uncertain'',
        rd_version = 1,
        rd_category = ''inventory'',
        rd_title = ''Advisory identity requires review'',
        rd_rationale = (''Name similarity without a precise reviewed identity cannot confirm ''
            @ ''vulnerability.''),
        rd_severity = ''informational'',
        rd_scope = ''asset'',
        rd_required_evidence = [''normalized component'', ''reviewed advisory candidate''],
        rd_freshness_requirement = ''Uses current normalized component evidence.'',
        rd_remediation_guidance = ''Review canonical package, vendor, and product identity.'',
        rd_resolution_behavior = ''Resolve after identity is precise or no reviewed advisory candidate remains.'',
        rd_evaluator = advisory_identity_uncertain \<rparr>]"

definition RULES_BY_ID :: "(string, RuleDefinition) odict" where
  "RULES_BY_ID = map (\<lambda>rule. (rd_rule_id rule, rule)) RULE_REGISTRY"

definition rule_registry_public :: "pydict list" where
  "rule_registry_public =
     map (\<lambda>rule.
       [(''rule_id'', PStr (rd_rule_id rule)), (''version'', PInt (rd_version rule)),
        (''category'', PStr (rd_category rule)), (''title'', PStr (rd_title rule)),
        (''rationale'', PStr (rd_rationale rule)), (''severity'', PStr (rd_severity rule)),
        (''scope'', PStr (rd_scope rule)),
        (''required_evidence'', PList (map PStr (rd_required_evidence rule))),
        (''freshness_requirement'', PStr (rd_freshness_requirement rule)),
        (''remediation_guidance'', PStr (rd_remediation_guidance rule)),
        (''resolution_behavior'', PStr (rd_resolution_behavior rule))]) RULE_REGISTRY"

section \<open>What may be resolved\<close>

text \<open>The keys a sensor and an asset add; \<open>rule_ids\<close> are the evaluated rules.\<close>

definition sensor_resolution ::
    "RuleContext \<Rightarrow> string list \<Rightarrow> pydict \<Rightarrow> resolution_key list result" where
  "sensor_resolution context rule_ids sensor =
     (if casefold (text_value (get sensor ''identity_status'') 32) = ''revoked'' then Inr []
      else bind_result (utc_time (get sensor ''last_seen_at'')) (\<lambda>observed_at.
           let sensor_id = text_value (get sensor ''agent_id'') 160; site_id = asset_site sensor
           in Inr (if ''sensor-stale'' \<in> set rule_ids \<and> sensor_id \<noteq> [] \<and> site_id \<noteq> [] \<and>
                      (case observed_at of
                         None \<Rightarrow> False
                       | Some t \<Rightarrow>
                           rx_now context - t \<le> minutes (sensor_stale_minutes (rx_config context)))
                   then [subject_key ''sensor-stale'' ''sensor'' site_id sensor_id] else [])))"

definition asset_resolution_rules ::
    "string list \<Rightarrow> (string, string) odict \<Rightarrow> pydict \<Rightarrow> string list" where
  "asset_resolution_rules rule_ids source_types asset =
     filter (\<lambda>rule_id. rule_id \<in> set rule_ids)
       ([''asset-stale''] @
        (if asset_category asset \<noteq> [] \<and> \<not> starts_with (asset_category asset) ''unknown''
         then [''unknown-asset''] else []) @
        [''passive-only-asset''] @
        (if asset_classification asset \<noteq> [] \<and>
            text_value (get (asset_classification asset) ''status'') 40 \<noteq> ''conflicting''
         then [''classification-conflict''] else []) @
        (if has_endpoint_evidence asset source_types \<and> has_explicit_healthy_coverage asset
         then [''security-coverage-gap''] else []))"

definition asset_resolution ::
    "RuleContext \<Rightarrow> string list \<Rightarrow> (string, string) odict \<Rightarrow> pydict \<Rightarrow> resolution_key list result" where
  "asset_resolution context rule_ids source_types asset =
     bind_result (value_freshness (asset_seen asset) (rx_now context) (rx_config context)) (\<lambda>f.
     Inr (if asset_ident asset \<noteq> [] \<and> asset_site asset \<noteq> [] \<and> f = ''fresh''
          then map (\<lambda>rule_id. subject_key rule_id ''asset'' (asset_site asset) (asset_ident asset))
                 (asset_resolution_rules rule_ids source_types asset)
          else []))"

definition resolution_eligible :: "RuleContext \<Rightarrow> string list \<Rightarrow> resolution_key list result" where
  "resolution_eligible context rule_ids =
     concat_results
       (map (sensor_resolution context rule_ids) (rx_sensors context) @
        map (asset_resolution context rule_ids (source_agent_types (rx_sensors context)))
          (rx_assets context))"

text \<open>The matches of an asset by component, and the keys of the vulnerability rules that may be resolved.\<close>

definition matches_by_component :: "pydict \<Rightarrow> (string, pydict list) odict" where
  "matches_by_component asset =
     group_by (\<lambda>match. text_value (get match ''component_id'') 80)
       (filter (\<lambda>match. text_value (get match ''component_id'') 80 \<noteq> [])
          (vulnerability_matches asset)) []"

definition match_resolution :: "string list \<Rightarrow> string \<Rightarrow> pydict \<Rightarrow> string list" where
  "match_resolution rule_ids site_id match =
     (let match_id = text_value (get match ''match_id'') 80;
          status = text_value (get match ''match_status'') 40
      in if ''vulnerable-component'' \<in> set rule_ids \<and> match_id \<noteq> [] \<and>
            status \<in> {''fixed'', ''not-affected'', ''advisory-withdrawn''}
         then [dedupe_key ''vulnerable-component'' ''asset'' site_id match_id] else [])"

definition component_resolution ::
    "string list \<Rightarrow> string \<Rightarrow> string \<times> pydict list \<Rightarrow> string list" where
  "component_resolution rule_ids site_id grouped =
     (let statuses = map (\<lambda>match. text_value (get match ''match_status'') 40) (snd grouped)
      in (if ''component-version-unavailable'' \<in> set rule_ids \<and> statuses \<noteq> [] \<and>
             ''version-unknown'' \<notin> set statuses
          then [dedupe_key ''component-version-unavailable'' ''asset'' site_id (fst grouped)] else []) @
         (if ''advisory-identity-uncertain'' \<in> set rule_ids \<and> statuses \<noteq> [] \<and>
             ''identity-uncertain'' \<notin> set statuses
          then [dedupe_key ''advisory-identity-uncertain'' ''asset'' site_id (fst grouped)] else []))"

definition asset_match_resolution :: "string list \<Rightarrow> pydict \<Rightarrow> string list" where
  "asset_match_resolution rule_ids asset =
     (if asset_site asset = [] \<or> asset_ident asset = [] then []
      else concat (map (match_resolution rule_ids (asset_site asset)) (vulnerability_matches asset)) @
           concat (map (component_resolution rule_ids (asset_site asset)) (matches_by_component asset)))"

definition resolution_eligible_vulnerability_dedupe_keys ::
    "pydict list \<Rightarrow> string list \<Rightarrow> string list" where
  "resolution_eligible_vulnerability_dedupe_keys assets rule_ids =
     concat (map (asset_match_resolution rule_ids) assets)"

section \<open>Evaluation\<close>

record EvaluationSnapshot =
  es_candidates :: "FindingCandidate list"
  es_resolution_eligible :: "resolution_key set"
  es_resolution_eligible_dedupe_keys :: "string set"
  es_evaluated_rule_ids :: "string list"
  es_data_as_of :: "instant option"
  es_site_count :: nat
  es_sensor_count :: nat
  es_asset_count :: nat

text \<open>The optional scope arguments of an evaluation; an empty text counts as absent.\<close>

record evaluation_scope =
  sc_site_id :: "string option"
  sc_asset_id :: "string option"
  sc_sensor_id :: "string option"

definition given :: "string option \<Rightarrow> string option" where
  "given s = (if s = Some [] then None else s)"

definition in_scope :: "string option \<Rightarrow> pydict \<Rightarrow> string \<Rightarrow> bool" where
  "in_scope s item k \<longleftrightarrow> (case given s of None \<Rightarrow> True | Some t \<Rightarrow> get item k = PStr t)"

definition select_rules :: "string list option \<Rightarrow> RuleDefinition list result" where
  "select_rules rule_ids =
     (case rule_ids of
        None \<Rightarrow> Inr RULE_REGISTRY
      | Some ids \<Rightarrow>
          if list_ex (\<lambda>rule_id. rule_id \<notin> set (map fst RULES_BY_ID)) ids then Inl ValueError
          else Inr (map (\<lambda>rule_id. the (map_of RULES_BY_ID rule_id)) (fromkeys ids)))"

text \<open>The loop over the selected rules; the limit is checked after every rule.\<close>

fun run_rules ::
    "RuleContext \<Rightarrow> RuleDefinition list \<Rightarrow> FindingCandidate list \<Rightarrow> FindingCandidate list result" where
  "run_rules context [] candidates = Inr candidates"
| "run_rules context (rule # rules) candidates =
     bind_result (rd_evaluator rule context) (\<lambda>found.
     if max_candidates (rx_config context) < int (length (candidates @ found)) then Inl ValueError
     else run_rules context rules (candidates @ found))"

definition candidate_order :: "FindingCandidate \<Rightarrow> string \<times> string \<times> string \<times> string" where
  "candidate_order c = (fc_rule_id c, fc_site_id c, fc_subject_type c, candidate_subject_id c)"

definition latest_of :: "instant list \<Rightarrow> instant option" where
  "latest_of ts = (case ts of [] \<Rightarrow> None | t # us \<Rightarrow> Some (foldl max t us))"

fun present :: "'a option list \<Rightarrow> 'a list" where
  "present [] = []"
| "present (None # xs) = present xs"
| "present (Some x # xs) = x # present xs"

definition scoped_context ::
    "pydict list \<Rightarrow> pydict list \<Rightarrow> pydict list \<Rightarrow> instant \<Rightarrow> FindingsConfig \<Rightarrow> evaluation_scope \<Rightarrow>
     RuleContext" where
  "scoped_context sites sensors assets now config sc =
     \<lparr> rx_now = now, rx_config = config,
       rx_sites = filter (\<lambda>item. in_scope (sc_site_id sc) item ''site_id'') sites,
       rx_sensors = filter (\<lambda>item. in_scope (sc_site_id sc) item ''site_id''
         \<and> in_scope (sc_sensor_id sc) item ''agent_id'') sensors,
       rx_assets = filter (\<lambda>item. in_scope (sc_site_id sc) item ''site_id'') assets \<rparr>"

definition target_assets :: "RuleContext \<Rightarrow> evaluation_scope \<Rightarrow> pydict list" where
  "target_assets context sc =
     (case given (sc_asset_id sc) of
        Some asset_id \<Rightarrow> filter (\<lambda>item. get item ''asset_id'' = PStr asset_id) (rx_assets context)
      | None \<Rightarrow> if given (sc_sensor_id sc) \<noteq> None then [] else rx_assets context)"

text \<open>The restrictions of an asset scope on candidates, keys and dedupe keys.\<close>

definition scoped_candidates :: "evaluation_scope \<Rightarrow> FindingCandidate list \<Rightarrow> FindingCandidate list" where
  "scoped_candidates sc cs =
     (case given (sc_asset_id sc) of
        None \<Rightarrow> cs
      | Some asset_id \<Rightarrow> filter (\<lambda>c. fc_subject_type c = ''asset'' \<and> fc_asset_id c = Some asset_id) cs)"

definition scoped_keys :: "evaluation_scope \<Rightarrow> resolution_key list \<Rightarrow> resolution_key list" where
  "scoped_keys sc keys =
     (case given (sc_asset_id sc) of
        None \<Rightarrow> keys
      | Some asset_id \<Rightarrow>
          filter (\<lambda>(rule_id, subject_type, site_id, subject_id).
            subject_type = ''asset'' \<and> subject_id = asset_id) keys)"

definition scoped_dedupe_keys :: "RuleContext \<Rightarrow> evaluation_scope \<Rightarrow> string list \<Rightarrow> string list" where
  "scoped_dedupe_keys context sc rule_ids =
     (case given (sc_asset_id sc) of
        None \<Rightarrow> resolution_eligible_vulnerability_dedupe_keys (rx_assets context) rule_ids
      | Some asset_id \<Rightarrow>
          (case find (\<lambda>item. get item ''asset_id'' = PStr asset_id) (rx_assets context) of
             None \<Rightarrow> []
           | Some asset \<Rightarrow> resolution_eligible_vulnerability_dedupe_keys [asset] rule_ids))"

definition snapshot_times :: "RuleContext \<Rightarrow> evaluation_scope \<Rightarrow> instant option list result" where
  "snapshot_times context sc =
     sequence_results
       (map (\<lambda>sensor. utc_time (get sensor ''last_seen_at''))
          (if given (sc_asset_id sc) \<noteq> None then [] else rx_sensors context) @
        map (\<lambda>asset. utc_time (asset_seen asset)) (target_assets context sc))"

definition evaluate_rules ::
    "pydict list \<Rightarrow> pydict list \<Rightarrow> pydict list \<Rightarrow> instant \<Rightarrow> FindingsConfig \<Rightarrow> string list option \<Rightarrow>
     evaluation_scope \<Rightarrow> EvaluationSnapshot result" where
  "evaluate_rules sites sensors assets now config rule_ids sc =
     bind_result (select_rules rule_ids) (\<lambda>rules.
     if given (sc_sensor_id sc) \<noteq> None \<and> list_ex (\<lambda>rule. rd_scope rule \<noteq> ''sensor'') rules
     then Inl ValueError
     else let context = scoped_context sites sensors assets now config sc;
              selected = map rd_rule_id rules
          in bind_result (run_rules context rules []) (\<lambda>found.
             bind_result (resolution_eligible context selected) (\<lambda>keys.
             bind_result (snapshot_times context sc) (\<lambda>times.
             Inr \<lparr> es_candidates = sort_key candidate_order (scoped_candidates sc found),
                   es_resolution_eligible = set (scoped_keys sc keys),
                   es_resolution_eligible_dedupe_keys = set (scoped_dedupe_keys context sc selected),
                   es_evaluated_rule_ids = selected,
                   es_data_as_of = latest_of (present times),
                   es_site_count = length (rx_sites context),
                   es_sensor_count =
                     (if given (sc_asset_id sc) \<noteq> None then 0 else length (rx_sensors context)),
                   es_asset_count = length (target_assets context sc) \<rparr>))))"

end
