(* ===== verification/Finding_Store.thy ===== *)
theory Finding_Store
  imports Finding_Evaluation Risk_Scoring
begin

text \<open>
  src/backend/app/finding_store.py: the finding tables and the operations of \<^verbatim>\<open>SqlFindingStore\<close>.  A table is the
  list of its rows in insertion order (\<open>None\<close> is \<^verbatim>\<open>NULL\<close>); every operation is one transaction, so an
  operation that fails returns the error and leaves the caller's state.  A violated key, reference or
  check constraint is an \<open>IntegrityError\<close>.  Run identifiers and the database clock \<^verbatim>\<open>NOW()\<close> are arguments,
  and texts are ordered by their characters.
\<close>

section \<open>Tables\<close>

datatype store_error = Raised py_error | IntegrityError

type_synonym 'a stored = "store_error + 'a"

definition raised :: "'a result \<Rightarrow> 'a stored" where
  "raised r = (case r of Inl e \<Rightarrow> Inl (Raised e) | Inr x \<Rightarrow> Inr x)"

record evaluation_run =
  run_id :: string
  run_trigger_type :: string
  run_requested_by :: "string option"
  run_scope_site_id :: "string option"
  run_scope_asset_id :: "string option"
  run_scope_sensor_id :: "string option"
  run_ruleset_version :: string
  run_status :: string
  run_started_at :: instant
  run_completed_at :: "instant option"
  run_data_as_of :: "instant option"
  run_site_count :: nat
  run_sensor_count :: nat
  run_asset_count :: nat
  run_candidate_count :: nat
  run_opened_count :: nat
  run_updated_count :: nat
  run_reopened_count :: nat
  run_resolved_count :: nat
  run_error_code :: "string option"

text \<open>A row of findings: the columns both stores keep, and the two timestamps of the table.\<close>

record finding_state =
  fi_finding_id :: string
  fi_dedupe_key :: string
  fi_rule_id :: string
  fi_rule_version :: int
  fi_previous_rule_version :: "int option"
  fi_rule_version_changed_at :: "instant option"
  fi_engine_version :: string
  fi_category :: string
  fi_subject_type :: string
  fi_site_id :: string
  fi_asset_id :: "string option"
  fi_sensor_id :: "string option"
  fi_title :: string
  fi_description :: string
  fi_recommendation :: string
  fi_severity :: string
  fi_confidence :: rat
  fi_status :: string
  fi_evidence_observed_at :: "instant option"
  fi_evidence_freshness :: string
  fi_first_seen_at :: instant
  fi_last_seen_at :: instant
  fi_evaluated_at :: instant
  fi_resolved_at :: "instant option"
  fi_resolution_basis :: "string option"
  fi_acknowledged_at :: "instant option"
  fi_acknowledged_by :: "string option"
  fi_suppressed_at :: "instant option"
  fi_suppressed_by :: "string option"
  fi_suppressed_until :: "instant option"
  fi_suppression_reason :: "string option"
  fi_reopen_count :: nat
  fi_last_evaluation_run_id :: string

record stored_finding = finding_state +
  fi_created_at :: instant
  fi_updated_at :: instant

record asset_risk_row =
  ra_site_id :: string
  ra_asset_id :: string
  ra_score :: int
  ra_band :: string
  ra_formula_version :: string
  ra_finding_count :: int
  ra_data_as_of :: "pyval option"
  ra_calculated_at :: instant
  ra_evaluation_run_id :: string

record site_risk_row =
  rs_site_id :: string
  rs_score :: int
  rs_band :: string
  rs_formula_version :: string
  rs_asset_count :: int
  rs_finding_count :: int
  rs_data_as_of :: "pyval option"
  rs_calculated_at :: instant
  rs_evaluation_run_id :: string

record risk_factor_row =
  rf_subject_type :: string
  rf_site_id :: string
  rf_asset_id :: "string option"
  rf_factor :: RiskFactor
  rf_evaluation_run_id :: string

text \<open>\<open>fd_sites\<close> are the site identifiers the foreign keys refer to; \<open>fd_evidence\<close> is in the order of
  \<^verbatim>\<open>evidence_id\<close> and \<open>fd_risk_factors\<close> in the order of \<^verbatim>\<open>risk_factor_id\<close>.\<close>

record finding_db =
  fd_sites :: "string list"
  fd_runs :: "evaluation_run list"
  fd_findings :: "stored_finding list"
  fd_evidence :: "(string \<times> EvidenceReference) list"
  fd_asset_risk :: "asset_risk_row list"
  fd_site_risk :: "site_risk_row list"
  fd_risk_factors :: "risk_factor_row list"

definition MAX_RECONCILE_RECORDS :: nat where "MAX_RECONCILE_RECORDS = 20000"
definition MAX_FINDING_PAGE :: int where "MAX_FINDING_PAGE = 200"

definition FINDING_STATUSES :: "string list" where
  "FINDING_STATUSES = [''active'', ''acknowledged'', ''resolved'', ''suppressed'']"

definition FRESHNESS_VALUES :: "string list" where
  "FRESHNESS_VALUES = [''fresh'', ''aging'', ''stale'', ''unknown'']"

text \<open>The check constraints of findings and finding_evidence.\<close>

definition finding_checks :: "('a) finding_state_scheme \<Rightarrow> bool" where
  "finding_checks f \<longleftrightarrow>
     fi_subject_type f \<in> {''asset'', ''sensor'', ''site''} \<and>
     fi_severity f \<in> set SUPPORTED_SEVERITIES \<and>
     0 \<le> fi_confidence f \<and> fi_confidence f \<le> 1 \<and>
     fi_status f \<in> set FINDING_STATUSES \<and>
     fi_evidence_freshness f \<in> set FRESHNESS_VALUES \<and>
     (fi_subject_type f = ''asset'' \<and> fi_asset_id f \<noteq> None \<and> fi_sensor_id f = None \<or>
      fi_subject_type f = ''sensor'' \<and> fi_sensor_id f \<noteq> None \<and> fi_asset_id f = None \<or>
      fi_subject_type f = ''site'' \<and> fi_asset_id f = None \<and> fi_sensor_id f = None)"

definition evidence_checks :: "EvidenceReference \<Rightarrow> bool" where
  "evidence_checks e \<longleftrightarrow>
     ref_freshness e \<in> set FRESHNESS_VALUES \<and> 0 \<le> ref_confidence e \<and> ref_confidence e \<le> 1"

section \<open>Evaluation runs\<close>

definition run_exists :: "string \<Rightarrow> finding_db \<Rightarrow> bool" where
  "run_exists rid db \<longleftrightarrow> rid \<in> run_id ` set (fd_runs db)"

definition begin_run ::
    "string \<Rightarrow> string \<Rightarrow> string option \<Rightarrow> evaluation_scope \<Rightarrow> string \<Rightarrow> instant \<Rightarrow> finding_db \<Rightarrow>
     finding_db stored" where
  "begin_run rid trigger_type requested_by sc ruleset_version started_at db =
     (if run_exists rid db then Inl IntegrityError
      else Inr (db\<lparr>fd_runs := fd_runs db @
        [\<lparr> run_id = rid, run_trigger_type = take 40 trigger_type,
           run_requested_by = map_option (take 120) (given requested_by),
           run_scope_site_id = sc_site_id sc, run_scope_asset_id = sc_asset_id sc,
           run_scope_sensor_id = sc_sensor_id sc, run_ruleset_version = ruleset_version,
           run_status = ''running'', run_started_at = started_at, run_completed_at = None,
           run_data_as_of = None, run_site_count = 0, run_sensor_count = 0, run_asset_count = 0,
           run_candidate_count = 0, run_opened_count = 0, run_updated_count = 0,
           run_reopened_count = 0, run_resolved_count = 0, run_error_code = None \<rparr>]\<rparr>))"

definition update_running :: "string \<Rightarrow> (evaluation_run \<Rightarrow> evaluation_run) \<Rightarrow> finding_db \<Rightarrow> finding_db" where
  "update_running rid f db =
     db\<lparr>fd_runs := map (\<lambda>r. if run_id r = rid \<and> run_status r = ''running'' then f r else r) (fd_runs db)\<rparr>"

definition fail_run :: "string \<Rightarrow> instant \<Rightarrow> string \<Rightarrow> finding_db \<Rightarrow> finding_db" where
  "fail_run rid completed_at error_code =
     update_running rid (\<lambda>r. r\<lparr>run_status := ''failed'', run_completed_at := Some completed_at,
       run_error_code := Some (take 80 error_code)\<rparr>)"

record ReconcileResult =
  rr_opened :: nat
  rr_updated :: nat
  rr_reopened :: nat
  rr_resolved :: nat

definition complete_run ::
    "string \<Rightarrow> EvaluationSnapshot \<Rightarrow> ReconcileResult \<Rightarrow> instant \<Rightarrow> finding_db \<Rightarrow> finding_db" where
  "complete_run rid snapshot res completed_at =
     update_running rid (\<lambda>r. r\<lparr>run_status := ''completed'', run_completed_at := Some completed_at,
       run_data_as_of := es_data_as_of snapshot, run_site_count := es_site_count snapshot,
       run_sensor_count := es_sensor_count snapshot, run_asset_count := es_asset_count snapshot,
       run_candidate_count := length (es_candidates snapshot), run_opened_count := rr_opened res,
       run_updated_count := rr_updated res, run_reopened_count := rr_reopened res,
       run_resolved_count := rr_resolved res\<rparr>)"

section \<open>Reconciliation\<close>

definition drop_prefix :: "string \<Rightarrow> string \<Rightarrow> string" where
  "drop_prefix p s = (if take (length p) s = p then drop (length p) s else s)"

definition finding_id_for_dedupe :: "string \<Rightarrow> string" where
  "finding_id_for_dedupe key = ''fnd_'' @ take 32 (drop_prefix ''fdk_'' key)"

definition matches_scope :: "string option \<Rightarrow> string option \<Rightarrow> bool" where
  "matches_scope wanted column \<longleftrightarrow> (case wanted of None \<Rightarrow> True | Some w \<Rightarrow> column = Some w)"

definition row_in_scope :: "evaluation_scope \<Rightarrow> ('a) finding_state_scheme \<Rightarrow> bool" where
  "row_in_scope sc f \<longleftrightarrow> matches_scope (sc_site_id sc) (Some (fi_site_id f)) \<and>
     matches_scope (sc_asset_id sc) (fi_asset_id f) \<and> matches_scope (sc_sensor_id sc) (fi_sensor_id f)"

definition scope_rows :: "evaluation_scope \<Rightarrow> finding_db \<Rightarrow> stored_finding list stored" where
  "scope_rows sc db =
     (let rows = take (MAX_RECONCILE_RECORDS + 1)
            (sort_key (\<lambda>f. (- fi_updated_at f, fi_finding_id f)) (filter (row_in_scope sc) (fd_findings db)))
      in if MAX_RECONCILE_RECORDS < length rows then Inl (Raised ValueError) else Inr rows)"

text \<open>The row an \<^verbatim>\<open>INSERT\<close> proposes, and the one its \<^verbatim>\<open>ON CONFLICT (dedupe_key) DO UPDATE\<close> leaves.\<close>

definition new_finding :: "string \<Rightarrow> instant \<Rightarrow> instant \<Rightarrow> FindingCandidate \<Rightarrow> stored_finding" where
  "new_finding rid evaluated_at db_now c =
     \<lparr> fi_finding_id = finding_id_for_dedupe (fc_dedupe_key c), fi_dedupe_key = fc_dedupe_key c,
       fi_rule_id = fc_rule_id c, fi_rule_version = fc_rule_version c, fi_previous_rule_version = None,
       fi_rule_version_changed_at = None, fi_engine_version = RULESET_VERSION,
       fi_category = fc_category c, fi_subject_type = fc_subject_type c, fi_site_id = fc_site_id c,
       fi_asset_id = fc_asset_id c, fi_sensor_id = fc_sensor_id c, fi_title = fc_title c,
       fi_description = fc_description c, fi_recommendation = fc_recommendation c,
       fi_severity = fc_severity c, fi_confidence = fc_confidence c, fi_status = ''active'',
       fi_evidence_observed_at = fc_observed_at c, fi_evidence_freshness = fc_freshness c,
       fi_first_seen_at = evaluated_at, fi_last_seen_at = evaluated_at, fi_evaluated_at = evaluated_at,
       fi_resolved_at = None, fi_resolution_basis = None, fi_acknowledged_at = None,
       fi_acknowledged_by = None, fi_suppressed_at = None, fi_suppressed_by = None,
       fi_suppressed_until = None, fi_suppression_reason = None, fi_reopen_count = 0,
       fi_last_evaluation_run_id = rid, fi_created_at = db_now, fi_updated_at = db_now \<rparr>"

definition suppression_expired :: "instant \<Rightarrow> ('a) finding_state_scheme \<Rightarrow> bool" where
  "suppression_expired now f \<longleftrightarrow> (case fi_suppressed_until f of None \<Rightarrow> False | Some until \<Rightarrow> until \<le> now)"

definition status_when_seen :: "instant \<Rightarrow> ('a) finding_state_scheme \<Rightarrow> string" where
  "status_when_seen now f =
     (if fi_status f = ''resolved'' then ''active''
      else if fi_status f = ''suppressed'' \<and> suppression_expired now f then ''active''
      else fi_status f)"

definition seen_again :: "string \<Rightarrow> instant \<Rightarrow> FindingCandidate \<Rightarrow> stored_finding \<Rightarrow> stored_finding" where
  "seen_again rid now c f =
     f\<lparr>fi_previous_rule_version :=
         (if fi_rule_version f \<noteq> fc_rule_version c then Some (fi_rule_version f)
          else fi_previous_rule_version f),
       fi_rule_version_changed_at :=
         (if fi_rule_version f \<noteq> fc_rule_version c then Some now else fi_rule_version_changed_at f),
       fi_rule_version := fc_rule_version c, fi_engine_version := RULESET_VERSION,
       fi_category := fc_category c, fi_title := fc_title c, fi_description := fc_description c,
       fi_recommendation := fc_recommendation c, fi_severity := fc_severity c,
       fi_confidence := fc_confidence c, fi_status := status_when_seen now f,
       fi_evidence_observed_at := fc_observed_at c, fi_evidence_freshness := fc_freshness c,
       fi_last_seen_at := now, fi_evaluated_at := now,
       fi_resolved_at := (if fi_status f = ''resolved'' then None else fi_resolved_at f),
       fi_resolution_basis := (if fi_status f = ''resolved'' then None else fi_resolution_basis f),
       fi_reopen_count := fi_reopen_count f + (if fi_status f = ''resolved'' then 1 else 0),
       fi_last_evaluation_run_id := rid, fi_updated_at := now\<rparr>"

definition update_where ::
    "(stored_finding \<Rightarrow> bool) \<Rightarrow> (stored_finding \<Rightarrow> stored_finding) \<Rightarrow> finding_db \<Rightarrow> finding_db" where
  "update_where p f db = db\<lparr>fd_findings := map (\<lambda>r. if p r then f r else r) (fd_findings db)\<rparr>"

definition count_where :: "(stored_finding \<Rightarrow> bool) \<Rightarrow> finding_db \<Rightarrow> nat" where
  "count_where p db = length (filter p (fd_findings db))"

text \<open>The \<^verbatim>\<open>INSERT ... ON CONFLICT\<close>; the flag says whether a row was written.\<close>

definition upsert_finding ::
    "string \<Rightarrow> instant \<Rightarrow> instant \<Rightarrow> FindingCandidate \<Rightarrow> finding_db \<Rightarrow> (finding_db \<times> bool) stored" where
  "upsert_finding rid now db_now c db =
     (let fresh = new_finding rid now db_now c
      in if \<not> finding_checks fresh then Inl IntegrityError
         else case find (\<lambda>f. fi_dedupe_key f = fc_dedupe_key c) (fd_findings db) of
                Some f \<Rightarrow>
                  if now < fi_evaluated_at f then Inr (db, False)
                  else if \<not> finding_checks (seen_again rid now c f) \<or> \<not> run_exists rid db
                  then Inl IntegrityError
                  else Inr (update_where (\<lambda>r. fi_dedupe_key r = fc_dedupe_key c) (seen_again rid now c) db,
                            True)
              | None \<Rightarrow>
                  if fi_finding_id fresh \<in> fi_finding_id ` set (fd_findings db) \<or>
                     fc_site_id c \<notin> set (fd_sites db) \<or> \<not> run_exists rid db
                  then Inl IntegrityError
                  else Inr (db\<lparr>fd_findings := fd_findings db @ [fresh]\<rparr>, True))"

definition delete_evidence :: "string \<Rightarrow> finding_db \<Rightarrow> finding_db" where
  "delete_evidence fid db = db\<lparr>fd_evidence := filter (\<lambda>(i, e). i \<noteq> fid) (fd_evidence db)\<rparr>"

fun insert_evidence :: "string \<Rightarrow> EvidenceReference list \<Rightarrow> finding_db \<Rightarrow> finding_db stored" where
  "insert_evidence fid [] db = Inr db"
| "insert_evidence fid (e # es) db =
     (if \<not> evidence_checks e \<or> fid \<notin> fi_finding_id ` set (fd_findings db) \<or>
         list_ex (\<lambda>(i, old). i = fid \<and> ref_evidence_ref old = ref_evidence_ref e) (fd_evidence db)
      then Inl IntegrityError
      else insert_evidence fid es (db\<lparr>fd_evidence := fd_evidence db @ [(fid, e)]\<rparr>))"

text \<open>The loop over the candidates; \<open>scoped\<close> are the rows read before it.\<close>

definition count_seen :: "stored_finding option \<Rightarrow> ReconcileResult \<Rightarrow> ReconcileResult" where
  "count_seen previous r =
     (case previous of
        None \<Rightarrow> r\<lparr>rr_opened := rr_opened r + 1\<rparr>
      | Some f \<Rightarrow> if fi_status f = ''resolved'' then r\<lparr>rr_reopened := rr_reopened r + 1\<rparr>
                  else r\<lparr>rr_updated := rr_updated r + 1\<rparr>)"

definition previous_row :: "stored_finding list \<Rightarrow> string \<Rightarrow> stored_finding option" where
  "previous_row scoped key = find (\<lambda>f. fi_dedupe_key f = key) (rev scoped)"

fun write_candidates ::
    "string \<Rightarrow> instant \<Rightarrow> instant \<Rightarrow> stored_finding list \<Rightarrow> FindingCandidate list \<Rightarrow> finding_db \<Rightarrow>
     ReconcileResult \<Rightarrow> (finding_db \<times> ReconcileResult) stored" where
  "write_candidates rid now db_now scoped [] db r = Inr (db, r)"
| "write_candidates rid now db_now scoped (c # cs) db r =
     bind_result (upsert_finding rid now db_now c db) (\<lambda>(db, written).
     if \<not> written then write_candidates rid now db_now scoped cs db r
     else let fid = finding_id_for_dedupe (fc_dedupe_key c)
          in bind_result (insert_evidence fid (fc_evidence c) (delete_evidence fid db)) (\<lambda>db.
             write_candidates rid now db_now scoped cs db
               (count_seen (previous_row scoped (fc_dedupe_key c)) r)))"

definition row_subject :: "('a) finding_state_scheme \<Rightarrow> string option" where
  "row_subject f =
     (if fi_subject_type f = ''asset'' then fi_asset_id f
      else if fi_subject_type f = ''sensor'' then fi_sensor_id f
      else Some (fi_site_id f))"

definition row_eligible :: "EvaluationSnapshot \<Rightarrow> ('a) finding_state_scheme \<Rightarrow> bool" where
  "row_eligible snapshot f \<longleftrightarrow>
     (case row_subject f of
        None \<Rightarrow> False
      | Some subject_id \<Rightarrow>
          subject_key (fi_rule_id f) (fi_subject_type f) (fi_site_id f) subject_id
            \<in> es_resolution_eligible snapshot) \<or>
     fi_dedupe_key f \<in> es_resolution_eligible_dedupe_keys snapshot"

definition to_resolve :: "EvaluationSnapshot \<Rightarrow> ('a) finding_state_scheme \<Rightarrow> bool" where
  "to_resolve snapshot f \<longleftrightarrow>
     fi_dedupe_key f \<notin> fc_dedupe_key ` set (es_candidates snapshot) \<and>
     fi_rule_id f \<in> set (es_evaluated_rule_ids snapshot) \<and> fi_status f \<noteq> ''resolved'' \<and>
     row_eligible snapshot f"

definition RESOLUTION_BASIS :: string where
  "RESOLUTION_BASIS = ''fresh deterministic evidence no longer matches the rule''"

definition resolved_row :: "string \<Rightarrow> instant \<Rightarrow> stored_finding \<Rightarrow> stored_finding" where
  "resolved_row rid now f =
     f\<lparr>fi_status := ''resolved'', fi_resolved_at := Some now, fi_resolution_basis := Some RESOLUTION_BASIS,
       fi_evaluated_at := now, fi_last_evaluation_run_id := rid, fi_updated_at := now\<rparr>"

fun resolve_rows ::
    "string \<Rightarrow> instant \<Rightarrow> EvaluationSnapshot \<Rightarrow> stored_finding list \<Rightarrow> finding_db \<Rightarrow> ReconcileResult \<Rightarrow>
     (finding_db \<times> ReconcileResult) stored" where
  "resolve_rows rid now snapshot [] db r = Inr (db, r)"
| "resolve_rows rid now snapshot (row # rows) db r =
     (if \<not> to_resolve snapshot row then resolve_rows rid now snapshot rows db r
      else let chosen = (\<lambda>f. fi_finding_id f = fi_finding_id row \<and> fi_evaluated_at f \<le> now)
           in if 0 < count_where chosen db \<and> \<not> run_exists rid db then Inl IntegrityError
              else resolve_rows rid now snapshot rows (update_where chosen (resolved_row rid now) db)
                     (r\<lparr>rr_resolved := rr_resolved r + count_where chosen db\<rparr>))"

definition no_changes :: ReconcileResult where
  "no_changes = \<lparr>rr_opened = 0, rr_updated = 0, rr_reopened = 0, rr_resolved = 0\<rparr>"

definition reconcile ::
    "string \<Rightarrow> EvaluationSnapshot \<Rightarrow> instant \<Rightarrow> instant \<Rightarrow> evaluation_scope \<Rightarrow> finding_db \<Rightarrow>
     (finding_db \<times> ReconcileResult) stored" where
  "reconcile rid snapshot now db_now sc db =
     bind_result (scope_rows sc db) (\<lambda>scoped.
     bind_result (write_candidates rid now db_now scoped (es_candidates snapshot) db no_changes) (\<lambda>(db, r).
     resolve_rows rid now snapshot scoped db r))"

section \<open>Reading findings\<close>

definition attach_evidence ::
    "finding_db \<Rightarrow> stored_finding list \<Rightarrow> (stored_finding \<times> EvidenceReference list) list" where
  "attach_evidence db rows =
     map (\<lambda>f. (f, map snd (filter (\<lambda>(i, e). i = fi_finding_id f) (fd_evidence db)))) rows"

definition optional :: "('a \<Rightarrow> pyval) \<Rightarrow> 'a option \<Rightarrow> pyval" where
  "optional f v = (case v of None \<Rightarrow> PNone | Some x \<Rightarrow> f x)"

text \<open>The dictionary of a row and its evidence.\<close>

definition evidence_item :: "EvidenceReference \<Rightarrow> pyval" where
  "evidence_item e =
     PDict [(''evidence_ref'', PStr (ref_evidence_ref e)), (''evidence_type'', PStr (ref_evidence_type e)),
            (''source'', PStr (ref_source e)), (''observed_at'', optional PTime (ref_observed_at e)),
            (''freshness'', PStr (ref_freshness e)), (''confidence'', PFloat (Finite (ref_confidence e))),
            (''summary'', PStr (ref_summary e))]"

definition finding_item :: "stored_finding \<times> EvidenceReference list \<Rightarrow> pydict" where
  "finding_item item =
     (case item of (f, evidence) \<Rightarrow>
       [(''finding_id'', PStr (fi_finding_id f)), (''dedupe_key'', PStr (fi_dedupe_key f)),
        (''rule_id'', PStr (fi_rule_id f)), (''rule_version'', PInt (fi_rule_version f)),
        (''previous_rule_version'', optional PInt (fi_previous_rule_version f)),
        (''rule_version_changed_at'', optional PTime (fi_rule_version_changed_at f)),
        (''engine_version'', PStr (fi_engine_version f)), (''category'', PStr (fi_category f)),
        (''subject_type'', PStr (fi_subject_type f)), (''site_id'', PStr (fi_site_id f)),
        (''asset_id'', optional PStr (fi_asset_id f)), (''sensor_id'', optional PStr (fi_sensor_id f)),
        (''title'', PStr (fi_title f)), (''description'', PStr (fi_description f)),
        (''recommendation'', PStr (fi_recommendation f)), (''severity'', PStr (fi_severity f)),
        (''confidence'', PFloat (Finite (fi_confidence f))), (''status'', PStr (fi_status f)),
        (''evidence_observed_at'', optional PTime (fi_evidence_observed_at f)),
        (''evidence_freshness'', PStr (fi_evidence_freshness f)),
        (''first_seen_at'', PTime (fi_first_seen_at f)), (''last_seen_at'', PTime (fi_last_seen_at f)),
        (''evaluated_at'', PTime (fi_evaluated_at f)),
        (''resolved_at'', optional PTime (fi_resolved_at f)),
        (''resolution_basis'', optional PStr (fi_resolution_basis f)),
        (''acknowledged_at'', optional PTime (fi_acknowledged_at f)),
        (''acknowledged_by'', optional PStr (fi_acknowledged_by f)),
        (''suppressed_at'', optional PTime (fi_suppressed_at f)),
        (''suppressed_by'', optional PStr (fi_suppressed_by f)),
        (''suppressed_until'', optional PTime (fi_suppressed_until f)),
        (''suppression_reason'', optional PStr (fi_suppression_reason f)),
        (''reopen_count'', PInt (int (fi_reopen_count f))),
        (''last_evaluation_run_id'', PStr (fi_last_evaluation_run_id f)),
        (''created_at'', PTime (fi_created_at f)), (''updated_at'', PTime (fi_updated_at f)),
        (''evidence'', PList (map evidence_item evidence))])"

text \<open>\<^verbatim>\<open>ORDER BY asset_id\<close> puts null last.\<close>

definition nulls_last :: "string option \<Rightarrow> bool \<times> string" where
  "nulls_last s = (s = None, or_empty s)"

definition open_in :: "string option \<Rightarrow> ('a) finding_state_scheme \<Rightarrow> bool" where
  "open_in site_id f \<longleftrightarrow>
     fi_status f \<in> {''active'', ''acknowledged''} \<and> matches_scope site_id (Some (fi_site_id f))"

definition active_findings :: "string option \<Rightarrow> finding_db \<Rightarrow> pydict list stored" where
  "active_findings site_id db =
     (let rows = take (MAX_RECONCILE_RECORDS + 1)
            (sort_key (\<lambda>f. (fi_site_id f, nulls_last (fi_asset_id f), fi_finding_id f))
              (filter (open_in site_id) (fd_findings db)))
      in if MAX_RECONCILE_RECORDS < length rows then Inl (Raised ValueError)
         else Inr (map finding_item (attach_evidence db rows)))"

record finding_filters =
  ff_site_id :: "string option"
  ff_asset_id :: "string option"
  ff_sensor_id :: "string option"
  ff_status :: "string option"
  ff_severity :: "string option"
  ff_rule_id :: "string option"
  ff_category :: "string option"
  ff_updated_after :: "instant option"
  ff_updated_before :: "instant option"

definition admitted :: "finding_filters \<Rightarrow> stored_finding \<Rightarrow> bool" where
  "admitted q f \<longleftrightarrow>
     matches_scope (ff_site_id q) (Some (fi_site_id f)) \<and> matches_scope (ff_asset_id q) (fi_asset_id f) \<and>
     matches_scope (ff_sensor_id q) (fi_sensor_id f) \<and> matches_scope (ff_status q) (Some (fi_status f)) \<and>
     matches_scope (ff_severity q) (Some (fi_severity f)) \<and>
     matches_scope (ff_rule_id q) (Some (fi_rule_id f)) \<and>
     matches_scope (ff_category q) (Some (fi_category f)) \<and>
     (case ff_updated_after q of None \<Rightarrow> True | Some t \<Rightarrow> t \<le> fi_updated_at f) \<and>
     (case ff_updated_before q of None \<Rightarrow> True | Some t \<Rightarrow> fi_updated_at f \<le> t)"

definition severity_rank :: "string \<Rightarrow> nat" where
  "severity_rank s =
     (if s = ''critical'' then 1 else if s = ''high'' then 2 else if s = ''medium'' then 3
      else if s = ''low'' then 4 else 5)"

record finding_page =
  fp_items :: "pydict list"
  fp_total :: nat
  fp_limit :: int
  fp_offset :: int
  fp_truncated :: bool

definition page_order :: "stored_finding \<Rightarrow> nat \<times> int \<times> string" where
  "page_order f = (severity_rank (fi_severity f), - fi_updated_at f, fi_finding_id f)"

definition list_findings :: "finding_filters \<Rightarrow> int \<Rightarrow> int \<Rightarrow> finding_db \<Rightarrow> finding_page stored" where
  "list_findings q limit offset db =
     (if (case ff_status q of None \<Rightarrow> False | Some s \<Rightarrow> s \<notin> set FINDING_STATUSES) \<or>
         (case ff_severity q of None \<Rightarrow> False | Some s \<Rightarrow> s \<notin> set SUPPORTED_SEVERITIES)
      then Inl (Raised ValueError)
      else let bounded_limit = max 1 (min limit MAX_FINDING_PAGE);
               bounded_offset = max 0 (min offset 10000);
               found = filter (admitted q) (fd_findings db);
               items = take (nat bounded_limit) (drop (nat bounded_offset) (sort_key page_order found))
           in Inr \<lparr> fp_items = map finding_item (attach_evidence db items), fp_total = length found,
                    fp_limit = bounded_limit, fp_offset = bounded_offset,
                    fp_truncated = bounded_offset + int (length items) < int (length found) \<rparr>)"

definition get_finding :: "string \<Rightarrow> finding_db \<Rightarrow> pydict option" where
  "get_finding fid db =
     (case find (\<lambda>f. fi_finding_id f = fid) (fd_findings db) of
        None \<Rightarrow> None
      | Some f \<Rightarrow> Some (finding_item (hd (attach_evidence db [f]))))"

section \<open>Administration\<close>

text \<open>\<^verbatim>\<open>UPDATE ... RETURNING *\<close> of the row with an identifier, when its status is one of those given.\<close>

definition administer ::
    "string list \<Rightarrow> (stored_finding \<Rightarrow> stored_finding) \<Rightarrow> string \<Rightarrow> finding_db \<Rightarrow>
     finding_db \<times> pydict option" where
  "administer statuses f fid db =
     (let chosen = (\<lambda>r. fi_finding_id r = fid \<and> fi_status r \<in> set statuses)
      in case find chosen (fd_findings db) of
           None \<Rightarrow> (db, None)
         | Some r \<Rightarrow> (update_where chosen f db, Some (finding_item (hd (attach_evidence db [f r])))))"

definition acknowledged_row :: "string \<Rightarrow> instant \<Rightarrow> stored_finding \<Rightarrow> stored_finding" where
  "acknowledged_row actor now r =
     r\<lparr>fi_status := ''acknowledged'', fi_acknowledged_at := Some now,
       fi_acknowledged_by := Some (take 120 actor), fi_updated_at := now\<rparr>"

definition acknowledge :: "string \<Rightarrow> string \<Rightarrow> instant \<Rightarrow> finding_db \<Rightarrow> finding_db \<times> pydict option" where
  "acknowledge fid actor now =
     administer [''active'', ''acknowledged''] (acknowledged_row actor now) fid"

definition suppressed_row ::
    "string \<Rightarrow> string \<Rightarrow> instant option \<Rightarrow> instant \<Rightarrow> stored_finding \<Rightarrow> stored_finding" where
  "suppressed_row actor reason until now r =
     r\<lparr>fi_status := ''suppressed'', fi_suppressed_at := Some now,
       fi_suppressed_by := Some (take 120 actor), fi_suppressed_until := until,
       fi_suppression_reason := Some (take 500 reason), fi_updated_at := now\<rparr>"

definition suppress ::
    "string \<Rightarrow> string \<Rightarrow> string \<Rightarrow> instant option \<Rightarrow> instant \<Rightarrow> finding_db \<Rightarrow>
     finding_db \<times> pydict option" where
  "suppress fid actor reason until now =
     administer [''active'', ''acknowledged'', ''suppressed'']
       (suppressed_row actor reason until now) fid"

end
