(* ===== verification/Risk_Store.thy ===== *)
theory Risk_Store
  imports Finding_Store
begin

text \<open>
  The risk tables of src/backend/app/finding_store.py: \<^verbatim>\<open>replace_risk\<close>, one transaction that replaces the scores and
  factors of a site or of all sites, and the reads of the risk API.
\<close>

section \<open>Replacing the scores\<close>

text \<open>\<^verbatim>\<open>for x in xs: f(x)\<close> of a statement that changes the tables or violates a constraint.\<close>

fun each_stored :: "('a \<Rightarrow> 's \<Rightarrow> 's stored) \<Rightarrow> 'a list \<Rightarrow> 's \<Rightarrow> 's stored" where
  "each_stored f [] db = Inr db"
| "each_stored f (x # xs) db = bind_result (f x db) (each_stored f xs)"

definition insert_factor ::
    "string \<Rightarrow> string \<Rightarrow> string option \<Rightarrow> string \<Rightarrow> RiskFactor \<Rightarrow> finding_db \<Rightarrow> finding_db stored" where
  "insert_factor subject_type site_id asset_id rid factor db =
     (if subject_type \<notin> {''asset'', ''site''} \<or> factor_confidence factor < 0 \<or> 1 < factor_confidence factor \<or>
         site_id \<notin> set (fd_sites db) \<or>
         (case finding_id factor of
            None \<Rightarrow> False | Some fid \<Rightarrow> fid \<notin> fi_finding_id ` set (fd_findings db)) \<or>
         \<not> run_exists rid db
      then Inl IntegrityError
      else Inr (db\<lparr>fd_risk_factors := fd_risk_factors db @
        [\<lparr> rf_subject_type = subject_type, rf_site_id = site_id, rf_asset_id = asset_id,
           rf_factor = factor, rf_evaluation_run_id = rid \<rparr>]\<rparr>))"

definition insert_factors ::
    "string \<Rightarrow> string \<Rightarrow> string option \<Rightarrow> string \<Rightarrow> RiskFactor list \<Rightarrow> finding_db \<Rightarrow> finding_db stored" where
  "insert_factors subject_type site_id asset_id rid =
     each_stored (insert_factor subject_type site_id asset_id rid)"

definition insert_asset_score :: "string \<Rightarrow> instant \<Rightarrow> AssetRiskScore \<Rightarrow> finding_db \<Rightarrow> finding_db stored" where
  "insert_asset_score rid calculated_at score db =
     (if as_site_id score \<notin> set (fd_sites db) \<or> \<not> run_exists rid db \<or> as_score score \<notin> {0..100} \<or>
         (as_site_id score, as_asset_id score)
           \<in> (\<lambda>r. (ra_site_id r, ra_asset_id r)) ` set (fd_asset_risk db)
      then Inl IntegrityError
      else insert_factors ''asset'' (as_site_id score) (Some (as_asset_id score)) rid (as_factors score)
        (db\<lparr>fd_asset_risk := fd_asset_risk db @
          [\<lparr> ra_site_id = as_site_id score, ra_asset_id = as_asset_id score, ra_score = as_score score,
             ra_band = as_band score, ra_formula_version = as_formula_version score,
             ra_finding_count = as_finding_count score, ra_data_as_of = as_data_as_of score,
             ra_calculated_at = calculated_at, ra_evaluation_run_id = rid \<rparr>]\<rparr>))"

definition insert_site_score :: "string \<Rightarrow> instant \<Rightarrow> SiteRiskScore \<Rightarrow> finding_db \<Rightarrow> finding_db stored" where
  "insert_site_score rid calculated_at score db =
     (if ss_site_id score \<notin> set (fd_sites db) \<or> \<not> run_exists rid db \<or> ss_score score \<notin> {0..100} \<or>
         ss_site_id score \<in> rs_site_id ` set (fd_site_risk db)
      then Inl IntegrityError
      else insert_factors ''site'' (ss_site_id score) None rid (ss_factors score)
        (db\<lparr>fd_site_risk := fd_site_risk db @
          [\<lparr> rs_site_id = ss_site_id score, rs_score = ss_score score, rs_band = ss_band score,
             rs_formula_version = ss_formula_version score, rs_asset_count = ss_asset_count score,
             rs_finding_count = ss_finding_count score, rs_data_as_of = ss_data_as_of score,
             rs_calculated_at = calculated_at, rs_evaluation_run_id = rid \<rparr>]\<rparr>))"

text \<open>The latest start of a run that produced one of the site scores in scope.\<close>

definition newest_scored :: "string option \<Rightarrow> finding_db \<Rightarrow> instant option" where
  "newest_scored site_id db =
     Finding_Evaluation.latest_of (map run_started_at
       (filter (\<lambda>run. list_ex (\<lambda>s. rs_evaluation_run_id s = run_id run \<and>
            matches_scope site_id (Some (rs_site_id s))) (fd_site_risk db)) (fd_runs db)))"

definition clear_risk :: "string option \<Rightarrow> finding_db \<Rightarrow> finding_db" where
  "clear_risk site_id db =
     db\<lparr>fd_risk_factors := filter (\<lambda>r. \<not> matches_scope site_id (Some (rf_site_id r))) (fd_risk_factors db),
        fd_asset_risk := filter (\<lambda>r. \<not> matches_scope site_id (Some (ra_site_id r))) (fd_asset_risk db),
        fd_site_risk := filter (\<lambda>r. \<not> matches_scope site_id (Some (rs_site_id r))) (fd_site_risk db)\<rparr>"

definition replace_risk ::
    "string \<Rightarrow> AssetRiskScore list \<Rightarrow> SiteRiskScore list \<Rightarrow> instant \<Rightarrow> instant \<Rightarrow> string option \<Rightarrow>
     finding_db \<Rightarrow> finding_db stored" where
  "replace_risk rid asset_scores site_scores calculated_at snapshot_at site_id db =
     (if (case newest_scored site_id db of None \<Rightarrow> False | Some newest \<Rightarrow> snapshot_at < newest) then Inr db
      else bind_result
             (each_stored (insert_asset_score rid calculated_at) asset_scores (clear_risk site_id db))
             (each_stored (insert_site_score rid calculated_at) site_scores))"

section \<open>Reading the scores\<close>

text \<open>\<^verbatim>\<open>ORDER BY ordinal, risk_factor_id\<close>\<close>

definition factor_rows :: "string \<Rightarrow> string \<Rightarrow> string option \<Rightarrow> finding_db \<Rightarrow> risk_factor_row list" where
  "factor_rows subject_type site_id asset_id db =
     sort_key (\<lambda>r. ordinal (rf_factor r))
       (filter (\<lambda>r. rf_subject_type r = subject_type \<and> rf_site_id r = site_id
          \<and> matches_scope asset_id (rf_asset_id r)) (fd_risk_factors db))"

definition risk_factors_of :: "string \<Rightarrow> string \<Rightarrow> string option \<Rightarrow> finding_db \<Rightarrow> RiskFactor list" where
  "risk_factors_of subject_type site_id asset_id db =
     map rf_factor (take 100 (factor_rows subject_type site_id asset_id db))"

definition get_asset_risk :: "string \<Rightarrow> string \<Rightarrow> finding_db \<Rightarrow> (asset_risk_row \<times> RiskFactor list) option" where
  "get_asset_risk site_id asset_id db =
     map_option (\<lambda>r. (r, risk_factors_of ''asset'' site_id (Some asset_id) db))
       (find (\<lambda>r. ra_site_id r = site_id \<and> ra_asset_id r = asset_id) (fd_asset_risk db))"

definition get_site_risk :: "string \<Rightarrow> finding_db \<Rightarrow> (site_risk_row \<times> RiskFactor list) option" where
  "get_site_risk site_id db =
     map_option (\<lambda>r. (r, risk_factors_of ''site'' site_id None db))
       (find (\<lambda>r. rs_site_id r = site_id) (fd_site_risk db))"

text \<open>The first eight factors of a subject; those of a site have no asset.\<close>

definition summary_factors :: "string \<Rightarrow> string \<Rightarrow> string \<Rightarrow> finding_db \<Rightarrow> RiskFactor list" where
  "summary_factors subject_type site_id asset_id db =
     (if subject_type = ''asset'' \<and> asset_id = [] then []
      else map rf_factor (take 8 (filter (\<lambda>r. or_empty (rf_asset_id r) = asset_id)
             (factor_rows subject_type site_id None db))))"

record risk_overview =
  ro_sites :: "(site_risk_row \<times> RiskFactor list) list"
  ro_assets :: "(asset_risk_row \<times> RiskFactor list) list"
  ro_by_severity :: "(string \<times> nat) list"
  ro_formula_version :: string

definition risk_summary :: "string option \<Rightarrow> int \<Rightarrow> finding_db \<Rightarrow> risk_overview" where
  "risk_summary site_id limit db =
     (let bounded_limit = nat (max 1 (min limit 200));
          sites = take bounded_limit (sort_key (\<lambda>r. (- rs_score r, rs_site_id r))
            (filter (\<lambda>r. matches_scope site_id (Some (rs_site_id r))) (fd_site_risk db)));
          assets = take bounded_limit (sort_key (\<lambda>r. (- ra_score r, ra_site_id r, ra_asset_id r))
            (filter (\<lambda>r. matches_scope site_id (Some (ra_site_id r))) (fd_asset_risk db)));
          severities = map fi_severity (filter (open_in site_id) (fd_findings db))
      in \<lparr> ro_sites = map (\<lambda>r. (r, summary_factors ''site'' (rs_site_id r) [] db)) sites,
           ro_assets = map (\<lambda>r. (r, summary_factors ''asset'' (ra_site_id r) (ra_asset_id r) db)) assets,
           ro_by_severity = map (\<lambda>s. (s, count_list severities s)) (sort (remdups severities)),
           ro_formula_version =
             (case sites of
                r # _ \<Rightarrow> rs_formula_version r
              | [] \<Rightarrow> (case assets of r # _ \<Rightarrow> ra_formula_version r | [] \<Rightarrow> ''oaw.risk.v1'')) \<rparr>)"

end
