(* ===== verification/Finding_Memory.thy ===== *)
theory Finding_Memory
  imports Risk_Store
begin

text \<open>
  \<^verbatim>\<open>InMemoryFindingStore\<close> of src/backend/app/finding_store.py: the store the lifecycle tests use.  A finding is a
  dictionary by its identifier, in insertion order, with its evidence; an administrative field that the
  dictionary lacks is \<open>None\<close>.
\<close>

record memory_finding = finding_state +
  mf_evidence :: "EvidenceReference list"

record memory_run =
  mr_run_id :: string
  mr_run_status :: string
  mr_run_started_at :: instant
  mr_run_completed_at :: "instant option"
  mr_run_candidate_count :: "nat option"
  mr_run_result :: "ReconcileResult option"
  mr_run_error_code :: "string option"

record memory_store =
  ms_findings :: "(string, memory_finding) odict"
  ms_runs :: "(string, memory_run) odict"
  ms_asset_risk :: "(string \<times> string, AssetRiskScore) odict"
  ms_site_risk :: "(string, SiteRiskScore) odict"

definition empty_memory :: memory_store where
  "empty_memory = \<lparr> ms_findings = [], ms_runs = [], ms_asset_risk = [], ms_site_risk = [] \<rparr>"

section \<open>Runs\<close>

definition mem_begin_run :: "instant \<Rightarrow> memory_store \<Rightarrow> memory_store \<times> string" where
  "mem_begin_run started_at ms =
     (let rid = ''frun_test_'' @ dec_int (int (length (ms_runs ms)) + 1)
      in (ms\<lparr>ms_runs := AList.update rid
            \<lparr> mr_run_id = rid, mr_run_status = ''running'', mr_run_started_at = started_at,
              mr_run_completed_at = None, mr_run_candidate_count = None, mr_run_result = None,
              mr_run_error_code = None \<rparr> (ms_runs ms)\<rparr>, rid))"

definition mem_update_run :: "string \<Rightarrow> (memory_run \<Rightarrow> memory_run) \<Rightarrow> memory_store \<Rightarrow> memory_store result" where
  "mem_update_run rid f ms =
     (case map_of (ms_runs ms) rid of
        None \<Rightarrow> Inl KeyError
      | Some r \<Rightarrow> Inr (ms\<lparr>ms_runs := AList.update rid (f r) (ms_runs ms)\<rparr>))"

definition mem_fail_run :: "string \<Rightarrow> instant \<Rightarrow> string \<Rightarrow> memory_store \<Rightarrow> memory_store result" where
  "mem_fail_run rid completed_at error_code =
     mem_update_run rid (\<lambda>r. r\<lparr>mr_run_status := ''failed'', mr_run_completed_at := Some completed_at,
       mr_run_error_code := Some error_code\<rparr>)"

definition mem_complete_run ::
    "string \<Rightarrow> EvaluationSnapshot \<Rightarrow> ReconcileResult \<Rightarrow> instant \<Rightarrow> memory_store \<Rightarrow> memory_store result" where
  "mem_complete_run rid snapshot res completed_at =
     mem_update_run rid (\<lambda>r. r\<lparr>mr_run_status := ''completed'', mr_run_completed_at := Some completed_at,
       mr_run_candidate_count := Some (length (es_candidates snapshot)), mr_run_result := Some res\<rparr>)"

section \<open>Reconciliation\<close>

text \<open>The dictionary stored for a candidate, with or without a previous one.\<close>

definition memory_state :: "string \<Rightarrow> instant \<Rightarrow> FindingCandidate \<Rightarrow> memory_finding option \<Rightarrow> memory_finding" where
  "memory_state rid now c previous =
     (let changed = (case previous of None \<Rightarrow> False | Some p \<Rightarrow> fi_rule_version p \<noteq> fc_rule_version c);
          administrative = (\<lambda>field. case previous of None \<Rightarrow> None | Some p \<Rightarrow> field p)
      in \<lparr> fi_finding_id = finding_id_for_dedupe (fc_dedupe_key c), fi_dedupe_key = fc_dedupe_key c,
           fi_rule_id = fc_rule_id c, fi_rule_version = fc_rule_version c,
           fi_previous_rule_version =
             (case previous of
                None \<Rightarrow> None
              | Some p \<Rightarrow> if changed then Some (fi_rule_version p) else fi_previous_rule_version p),
           fi_rule_version_changed_at =
             (case previous of
                None \<Rightarrow> None
              | Some p \<Rightarrow> if changed then Some now else fi_rule_version_changed_at p),
           fi_engine_version = RULESET_VERSION, fi_category = fc_category c,
           fi_subject_type = fc_subject_type c, fi_site_id = fc_site_id c, fi_asset_id = fc_asset_id c,
           fi_sensor_id = fc_sensor_id c, fi_title = fc_title c, fi_description = fc_description c,
           fi_recommendation = fc_recommendation c, fi_severity = fc_severity c,
           fi_confidence = fc_confidence c,
           fi_status =
             (case previous of
                None \<Rightarrow> ''active''
              | Some p \<Rightarrow>
                  if fi_status p = ''resolved'' then ''active''
                  else if fi_status p = ''suppressed'' \<and> suppression_expired now p then ''active''
                  else fi_status p),
           fi_evidence_observed_at = fc_observed_at c, fi_evidence_freshness = fc_freshness c,
           fi_first_seen_at = (case previous of None \<Rightarrow> now | Some p \<Rightarrow> fi_first_seen_at p),
           fi_last_seen_at = now, fi_evaluated_at = now, fi_resolved_at = None,
           fi_resolution_basis = None,
           fi_acknowledged_at = (case previous of None \<Rightarrow> None | Some p \<Rightarrow> fi_acknowledged_at p),
           fi_acknowledged_by = administrative fi_acknowledged_by,
           fi_suppressed_at = (case previous of None \<Rightarrow> None | Some p \<Rightarrow> fi_suppressed_at p),
           fi_suppressed_by = administrative fi_suppressed_by,
           fi_suppressed_until = (case previous of None \<Rightarrow> None | Some p \<Rightarrow> fi_suppressed_until p),
           fi_suppression_reason = administrative fi_suppression_reason,
           fi_reopen_count =
             (case previous of
                None \<Rightarrow> 0
              | Some p \<Rightarrow> fi_reopen_count p + (if fi_status p = ''resolved'' then 1 else 0)),
           fi_last_evaluation_run_id = rid, mf_evidence = fc_evidence c \<rparr>)"

definition count_memory :: "memory_finding option \<Rightarrow> ReconcileResult \<Rightarrow> ReconcileResult" where
  "count_memory previous r =
     (case previous of
        None \<Rightarrow> r\<lparr>rr_opened := rr_opened r + 1\<rparr>
      | Some p \<Rightarrow> if fi_status p = ''resolved'' then r\<lparr>rr_reopened := rr_reopened r + 1\<rparr>
                  else r\<lparr>rr_updated := rr_updated r + 1\<rparr>)"

fun mem_write ::
    "string \<Rightarrow> instant \<Rightarrow> FindingCandidate list \<Rightarrow> (string, memory_finding) odict \<Rightarrow> ReconcileResult \<Rightarrow>
     (string, memory_finding) odict \<times> ReconcileResult" where
  "mem_write rid now [] findings r = (findings, r)"
| "mem_write rid now (c # cs) findings r =
     (let fid = finding_id_for_dedupe (fc_dedupe_key c); previous = map_of findings fid
      in if (case previous of None \<Rightarrow> False | Some p \<Rightarrow> now < fi_evaluated_at p)
         then mem_write rid now cs findings r
         else mem_write rid now cs (AList.update fid (memory_state rid now c previous) findings)
                (count_memory previous r))"

text \<open>An empty scope text does not restrict the in-memory store.\<close>

definition memory_in_scope :: "evaluation_scope \<Rightarrow> ('a) finding_state_scheme \<Rightarrow> bool" where
  "memory_in_scope sc f \<longleftrightarrow>
     (case given (sc_site_id sc) of None \<Rightarrow> True | Some s \<Rightarrow> fi_site_id f = s) \<and>
     (case given (sc_asset_id sc) of None \<Rightarrow> True | Some s \<Rightarrow> fi_asset_id f = Some s) \<and>
     (case given (sc_sensor_id sc) of None \<Rightarrow> True | Some s \<Rightarrow> fi_sensor_id f = Some s)"

definition memory_resolves ::
    "EvaluationSnapshot \<Rightarrow> instant \<Rightarrow> evaluation_scope \<Rightarrow> string \<times> memory_finding \<Rightarrow> bool" where
  "memory_resolves snapshot now sc item \<longleftrightarrow>
     fst item \<notin> (\<lambda>c. finding_id_for_dedupe (fc_dedupe_key c)) ` set (es_candidates snapshot) \<and>
     fi_rule_id (snd item) \<in> set (es_evaluated_rule_ids snapshot) \<and>
     fi_status (snd item) \<noteq> ''resolved'' \<and> fi_evaluated_at (snd item) \<le> now \<and>
     memory_in_scope sc (snd item) \<and> row_eligible snapshot (snd item)"

definition memory_resolved :: "string \<Rightarrow> instant \<Rightarrow> memory_finding \<Rightarrow> memory_finding" where
  "memory_resolved rid now f =
     f\<lparr>fi_status := ''resolved'', fi_resolved_at := Some now, fi_evaluated_at := now,
       fi_resolution_basis := Some RESOLUTION_BASIS, fi_last_evaluation_run_id := rid\<rparr>"

definition mem_reconcile ::
    "string \<Rightarrow> EvaluationSnapshot \<Rightarrow> instant \<Rightarrow> evaluation_scope \<Rightarrow> memory_store \<Rightarrow>
     memory_store \<times> ReconcileResult" where
  "mem_reconcile rid snapshot now sc ms =
     (let (written, r) = mem_write rid now (es_candidates snapshot) (ms_findings ms) no_changes;
          chosen = memory_resolves snapshot now sc
      in (ms\<lparr>ms_findings := map (\<lambda>item. if chosen item then (fst item, memory_resolved rid now (snd item))
                                      else item) written\<rparr>,
          r\<lparr>rr_resolved := length (filter chosen written)\<rparr>))"

section \<open>Reads, administration and risk\<close>

definition mem_active_findings :: "string option \<Rightarrow> memory_store \<Rightarrow> memory_finding list" where
  "mem_active_findings site_id ms =
     filter (\<lambda>f. fi_status f \<in> {''active'', ''acknowledged''} \<and>
         (case given site_id of None \<Rightarrow> True | Some s \<Rightarrow> fi_site_id f = s))
       (map snd (ms_findings ms))"

definition mem_administer ::
    "string list \<Rightarrow> (memory_finding \<Rightarrow> memory_finding) \<Rightarrow> string \<Rightarrow> memory_store \<Rightarrow>
     memory_store \<times> memory_finding option" where
  "mem_administer statuses f fid ms =
     (case map_of (ms_findings ms) fid of
        None \<Rightarrow> (ms, None)
      | Some r \<Rightarrow>
          if fi_status r \<notin> set statuses then (ms, None)
          else (ms\<lparr>ms_findings := AList.update fid (f r) (ms_findings ms)\<rparr>, Some (f r)))"

definition mem_acknowledge ::
    "string \<Rightarrow> string \<Rightarrow> instant \<Rightarrow> memory_store \<Rightarrow> memory_store \<times> memory_finding option" where
  "mem_acknowledge fid actor now =
     mem_administer [''active'', ''acknowledged'']
       (\<lambda>r. r\<lparr>fi_status := ''acknowledged'', fi_acknowledged_at := Some now,
          fi_acknowledged_by := Some (take 120 actor)\<rparr>) fid"

definition mem_suppress ::
    "string \<Rightarrow> string \<Rightarrow> string \<Rightarrow> instant option \<Rightarrow> instant \<Rightarrow> memory_store \<Rightarrow>
     memory_store \<times> memory_finding option" where
  "mem_suppress fid actor reason until now =
     mem_administer [''active'', ''acknowledged'', ''suppressed'']
       (\<lambda>r. r\<lparr>fi_status := ''suppressed'', fi_suppressed_at := Some now,
          fi_suppressed_by := Some (take 120 actor), fi_suppressed_until := until,
          fi_suppression_reason := Some (take 500 reason)\<rparr>) fid"

definition mem_replace_risk ::
    "AssetRiskScore list \<Rightarrow> SiteRiskScore list \<Rightarrow> string option \<Rightarrow> memory_store \<Rightarrow> memory_store" where
  "mem_replace_risk asset_scores site_scores site_id ms =
     (let kept_assets = (case given site_id of
                           None \<Rightarrow> [] | Some s \<Rightarrow> filter (\<lambda>(k, v). fst k \<noteq> s) (ms_asset_risk ms));
          kept_sites = (case given site_id of
                          None \<Rightarrow> [] | Some s \<Rightarrow> filter (\<lambda>(k, v). k \<noteq> s) (ms_site_risk ms))
      in ms\<lparr>ms_asset_risk :=
              foldl (\<lambda>d s. AList.update (as_site_id s, as_asset_id s) s d) kept_assets asset_scores,
            ms_site_risk := foldl (\<lambda>d s. AList.update (ss_site_id s) s d) kept_sites site_scores\<rparr>)"

end
