(* ===== verification/Finding_Service.thy ===== *)
theory Finding_Service
  imports Finding_Memory
begin

text \<open>
  src/backend/app/finding_service.py: one evaluation from the request to the completed run, over the SQL store.
  The rows the database layer lists (sites, agent enrollments, assets, active vulnerability matches) are
  arguments, as are the clock readings and the identifier of the run.  Every store operation is its own
  transaction: what was committed before an error stays.
\<close>

definition MAX_EVALUATION_ASSETS :: nat where "MAX_EVALUATION_ASSETS = 50000"
definition MAX_EVALUATION_SITES :: nat where "MAX_EVALUATION_SITES = 10000"
definition MAX_EVALUATION_SENSORS :: nat where "MAX_EVALUATION_SENSORS = 20000"

record EvaluationResult =
  ev_run_id :: string
  ev_trigger_type :: string
  ev_scope :: evaluation_scope
  ev_ruleset_version :: string
  ev_evaluated_rule_ids :: "string list"
  ev_candidate_count :: nat
  ev_opened_count :: nat
  ev_updated_count :: nat
  ev_reopened_count :: nat
  ev_resolved_count :: nat
  ev_asset_risk_count :: nat
  ev_site_risk_count :: nat
  ev_data_as_of :: "instant option"
  ev_started_at :: instant
  ev_completed_at :: instant

section \<open>Inputs\<close>

text \<open>What the database layer lists: at most \<open>limit\<close> rows of a site, or of all sites.\<close>

record evaluation_reader =
  er_sites :: "nat \<Rightarrow> string option \<Rightarrow> pydict list"
  er_sensors :: "nat \<Rightarrow> string option \<Rightarrow> pydict list"
  er_assets :: "nat \<Rightarrow> string option \<Rightarrow> pydict list"
  er_matches :: "string option \<Rightarrow> pydict list"

definition owner_of :: "pydict \<Rightarrow> string \<times> string" where
  "owner_of d = (text_or d ''site_id'' [], text_or d ''asset_id'' [])"

definition with_matches :: "pydict list \<Rightarrow> pydict \<Rightarrow> pydict" where
  "with_matches matches asset =
     AList.update ''vulnerability_matches''
       (PList (map PDict (group_of (group_by owner_of matches []) (owner_of asset)))) asset"

definition load_evaluation_inputs ::
    "evaluation_reader \<Rightarrow> string option \<Rightarrow> bool \<Rightarrow> (pydict list \<times> pydict list \<times> pydict list) result" where
  "load_evaluation_inputs reader site_id include_matches =
     (let sites = er_sites reader (MAX_EVALUATION_SITES + 1) site_id;
          sensors = er_sensors reader (MAX_EVALUATION_SENSORS + 1) site_id;
          assets = er_assets reader (MAX_EVALUATION_ASSETS + 1) site_id
      in if MAX_EVALUATION_SITES < length sites then Inl ValueError
         else if MAX_EVALUATION_SENSORS < length sensors then Inl ValueError
         else if MAX_EVALUATION_ASSETS < length assets then Inl ValueError
         else let matches = (if include_matches then er_matches reader site_id else [])
              in Inr (sites, sensors, map (with_matches matches) assets))"

definition VULNERABILITY_RULE_IDS :: "string list" where
  "VULNERABILITY_RULE_IDS =
     [''vulnerable-component'', ''component-version-unavailable'', ''advisory-identity-uncertain'']"

text \<open>The arguments of \<^verbatim>\<open>evaluate_findings\<close>; a caller may pass the sites, sensors and assets itself.\<close>

record evaluation_request =
  rq_trigger_type :: string
  rq_requested_by :: "string option"
  rq_scope :: evaluation_scope
  rq_rule_ids :: "string list option"
  rq_findings_config :: "FindingsConfig option"
  rq_risk_config :: "RiskConfig option"
  rq_sites :: "pydict list option"
  rq_sensors :: "pydict list option"
  rq_assets :: "pydict list option"

definition or_loaded :: "'a option \<Rightarrow> 'a \<Rightarrow> 'a" where
  "or_loaded passed loaded = (case passed of None \<Rightarrow> loaded | Some x \<Rightarrow> x)"

definition inputs_of ::
    "evaluation_reader \<Rightarrow> evaluation_request \<Rightarrow> string list option \<Rightarrow>
     (pydict list \<times> pydict list \<times> pydict list) result" where
  "inputs_of reader rq rule_ids =
     (if rq_sites rq \<noteq> None \<and> rq_sensors rq \<noteq> None \<and> rq_assets rq \<noteq> None
      then Inr (the (rq_sites rq), the (rq_sensors rq), the (rq_assets rq))
      else bind_result
             (load_evaluation_inputs reader (sc_site_id (rq_scope rq))
                (case rule_ids of
                   None \<Rightarrow> True | Some ids \<Rightarrow> list_ex (\<lambda>i. i \<in> set VULNERABILITY_RULE_IDS) ids))
             (\<lambda>(sites, sensors, assets).
               Inr (or_loaded (rq_sites rq) sites, or_loaded (rq_sensors rq) sensors,
                    or_loaded (rq_assets rq) assets)))"

text \<open>The checks before a run is begun, and the rules they leave.\<close>

definition requested_rules :: "evaluation_request \<Rightarrow> string list option result" where
  "requested_rules rq =
     (let site = given (sc_site_id (rq_scope rq)); asset = given (sc_asset_id (rq_scope rq));
          sensor = given (sc_sensor_id (rq_scope rq))
      in if asset \<noteq> None \<and> site = None then Inl ValueError
         else if sensor \<noteq> None \<and> site = None then Inl ValueError
         else if asset \<noteq> None \<and> sensor \<noteq> None then Inl ValueError
         else if sensor = None then Inr (rq_rule_ids rq)
         else case rq_rule_ids rq of
                None \<Rightarrow> Inr (Some [''sensor-stale''])
              | Some ids \<Rightarrow> if list_ex (\<lambda>i. i \<noteq> ''sensor-stale'') ids then Inl ValueError
                            else Inr (Some ids))"

section \<open>Evaluation\<close>

text \<open>The clock readings of an evaluation and the database's own at the reconciliation.\<close>

record evaluation_clock =
  cl_started_at :: instant
  cl_completed_at :: instant
  cl_failed_at :: instant
  cl_database :: instant

text \<open>A call that fails leaves the tables as they are at that point.\<close>

definition or_keep ::
    "finding_db \<Rightarrow> 'a stored \<Rightarrow> ('a \<Rightarrow> finding_db \<times> 'b stored) \<Rightarrow> finding_db \<times> 'b stored" where
  "or_keep db r f = (case r of Inl e \<Rightarrow> (db, Inl e) | Inr x \<Rightarrow> f x)"

text \<open>The body of the \<^verbatim>\<open>try\<close> block.\<close>

definition run_evaluation ::
    "(string \<times> string) list \<Rightarrow> evaluation_reader \<Rightarrow> evaluation_request \<Rightarrow> string list option \<Rightarrow> evaluation_clock \<Rightarrow>
     string \<Rightarrow> finding_db \<Rightarrow> finding_db \<times> EvaluationResult stored" where
  "run_evaluation environ reader rq rule_ids clock rid db =
     (let sc = rq_scope rq; site_id = sc_site_id sc; started_at = cl_started_at clock;
          config = (case rq_findings_config rq of None \<Rightarrow> load_findings_config environ | Some c \<Rightarrow> c)
      in or_keep db (raised (inputs_of reader rq rule_ids)) (\<lambda>(sites, sensors, assets).
         or_keep db (raised (evaluate_rules sites sensors assets started_at config rule_ids sc)) (\<lambda>snapshot.
         or_keep db (reconcile rid snapshot started_at (cl_database clock) sc db) (\<lambda>(db, lifecycle).
         or_keep db (active_findings site_id db) (\<lambda>active.
         or_keep db (raised (calculate_risk (rq_risk_config rq) environ
                       (filter (\<lambda>item. in_scope site_id item ''site_id'') sites)
                       (filter (\<lambda>item. in_scope site_id item ''site_id'') assets) active))
           (\<lambda>(asset_scores, site_scores).
         or_keep db (replace_risk rid asset_scores site_scores (cl_completed_at clock) started_at site_id db)
           (\<lambda>db.
         (complete_run rid snapshot lifecycle (cl_completed_at clock) db,
          Inr \<lparr> ev_run_id = rid, ev_trigger_type = rq_trigger_type rq, ev_scope = sc,
                ev_ruleset_version = RULESET_VERSION,
                ev_evaluated_rule_ids = es_evaluated_rule_ids snapshot,
                ev_candidate_count = length (es_candidates snapshot),
                ev_opened_count = rr_opened lifecycle, ev_updated_count = rr_updated lifecycle,
                ev_reopened_count = rr_reopened lifecycle, ev_resolved_count = rr_resolved lifecycle,
                ev_asset_risk_count = length asset_scores, ev_site_risk_count = length site_scores,
                ev_data_as_of = es_data_as_of snapshot, ev_started_at = started_at,
                ev_completed_at = cl_completed_at clock \<rparr>))))))))"

text \<open>\<^verbatim>\<open>type(exc).__name__\<close>\<close>

fun error_name :: "store_error \<Rightarrow> string" where
  "error_name (Raised ValueError) = ''ValueError''"
| "error_name (Raised KeyError) = ''KeyError''"
| "error_name (Raised TypeError) = ''TypeError''"
| "error_name (Raised OverflowError) = ''OverflowError''"
| "error_name IntegrityError = ''IntegrityError''"

text \<open>An error of the evaluation is recorded in its run and raised again.  Recording it is an update of one row,
  which succeeds here; the code also survives a database that refuses it (it logs a warning and the run stays
  running), which is outside the model.\<close>

definition evaluate_findings ::
    "(string \<times> string) list \<Rightarrow> evaluation_reader \<Rightarrow> evaluation_request \<Rightarrow> evaluation_clock \<Rightarrow> string \<Rightarrow>
     finding_db \<Rightarrow> finding_db \<times> EvaluationResult stored" where
  "evaluate_findings environ reader rq clock rid db =
     or_keep db (raised (requested_rules rq)) (\<lambda>rule_ids.
     or_keep db (begin_run rid (rq_trigger_type rq) (rq_requested_by rq) (rq_scope rq) RULESET_VERSION
                   (cl_started_at clock) db) (\<lambda>begun.
     case run_evaluation environ reader rq rule_ids clock rid begun of
       (db, Inl e) \<Rightarrow> (fail_run rid (cl_failed_at clock) (error_name e) db, Inl e)
     | (db, Inr res) \<Rightarrow> (db, Inr res)))"

text \<open>The evaluation after an ingestion; its error is only logged.\<close>

definition evaluate_site_best_effort ::
    "(string \<times> string) list \<Rightarrow> evaluation_reader \<Rightarrow> string \<Rightarrow> string \<Rightarrow> string \<Rightarrow> string option \<Rightarrow>
     evaluation_clock \<Rightarrow> string \<Rightarrow> finding_db \<Rightarrow> finding_db" where
  "evaluate_site_best_effort environ reader site_id trigger_type requested_by sensor_id clock rid db =
     fst (evaluate_findings environ reader
       \<lparr> rq_trigger_type = trigger_type, rq_requested_by = Some requested_by,
         rq_scope = \<lparr> sc_site_id = Some site_id, sc_asset_id = None, sc_sensor_id = sensor_id \<rparr>,
         rq_rule_ids = None, rq_findings_config = None, rq_risk_config = None, rq_sites = None,
         rq_sensors = None, rq_assets = None \<rparr> clock rid db)"

end
