(* ===== verification/Finding_Store_Laws.thy ===== *)
theory Finding_Store_Laws
  imports Finding_Service
begin

text \<open>
  The life cycle of findings: the well-formedness every operation of the SQL store preserves, the changes a
  row can undergo in one operation, and what a stale evaluation leaves alone.
\<close>

section \<open>Rows\<close>

definition row_ok :: "stored_finding \<Rightarrow> bool" where
  "row_ok f \<longleftrightarrow>
     fi_finding_id f = finding_id_for_dedupe (fi_dedupe_key f) \<and> finding_checks f \<and>
     (fi_resolved_at f = None \<longleftrightarrow> fi_status f \<noteq> ''resolved'') \<and>
     fi_first_seen_at f \<le> fi_last_seen_at f \<and> fi_last_seen_at f \<le> fi_evaluated_at f"

text \<open>The columns that are written once.\<close>

definition same_finding :: "stored_finding \<Rightarrow> stored_finding \<Rightarrow> bool" where
  "same_finding f g \<longleftrightarrow>
     fi_finding_id f = fi_finding_id g \<and> fi_dedupe_key f = fi_dedupe_key g \<and>
     fi_rule_id f = fi_rule_id g \<and> fi_subject_type f = fi_subject_type g \<and>
     fi_site_id f = fi_site_id g \<and> fi_asset_id f = fi_asset_id g \<and> fi_sensor_id f = fi_sensor_id g \<and>
     fi_first_seen_at f = fi_first_seen_at g \<and> fi_created_at f = fi_created_at g"

lemmas row_defs = new_finding_def seen_again_def resolved_row_def acknowledged_row_def suppressed_row_def

lemma row_updates_same [simp]:
  "same_finding f (seen_again rid now c f)"
  "same_finding f (resolved_row rid now f)"
  "same_finding f (acknowledged_row actor now f)"
  "same_finding f (suppressed_row actor reason until now f)"
  by (simp_all add: same_finding_def row_defs)

lemma row_updates_id [simp]:
  "fi_finding_id (new_finding rid now db_now c) = finding_id_for_dedupe (fc_dedupe_key c)"
  "fi_finding_id (seen_again rid now c f) = fi_finding_id f"
  "fi_finding_id (resolved_row rid now f) = fi_finding_id f"
  "fi_finding_id (acknowledged_row actor now f) = fi_finding_id f"
  "fi_finding_id (suppressed_row actor reason until now f) = fi_finding_id f"
  by (simp_all add: row_defs)

lemma same_finding_refl [simp]: "same_finding f f"
  by (simp add: same_finding_def)

lemma same_finding_trans [trans]: "same_finding f g \<Longrightarrow> same_finding g h \<Longrightarrow> same_finding f h"
  by (simp add: same_finding_def)

lemma row_ok_new: "finding_checks (new_finding rid now db_now c) \<Longrightarrow> row_ok (new_finding rid now db_now c)"
  by (simp add: row_ok_def row_defs)

lemma status_when_seen_open: "status_when_seen now f \<noteq> ''resolved''"
  by (simp add: status_when_seen_def)

lemma row_ok_seen_again:
  "row_ok f \<Longrightarrow> fi_evaluated_at f \<le> now \<Longrightarrow> finding_checks (seen_again rid now c f) \<Longrightarrow>
   row_ok (seen_again rid now c f)"
  by (simp add: row_ok_def seen_again_def status_when_seen_open)

lemma row_ok_resolved: "row_ok f \<Longrightarrow> fi_evaluated_at f \<le> now \<Longrightarrow> row_ok (resolved_row rid now f)"
  by (auto simp: row_ok_def resolved_row_def finding_checks_def FINDING_STATUSES_def)

lemma row_ok_acknowledged:
  "row_ok f \<Longrightarrow> fi_status f \<in> {''active'', ''acknowledged''} \<Longrightarrow> row_ok (acknowledged_row actor now f)"
  by (auto simp: row_ok_def acknowledged_row_def finding_checks_def FINDING_STATUSES_def)

lemma row_ok_suppressed:
  "row_ok f \<Longrightarrow> fi_status f \<in> {''active'', ''acknowledged'', ''suppressed''} \<Longrightarrow>
   row_ok (suppressed_row actor reason until now f)"
  by (auto simp: row_ok_def suppressed_row_def finding_checks_def FINDING_STATUSES_def)

section \<open>Tables\<close>

definition evidence_ok :: "finding_db \<Rightarrow> bool" where
  "evidence_ok db \<longleftrightarrow>
     distinct (map (\<lambda>(fid, e). (fid, ref_evidence_ref e)) (fd_evidence db)) \<and>
     (\<forall>(fid, e) \<in> set (fd_evidence db). evidence_checks e \<and> fid \<in> fi_finding_id ` set (fd_findings db))"

definition store_ok :: "finding_db \<Rightarrow> bool" where
  "store_ok db \<longleftrightarrow>
     distinct (map run_id (fd_runs db)) \<and> distinct (map fi_finding_id (fd_findings db)) \<and>
     (\<forall>f \<in> set (fd_findings db). row_ok f \<and> fi_site_id f \<in> set (fd_sites db) \<and>
        run_exists (fi_last_evaluation_run_id f) db) \<and>
     evidence_ok db"

lemma store_okD:
  assumes "store_ok db" "f \<in> set (fd_findings db)"
  shows "row_ok f" "fi_site_id f \<in> set (fd_sites db)" "run_exists (fi_last_evaluation_run_id f) db"
  using assms by (auto simp: store_ok_def)

text \<open>Identifiers and deduplication keys are unique.\<close>

lemma store_ok_unique:
  assumes "store_ok db" "f \<in> set (fd_findings db)" "g \<in> set (fd_findings db)"
    and "fi_finding_id f = fi_finding_id g \<or> fi_dedupe_key f = fi_dedupe_key g"
  shows "f = g"
proof -
  have "fi_finding_id f = fi_finding_id g"
    using assms store_okD(1) [OF assms(1)] by (auto simp: row_ok_def)
  then show ?thesis using assms(1-3) by (auto simp: store_ok_def distinct_map dest: inj_onD)
qed

lemma fi_ids_update_where [simp]:
  assumes "\<And>f. fi_finding_id (g f) = fi_finding_id f"
  shows "map fi_finding_id (fd_findings (update_where p g db)) = map fi_finding_id (fd_findings db)"
  by (simp add: update_where_def assms)

lemma update_where_parts [simp]:
  "fd_runs (update_where p g db) = fd_runs db" "fd_sites (update_where p g db) = fd_sites db"
  "fd_evidence (update_where p g db) = fd_evidence db"
  "fd_asset_risk (update_where p g db) = fd_asset_risk db"
  "fd_site_risk (update_where p g db) = fd_site_risk db"
  "fd_risk_factors (update_where p g db) = fd_risk_factors db"
  "run_exists rid (update_where p g db) = run_exists rid db"
  by (simp_all add: update_where_def run_exists_def)

lemma set_update_where:
  "set (fd_findings (update_where p g db)) = (\<lambda>f. if p f then g f else f) ` set (fd_findings db)"
  by (auto simp: update_where_def)

lemma image_ids_update_where [simp]:
  assumes "\<And>f. fi_finding_id (g f) = fi_finding_id f"
  shows "fi_finding_id ` set (fd_findings (update_where p g db)) = fi_finding_id ` set (fd_findings db)"
  using arg_cong [OF fi_ids_update_where [OF assms, of p db], of set] by simp

lemma store_ok_update_where:
  assumes ok: "store_ok db" and ids: "\<And>f. fi_finding_id (g f) = fi_finding_id f"
    and row: "\<And>f. f \<in> set (fd_findings db) \<Longrightarrow> p f \<Longrightarrow>
      row_ok (g f) \<and> fi_site_id (g f) = fi_site_id f \<and> run_exists (fi_last_evaluation_run_id (g f)) db"
  shows "store_ok (update_where p g db)"
proof -
  have "evidence_ok (update_where p g db)"
    using ok by (simp add: store_ok_def evidence_ok_def ids)
  moreover have "\<forall>f \<in> set (fd_findings (update_where p g db)). row_ok f \<and>
      fi_site_id f \<in> set (fd_sites db) \<and> run_exists (fi_last_evaluation_run_id f) db"
    using store_okD [OF ok] row by (auto simp: set_update_where)
  ultimately show ?thesis using ok by (simp add: store_ok_def ids)
qed

section \<open>Writing candidates\<close>

lemma find_key:
  assumes "store_ok db" "f \<in> set (fd_findings db)" "fi_dedupe_key f = key"
  shows "find (\<lambda>g. fi_dedupe_key g = key) (fd_findings db) = Some f"
proof (cases "find (\<lambda>g. fi_dedupe_key g = key) (fd_findings db)")
  case None
  then show ?thesis using assms by (auto simp: find_None_iff)
next
  case (Some g)
  then have "g \<in> set (fd_findings db)" "fi_dedupe_key g = key" by (auto simp: find_Some_iff)
  then show ?thesis using Some store_ok_unique [OF assms(1), of g f] assms by auto
qed

lemma upsert_cases:
  assumes "upsert_finding rid now db_now c db = Inr (db', w)"
  obtains (stale) f where "f \<in> set (fd_findings db)" "fi_dedupe_key f = fc_dedupe_key c"
      "now < fi_evaluated_at f" "db' = db" "\<not> w"
  | (again) f where "find (\<lambda>f. fi_dedupe_key f = fc_dedupe_key c) (fd_findings db) = Some f"
      "fi_evaluated_at f \<le> now" "finding_checks (seen_again rid now c f)" "run_exists rid db" "w"
      "db' = update_where (\<lambda>r. fi_dedupe_key r = fc_dedupe_key c) (seen_again rid now c) db"
  | (new) "find (\<lambda>f. fi_dedupe_key f = fc_dedupe_key c) (fd_findings db) = None"
      "finding_id_for_dedupe (fc_dedupe_key c) \<notin> fi_finding_id ` set (fd_findings db)"
      "finding_checks (new_finding rid now db_now c)" "fc_site_id c \<in> set (fd_sites db)"
      "run_exists rid db" "w" "db' = db\<lparr>fd_findings := fd_findings db @ [new_finding rid now db_now c]\<rparr>"
proof (cases "find (\<lambda>f. fi_dedupe_key f = fc_dedupe_key c) (fd_findings db)")
  case None
  show ?thesis
    by (rule new [OF None]) (use assms None in \<open>simp_all add: upsert_finding_def Let_def split: if_splits\<close>)
next
  case (Some f)
  then have f: "f \<in> set (fd_findings db)" "fi_dedupe_key f = fc_dedupe_key c"
    by (auto simp: find_Some_iff)
  show ?thesis
  proof (cases "now < fi_evaluated_at f")
    case True
    then show ?thesis using assms Some
      by (intro stale [OF f]) (simp_all add: upsert_finding_def Let_def split: if_splits)
  next
    case False
    then show ?thesis using assms Some
      by (intro again [OF Some]) (simp_all add: upsert_finding_def Let_def split: if_splits)
  qed
qed

text \<open>Evidence is written for a finding that exists, and nothing else changes.\<close>

lemma insert_evidence_parts:
  "insert_evidence fid es db = Inr db' \<Longrightarrow>
   db' = db\<lparr>fd_evidence := fd_evidence db @ map (Pair fid) es\<rparr>"
  by (induction fid es db rule: insert_evidence.induct) (auto split: if_splits)

lemma insert_evidence_ok:
  "insert_evidence fid es db = Inr db' \<Longrightarrow> evidence_ok db \<Longrightarrow> evidence_ok db'"
proof (induction fid es db rule: insert_evidence.induct)
  case (2 fid e es db)
  have "evidence_ok (db\<lparr>fd_evidence := fd_evidence db @ [(fid, e)]\<rparr>)"
    using 2(2,3) by (auto simp: evidence_ok_def list_ex_iff split: if_splits)
  then show ?case using 2 by (simp split: if_splits)
qed simp

lemma delete_evidence_parts [simp]:
  "fd_findings (delete_evidence fid db) = fd_findings db" "fd_runs (delete_evidence fid db) = fd_runs db"
  "fd_sites (delete_evidence fid db) = fd_sites db"
  by (simp_all add: delete_evidence_def)

lemma delete_evidence_ok: "evidence_ok db \<Longrightarrow> evidence_ok (delete_evidence fid db)"
  by (auto simp: evidence_ok_def delete_evidence_def distinct_map inj_on_def)

lemma replace_evidence:
  assumes "insert_evidence fid es (delete_evidence fid db) = Inr db'"
  shows "db' = db\<lparr>fd_evidence := filter (\<lambda>(i, e). i \<noteq> fid) (fd_evidence db) @ map (Pair fid) es\<rparr>"
  using insert_evidence_parts [OF assms] by (simp add: delete_evidence_def)

lemma store_ok_evidence:
  assumes "store_ok db" "insert_evidence fid es (delete_evidence fid db) = Inr db'"
  shows "store_ok db'"
proof -
  have "evidence_ok db'"
    using insert_evidence_ok [OF assms(2)] delete_evidence_ok assms(1) by (simp add: store_ok_def)
  then show ?thesis
    using assms(1) by (simp add: store_ok_def replace_evidence [OF assms(2)] run_exists_def)
qed

lemma store_ok_upsert:
  assumes ok: "store_ok db" and up: "upsert_finding rid now db_now c db = Inr (db', w)"
  shows "store_ok db'"
  using up
proof (cases rule: upsert_cases)
  case stale
  then show ?thesis using ok by simp
next
  case (again f)
  have "row_ok (seen_again rid now c g) \<and> fi_site_id (seen_again rid now c g) = fi_site_id g \<and>
      run_exists (fi_last_evaluation_run_id (seen_again rid now c g)) db"
    if g: "g \<in> set (fd_findings db)" "fi_dedupe_key g = fc_dedupe_key c" for g
  proof -
    have "g = f" using find_key [OF ok g] again(1) by simp
    then show ?thesis
      using again row_ok_seen_again [OF store_okD(1) [OF ok g(1)]] by (simp add: seen_again_def)
  qed
  then show ?thesis unfolding again(6) by (intro store_ok_update_where ok) simp_all
next
  case new
  have "row_ok (new_finding rid now db_now c)" "fi_site_id (new_finding rid now db_now c) = fc_site_id c"
    "fi_last_evaluation_run_id (new_finding rid now db_now c) = rid"
    using new(3) by (simp_all add: row_ok_new) (simp_all add: new_finding_def)
  then show ?thesis using ok new(2,4,5) unfolding new(7)
    by (auto simp: store_ok_def evidence_ok_def run_exists_def)
qed

text \<open>How one operation of a reconciliation can change a row that a candidate matches.\<close>

definition written_row :: "instant \<Rightarrow> stored_finding \<Rightarrow> stored_finding \<Rightarrow> bool" where
  "written_row now f g \<longleftrightarrow>
     same_finding f g \<and> fi_last_seen_at f \<le> fi_last_seen_at g \<and> fi_evaluated_at f \<le> fi_evaluated_at g \<and>
     (fi_status g = fi_status f \<or>
      fi_status g = ''active'' \<and> fi_status f \<in> {''resolved'', ''suppressed''}) \<and>
     fi_reopen_count g =
       fi_reopen_count f + (if fi_status f = ''resolved'' \<and> fi_status g \<noteq> ''resolved'' then 1 else 0) \<and>
     (now < fi_evaluated_at f \<longrightarrow> g = f) \<and> (g \<noteq> f \<longrightarrow> fi_evaluated_at g = now)"

lemma written_row_refl [simp]: "written_row now f f"
  by (simp add: written_row_def)

lemma written_row_trans: "written_row now f g \<Longrightarrow> written_row now g h \<Longrightarrow> written_row now f h"
  unfolding written_row_def by (auto intro: same_finding_trans)

lemma written_seen_again:
  assumes "row_ok f" "fi_evaluated_at f \<le> now"
  shows "written_row now f (seen_again rid now c f)"
  using assms by (auto simp: written_row_def row_ok_def seen_again_def status_when_seen_def same_finding_def)

lemma upsert_row:
  assumes ok: "store_ok db" and up: "upsert_finding rid now db_now c db = Inr (db', w)"
    and f: "f \<in> set (fd_findings db)"
  shows "\<exists>g \<in> set (fd_findings db'). written_row now f g \<and>
           (fi_dedupe_key f \<noteq> fc_dedupe_key c \<longrightarrow> g = f)"
  using up
proof (cases rule: upsert_cases)
  case (stale h)
  then show ?thesis using f by (intro bexI [of _ f]) simp_all
next
  case (again h)
  show ?thesis
  proof (cases "fi_dedupe_key f = fc_dedupe_key c")
    case True
    then have "f = h" using find_key [OF ok f] again(1) by simp
    then show ?thesis
      using True f again written_seen_again [OF store_okD(1) [OF ok f]]
      by (intro bexI [of _ "seen_again rid now c f"]) (auto simp: set_update_where)
  next
    case False
    then show ?thesis using f unfolding again(6)
      by (intro bexI [of _ f]) (auto simp: set_update_where intro!: rev_image_eqI [of f])
  qed
next
  case new
  then show ?thesis using f by (intro bexI [of _ f]) simp_all
qed

lemma write_candidates_ok:
  "write_candidates rid now db_now scoped cs db r = Inr (db', r') \<Longrightarrow> store_ok db \<Longrightarrow> store_ok db'"
proof (induction cs arbitrary: db r)
  case (Cons c cs)
  from Cons.prems obtain db1 w where up: "upsert_finding rid now db_now c db = Inr (db1, w)"
    by (auto simp: bind_result_eq_Inr_iff split: prod.splits)
  note ok = store_ok_upsert [OF Cons.prems(2) up]
  show ?case
  proof (cases w)
    case False
    then show ?thesis using Cons.prems up Cons.IH [OF _ ok] by simp
  next
    case True
    then show ?thesis using Cons.prems up Cons.IH store_ok_evidence [OF ok]
      by (auto simp: Let_def bind_result_eq_Inr_iff)
  qed
qed simp

lemma write_candidates_row:
  assumes "write_candidates rid now db_now scoped cs db r = Inr (db', r')" "store_ok db"
    and "f \<in> set (fd_findings db)"
  shows "\<exists>g \<in> set (fd_findings db'). written_row now f g \<and>
           (fi_dedupe_key f \<notin> fc_dedupe_key ` set cs \<longrightarrow> g = f)"
  using assms
proof (induction cs arbitrary: db r f)
  case Nil
  then show ?case by (intro bexI [of _ f]) simp_all
next
  case (Cons c cs)
  from Cons.prems(1) obtain db1 w where up: "upsert_finding rid now db_now c db = Inr (db1, w)"
    by (auto simp: bind_result_eq_Inr_iff split: prod.splits)
  note ok = store_ok_upsert [OF Cons.prems(2) up]
  obtain g where g: "g \<in> set (fd_findings db1)" "written_row now f g"
    "fi_dedupe_key f \<noteq> fc_dedupe_key c \<longrightarrow> g = f"
    using upsert_row [OF Cons.prems(2) up Cons.prems(3)] by blast
  have "\<exists>h \<in> set (fd_findings db'). written_row now g h \<and>
      (fi_dedupe_key g \<notin> fc_dedupe_key ` set cs \<longrightarrow> h = g)"
  proof (cases w)
    case False
    then show ?thesis using Cons.prems(1) up by (intro Cons.IH [OF _ ok g(1)]) simp
  next
    case True
    obtain db2 where ev: "insert_evidence (finding_id_for_dedupe (fc_dedupe_key c)) (fc_evidence c)
        (delete_evidence (finding_id_for_dedupe (fc_dedupe_key c)) db1) = Inr db2"
      and rest: "write_candidates rid now db_now scoped cs db2
        (count_seen (previous_row scoped (fc_dedupe_key c)) r) = Inr (db', r')"
      using Cons.prems(1) up True by (auto simp: Let_def bind_result_eq_Inr_iff)
    show ?thesis
      by (rule Cons.IH [OF rest store_ok_evidence [OF ok ev]])
         (use g(1) in \<open>simp add: replace_evidence [OF ev]\<close>)
  qed
  then obtain h where h: "h \<in> set (fd_findings db')" "written_row now g h"
    "fi_dedupe_key g \<notin> fc_dedupe_key ` set cs \<longrightarrow> h = g" by blast
  moreover have "fi_dedupe_key g = fi_dedupe_key f"
    using g(2) by (simp add: written_row_def same_finding_def)
  ultimately show ?case
    using written_row_trans [OF g(2) h(2)] g(3) by (intro bexI [OF _ h(1)]) auto
qed

section \<open>Resolving rows\<close>

text \<open>The rows a reconciliation resolves, among those it read.\<close>

definition resolvable :: "EvaluationSnapshot \<Rightarrow> instant \<Rightarrow> stored_finding list \<Rightarrow> stored_finding \<Rightarrow> bool" where
  "resolvable snapshot now rows f \<longleftrightarrow>
     fi_evaluated_at f \<le> now \<and>
     (\<exists>row \<in> set rows. to_resolve snapshot row \<and> fi_finding_id row = fi_finding_id f)"

lemma resolved_row_idem:
  "resolved_row rid now (resolved_row rid now f) = resolved_row rid now f"
  "fi_evaluated_at (resolved_row rid now f) = now"
  by (simp_all add: resolved_row_def)

lemma resolve_rows_findings:
  "resolve_rows rid now snapshot rows db r = Inr (db', r') \<Longrightarrow>
   db' = update_where (resolvable snapshot now rows) (resolved_row rid now) db"
proof (induction rows arbitrary: db r)
  case Nil
  have "map (\<lambda>f. if False then resolved_row rid now f else f) (fd_findings db) = fd_findings db"
    by simp
  then show ?case using Nil by (simp add: update_where_def resolvable_def)
next
  case (Cons row rows)
  let ?chosen = "\<lambda>f. fi_finding_id f = fi_finding_id row \<and> fi_evaluated_at f \<le> now"
  show ?case
  proof (cases "to_resolve snapshot row")
    case False
    then have "resolvable snapshot now (row # rows) = resolvable snapshot now rows"
      by (auto simp: resolvable_def fun_eq_iff)
    then show ?thesis using Cons False by simp
  next
    case True
    then have "db' = update_where (resolvable snapshot now rows) (resolved_row rid now)
        (update_where ?chosen (resolved_row rid now) db)"
      using Cons by (auto simp: Let_def split: if_splits)
    also have "\<dots> = update_where (resolvable snapshot now (row # rows)) (resolved_row rid now) db"
    proof -
      let ?first = "\<lambda>f. if ?chosen f then resolved_row rid now f else f"
      have "(if resolvable snapshot now rows (?first f) then resolved_row rid now (?first f) else ?first f) =
          (if resolvable snapshot now (row # rows) f then resolved_row rid now f else f)" for f
        using True by (auto simp: resolvable_def resolved_row_idem)
      then show ?thesis by (simp add: update_where_def o_def)
    qed
    finally show ?thesis .
  qed
qed

lemma scope_rows_in:
  assumes "scope_rows sc db = Inr rows"
  shows "row \<in> set rows \<longleftrightarrow> row \<in> set (fd_findings db) \<and> row_in_scope sc row"
proof -
  let ?all = "sort_key (\<lambda>f. (- fi_updated_at f, fi_finding_id f)) (filter (row_in_scope sc) (fd_findings db))"
  have "\<not> MAX_RECONCILE_RECORDS < length (take (MAX_RECONCILE_RECORDS + 1) ?all)"
    "rows = take (MAX_RECONCILE_RECORDS + 1) ?all"
    using assms by (auto simp: scope_rows_def Let_def split: if_splits)
  then have "rows = ?all" by (simp add: take_all)
  then show ?thesis by auto
qed

lemma reconcile_parts:
  assumes "reconcile rid snapshot now db_now sc db = Inr (db', r)"
  obtains scoped mid r1 where "scope_rows sc db = Inr scoped"
    "write_candidates rid now db_now scoped (es_candidates snapshot) db no_changes = Inr (mid, r1)"
    "resolve_rows rid now snapshot scoped mid r1 = Inr (db', r)"
  using assms by (auto simp: reconcile_def bind_result_eq_Inr_iff)

lemma resolve_rows_run:
  "resolve_rows rid now snapshot rows db r = Inr (db', r') \<Longrightarrow> f \<in> set (fd_findings db) \<Longrightarrow>
   resolvable snapshot now rows f \<Longrightarrow> run_exists rid db"
proof (induction rows arbitrary: db r)
  case (Cons row rows)
  let ?chosen = "\<lambda>f. fi_finding_id f = fi_finding_id row \<and> fi_evaluated_at f \<le> now"
  show ?case
  proof (cases "to_resolve snapshot row \<and> ?chosen f")
    case True
    then have "0 < count_where ?chosen db"
      using Cons.prems(2) by (auto simp: count_where_def filter_empty_conv)
    then show ?thesis using Cons.prems(1) True by (auto simp: Let_def split: if_splits)
  next
    case False
    then have *: "resolvable snapshot now rows f" using Cons.prems(3) by (auto simp: resolvable_def)
    show ?thesis
    proof (cases "to_resolve snapshot row")
      case True
      then have kept: "f \<in> set (fd_findings (update_where ?chosen (resolved_row rid now) db))"
        using False Cons.prems(2) by (auto simp: set_update_where intro!: rev_image_eqI [of f])
      have "resolve_rows rid now snapshot rows (update_where ?chosen (resolved_row rid now) db)
          (r\<lparr>rr_resolved := rr_resolved r + count_where ?chosen db\<rparr>) = Inr (db', r')"
        using Cons.prems(1) True by (simp add: Let_def split: if_splits)
      from Cons.IH [OF this kept *] show ?thesis by simp
    next
      case False
      then show ?thesis using Cons.IH [OF _ Cons.prems(2) *] Cons.prems(1) by simp
    qed
  qed
qed (simp add: resolvable_def)

lemma store_ok_resolve:
  assumes "store_ok db" "resolve_rows rid now snapshot rows db r = Inr (db', r')"
  shows "store_ok db'"
  unfolding resolve_rows_findings [OF assms(2)]
proof (rule store_ok_update_where [OF assms(1)])
  fix f assume f: "f \<in> set (fd_findings db)" "resolvable snapshot now rows f"
  then have "row_ok (resolved_row rid now f)"
    using row_ok_resolved store_okD(1) [OF assms(1) f(1)] by (simp add: resolvable_def)
  then show "row_ok (resolved_row rid now f) \<and> fi_site_id (resolved_row rid now f) = fi_site_id f \<and>
      run_exists (fi_last_evaluation_run_id (resolved_row rid now f)) db"
    using resolve_rows_run [OF assms(2) f] by (simp add: resolved_row_def)
qed simp

lemma store_ok_reconcile:
  assumes "store_ok db" "reconcile rid snapshot now db_now sc db = Inr (db', r)"
  shows "store_ok db'"
  using assms(2)
proof (rule reconcile_parts)
  fix scoped mid r1
  assume "write_candidates rid now db_now scoped (es_candidates snapshot) db no_changes = Inr (mid, r1)"
    "resolve_rows rid now snapshot scoped mid r1 = Inr (db', r)"
  then show ?thesis using write_candidates_ok [OF _ assms(1)] store_ok_resolve by blast
qed

text \<open>What a reconciliation does to a row: a candidate rewrites it, or it is resolved, or it stays.\<close>

lemma reconcile_row:
  assumes ok: "store_ok db" and run: "reconcile rid snapshot now db_now sc db = Inr (db', r)"
    and f: "f \<in> set (fd_findings db)"
  obtains (candidate) g where "g \<in> set (fd_findings db')" "written_row now f g"
      "fi_dedupe_key f \<in> fc_dedupe_key ` set (es_candidates snapshot)"
  | (resolved) "resolved_row rid now f \<in> set (fd_findings db')" "to_resolve snapshot f"
      "row_in_scope sc f" "fi_evaluated_at f \<le> now"
  | (kept) "f \<in> set (fd_findings db')"
proof -
  obtain scoped mid r1 where parts: "scope_rows sc db = Inr scoped"
    "write_candidates rid now db_now scoped (es_candidates snapshot) db no_changes = Inr (mid, r1)"
    "resolve_rows rid now snapshot scoped mid r1 = Inr (db', r)"
    using run by (rule reconcile_parts)
  obtain g where g: "g \<in> set (fd_findings mid)" "written_row now f g"
    "fi_dedupe_key f \<notin> fc_dedupe_key ` set (es_candidates snapshot) \<longrightarrow> g = f"
    using write_candidates_row [OF parts(2) ok f] by blast
  have same: "same_finding f g" using g(2) by (simp add: written_row_def)
  have chosen: "to_resolve snapshot f \<and> row_in_scope sc f \<and> fi_evaluated_at g \<le> now"
    if res: "resolvable snapshot now scoped g"
  proof -
    obtain row where row: "row \<in> set scoped" "to_resolve snapshot row"
      "fi_finding_id row = fi_finding_id g" "fi_evaluated_at g \<le> now"
      using res by (auto simp: resolvable_def)
    then have "row = f"
      using store_ok_unique [OF ok _ f, of row] same scope_rows_in [OF parts(1)]
      by (auto simp: same_finding_def)
    then show ?thesis using row scope_rows_in [OF parts(1)] by auto
  qed
  have final: "(if resolvable snapshot now scoped g then resolved_row rid now g else g)
      \<in> set (fd_findings db')"
    using g(1) unfolding resolve_rows_findings [OF parts(3)] set_update_where by blast
  show ?thesis
  proof (cases "resolvable snapshot now scoped g")
    case True
    then have "g = f" using chosen g(3) by (simp add: to_resolve_def)
    then show ?thesis using True chosen final resolved by simp
  next
    case False
    then show ?thesis using final g candidate kept by (cases "g = f") auto
  qed
qed

end
