(* ===== verification/Finding_Lifecycle.thy ===== *)
theory Finding_Lifecycle
  imports Finding_Store_Laws
begin

text \<open>
  The finding store as a state machine: one step per operation of \<^verbatim>\<open>SqlFindingStore\<close>, the states reachable from
  empty tables, and what holds in all of them and across every step.
\<close>

section \<open>Steps\<close>

inductive store_step :: "finding_db \<Rightarrow> finding_db \<Rightarrow> bool" where
  begin_step: "begin_run rid trigger requested_by sc ruleset now db = Inr db' \<Longrightarrow> store_step db db'"
| fail_step: "store_step db (fail_run rid now error db)"
| complete_step: "store_step db (complete_run rid snapshot res now db)"
| reconcile_step: "reconcile rid snapshot now db_now sc db = Inr (db', res) \<Longrightarrow> store_step db db'"
| acknowledge_step: "store_step db (fst (acknowledge fid actor now db))"
| suppress_step: "store_step db (fst (suppress fid actor reason until now db))"
| risk_step: "replace_risk rid assets sites calculated snapshot_at site db = Inr db' \<Longrightarrow> store_step db db'"

definition empty_store :: "string list \<Rightarrow> finding_db" where
  "empty_store sites =
     \<lparr> fd_sites = sites, fd_runs = [], fd_findings = [], fd_evidence = [], fd_asset_risk = [],
       fd_site_risk = [], fd_risk_factors = [] \<rparr>"

inductive store_reachable :: "string list \<Rightarrow> finding_db \<Rightarrow> bool" for sites where
  start: "store_reachable sites (empty_store sites)"
| step: "store_reachable sites db \<Longrightarrow> store_step db db' \<Longrightarrow> store_reachable sites db'"

section \<open>Operations that leave the findings alone\<close>

definition same_findings :: "finding_db \<Rightarrow> finding_db \<Rightarrow> bool" where
  "same_findings db db' \<longleftrightarrow>
     fd_findings db' = fd_findings db \<and> fd_evidence db' = fd_evidence db \<and> fd_sites db' = fd_sites db"

lemma each_stored_keeps:
  assumes "each_stored f xs db = Inr db'" "\<And>x db db'. f x db = Inr db' \<Longrightarrow> P db \<Longrightarrow> P db'" "P db"
  shows "P db'"
  using assms(1,3)
proof (induction xs arbitrary: db)
  case (Cons x xs)
  then show ?case using assms(2) by (auto simp: bind_result_eq_Inr_iff)
qed simp

definition only_risk :: "finding_db \<Rightarrow> finding_db \<Rightarrow> bool" where
  "only_risk db db' \<longleftrightarrow> same_findings db db' \<and> fd_runs db' = fd_runs db"

lemma insert_factor_only_risk:
  "insert_factor subject_type site_id asset_id rid factor db' = Inr db'' \<Longrightarrow> only_risk db db' \<Longrightarrow>
   only_risk db db''"
  by (auto simp: insert_factor_def only_risk_def same_findings_def split: if_splits)

lemma insert_factors_only_risk:
  assumes "insert_factors subject_type site_id asset_id rid factors db' = Inr db''" "only_risk db db'"
  shows "only_risk db db''"
  by (rule each_stored_keeps [where P = "only_risk db", OF assms(1) [unfolded insert_factors_def]
      insert_factor_only_risk assms(2)])

lemma insert_scores_only_risk:
  "insert_asset_score rid now score db' = Inr db'' \<Longrightarrow> only_risk db db' \<Longrightarrow> only_risk db db''"
  "insert_site_score rid now sscore db' = Inr db'' \<Longrightarrow> only_risk db db' \<Longrightarrow> only_risk db db''"
  by (auto simp: insert_asset_score_def insert_site_score_def split: if_splits
        elim!: insert_factors_only_risk) (auto simp: only_risk_def same_findings_def)

lemma replace_risk_only_risk:
  assumes "replace_risk rid assets sites calculated snapshot_at site db = Inr db'"
  shows "only_risk db db'"
proof (cases "db' = db")
  case True
  then show ?thesis by (simp add: only_risk_def same_findings_def)
next
  case False
  then obtain mid where mid:
    "each_stored (insert_asset_score rid calculated) assets (clear_risk site db) = Inr mid"
    "each_stored (insert_site_score rid calculated) sites mid = Inr db'"
    using assms by (auto simp: replace_risk_def bind_result_eq_Inr_iff split: if_splits)
  have "only_risk db (clear_risk site db)" by (simp add: clear_risk_def only_risk_def same_findings_def)
  from each_stored_keeps [where P = "only_risk db", OF mid(1) insert_scores_only_risk(1) this]
  have "only_risk db mid" .
  from each_stored_keeps [where P = "only_risk db", OF mid(2) insert_scores_only_risk(2) this]
  show ?thesis .
qed

lemma run_updates [simp]:
  "same_findings db (update_running rid f db)"
  "(\<And>r. run_id (f r) = run_id r) \<Longrightarrow>
   map run_id (fd_runs (update_running rid f db)) = map run_id (fd_runs db)"
  by (simp_all add: update_running_def same_findings_def)

lemma store_ok_runs:
  assumes "store_ok db" "same_findings db db'" "distinct (map run_id (fd_runs db'))"
    and "run_id ` set (fd_runs db) \<subseteq> run_id ` set (fd_runs db')"
  shows "store_ok db'"
  using assms by (auto simp: store_ok_def same_findings_def run_exists_def evidence_ok_def)

lemma store_ok_update_running:
  assumes "store_ok db" "\<And>r. run_id (f r) = run_id r"
  shows "store_ok (update_running rid f db)"
proof (rule store_ok_runs [OF assms(1)])
  have ids: "map run_id (fd_runs (update_running rid f db)) = map run_id (fd_runs db)"
    by (simp add: assms(2))
  then show "distinct (map run_id (fd_runs (update_running rid f db)))"
    using assms(1) by (simp add: store_ok_def)
  show "run_id ` set (fd_runs db) \<subseteq> run_id ` set (fd_runs (update_running rid f db))"
    using arg_cong [OF ids, of set] by simp
qed simp

lemma begin_run_Inr:
  assumes "begin_run rid trigger requested_by sc ruleset now db = Inr db'"
  obtains run where "db' = db\<lparr>fd_runs := fd_runs db @ [run]\<rparr>" "run_id run = rid"
    "run_status run = ''running''" "\<not> run_exists rid db"
  using assms by (auto simp: begin_run_def split: if_splits)

section \<open>Administration\<close>

lemma administer_cases:
  obtains "administer statuses f fid db = (db, None)"
  | r where "r \<in> set (fd_findings db)" "fi_finding_id r = fid" "fi_status r \<in> set statuses"
      "fst (administer statuses f fid db) =
         update_where (\<lambda>r. fi_finding_id r = fid \<and> fi_status r \<in> set statuses) f db"
proof (cases "find (\<lambda>r. fi_finding_id r = fid \<and> fi_status r \<in> set statuses) (fd_findings db)")
  case None
  then show ?thesis using that(1) by (simp add: administer_def)
next
  case (Some r)
  moreover have "r \<in> set (fd_findings db)" "fi_finding_id r = fid" "fi_status r \<in> set statuses"
    using Some by (auto simp: find_Some_iff)
  ultimately show ?thesis using that(2) by (simp add: administer_def)
qed

lemma store_ok_administer:
  assumes ok: "store_ok db" and ids: "\<And>r. fi_finding_id (f r) = fi_finding_id r"
    and row: "\<And>r. row_ok r \<Longrightarrow> fi_status r \<in> set statuses \<Longrightarrow> row_ok (f r) \<and>
      fi_site_id (f r) = fi_site_id r \<and> fi_last_evaluation_run_id (f r) = fi_last_evaluation_run_id r"
  shows "store_ok (fst (administer statuses f fid db))"
proof (rule administer_cases [of statuses f fid db])
  assume "administer statuses f fid db = (db, None)"
  then show ?thesis using ok by simp
next
  assume "fst (administer statuses f fid db) =
    update_where (\<lambda>r. fi_finding_id r = fid \<and> fi_status r \<in> set statuses) f db"
  then show ?thesis using store_okD [OF ok] row by (auto intro!: store_ok_update_where [OF ok ids])
qed

lemma administered_fields [simp]:
  "fi_site_id (acknowledged_row actor now r) = fi_site_id r"
  "fi_last_evaluation_run_id (acknowledged_row actor now r) = fi_last_evaluation_run_id r"
  "fi_site_id (suppressed_row actor reason until now r) = fi_site_id r"
  "fi_last_evaluation_run_id (suppressed_row actor reason until now r) = fi_last_evaluation_run_id r"
  by (simp_all add: row_defs)

section \<open>The invariant\<close>

lemma store_ok_empty: "store_ok (empty_store sites)"
  by (simp add: store_ok_def empty_store_def evidence_ok_def)

lemma store_ok_step:
  assumes "store_step db db'" "store_ok db"
  shows "store_ok db'"
  using assms
proof cases
  case (begin_step rid trigger requested_by sc ruleset now)
  then obtain run where "db' = db\<lparr>fd_runs := fd_runs db @ [run]\<rparr>" "run_id run = rid" "\<not> run_exists rid db"
    by (auto elim: begin_run_Inr)
  then show ?thesis using assms(2)
    by (intro store_ok_runs [OF assms(2)]) (auto simp: same_findings_def store_ok_def run_exists_def)
next
  case fail_step
  then show ?thesis using assms(2) by (simp add: fail_run_def store_ok_update_running)
next
  case complete_step
  then show ?thesis using assms(2) by (simp add: complete_run_def store_ok_update_running)
next
  case reconcile_step
  then show ?thesis using store_ok_reconcile assms(2) by blast
next
  case acknowledge_step
  then show ?thesis using assms(2) unfolding acknowledge_def
    by (auto intro!: store_ok_administer row_ok_acknowledged)
next
  case suppress_step
  then show ?thesis using assms(2) unfolding suppress_def
    by (auto intro!: store_ok_administer row_ok_suppressed)
next
  case risk_step
  then have "only_risk db db'" by (simp add: replace_risk_only_risk)
  then show ?thesis using assms(2) by (intro store_ok_runs [OF assms(2)]) (auto simp: only_risk_def store_ok_def)
qed

lemma store_reachable_ok: "store_reachable sites db \<Longrightarrow> store_ok db"
  by (induction rule: store_reachable.induct) (auto simp: store_ok_empty intro: store_ok_step)

section \<open>The life of a finding\<close>

text \<open>The changes of status; every other pair of different statuses is impossible in one operation.\<close>

definition LIFECYCLE :: "(string \<times> string) list" where
  "LIFECYCLE =
     [(''active'', ''acknowledged''), (''active'', ''suppressed''), (''active'', ''resolved''),
      (''acknowledged'', ''suppressed''), (''acknowledged'', ''resolved''),
      (''suppressed'', ''active''), (''suppressed'', ''resolved''), (''resolved'', ''active'')]"

definition aged :: "stored_finding \<Rightarrow> stored_finding \<Rightarrow> bool" where
  "aged f g \<longleftrightarrow>
     same_finding f g \<and> fi_last_seen_at f \<le> fi_last_seen_at g \<and> fi_evaluated_at f \<le> fi_evaluated_at g \<and>
     (fi_status g = fi_status f \<or> (fi_status f, fi_status g) \<in> set LIFECYCLE) \<and>
     fi_reopen_count g =
       fi_reopen_count f + (if fi_status f = ''resolved'' \<and> fi_status g \<noteq> ''resolved'' then 1 else 0)"

lemma aged_refl [simp]: "aged f f"
  by (simp add: aged_def)

lemma aged_written: "written_row now f g \<Longrightarrow> aged f g"
  by (auto simp: aged_def written_row_def LIFECYCLE_def)

lemma row_status_known: "row_ok f \<Longrightarrow> fi_status f \<in> set FINDING_STATUSES"
  by (simp add: row_ok_def finding_checks_def)

lemma aged_resolved:
  assumes "row_ok f" "fi_status f \<noteq> ''resolved''" "fi_evaluated_at f \<le> now"
  shows "aged f (resolved_row rid now f)"
  using assms row_status_known [OF assms(1)]
  by (auto simp: aged_def resolved_row_def same_finding_def LIFECYCLE_def FINDING_STATUSES_def)

lemma aged_acknowledged:
  "fi_status r \<in> set [''active'', ''acknowledged''] \<Longrightarrow> aged r (acknowledged_row actor now r)"
  by (auto simp: aged_def acknowledged_row_def same_finding_def LIFECYCLE_def)

lemma aged_suppressed:
  "fi_status r \<in> set [''active'', ''acknowledged'', ''suppressed''] \<Longrightarrow>
   aged r (suppressed_row actor reason until now r)"
  by (auto simp: aged_def suppressed_row_def same_finding_def LIFECYCLE_def)

lemma aged_administer:
  assumes "f \<in> set (fd_findings db)" "\<And>r. fi_status r \<in> set statuses \<Longrightarrow> aged r (h r)"
  shows "\<exists>g \<in> set (fd_findings (fst (administer statuses h fid db))). aged f g"
proof (rule administer_cases [of statuses h fid db])
  assume "administer statuses h fid db = (db, None)"
  then show ?thesis using assms(1) by (intro bexI [of _ f]) simp_all
next
  let ?p = "\<lambda>r. fi_finding_id r = fid \<and> fi_status r \<in> set statuses"
  assume eq: "fst (administer statuses h fid db) = update_where ?p h db"
  have "(if ?p f then h f else f) \<in> set (fd_findings (update_where ?p h db))"
    using assms(1) unfolding set_update_where by blast
  then show ?thesis unfolding eq by (rule bexI [rotated]) (use assms(2) in simp)
qed

lemma same_findings_step:
  "same_findings db db' \<Longrightarrow> f \<in> set (fd_findings db) \<Longrightarrow> \<exists>g \<in> set (fd_findings db'). aged f g"
  by (auto simp: same_findings_def intro: bexI [of _ f])

lemma step_aged:
  assumes ok: "store_ok db" and "store_step db db'" and f: "f \<in> set (fd_findings db)"
  shows "\<exists>g \<in> set (fd_findings db'). aged f g"
  using assms(2)
proof cases
  case (begin_step rid trigger requested_by sc ruleset now)
  then show ?thesis using f by (auto elim!: begin_run_Inr intro: bexI [of _ f])
next
  case fail_step
  then show ?thesis using same_findings_step [OF _ f] by (simp add: fail_run_def)
next
  case complete_step
  then show ?thesis using same_findings_step [OF _ f] by (simp add: complete_run_def)
next
  case (reconcile_step rid snapshot now db_now sc res)
  from reconcile_row [OF ok this f] show ?thesis
  proof cases
    case (1 g)
    then show ?thesis using aged_written by blast
  next
    case 2
    then show ?thesis using aged_resolved [OF store_okD(1) [OF ok f]] by (auto simp: to_resolve_def)
  next
    case 3
    then show ?thesis by (intro bexI [of _ f]) simp_all
  qed
next
  case (acknowledge_step fid actor now)
  show ?thesis unfolding acknowledge_step acknowledge_def
    by (rule aged_administer [OF f aged_acknowledged])
next
  case (suppress_step fid actor reason until now)
  show ?thesis unfolding suppress_step suppress_def
    by (rule aged_administer [OF f aged_suppressed])
next
  case risk_step
  then have "same_findings db db'" using replace_risk_only_risk by (simp add: only_risk_def)
  then show ?thesis by (rule same_findings_step [OF _ f])
qed

section \<open>Stale evaluations\<close>

definition evidence_of_finding :: "finding_db \<Rightarrow> string \<Rightarrow> EvidenceReference list" where
  "evidence_of_finding db fid = map snd (filter (\<lambda>(i, e). i = fid) (fd_evidence db))"

lemma write_candidates_newer:
  assumes "write_candidates rid now db_now scoped cs db r = Inr (db', r')" "store_ok db"
    and "f \<in> set (fd_findings db)" "now < fi_evaluated_at f"
  shows "f \<in> set (fd_findings db') \<and>
         evidence_of_finding db' (fi_finding_id f) = evidence_of_finding db (fi_finding_id f)"
  using assms
proof (induction cs arbitrary: db r)
  case (Cons c cs)
  from Cons.prems(1) obtain db1 w where up: "upsert_finding rid now db_now c db = Inr (db1, w)"
    by (auto simp: bind_result_eq_Inr_iff split: prod.splits)
  note ok = store_ok_upsert [OF Cons.prems(2) up]
  have kept: "f \<in> set (fd_findings db1)"
    using upsert_row [OF Cons.prems(2) up Cons.prems(3)] Cons.prems(4) by (auto simp: written_row_def)
  have other: "finding_id_for_dedupe (fc_dedupe_key c) \<noteq> fi_finding_id f" if "w"
    using up
  proof (cases rule: upsert_cases)
    case (again g)
    then have "g \<in> set (fd_findings db)" "fi_dedupe_key g = fc_dedupe_key c"
      by (auto simp: find_Some_iff)
    then show ?thesis
      using store_ok_unique [OF Cons.prems(2) _ Cons.prems(3), of g] again(2) Cons.prems(4)
        store_okD(1) [OF Cons.prems(2), of g] by (auto simp: row_ok_def)
  next
    case new
    then show ?thesis using Cons.prems(3) by auto
  qed (use that in simp)
  have evidence1: "fd_evidence db1 = fd_evidence db"
    using up by (cases rule: upsert_cases) simp_all
  show ?case
  proof (cases w)
    case False
    then show ?thesis
      using Cons.prems(1) up Cons.IH [OF _ ok kept Cons.prems(4)]
      by (simp add: evidence_of_finding_def evidence1)
  next
    case True
    obtain db2 where ev: "insert_evidence (finding_id_for_dedupe (fc_dedupe_key c)) (fc_evidence c)
        (delete_evidence (finding_id_for_dedupe (fc_dedupe_key c)) db1) = Inr db2"
      and rest: "write_candidates rid now db_now scoped cs db2
        (count_seen (previous_row scoped (fc_dedupe_key c)) r) = Inr (db', r')"
      using Cons.prems(1) up True by (auto simp: Let_def bind_result_eq_Inr_iff)
    have "f \<in> set (fd_findings db2)" using kept by (simp add: replace_evidence [OF ev])
    from Cons.IH [OF rest store_ok_evidence [OF ok ev] this Cons.prems(4)]
    have IH: "f \<in> set (fd_findings db')"
      "evidence_of_finding db' (fi_finding_id f) = evidence_of_finding db2 (fi_finding_id f)" by auto
    have "evidence_of_finding db2 (fi_finding_id f) = evidence_of_finding db (fi_finding_id f)"
      using other [OF True] unfolding replace_evidence [OF ev] evidence_of_finding_def
      by (auto simp: evidence1 filter_map o_def intro!: arg_cong [of _ _ "map snd"] filter_cong)
    then show ?thesis using IH by simp
  qed
qed (simp add: evidence_of_finding_def)

lemma reconcile_newer:
  assumes ok: "store_ok db" and run: "reconcile rid snapshot now db_now sc db = Inr (db', r)"
    and f: "f \<in> set (fd_findings db)" "now < fi_evaluated_at f"
  shows "f \<in> set (fd_findings db')"
    and "evidence_of_finding db' (fi_finding_id f) = evidence_of_finding db (fi_finding_id f)"
proof -
  obtain scoped mid r1 where parts: "scope_rows sc db = Inr scoped"
    "write_candidates rid now db_now scoped (es_candidates snapshot) db no_changes = Inr (mid, r1)"
    "resolve_rows rid now snapshot scoped mid r1 = Inr (db', r)"
    using run by (rule reconcile_parts)
  have mid: "f \<in> set (fd_findings mid)"
    "evidence_of_finding mid (fi_finding_id f) = evidence_of_finding db (fi_finding_id f)"
    using write_candidates_newer [OF parts(2) ok f] by auto
  have "\<not> resolvable snapshot now scoped f" using f(2) by (simp add: resolvable_def)
  then show "f \<in> set (fd_findings db')"
    using mid(1) unfolding resolve_rows_findings [OF parts(3)] set_update_where
    by (auto intro: rev_image_eqI [of f])
  show "evidence_of_finding db' (fi_finding_id f) = evidence_of_finding db (fi_finding_id f)"
    using mid(2) unfolding resolve_rows_findings [OF parts(3)] evidence_of_finding_def by simp
qed

section \<open>Properties\<close>

text \<open>C16. In every state the finding store can reach, run identifiers, finding identifiers and deduplication keys
  are unique and the finding identifier is derived from the key; every row satisfies the check constraints, refers to a
  recorded site and run, carries a resolution time exactly when its status is resolved, and was first
  seen no later than last seen and last seen no later than evaluated; every evidence row is valid,
  belongs to a finding and cites its reference once.  (The tables of the risk scores are not part of this.)
\<close>

theorem finding_store_invariant:
  assumes "store_reachable sites db"
  shows "distinct (map run_id (fd_runs db)) \<and>
    distinct (map fi_finding_id (fd_findings db)) \<and> distinct (map fi_dedupe_key (fd_findings db)) \<and>
    (\<forall>f \<in> set (fd_findings db).
       fi_finding_id f = finding_id_for_dedupe (fi_dedupe_key f) \<and> finding_checks f \<and>
       fi_site_id f \<in> set (fd_sites db) \<and> run_exists (fi_last_evaluation_run_id f) db \<and>
       (fi_resolved_at f \<noteq> None \<longleftrightarrow> fi_status f = ''resolved'') \<and>
       fi_first_seen_at f \<le> fi_last_seen_at f \<and> fi_last_seen_at f \<le> fi_evaluated_at f) \<and>
    distinct (map (\<lambda>(fid, e). (fid, ref_evidence_ref e)) (fd_evidence db)) \<and>
    (\<forall>(fid, e) \<in> set (fd_evidence db). evidence_checks e \<and> fid \<in> fi_finding_id ` set (fd_findings db))"
proof -
  note ok = store_reachable_ok [OF assms]
  have ids: "distinct (map fi_finding_id (fd_findings db))" and "distinct (fd_findings db)"
    using ok by (auto simp: store_ok_def distinct_map)
  then have "distinct (map fi_dedupe_key (fd_findings db))"
    using store_ok_unique [OF ok] by (auto simp: distinct_map intro!: inj_onI)
  moreover have "distinct (map run_id (fd_runs db))" using ok unfolding store_ok_def by (rule conjunct1)
  ultimately show ?thesis using ids ok by (auto simp: store_ok_def evidence_ok_def row_ok_def)
qed

text \<open>C15. Across every operation on a reachable store a finding stays: its identity, subject, rule and first
  sighting never change, its times of sighting and evaluation never go back, its status changes only along
  the life cycle (a resolved finding can only become active again, an acknowledged one never silently loses
  the acknowledgement except by suppression or resolution), and the reopen count grows by one exactly when
  it leaves the resolved status.
\<close>

theorem finding_lifecycle:
  assumes "store_reachable sites db" "store_step db db'" "f \<in> set (fd_findings db)"
  shows "\<exists>g \<in> set (fd_findings db').
    fi_finding_id g = fi_finding_id f \<and> fi_dedupe_key g = fi_dedupe_key f \<and>
    fi_rule_id g = fi_rule_id f \<and> row_subject g = row_subject f \<and>
    fi_first_seen_at g = fi_first_seen_at f \<and> fi_last_seen_at f \<le> fi_last_seen_at g \<and>
    fi_evaluated_at f \<le> fi_evaluated_at g \<and>
    (fi_status g = fi_status f \<or> (fi_status f, fi_status g) \<in> set LIFECYCLE) \<and>
    fi_reopen_count g =
      fi_reopen_count f + (if fi_status f = ''resolved'' \<and> fi_status g \<noteq> ''resolved'' then 1 else 0)"
proof -
  obtain g where g: "g \<in> set (fd_findings db')" "aged f g"
    using step_aged [OF store_reachable_ok [OF assms(1)] assms(2,3)] by blast
  then show ?thesis by (intro bexI [OF _ g(1)]) (simp add: aged_def same_finding_def row_subject_def)
qed

text \<open>C17. A reconciliation of an older snapshot that acquires the lock late leaves a finding that a newer
  evaluation has written exactly as it is, with its evidence.
\<close>

theorem stale_snapshot_harmless:
  assumes "store_reachable sites db" "reconcile rid snapshot now db_now sc db = Inr (db', r)"
    and "f \<in> set (fd_findings db)" "now < fi_evaluated_at f"
  shows "f \<in> set (fd_findings db') \<and>
    filter (\<lambda>(i, e). i = fi_finding_id f) (fd_evidence db') =
    filter (\<lambda>(i, e). i = fi_finding_id f) (fd_evidence db)"
proof -
  have pairs: "filter (\<lambda>(i, e). i = fid) (fd_evidence d) = map (Pair fid) (evidence_of_finding d fid)" for fid d
    unfolding evidence_of_finding_def by (induction "fd_evidence d") (auto intro: map_idI [symmetric])
  show ?thesis
    using reconcile_newer [OF store_reachable_ok [OF assms(1)] assms(2-4)] by (simp add: pairs)
qed

lemma resolved_by_reconcile:
  assumes "store_ok db" "reconcile rid snapshot now db_now sc db = Inr (db', r)"
    and "f \<in> set (fd_findings db)" "g \<in> set (fd_findings db')" "fi_finding_id g = fi_finding_id f"
    and "fi_status f \<noteq> ''resolved''" "fi_status g = ''resolved''"
  shows "fi_rule_id f \<in> set (es_evaluated_rule_ids snapshot) \<and> row_in_scope sc f \<and>
    (\<forall>c \<in> set (es_candidates snapshot). fc_dedupe_key c \<noteq> fi_dedupe_key f) \<and>
    row_eligible snapshot f \<and> fi_evaluated_at f \<le> now \<and>
    fi_resolved_at g = Some now \<and> fi_last_evaluation_run_id g = rid"
proof -
  note ok = assms(1)
  note ok' = store_ok_reconcile [OF ok assms(2)]
  from reconcile_row [OF ok assms(2,3)] show ?thesis
  proof cases
    case (1 h)
    then have "h = g"
      using store_ok_unique [OF ok' _ assms(4), of h] assms(5) by (simp add: written_row_def same_finding_def)
    then show ?thesis using 1(2) assms(6,7) by (auto simp: written_row_def)
  next
    case 2
    then have "g = resolved_row rid now f"
      using store_ok_unique [OF ok' assms(4), of "resolved_row rid now f"] assms(5) by simp
    then show ?thesis using 2 by (auto simp: to_resolve_def resolved_row_def image_iff)
  next
    case 3
    then have "g = f" using store_ok_unique [OF ok' assms(4)] assms(5) by simp
    then show ?thesis using assms(6,7) by simp
  qed
qed

text \<open>A reconciliation resolves a finding only if its rule was evaluated, it lies in the requested scope, no
  candidate of the snapshot matches it, the snapshot declares its subject or its key eligible for
  resolution, and no newer evaluation has written it.
\<close>

theorem resolution_justified:
  assumes "store_reachable sites db" "reconcile rid snapshot now db_now sc db = Inr (db', r)"
    and "f \<in> set (fd_findings db)" "g \<in> set (fd_findings db')" "fi_finding_id g = fi_finding_id f"
    and "fi_status f \<noteq> ''resolved''" "fi_status g = ''resolved''"
  shows "fi_rule_id f \<in> set (es_evaluated_rule_ids snapshot) \<and> row_in_scope sc f \<and>
    (\<forall>c \<in> set (es_candidates snapshot). fc_dedupe_key c \<noteq> fi_dedupe_key f) \<and>
    row_eligible snapshot f \<and> fi_evaluated_at f \<le> now \<and>
    fi_resolved_at g = Some now \<and> fi_last_evaluation_run_id g = rid"
  by (rule resolved_by_reconcile [OF store_reachable_ok [OF assms(1)] assms(2-7)])

section \<open>A sample history\<close>

definition sample_reference :: EvidenceReference where
  "sample_reference =
     \<lparr> ref_evidence_ref = ''ev_1'', ref_evidence_type = ''asset-observation'', ref_source = ''assets'',
       ref_observed_at = Some 5, ref_freshness = ''stale'', ref_confidence = 1 / 2, ref_summary = ''stale'' \<rparr>"

definition sample_candidate :: FindingCandidate where
  "sample_candidate =
     \<lparr> fc_dedupe_key = ''fdk_ab12'', fc_rule_id = ''asset-stale'', fc_rule_version = 1,
       fc_category = ''freshness'', fc_subject_type = ''asset'', fc_site_id = ''s1'',
       fc_asset_id = Some ''a1'', fc_sensor_id = None, fc_title = ''Asset evidence is stale'',
       fc_description = ''d'', fc_recommendation = ''r'', fc_severity = ''low'', fc_confidence = 1 / 2,
       fc_observed_at = Some 5, fc_freshness = ''stale'', fc_evidence = [sample_reference] \<rparr>"

definition sample_snapshot :: "FindingCandidate list \<Rightarrow> resolution_key set \<Rightarrow> EvaluationSnapshot" where
  "sample_snapshot cs keys =
     \<lparr> es_candidates = cs, es_resolution_eligible = keys, es_resolution_eligible_dedupe_keys = {},
       es_evaluated_rule_ids = [''asset-stale''], es_data_as_of = Some 5, es_site_count = 1,
       es_sensor_count = 0, es_asset_count = 1 \<rparr>"

definition no_scope :: evaluation_scope where
  "no_scope = \<lparr> sc_site_id = None, sc_asset_id = None, sc_sensor_id = None \<rparr>"

definition sample_run :: evaluation_run where
  "sample_run =
     hd (fd_runs (projr (begin_run ''r1'' ''test'' None no_scope RULESET_VERSION 10 (empty_store [''s1'']))))"

definition sample_store :: finding_db where
  "sample_store =
     (empty_store [''s1''])\<lparr>fd_runs := [sample_run],
       fd_findings := [new_finding ''r1'' 10 10 sample_candidate],
       fd_evidence := [(finding_id_for_dedupe ''fdk_ab12'', sample_reference)]\<rparr>"

definition sample_row :: stored_finding where
  "sample_row = new_finding ''r1'' 10 10 sample_candidate"

lemmas sample_defs = sample_store_def sample_row_def sample_snapshot_def sample_candidate_def
  sample_reference_def no_scope_def

lemma scope_rows_small:
  assumes "length (filter (row_in_scope sc) (fd_findings db)) \<le> 20000"
  shows "scope_rows sc db =
    Inr (sort_key (\<lambda>f. (- fi_updated_at f, fi_finding_id f)) (filter (row_in_scope sc) (fd_findings db)))"
  using assms by (simp add: scope_rows_def MAX_RECONCILE_RECORDS_def take_all)

lemma sample_checks:
  "finding_checks (new_finding ''r1'' 10 10 sample_candidate)" "evidence_checks sample_reference"
  by code_simp+

lemma sample_run_id: "run_id sample_run = ''r1''"
  by (simp add: sample_run_def begin_run_def empty_store_def run_exists_def)

lemma sample_reconcile:
  "case begin_run ''r1'' ''test'' None no_scope RULESET_VERSION 10 (empty_store [''s1'']) of
     Inl e \<Rightarrow> False
   | Inr db \<Rightarrow>
       (case reconcile ''r1'' (sample_snapshot [sample_candidate] {}) 10 10 no_scope db of
          Inl e \<Rightarrow> False | Inr res \<Rightarrow> fst res = sample_store)"
proof -
  have begun: "begin_run ''r1'' ''test'' None no_scope RULESET_VERSION 10 (empty_store [''s1'']) =
      Inr ((empty_store [''s1''])\<lparr>fd_runs := [sample_run]\<rparr>)"
    by (simp add: sample_run_def begin_run_def empty_store_def run_exists_def)
  have "fc_evidence sample_candidate = [sample_reference]" "fc_dedupe_key sample_candidate = ''fdk_ab12''"
    "fc_site_id sample_candidate = ''s1''" by (simp_all add: sample_candidate_def)
  then show ?thesis unfolding begun
    by (simp add: reconcile_def scope_rows_small empty_store_def sample_snapshot_def upsert_finding_def
          sample_checks sample_run_id run_exists_def delete_evidence_def)
       (simp add: sample_store_def empty_store_def)
qed

lemma sample_reachable: "store_reachable [''s1''] sample_store"
proof -
  obtain db res where "begin_run ''r1'' ''test'' None no_scope RULESET_VERSION 10 (empty_store [''s1'']) = Inr db"
    "reconcile ''r1'' (sample_snapshot [sample_candidate] {}) 10 10 no_scope db = Inr (sample_store, res)"
    using sample_reconcile by (auto split: sum.splits)
  then show ?thesis by (blast intro: store_reachable.intros store_step.intros)
qed

lemma sample_row_stored: "sample_row \<in> set (fd_findings sample_store)"
  by (simp add: sample_store_def sample_row_def)

lemma sample_scope:
  "scope_rows no_scope sample_store = Inr [sample_row]"
  by (simp add: scope_rows_small sample_store_def row_in_scope_def no_scope_def matches_scope_def
        sample_row_def)

lemma sample_row_fields:
  "fi_dedupe_key sample_row = ''fdk_ab12''" "fi_evaluated_at sample_row = 10"
  "fi_status sample_row = ''active''" "fi_rule_id sample_row = ''asset-stale''"
  "row_subject sample_row = Some ''a1''" "fi_subject_type sample_row = ''asset''"
  "fi_site_id sample_row = ''s1''" "fd_findings sample_store = [sample_row]"
  "run_exists ''r1'' sample_store"
  by (simp_all add: sample_row_def new_finding_def sample_candidate_def row_subject_def sample_store_def
        run_exists_def sample_run_id)

lemma sample_stale_reconcile:
  "reconcile ''r1'' (sample_snapshot [sample_candidate] {}) 5 5 no_scope sample_store =
   Inr (sample_store, no_changes)"
proof -
  have "finding_checks (new_finding ''r1'' 5 5 sample_candidate)" by code_simp
  moreover have "fc_dedupe_key sample_candidate = ''fdk_ab12''" by (simp add: sample_candidate_def)
  ultimately show ?thesis
    by (simp add: reconcile_def sample_scope upsert_finding_def sample_row_fields sample_snapshot_def
          to_resolve_def)
qed

lemma sample_resolution:
  "reconcile ''r1'' (sample_snapshot [] {(''asset-stale'', ''asset'', ''s1'', ''a1'')}) 20 20 no_scope
     sample_store =
   Inr (sample_store\<lparr>fd_findings := [resolved_row ''r1'' 20 sample_row]\<rparr>, no_changes\<lparr>rr_resolved := 1\<rparr>)"
  by (simp add: reconcile_def sample_scope sample_row_fields sample_snapshot_def to_resolve_def
        row_eligible_def subject_key_def count_where_def update_where_def no_changes_def)

theorem finding_store_invariant_witness:
  "distinct (map fi_finding_id (fd_findings sample_store)) \<and> fi_resolved_at sample_row = None \<and>
   finding_checks sample_row"
  using finding_store_invariant [OF sample_reachable] sample_row_stored
  by (auto simp: sample_row_fields)

theorem finding_lifecycle_witness:
  "\<exists>g \<in> set (fd_findings (fst (suppress (fi_finding_id sample_row) ''admin'' ''known'' None 20 sample_store))).
     fi_finding_id g = fi_finding_id sample_row \<and> fi_first_seen_at g = fi_first_seen_at sample_row \<and>
     (fi_status g = ''active'' \<or> (''active'', fi_status g) \<in> set LIFECYCLE)"
  using finding_lifecycle [OF sample_reachable suppress_step sample_row_stored]
  unfolding sample_row_fields(3) by blast

theorem stale_snapshot_harmless_witness:
  "reconcile ''r1'' (sample_snapshot [sample_candidate] {}) 5 5 no_scope sample_store =
     Inr (sample_store, no_changes) \<and> sample_row \<in> set (fd_findings sample_store)"
  using stale_snapshot_harmless [OF sample_reachable sample_stale_reconcile sample_row_stored]
  by (simp add: sample_row_fields sample_stale_reconcile)

theorem resolution_justified_witness:
  "row_eligible (sample_snapshot [] {(''asset-stale'', ''asset'', ''s1'', ''a1'')}) sample_row \<and>
   fi_evaluated_at sample_row \<le> 20"
  using resolution_justified [OF sample_reachable sample_resolution sample_row_stored,
      of "resolved_row ''r1'' 20 sample_row"]
  by (simp add: sample_row_fields) (simp add: resolved_row_def)

end
