(* ===== verification/Finding_Service_Laws.thy ===== *)
theory Finding_Service_Laws
  imports Finding_Lifecycle
begin

text \<open>
  An evaluation from the request to the closed run: which tables its parts touch, and how its run ends.
\<close>

section \<open>Runs are kept\<close>

lemma upsert_runs:
  assumes "upsert_finding rid now db_now c db = Inr (db', w)"
  shows "fd_runs db' = fd_runs db"
  using assms by (cases rule: upsert_cases) simp_all

lemma write_candidates_runs:
  "write_candidates rid now db_now scoped cs db r = Inr (db', r') \<Longrightarrow> fd_runs db' = fd_runs db"
proof (induction cs arbitrary: db r)
  case (Cons c cs)
  then obtain db1 w where up: "upsert_finding rid now db_now c db = Inr (db1, w)"
    by (auto simp: bind_result_eq_Inr_iff split: prod.splits)
  show ?case
  proof (cases w)
    case False
    then show ?thesis using Cons.prems Cons.IH up upsert_runs [OF up] by simp
  next
    case True
    then show ?thesis using Cons.prems Cons.IH up upsert_runs [OF up]
      by (fastforce simp: Let_def bind_result_eq_Inr_iff dest: replace_evidence)
  qed
qed simp

lemma reconcile_runs:
  assumes "reconcile rid snapshot now db_now sc db = Inr (db', r)"
  shows "fd_runs db' = fd_runs db"
  using assms
proof (rule reconcile_parts)
  fix scoped mid r1
  assume "write_candidates rid now db_now scoped (es_candidates snapshot) db no_changes = Inr (mid, r1)"
    and "resolve_rows rid now snapshot scoped mid r1 = Inr (db', r)"
  from write_candidates_runs [OF this(1)] resolve_rows_findings [OF this(2)] show ?thesis by simp
qed

lemma or_keep_cases:
  assumes "or_keep db r f = (db', res)"
  obtains (error) e where "r = Inl e" "db' = db" "res = Inl e"
  | (returned) x where "r = Inr x" "f x = (db', res)"
  using assms by (cases r) (auto simp: or_keep_def)

text \<open>The evaluation ends with an error, or it completes its run after committing the rest.\<close>

lemma run_evaluation_cases:
  assumes "run_evaluation environ reader rq rule_ids clock rid db = (db', res)"
  obtains (failed) e where "res = Inl e" "fd_runs db' = fd_runs db"
  | (completed) mid snapshot life r where "res = Inr r"
      "db' = complete_run rid snapshot life (cl_completed_at clock) mid" "fd_runs mid = fd_runs db"
      "ev_candidate_count r = length (es_candidates snapshot)"
      "(ev_opened_count r, ev_updated_count r, ev_reopened_count r, ev_resolved_count r) =
       (rr_opened life, rr_updated life, rr_reopened life, rr_resolved life)"
proof -
  show ?thesis
    using assms unfolding run_evaluation_def Let_def split_beta
  proof (elim or_keep_cases)
  qed (use failed completed reconcile_runs replace_risk_only_risk in
        \<open>(force simp: only_risk_def)+\<close>)
qed

section \<open>Closing the run\<close>

lemma update_running_begun:
  assumes "rid \<notin> run_id ` set runs" "fd_runs db = runs @ [run]" "run_id run = rid" "run_status run = ''running''"
  shows "fd_runs (update_running rid f db) = runs @ [f run]"
proof -
  have "map (\<lambda>r. if run_id r = rid \<and> run_status r = ''running'' then f r else r) runs = runs"
    using assms(1) by (intro map_idI) auto
  then show ?thesis using assms by (simp add: update_running_def)
qed

text \<open>C19. An evaluation that passes the checks of its request never leaves its run open: the one run it adds is
  completed with the counts of the answer, or it is failed with the name of the error that the caller
  sees, and no other run is touched.
\<close>

theorem evaluation_closes_its_run:
  assumes "evaluate_findings environ reader rq clock rid db = (db', res)"
    and "requested_rules rq = Inr ids" "\<not> run_exists rid db"
  shows "\<exists>run. fd_runs db' = fd_runs db @ [run] \<and> run_id run = rid \<and>
    (case res of
       Inl e \<Rightarrow> run_status run = ''failed'' \<and> run_error_code run = Some (take 80 (error_name e)) \<and>
                run_completed_at run = Some (cl_failed_at clock)
     | Inr r \<Rightarrow> run_status run = ''completed'' \<and> run_completed_at run = Some (cl_completed_at clock) \<and>
                run_candidate_count run = ev_candidate_count r \<and> run_opened_count run = ev_opened_count r \<and>
                run_updated_count run = ev_updated_count r \<and> run_reopened_count run = ev_reopened_count r \<and>
                run_resolved_count run = ev_resolved_count r)"
proof -
  obtain begun where begun: "begin_run rid (rq_trigger_type rq) (rq_requested_by rq) (rq_scope rq)
      RULESET_VERSION (cl_started_at clock) db = Inr begun"
    using assms(3) by (simp add: begin_run_def)
  obtain run where run: "fd_runs begun = fd_runs db @ [run]" "run_id run = rid"
    "run_status run = ''running''"
    using begun by (rule begin_run_Inr) simp
  have fresh: "rid \<notin> run_id ` set (fd_runs db)" using assms(3) by (simp add: run_exists_def)
  obtain db1 res1 where ran: "run_evaluation environ reader rq ids clock rid begun = (db1, res1)"
    by (cases "run_evaluation environ reader rq ids clock rid begun")
  have final: "(db', res) = (case res1 of Inl e \<Rightarrow> (fail_run rid (cl_failed_at clock) (error_name e) db1, Inl e)
      | Inr r \<Rightarrow> (db1, Inr r))"
    using assms(1,2) begun ran by (simp add: evaluate_findings_def raised_def or_keep_def)
  from ran show ?thesis
  proof (cases rule: run_evaluation_cases)
    case (failed e)
    then have "fd_runs db1 = fd_runs db @ [run]" by (simp add: run(1))
    from update_running_begun [OF fresh this run(2,3)] show ?thesis
      using final failed(1) run(2) by (simp add: fail_run_def)
  next
    case (completed mid snapshot life r)
    then have "fd_runs mid = fd_runs db @ [run]" by (simp add: run(1))
    from update_running_begun [OF fresh this run(2,3)] show ?thesis
      using final completed run(2) by (simp add: complete_run_def)
  qed
qed

section \<open>A sample evaluation\<close>

definition sample_request :: evaluation_request where
  "sample_request =
     \<lparr> rq_trigger_type = ''manual'', rq_requested_by = None, rq_scope = no_scope,
       rq_rule_ids = Some [''no-such-rule''], rq_findings_config = Some (load_findings_config []),
       rq_risk_config = None, rq_sites = Some [], rq_sensors = Some [], rq_assets = Some [] \<rparr>"

definition sample_clock :: evaluation_clock where
  "sample_clock =
     \<lparr> cl_started_at = 10, cl_completed_at = 12, cl_failed_at = 13, cl_database = 11 \<rparr>"

definition no_rows :: evaluation_reader where
  "no_rows = \<lparr> er_sites = (\<lambda>n s. []), er_sensors = (\<lambda>n s. []), er_assets = (\<lambda>n s. []), er_matches = (\<lambda>s. []) \<rparr>"

theorem evaluation_closes_its_run_witness:
  "\<exists>db' run. evaluate_findings [] no_rows sample_request sample_clock ''r1'' (empty_store [''s1'']) =
     (db', Inl (Raised ValueError)) \<and> fd_runs db' = [run] \<and> run_status run = ''failed'' \<and>
     run_error_code run = Some ''ValueError''"
proof -
  have "select_rules (Some [''no-such-rule'']) = Inl ValueError"
    by (simp add: select_rules_def RULES_BY_ID_def RULE_REGISTRY_def)
  then have failed: "snd (evaluate_findings [] no_rows sample_request sample_clock ''r1'' (empty_store [''s1''])) =
      Inl (Raised ValueError)"
    by (simp add: evaluate_findings_def requested_rules_def sample_request_def no_scope_def given_def
          raised_def or_keep_def begin_run_def run_exists_def empty_store_def run_evaluation_def inputs_of_def
          evaluate_rules_def)
  obtain db' where eval: "evaluate_findings [] no_rows sample_request sample_clock ''r1'' (empty_store [''s1'']) =
      (db', Inl (Raised ValueError))"
    using failed by (metis prod.collapse)
  have "requested_rules sample_request = Inr (Some [''no-such-rule''])"
    by (simp add: requested_rules_def sample_request_def no_scope_def given_def)
  moreover have "\<not> run_exists ''r1'' (empty_store [''s1''])" by (simp add: run_exists_def empty_store_def)
  ultimately show ?thesis
    using evaluation_closes_its_run [OF eval] eval by (auto simp: empty_store_def)
qed

end
