(* ===== verification/Finding_Candidate_Laws.thy ===== *)
theory Finding_Candidate_Laws
  imports Finding_Lifecycle
begin

text \<open>
  Every candidate of every rule is one the store accepts: the identity of its rule, a complete subject, known
  severity and freshness, a confidence in the unit interval, bounded texts and valid evidence.
\<close>

section \<open>Candidates\<close>

definition subject_ok :: "string \<Rightarrow> string option \<Rightarrow> string option \<Rightarrow> bool" where
  "subject_ok subject_type asset_id sensor_id \<longleftrightarrow>
     subject_type = ''asset'' \<and> (\<exists>a. asset_id = Some a \<and> a \<noteq> []) \<and> sensor_id = None \<or>
     subject_type = ''sensor'' \<and> (\<exists>a. sensor_id = Some a \<and> a \<noteq> []) \<and> asset_id = None"

definition arguments_ok :: "RuleDefinition \<Rightarrow> candidate_arguments \<Rightarrow> bool" where
  "arguments_ok rule a \<longleftrightarrow>
     ca_rule_id a = rd_rule_id rule \<and> ca_rule_version a = rd_version rule \<and>
     ca_category a = rd_category rule \<and> ca_subject_type a = rd_scope rule \<and> ca_site_id a \<noteq> [] \<and>
     subject_ok (ca_subject_type a) (ca_asset_id a) (ca_sensor_id a) \<and>
     ca_severity a \<in> set SUPPORTED_SEVERITIES \<and> ca_freshness a \<in> set FRESHNESS_VALUES \<and>
     length (ca_title a) \<le> 240 \<and> length (ca_description a) \<le> 1000 \<and>
     ca_evidence a \<noteq> [] \<and> list_all evidence_checks (ca_evidence a)"

definition candidate_ok :: "RuleDefinition \<Rightarrow> FindingCandidate \<Rightarrow> bool" where
  "candidate_ok rule c \<longleftrightarrow>
     fc_rule_id c = rd_rule_id rule \<and> fc_rule_version c = rd_version rule \<and>
     fc_category c = rd_category rule \<and> fc_subject_type c = rd_scope rule \<and> fc_site_id c \<noteq> [] \<and>
     subject_ok (fc_subject_type c) (fc_asset_id c) (fc_sensor_id c) \<and>
     fc_severity c \<in> set SUPPORTED_SEVERITIES \<and> fc_freshness c \<in> set FRESHNESS_VALUES \<and>
     0 \<le> fc_confidence c \<and> fc_confidence c \<le> 1 \<and>
     length (fc_title c) \<le> 240 \<and> length (fc_description c) \<le> 1000 \<and>
     fc_evidence c \<noteq> [] \<and> length (fc_evidence c) \<le> MAX_EVIDENCE_REFERENCES \<and>
     list_all evidence_checks (fc_evidence c)"

lemma yield_ok:
  assumes "yield_candidate a = Inr cs" "arguments_ok rule a"
  shows "list_all (candidate_ok rule) cs"
proof -
  have "list_all evidence_checks (take MAX_EVIDENCE_REFERENCES (ca_evidence a))"
    "take MAX_EVIDENCE_REFERENCES (ca_evidence a) \<noteq> []"
    using assms(2) by (auto simp: arguments_ok_def list_all_iff MAX_EVIDENCE_REFERENCES_def dest: in_set_takeD)
  then show ?thesis using assms
    by (auto simp: yield_candidate_def bind_result_eq_Inr_iff candidate_of_def Let_def candidate_ok_def
          arguments_ok_def unit_clamp_bounds split: if_splits)
qed

text \<open>A candidate fits the check constraints of the table.\<close>

lemma candidate_fits_table:
  assumes "candidate_ok rule c"
  shows "finding_checks (new_finding rid now db_now c)"
  using assms
  by (auto simp: candidate_ok_def finding_checks_def new_finding_def subject_ok_def FINDING_STATUSES_def)

section \<open>Parts\<close>

lemma freshness_at_known: "freshness_at now config t \<in> set FRESHNESS_VALUES"
  by (simp add: freshness_at_def FRESHNESS_VALUES_def Let_def split: option.split)

lemma freshness_known_values: "f \<in> {''fresh'', ''aging'', ''stale'', ''unknown''} \<Longrightarrow> f \<in> set FRESHNESS_VALUES"
  by (simp add: FRESHNESS_VALUES_def)

lemma evidence_of_ok:
  "fresh \<in> set FRESHNESS_VALUES \<Longrightarrow> evidence_checks (evidence_of s k site subj t fresh confidence summary)"
  by (simp add: evidence_checks_def evidence_of_def unit_clamp_bounds)

lemma length_text_value: "length (text_value v n) \<le> n"
  by (simp add: text_value_def split: pyval.split)

lemma kev_evidence_row_fresh:
  "row \<in> set (kev_evidence_row v) \<Longrightarrow> snd (snd (snd (snd row))) \<in> set FRESHNESS_VALUES"
  by (auto simp: kev_evidence_row_def Let_def FRESHNESS_VALUES_def split: pyval.splits if_splits)

lemma vulnerability_evidence_ok:
  assumes "fresh \<in> set FRESHNESS_VALUES" "0 \<le> confidence" "confidence \<le> 1"
  shows "list_all evidence_checks (vulnerability_evidence match t fresh confidence)"
proof -
  define kev where "kev = concat (map kev_evidence_row (take 5 (kev_records_of match)))"
  have "row \<in> set (concat (map kev_evidence_row vs)) \<longrightarrow> snd (snd (snd (snd row))) \<in> set FRESHNESS_VALUES"
    for row vs
  proof (induction vs)
    case (Cons v vs)
    then show ?case using kev_evidence_row_fresh [of row v]
      by (simp only: list.map concat.simps set_append Un_iff) blast
  qed simp
  then have "snd (snd (snd (snd row))) \<in> set FRESHNESS_VALUES" if "row \<in> set kev" for row
    using that unfolding kev_def by blast
  then have known: "snd (snd (snd (snd row))) \<in> set FRESHNESS_VALUES"
    if "row \<in> set ([(a, b, c, d, fresh), (a', b', c', d', fresh), (a'', b'', c'', d'', fresh)] @ kev)"
    for row a b c d a' b' c' d' a'' b'' c'' d''
    using that assms(1) by (simp only: set_append Un_iff list.set insert_iff empty_iff) (elim disjE; simp)
  have checked: "list_all evidence_checks (map (\<lambda>(ident, kind, source, summary, f).
      \<lparr> ref_evidence_ref = ident, ref_evidence_type = kind, ref_source = source, ref_observed_at = t,
        ref_freshness = f, ref_confidence = confidence, ref_summary = summary \<rparr>) rows)"
    if "\<And>row. row \<in> set rows \<Longrightarrow> snd (snd (snd (snd row))) \<in> set FRESHNESS_VALUES" for rows
    using that assms(2,3) by (fastforce simp: list_all_iff evidence_checks_def)
  show ?thesis
    unfolding vulnerability_evidence_def Let_def kev_def [symmetric]
    by (rule checked, rule known, drule set_rev_mp [OF _ filter_is_subset], erule in_set_takeD)
qed

lemma vulnerability_evidence_nonempty:
  assumes "text_value (get match ''component_id'') 80 \<noteq> []"
  shows "vulnerability_evidence match t fresh confidence \<noteq> []"
  using assms by (simp add: vulnerability_evidence_def Let_def MAX_EVIDENCE_REFERENCES_def numeral_eq_Suc)

lemma index_of_le: "x \<in> set xs \<Longrightarrow> index_of xs x < length xs"
  by (induction xs x rule: index_of.induct) auto

lemma vulnerability_severity_known: "vulnerability_severity match \<in> set SUPPORTED_SEVERITIES"
proof -
  have "VULNERABILITY_SEVERITY_ORDER ! Suc (min k 3) \<in> set SUPPORTED_SEVERITIES" for k
  proof -
    have "min k 3 \<in> {0, 1, 2, 3}" by (auto simp: min_def)
    then show ?thesis
      by (elim insertE) (simp_all add: VULNERABILITY_SEVERITY_ORDER_def SUPPORTED_SEVERITIES_def)
  qed
  moreover have "length VULNERABILITY_SEVERITY_ORDER - 1 = 4" by (simp add: VULNERABILITY_SEVERITY_ORDER_def)
  moreover have "''informational'' \<in> set SUPPORTED_SEVERITIES" by (simp add: SUPPORTED_SEVERITIES_def)
  ultimately show ?thesis by (simp add: vulnerability_severity_def Let_def)
qed

lemma finding_confidence_unit:
  "finding_confidence v d = Inr c \<Longrightarrow> 0 \<le> d \<Longrightarrow> d \<le> 1 \<Longrightarrow> 0 \<le> c \<and> c \<le> 1"
  by (simp add: finding_confidence_def confidence_or_unit)

lemma classification_confidence_unit:
  "classification_confidence asset d = Inr c \<Longrightarrow> 0 \<le> d \<Longrightarrow> d \<le> 1 \<Longrightarrow> 0 \<le> c \<and> c \<le> 1"
  by (auto simp: classification_confidence_def finding_confidence_unit split: if_splits)

lemma fl_unit: "0 \<le> x \<Longrightarrow> x \<le> 1 \<Longrightarrow> 0 \<le> fl x \<and> fl x \<le> 1"
  using fl_mono [of 0 x] fl_mono [of x 1] by simp

lemma length_py_join_le:
  "list_all (\<lambda>w. length w \<le> k) ws \<Longrightarrow> length (py_join sep ws) \<le> length ws * (k + length sep)"
  by (induction sep ws rule: py_join.induct) auto

lemma vulnerable_description_length: "length (vulnerable_description match) \<le> 1000"
proof -
  define cves where "cves = sort (remdups (map (\<lambda>kev. text_value (get kev ''cve_id'') 32)
    (filter (\<lambda>kev. truthy (get kev ''cve_id'')) (dict_items (kev_records_of match)))))"
  have "list_all (\<lambda>w. length w \<le> 32) (take 5 cves)"
    by (auto simp: cves_def list_all_iff length_text_value dest!: in_set_takeD)
  from length_py_join_le [OF this, of "'', ''"]
  have "length (py_join '', '' (take 5 cves)) \<le> 5 * 34" by (simp add: min_def split: if_splits)
  moreover have "length (text_value (get match ''component_id'') 80) \<le> 80"
    "length (text_value (get match ''component_name'') 160) \<le> 160"
    "length (text_value (get match ''installed_version'') 160) \<le> 160"
    "length (text_value (get match ''match_id'') 80) \<le> 80"
    "length (text_value (get match ''advisory_id'') 80) \<le> 80"
    by (rule length_text_value)+
  ultimately show ?thesis
    by (simp add: vulnerable_description_def Let_def cves_def [symmetric])
qed

lemma vulnerable_title_length: "length (vulnerable_title match) \<le> 240"
  by (simp add: vulnerable_title_def)

section \<open>Rules\<close>

text \<open>Every list a call returns satisfies a property; the rules follow the shape of the code.\<close>

definition yields :: "('a \<Rightarrow> bool) \<Rightarrow> 'a list result \<Rightarrow> bool" where
  "yields P r \<longleftrightarrow> (\<forall>xs. r = Inr xs \<longrightarrow> list_all P xs)"

lemma yields_Nil: "yields P (Inr [])"
  by (simp add: yields_def)

lemma yields_bind: "(\<And>x. r = Inr x \<Longrightarrow> yields P (f x)) \<Longrightarrow> yields P (bind_result r f)"
  by (auto simp: yields_def bind_result_eq_Inr_iff)

lemma yields_if: "(b \<Longrightarrow> yields P x) \<Longrightarrow> (\<not> b \<Longrightarrow> yields P y) \<Longrightarrow> yields P (if b then x else y)"
  by simp

lemma yields_option:
  "yields P x \<Longrightarrow> (\<And>t. v = Some t \<Longrightarrow> yields P (f t)) \<Longrightarrow> yields P (case v of None \<Rightarrow> x | Some t \<Rightarrow> f t)"
  by (cases v) auto

lemma yields_concat:
  "(\<And>x. x \<in> set xs \<Longrightarrow> yields P (f x)) \<Longrightarrow> yields P (concat_results (map f xs))"
  unfolding yields_def by (blast intro: concat_results_all)

lemma yields_candidate: "arguments_ok rule a \<Longrightarrow> yields (candidate_ok rule) (yield_candidate a)"
  by (simp add: yields_def yield_ok)

lemmas yields_intros = yields_Nil yields_bind yields_if yields_option yields_concat yields_candidate

lemmas argument_simps = arguments_ok_def subject_ok_def SUPPORTED_SEVERITIES_def freshness_at_known evidence_of_ok

text \<open>The registry's entry of a rule.\<close>

definition rule_of :: "string \<Rightarrow> RuleDefinition" where
  "rule_of rule_id = the (map_of RULES_BY_ID rule_id)"

definition RULE_IDS :: "string list" where
  "RULE_IDS =
     [''sensor-stale'', ''asset-stale'', ''unknown-asset'', ''passive-only-asset'', ''security-coverage-gap'',
      ''classification-conflict'', ''identity-conflict'', ''vulnerable-component'',
      ''component-version-unavailable'', ''advisory-identity-uncertain'']"

lemma registry_columns:
  "map rd_rule_id RULE_REGISTRY = RULE_IDS"
  "map rd_version RULE_REGISTRY = [1, 1, 2, 2, 2, 1, 1, 2, 1, 1]"
  "map rd_category RULE_REGISTRY =
     [''freshness'', ''freshness'', ''inventory'', ''coverage'', ''coverage'', ''identity'', ''identity'',
      ''vulnerability'', ''inventory'', ''inventory'']"
  "map rd_scope RULE_REGISTRY = ''sensor'' # replicate 9 ''asset''"
  "map rd_evaluator RULE_REGISTRY =
     [sensor_stale, asset_stale, new_or_unknown_asset, passive_only_assets, security_coverage_gap,
      classification_conflicts, identity_conflicts, confirmed_vulnerable_components,
      component_version_unavailable, advisory_identity_uncertain]"
  unfolding RULE_REGISTRY_def RULE_IDS_def list.map RuleDefinition.select_convs
  by (simp_all only: refl) (simp add: numeral_eq_Suc)

lemma length_registry: "length RULE_REGISTRY = 10"
  using arg_cong [OF registry_columns(2), of length] by simp

lemma RULE_IDS_distinct: "distinct RULE_IDS"
  by (simp add: RULE_IDS_def)

lemma rule_of_nth:
  assumes "k < 10"
  shows "rule_of (RULE_IDS ! k) = RULE_REGISTRY ! k"
proof -
  have ids: "map fst RULES_BY_ID = RULE_IDS" using registry_columns(1) by (simp add: RULES_BY_ID_def o_def)
  have "RULES_BY_ID ! k = (RULE_IDS ! k, RULE_REGISTRY ! k)"
    using assms by (simp add: RULES_BY_ID_def length_registry flip: registry_columns(1))
  moreover have "RULES_BY_ID ! k \<in> set RULES_BY_ID"
    using assms by (intro nth_mem) (simp add: RULES_BY_ID_def length_registry)
  ultimately have "map_of RULES_BY_ID (RULE_IDS ! k) = Some (RULE_REGISTRY ! k)"
    using RULE_IDS_distinct by (simp add: map_of_eq_Some_iff ids)
  then show ?thesis by (simp add: rule_of_def)
qed

lemma rule_columns:
  assumes "k < 10"
  shows "rd_rule_id (rule_of (RULE_IDS ! k)) = map rd_rule_id RULE_REGISTRY ! k"
    "rd_version (rule_of (RULE_IDS ! k)) = map rd_version RULE_REGISTRY ! k"
    "rd_category (rule_of (RULE_IDS ! k)) = map rd_category RULE_REGISTRY ! k"
    "rd_scope (rule_of (RULE_IDS ! k)) = map rd_scope RULE_REGISTRY ! k"
    "rd_evaluator (rule_of (RULE_IDS ! k)) = map rd_evaluator RULE_REGISTRY ! k"
  using assms by (simp_all add: rule_of_nth length_registry)

lemmas rule_entry = rule_columns [unfolded registry_columns, unfolded RULE_IDS_def]

lemmas rule_fields = rule_entry [of 0, simplified] rule_entry [of 1, simplified] rule_entry [of 2, simplified]
  rule_entry [of 3, simplified] rule_entry [of 4, simplified] rule_entry [of 5, simplified]
  rule_entry [of 6, simplified] rule_entry [of 7, simplified] rule_entry [of 8, simplified]
  rule_entry [of 9, simplified]

lemma sensor_stale_ok: "yields (candidate_ok (rule_of ''sensor-stale'')) (sensor_stale context)"
  unfolding sensor_stale_def sensor_stale_of_def Let_def
  by (intro yields_intros) (simp_all add: argument_simps rule_fields)

lemma asset_stale_ok: "yields (candidate_ok (rule_of ''asset-stale'')) (asset_stale context)"
  unfolding asset_stale_def asset_stale_of_def Let_def
  by (intro yields_intros) (simp_all add: argument_simps rule_fields)

lemma unknown_asset_ok: "yields (candidate_ok (rule_of ''unknown-asset'')) (new_or_unknown_asset context)"
  unfolding new_or_unknown_asset_def unknown_asset_of_def Let_def
  by (intro yields_intros) (simp_all add: argument_simps rule_fields)

lemma passive_only_ok: "yields (candidate_ok (rule_of ''passive-only-asset'')) (passive_only_assets context)"
  unfolding passive_only_assets_def passive_only_of_def Let_def
  by (intro yields_intros) (simp_all add: argument_simps rule_fields passive_gap_def FRESHNESS_VALUES_def)

lemma coverage_gap_ok: "yields (candidate_ok (rule_of ''security-coverage-gap'')) (security_coverage_gap context)"
  unfolding security_coverage_gap_def coverage_gap_of_def Let_def
  by (intro yields_intros) (simp_all add: argument_simps rule_fields coverage_gap_def FRESHNESS_VALUES_def)

lemma match_arguments_ok:
  assumes "fresh \<in> set FRESHNESS_VALUES" "0 \<le> confidence \<and> confidence \<le> 1"
    and "text_value (get match ''component_id'') 80 \<noteq> []" "site_id \<noteq> []" "asset_id \<noteq> []"
    and "rule_id = rd_rule_id rule" "version = rd_version rule" "kind = rd_category rule"
    and "rd_scope rule = ''asset''" "sev \<in> set SUPPORTED_SEVERITIES"
    and "length title \<le> 240" "length description \<le> 1000"
  shows "arguments_ok rule
    \<lparr> ca_rule_id = rule_id, ca_rule_version = version, ca_category = kind, ca_subject_type = ''asset'',
      ca_site_id = site_id, ca_asset_id = Some asset_id, ca_sensor_id = None, ca_title = title,
      ca_description = description, ca_recommendation = recommendation, ca_severity = sev,
      ca_confidence = confidence, ca_observed_at = t, ca_freshness = fresh,
      ca_evidence = vulnerability_evidence match t fresh confidence, ca_dedupe_subject_id = key \<rparr>"
  using assms
  by (simp add: arguments_ok_def subject_ok_def vulnerability_evidence_ok vulnerability_evidence_nonempty)

lemma vulnerable_ok:
  "yields (candidate_ok (rule_of ''vulnerable-component'')) (confirmed_vulnerable_components context)"
  unfolding confirmed_vulnerable_components_def vulnerable_component_of_def Let_def
  by (intro yields_intros match_arguments_ok)
     (simp_all add: rule_fields vulnerability_severity_known vulnerable_title_length
        vulnerable_description_length freshness_at_known freshness_known_values finding_confidence_unit)

lemma review_ok:
  assumes "rd_rule_id rule = rule_id" "rd_version rule = 1" "rd_category rule = ''inventory''"
    "rd_scope rule = ''asset''" "0 \<le> fallback \<and> fallback \<le> 1" "length title \<le> 240"
    "\<And>k. length k \<le> 80 \<Longrightarrow> length (describe k) \<le> 1000"
  shows "yields (candidate_ok rule) (concat_results (map (\<lambda>asset.
       if asset_site asset = [] \<or> asset_ident asset = [] then Inr []
       else concat_results (map
              (review_candidate context rule_id fallback title describe recommendation
                 (asset_site asset) (asset_ident asset))
              (first_by_component status [] (vulnerability_matches asset))))
       (rx_assets context)))"
proof -
  have found: "text_value (get m ''component_id'') 80 \<noteq> []" if "m \<in> set (first_by_component status seen ms)"
    for m seen ms
    using that by (induction status seen ms rule: first_by_component.induct) (auto simp: Let_def split: if_splits)
  show ?thesis
    unfolding review_candidate_def Let_def
    by (intro yields_intros match_arguments_ok)
       (use assms found in \<open>auto simp: freshness_at_known length_text_value SUPPORTED_SEVERITIES_def
          dest: finding_confidence_unit\<close>)
qed

lemma version_unavailable_ok:
  "yields (candidate_ok (rule_of ''component-version-unavailable'')) (component_version_unavailable context)"
  unfolding component_version_unavailable_def
  by (rule review_ok) (simp_all add: rule_fields fl_unit)

lemma identity_uncertain_ok:
  "yields (candidate_ok (rule_of ''advisory-identity-uncertain'')) (advisory_identity_uncertain context)"
  unfolding advisory_identity_uncertain_def
  by (rule review_ok) (simp_all add: rule_fields fl_unit)

lemma cited_ok:
  "fresh \<in> set FRESHNESS_VALUES \<Longrightarrow> 0 \<le> confidence \<and> confidence \<le> 1 \<Longrightarrow>
   evidence_checks \<lparr> ref_evidence_ref = r, ref_evidence_type = k, ref_source = s, ref_observed_at = t,
     ref_freshness = fresh, ref_confidence = confidence, ref_summary = summary \<rparr>"
  by (simp add: evidence_checks_def)

lemma classification_conflicts_ok:
  "yields (candidate_ok (rule_of ''classification-conflict'')) (classification_conflicts context)"
proof -
  have unit: "0 \<le> c \<and> c \<le> 1" if "classification_confidence asset (fl (6 / 10)) = Inr c" for asset c
    using classification_confidence_unit [OF that] fl_unit [of "6 / 10"] by simp
  show ?thesis
    unfolding classification_conflicts_def classification_conflict_of_def Let_def
    by (intro yields_intros)
       (use unit in \<open>simp add: argument_simps rule_fields list_all_iff cited_ok\<close>)
qed

lemma unique_assets_keys: "item \<in> set (unique_assets assets) \<Longrightarrow> fst item \<noteq> []"
proof -
  have step: "\<forall>item \<in> set (AList.update k v d). fst item \<noteq> []"
    if "k \<noteq> []" "\<forall>item \<in> set d. fst item \<noteq> []" for k and v :: pydict and d
  proof -
    have "fst ` set (AList.update k v d) \<subseteq> insert k (fst ` set d)" by (simp add: dom_update)
    then show ?thesis using that by fastforce
  qed
  have "\<forall>item \<in> set (foldl (\<lambda>d asset. if asset_ident asset = [] then d
      else AList.update (asset_ident asset) asset d) d assets). fst item \<noteq> []"
    if "\<forall>item \<in> set d. fst item \<noteq> []" for d
    using that
  proof (induction assets arbitrary: d)
    case (Cons a assets)
    show ?case
    proof (cases "asset_ident a = []")
      case True
      then show ?thesis using Cons.IH [OF Cons.prems] by simp
    next
      case False
      then show ?thesis using Cons.IH [OF step [OF False Cons.prems]] by simp
    qed
  qed simp
  from this [of "[]"] show "item \<in> set (unique_assets assets) \<Longrightarrow> fst item \<noteq> []"
    by (simp add: unique_assets_def)
qed

lemma identity_arguments_ok:
  assumes "fresh \<in> set FRESHNESS_VALUES" "site_id \<noteq> []" "asset_id \<noteq> []" "es \<noteq> []"
    "list_all evidence_checks es" "length title \<le> 240" "length description \<le> 1000"
  shows "arguments_ok (rule_of ''identity-conflict'')
    \<lparr> ca_rule_id = ''identity-conflict'', ca_rule_version = 1, ca_category = ''identity'',
      ca_subject_type = ''asset'', ca_site_id = site_id, ca_asset_id = Some asset_id, ca_sensor_id = None,
      ca_title = title, ca_description = description, ca_recommendation = recommendation,
      ca_severity = ''high'', ca_confidence = confidence, ca_observed_at = t, ca_freshness = fresh,
      ca_evidence = es, ca_dedupe_subject_id = key \<rparr>"
  using assms by (simp add: arguments_ok_def subject_ok_def SUPPORTED_SEVERITIES_def rule_fields)

lemma identity_conflicts_ok:
  "yields (candidate_ok (rule_of ''identity-conflict'')) (identity_conflicts context)"
proof -
  have evidence: "list_all evidence_checks es \<and> length es = length xs"
    if "sequence_results (map (identity_evidence context site) xs) = Inr es" for site xs es
  proof -
    have mapped: "map (identity_evidence context site) xs = map Inr es"
      using that by (simp add: sequence_results_Inr_iff)
    have "evidence_checks e" if "e \<in> set es" for e
    proof -
      have "Inr e \<in> set (map (identity_evidence context site) xs)" using that unfolding mapped by simp
      then obtain x where "identity_evidence context site x = Inr e" by auto
      then show ?thesis
        by (auto simp: identity_evidence_def bind_result_eq_Inr_iff freshness_at_known intro: evidence_of_ok)
    qed
    then show ?thesis using arg_cong [OF mapped, of length] by (simp add: list_all_iff)
  qed
  have site: "fst (fst grouped) \<noteq> []" if "grouped \<in> set (identity_groups assets)" for assets grouped
  proof -
    have "fst grouped \<in> fst ` set (identity_groups assets)" using that by simp
    then show ?thesis by (auto simp: identity_groups_def keys_group_by)
  qed
  show ?thesis
    unfolding identity_conflicts_def identity_group_conflicts_def identity_conflict_of_def Let_def
    by (intro yields_intros identity_arguments_ok freshness_at_known)
       (use site unique_assets_keys in \<open>auto dest!: evidence simp: MAX_EVIDENCE_REFERENCES_def\<close>)
qed

section \<open>Evaluations\<close>

lemma registry_rules: "RULE_REGISTRY = map rule_of RULE_IDS"
proof (rule nth_equalityI)
  show length: "length RULE_REGISTRY = length (map rule_of RULE_IDS)"
    by (simp add: length_registry RULE_IDS_def)
  show "RULE_REGISTRY ! k = map rule_of RULE_IDS ! k" if "k < length RULE_REGISTRY" for k
    using that length rule_of_nth [of k] by (simp add: length_registry)
qed

lemma registry_yields:
  assumes "rule \<in> set RULE_REGISTRY"
  shows "yields (candidate_ok rule) (rd_evaluator rule context)"
proof -
  have "\<forall>i \<in> set RULE_IDS. yields (candidate_ok (rule_of i)) (rd_evaluator (rule_of i) context)"
    by (simp add: RULE_IDS_def rule_fields sensor_stale_ok asset_stale_ok unknown_asset_ok
        passive_only_ok coverage_gap_ok classification_conflicts_ok identity_conflicts_ok vulnerable_ok
        version_unavailable_ok identity_uncertain_ok)
  then show ?thesis using assms by (auto simp: registry_rules)
qed

lemma select_rules_registry:
  assumes "select_rules rule_ids = Inr rules"
  shows "set rules \<subseteq> set RULE_REGISTRY"
proof (cases rule_ids)
  case None
  then show ?thesis using assms by (simp add: select_rules_def)
next
  case (Some ids)
  then have known: "\<forall>i \<in> set ids. i \<in> set (map fst RULES_BY_ID)"
    and rules: "rules = map (\<lambda>i. the (map_of RULES_BY_ID i)) (fromkeys ids)"
    using assms by (auto simp: select_rules_def list_ex_iff split: if_splits)
  have "the (map_of RULES_BY_ID i) \<in> set RULE_REGISTRY" if "i \<in> set ids" for i
  proof -
    have "map_of RULES_BY_ID i \<noteq> None" using known that by (simp add: map_of_eq_None_iff)
    then obtain rule where "map_of RULES_BY_ID i = Some rule" by blast
    then show ?thesis using map_of_SomeD [of RULES_BY_ID i rule] by (auto simp: RULES_BY_ID_def)
  qed
  then show ?thesis by (auto simp: rules)
qed

lemma run_rules_all:
  assumes "run_rules context rules found = Inr cs" "length found \<le> nat (max_candidates (rx_config context))"
    and "\<And>c. c \<in> set found \<Longrightarrow> P c"
    and "\<And>rule xs c. rule \<in> set rules \<Longrightarrow> rd_evaluator rule context = Inr xs \<Longrightarrow> c \<in> set xs \<Longrightarrow> P c"
  shows "length cs \<le> nat (max_candidates (rx_config context)) \<and> (\<forall>c \<in> set cs. P c)"
  using assms
proof (induction "context" rules found rule: run_rules.induct)
  case (2 ctx r rs candidates)
  from 2(2) obtain xs where xs: "rd_evaluator r ctx = Inr xs"
    "\<not> max_candidates (rx_config ctx) < int (length (candidates @ xs))"
    "run_rules ctx rs (candidates @ xs) = Inr cs"
    by (auto simp: bind_result_eq_Inr_iff split: if_splits)
  show ?case
    by (rule 2(1) [OF xs(2,3)]) (use xs 2(4,5) in \<open>auto simp: le_nat_iff\<close>)
qed auto

lemma evaluate_rules_parts:
  assumes "evaluate_rules sites sensors assets now config rule_ids sc = Inr snapshot"
  obtains rules found keys times where "select_rules rule_ids = Inr rules"
    "run_rules (scoped_context sites sensors assets now config sc) rules [] = Inr found"
    "resolution_eligible (scoped_context sites sensors assets now config sc) (map rd_rule_id rules) = Inr keys"
    "es_candidates snapshot = sort_key candidate_order (scoped_candidates sc found)"
    "es_resolution_eligible snapshot = set (scoped_keys sc keys)"
    "es_resolution_eligible_dedupe_keys snapshot =
       set (scoped_dedupe_keys (scoped_context sites sensors assets now config sc) sc (map rd_rule_id rules))"
    "es_evaluated_rule_ids snapshot = map rd_rule_id rules"
  using assms by (auto simp: evaluate_rules_def bind_result_eq_Inr_iff Let_def split: if_splits)

lemma scoped_candidates_subset: "set (scoped_candidates sc cs) \<subseteq> set cs"
  "length (scoped_candidates sc cs) \<le> length cs"
  by (auto simp: scoped_candidates_def split: option.splits)

text \<open>C20. Every candidate of an evaluation is one its store accepts: it carries the rule, version, category and
  scope of an evaluated registry entry, a complete subject, a supported severity, a confidence in [0, 1], a
  known freshness, a title of at most 240 and a description of at most 1000 characters and one to eight valid
  evidence references, and the row it proposes satisfies the check constraints of the table.  The
  candidates are sorted and within the configured limit.
\<close>

theorem candidates_well_formed:
  assumes "evaluate_rules sites sensors assets now config rule_ids sc = Inr snapshot"
    and "0 \<le> max_candidates config"
  shows "(\<forall>c \<in> set (es_candidates snapshot).
      (\<exists>rule \<in> set RULE_REGISTRY. candidate_ok rule c \<and> rd_rule_id rule \<in> set (es_evaluated_rule_ids snapshot)) \<and>
      finding_checks (new_finding rid evaluated_at db_now c)) \<and>
    sorted (map candidate_order (es_candidates snapshot)) \<and>
    int (length (es_candidates snapshot)) \<le> max_candidates config"
  using assms(1)
proof (rule evaluate_rules_parts)
  fix rules found keys times
  let ?cx = "scoped_context sites sensors assets now config sc"
  assume rules: "select_rules rule_ids = Inr rules" "run_rules ?cx rules [] = Inr found"
    and snapshot: "es_candidates snapshot = sort_key candidate_order (scoped_candidates sc found)"
      "es_evaluated_rule_ids snapshot = map rd_rule_id rules"
  have config: "rx_config ?cx = config" by (simp add: scoped_context_def)
  have "length found \<le> nat (max_candidates (rx_config ?cx)) \<and>
      (\<forall>c \<in> set found. \<exists>rule \<in> set rules. rule \<in> set RULE_REGISTRY \<and> candidate_ok rule c)"
  proof (rule run_rules_all [OF rules(2)])
    fix rule xs c
    assume rule: "rule \<in> set rules" "rd_evaluator rule ?cx = Inr xs" "c \<in> set xs"
    then have "rule \<in> set RULE_REGISTRY" using select_rules_registry [OF rules(1)] by blast
    moreover from registry_yields [OF this, of ?cx] have "candidate_ok rule c"
      using rule by (auto simp: yields_def list_all_iff)
    ultimately show "\<exists>rule \<in> set rules. rule \<in> set RULE_REGISTRY \<and> candidate_ok rule c" using rule by blast
  qed simp_all
  then have found: "length found \<le> nat (max_candidates config)"
    "\<forall>c \<in> set found. \<exists>rule \<in> set rules. rule \<in> set RULE_REGISTRY \<and> candidate_ok rule c"
    by (simp_all add: config)
  have "\<forall>c \<in> set (es_candidates snapshot).
      \<exists>rule \<in> set rules. rule \<in> set RULE_REGISTRY \<and> candidate_ok rule c"
    using found(2) scoped_candidates_subset(1) by (fastforce simp: snapshot)
  then have "\<forall>c \<in> set (es_candidates snapshot).
      (\<exists>rule \<in> set RULE_REGISTRY. candidate_ok rule c \<and> rd_rule_id rule \<in> set (es_evaluated_rule_ids snapshot)) \<and>
      finding_checks (new_finding rid evaluated_at db_now c)"
    unfolding snapshot(2) set_map using candidate_fits_table by blast
  moreover have "int (length (es_candidates snapshot)) \<le> max_candidates config"
    using found(1) scoped_candidates_subset(2) [of sc found] assms(2) by (simp add: snapshot(1))
  ultimately show ?thesis by (simp add: snapshot(1))
qed

section \<open>A sample evaluation\<close>

definition silent_sensor :: pydict where
  "silent_sensor = [(''agent_id'', PStr ''n1''), (''site_id'', PStr ''s1'')]"

lemma silent_sensor_values:
  "text_value (get silent_sensor ''agent_id'') 160 = ''n1''" "asset_site silent_sensor = ''s1''"
  "casefold (text_value (get silent_sensor ''identity_status'') 32) \<noteq> ''revoked''"
  "utc_time (get silent_sensor ''last_seen_at'') = Inr None"
  by code_simp+

lemma silent_sensor_found:
  assumes "rx_sensors context = [silent_sensor]"
  obtains c where "sensor_stale context = Inr [c]"
  using assms
  by (simp add: sensor_stale_def sensor_stale_of_def silent_sensor_values concat_results_def
        yield_candidate_def candidate_of_def Let_def or_empty_def)

theorem candidates_well_formed_witness:
  "\<exists>snapshot c. evaluate_rules [] [silent_sensor] [] 100 (load_findings_config []) (Some [''sensor-stale''])
     no_scope = Inr snapshot \<and> c \<in> set (es_candidates snapshot) \<and>
     finding_checks (new_finding ''r1'' 100 100 c)"
proof -
  let ?config = "load_findings_config []"
  have max: "max_candidates ?config = 10000"
    by (simp add: load_findings_config_def bounded_int_def Let_def MAX_FINDING_CANDIDATES_def)
  have select: "select_rules (Some [''sensor-stale'']) = Inr [rule_of ''sensor-stale'']"
    using registry_columns(1)
    by (simp add: select_rules_def fromkeys_def rule_of_def RULES_BY_ID_def o_def RULE_IDS_def)
  let ?cx = "scoped_context [] [silent_sensor] [] 100 ?config no_scope"
  have parts: "rx_sensors ?cx = [silent_sensor]" "rx_assets ?cx = []" "rx_config ?cx = ?config"
    by (simp_all add: scoped_context_def in_scope_def given_def no_scope_def)
  obtain c where c: "sensor_stale ?cx = Inr [c]" using silent_sensor_found [OF parts(1)] .
  have ran: "run_rules ?cx [rule_of ''sensor-stale''] [] = Inr [c]"
    by (simp add: rule_fields c max parts)
  have keys: "resolution_eligible ?cx [''sensor-stale''] = Inr []"
    by (simp add: resolution_eligible_def parts sensor_resolution_def silent_sensor_values concat_results_def)
  have free: "given (sc_sensor_id no_scope) = None" "given (sc_asset_id no_scope) = None"
    by (simp_all add: no_scope_def given_def)
  have times: "snapshot_times ?cx no_scope = Inr [None]"
    by (simp add: snapshot_times_def target_assets_def free parts silent_sensor_values)
  have "\<exists>snapshot. evaluate_rules [] [silent_sensor] [] 100 ?config (Some [''sensor-stale'']) no_scope =
      Inr snapshot \<and> es_candidates snapshot = sort_key candidate_order (scoped_candidates no_scope [c])"
    by (simp add: evaluate_rules_def select rule_fields free ran keys times Let_def del: run_rules.simps)
  then obtain snapshot where snapshot:
    "evaluate_rules [] [silent_sensor] [] 100 ?config (Some [''sensor-stale'']) no_scope = Inr snapshot"
    "es_candidates snapshot = sort_key candidate_order (scoped_candidates no_scope [c])" by blast
  have "c \<in> set (es_candidates snapshot)"
    by (simp add: snapshot(2) scoped_candidates_def free)
  then show ?thesis
    using candidates_well_formed [OF snapshot(1), of "''r1''" 100 100] snapshot(1) max by auto
qed

end
