(* ===== verification/Finding_Resolution_Laws.thy ===== *)
theory Finding_Resolution_Laws
  imports Finding_Service_Laws Finding_Candidate_Laws Classification
begin

text \<open>
  What the evidence says when a finding is resolved.
\<close>

section \<open>Evidence for a resolution\<close>

text \<open>The evidence of a sensor, of an asset and of the vulnerability matches of an asset.\<close>

definition current_sensor :: "instant \<Rightarrow> FindingsConfig \<Rightarrow> resolution_key \<Rightarrow> pydict \<Rightarrow> bool" where
  "current_sensor now config key sensor \<longleftrightarrow>
     key = (''sensor-stale'', ''sensor'', asset_site sensor, text_value (get sensor ''agent_id'') 160) \<and>
     casefold (text_value (get sensor ''identity_status'') 32) \<noteq> ''revoked'' \<and>
     (\<exists>t. utc_time (get sensor ''last_seen_at'') = Inr (Some t) \<and>
          now - t \<le> minutes (sensor_stale_minutes config))"

text \<open>What a fresh record has to say for its rule.\<close>

definition affirms :: "(string, string) odict \<Rightarrow> string \<Rightarrow> pydict \<Rightarrow> bool" where
  "affirms source_types rule_id asset \<longleftrightarrow>
     rule_id = ''asset-stale'' \<or>
     rule_id = ''unknown-asset'' \<and> asset_category asset \<noteq> [] \<and>
       \<not> starts_with (asset_category asset) ''unknown'' \<or>
     rule_id = ''classification-conflict'' \<and> asset_classification asset \<noteq> [] \<and>
       text_value (get (asset_classification asset) ''status'') 40 \<noteq> ''conflicting'' \<or>
     rule_id = ''security-coverage-gap'' \<and> has_endpoint_evidence asset source_types \<and>
       has_explicit_healthy_coverage asset"

definition fresh_asset ::
    "instant \<Rightarrow> FindingsConfig \<Rightarrow> (string, string) odict \<Rightarrow> resolution_key \<Rightarrow> pydict \<Rightarrow> bool" where
  "fresh_asset now config source_types key asset \<longleftrightarrow>
     (\<exists>rule_id. key = (rule_id, ''asset'', asset_site asset, asset_ident asset) \<and>
        (affirms source_types rule_id asset \<or> rule_id = ''passive-only-asset'')) \<and>
     value_freshness (asset_seen asset) now config = Inr ''fresh''"

text \<open>What the vulnerability matches of an asset have to say for a rule and its match or component.\<close>

definition settles :: "string \<Rightarrow> string \<Rightarrow> pydict \<Rightarrow> pydict \<Rightarrow> bool" where
  "settles rule_id ident asset match \<longleftrightarrow>
     rule_id = ''vulnerable-component'' \<and> ident = text_value (get match ''match_id'') 80 \<and>
       text_value (get match ''match_status'') 40 \<in> {''fixed'', ''not-affected'', ''advisory-withdrawn''} \<or>
     ident = text_value (get match ''component_id'') 80 \<and>
     (\<exists>status. (rule_id, status) \<in> {(''component-version-unavailable'', ''version-unknown''),
                                   (''advisory-identity-uncertain'', ''identity-uncertain'')} \<and>
        (\<forall>other \<in> set (vulnerability_matches asset).
           text_value (get other ''component_id'') 80 = ident \<longrightarrow>
           text_value (get other ''match_status'') 40 \<noteq> status))"

definition settled_match :: "string \<Rightarrow> pydict \<Rightarrow> bool" where
  "settled_match key asset \<longleftrightarrow>
     (\<exists>match \<in> set (vulnerability_matches asset). \<exists>rule_id ident.
        key = dedupe_key rule_id ''asset'' (asset_site asset) ident \<and> settles rule_id ident asset match)"

lemma sensor_resolution_evidence:
  assumes "sensor_resolution context rule_ids sensor = Inr keys" "key \<in> set keys"
  shows "current_sensor (rx_now context) (rx_config context) key sensor"
  using assms
  by (auto simp: sensor_resolution_def current_sensor_def bind_result_eq_Inr_iff Let_def subject_key_def
        split: if_splits option.splits)

lemma in_set_if: "x \<in> set (if b then xs else []) \<longleftrightarrow> b \<and> x \<in> set xs"
  by simp

lemma asset_resolution_rules_affirm:
  assumes "rule_id \<in> set (asset_resolution_rules rule_ids source_types asset)"
  shows "affirms source_types rule_id asset \<or> rule_id = ''passive-only-asset''"
proof -
  have "rule_id \<in> {''asset-stale'', ''passive-only-asset''} \<or>
      (asset_category asset \<noteq> [] \<and> \<not> starts_with (asset_category asset) ''unknown'') \<and>
        rule_id \<in> {''unknown-asset''} \<or>
      (asset_classification asset \<noteq> [] \<and>
        text_value (get (asset_classification asset) ''status'') 40 \<noteq> ''conflicting'') \<and>
        rule_id \<in> {''classification-conflict''} \<or>
      (has_endpoint_evidence asset source_types \<and> has_explicit_healthy_coverage asset) \<and>
        rule_id \<in> {''security-coverage-gap''}"
    using assms unfolding asset_resolution_rules_def set_filter set_append Un_iff mem_Collect_eq in_set_if
    by (elim conjE disjE) (simp_all only: list.set insert_iff empty_iff simp_thms)
  then show ?thesis unfolding affirms_def insert_iff empty_iff by argo
qed

lemma asset_resolution_evidence:
  assumes "asset_resolution context rule_ids source_types asset = Inr keys" "key \<in> set keys"
  shows "fresh_asset (rx_now context) (rx_config context) source_types key asset"
proof -
  obtain f where f: "value_freshness (asset_seen asset) (rx_now context) (rx_config context) = Inr f"
    "keys = (if asset_ident asset \<noteq> [] \<and> asset_site asset \<noteq> [] \<and> f = ''fresh''
       then map (\<lambda>rule_id. subject_key rule_id ''asset'' (asset_site asset) (asset_ident asset))
              (asset_resolution_rules rule_ids source_types asset) else [])"
    using assms(1) by (auto simp: asset_resolution_def bind_result_eq_Inr_iff)
  then have "f = ''fresh''" using assms(2) by (simp only: in_set_if)
  moreover obtain rule_id where "rule_id \<in> set (asset_resolution_rules rule_ids source_types asset)"
    "key = subject_key rule_id ''asset'' (asset_site asset) (asset_ident asset)"
    using assms(2) unfolding f(2) in_set_if set_map by blast
  ultimately show ?thesis
    using f(1) asset_resolution_rules_affirm by (auto simp: fresh_asset_def subject_key_def)
qed

lemma resolution_eligible_evidence:
  assumes "resolution_eligible context rule_ids = Inr keys" "key \<in> set keys"
  shows "(\<exists>sensor \<in> set (rx_sensors context). current_sensor (rx_now context) (rx_config context) key sensor) \<or>
    (\<exists>asset \<in> set (rx_assets context).
       fresh_asset (rx_now context) (rx_config context) (source_agent_types (rx_sensors context)) key asset)"
proof -
  let ?of_sensor = "sensor_resolution context rule_ids"
  let ?of_asset = "asset_resolution context rule_ids (source_agent_types (rx_sensors context))"
  obtain xss where xss: "map ?of_sensor (rx_sensors context) @ map ?of_asset (rx_assets context) = map Inr xss"
    "keys = concat xss"
    using assms(1) by (auto simp: resolution_eligible_def concat_results_Inr)
  obtain xs where xs: "xs \<in> set xss" "key \<in> set xs" using assms(2) by (auto simp: xss(2))
  have "Inr xs \<in> set (map ?of_sensor (rx_sensors context) @ map ?of_asset (rx_assets context))"
    unfolding xss(1) using xs(1) by simp
  then consider sensor where "sensor \<in> set (rx_sensors context)" "?of_sensor sensor = Inr xs"
    | asset where "asset \<in> set (rx_assets context)" "?of_asset asset = Inr xs"
    by (simp only: set_append set_map Un_iff image_iff) metis
  then show ?thesis
  proof cases
    case 1
    then show ?thesis using sensor_resolution_evidence [OF _ xs(2)] by blast
  next
    case 2
    then show ?thesis using asset_resolution_evidence [OF _ xs(2)] by blast
  qed
qed

lemma matches_by_component_in:
  assumes "(k, ms) \<in> set (matches_by_component asset)"
  shows "ms = filter (\<lambda>m. text_value (get m ''component_id'') 80 = k)
    (filter (\<lambda>m. text_value (get m ''component_id'') 80 \<noteq> []) (vulnerability_matches asset))"
proof -
  let ?d = "matches_by_component asset"
  have "distinct (map fst ?d)" by (simp add: matches_by_component_def distinct_keys_group_by)
  then have "map_of ?d k = Some ms" using assms by simp
  then have "group_of ?d k = ms" by (simp add: group_of_def)
  then show ?thesis by (simp add: matches_by_component_def)
qed

lemma asset_match_resolution_evidence:
  assumes "key \<in> set (asset_match_resolution rule_ids asset)"
  shows "settled_match key asset"
proof -
  consider (settled) match where "match \<in> set (vulnerability_matches asset)"
      "key \<in> set (match_resolution rule_ids (asset_site asset) match)"
    | (reviewed) k ms where "(k, ms) \<in> set (matches_by_component asset)"
      "key \<in> set (component_resolution rule_ids (asset_site asset) (k, ms))"
    using assms by (auto simp: asset_match_resolution_def split: if_splits)
  then show ?thesis
  proof cases
    case settled
    then have "key = dedupe_key ''vulnerable-component'' ''asset'' (asset_site asset)
          (text_value (get match ''match_id'') 80)"
      "text_value (get match ''match_status'') 40 \<in> {''fixed'', ''not-affected'', ''advisory-withdrawn''}"
      by (auto simp: match_resolution_def Let_def split: if_splits)
    then show ?thesis
      unfolding settled_match_def settles_def using settled(1) by blast
  next
    case reviewed
    note ms = matches_by_component_in [OF reviewed(1)]
    have "ms \<noteq> []" using reviewed(2) by (auto simp: component_resolution_def Let_def split: if_splits)
    then obtain m where m: "m \<in> set ms" by (cases ms) auto
    then have k: "m \<in> set (vulnerability_matches asset)" "text_value (get m ''component_id'') 80 = k" "k \<noteq> []"
      by (auto simp: ms)
    have "(key = dedupe_key ''component-version-unavailable'' ''asset'' (asset_site asset) k \<and>
           (\<forall>other \<in> set ms. text_value (get other ''match_status'') 40 \<noteq> ''version-unknown'')) \<or>
        (key = dedupe_key ''advisory-identity-uncertain'' ''asset'' (asset_site asset) k \<and>
           (\<forall>other \<in> set ms. text_value (get other ''match_status'') 40 \<noteq> ''identity-uncertain''))"
      using reviewed(2) by (auto simp: component_resolution_def Let_def image_iff split: if_splits)
    then obtain rule_id status where
      "(rule_id, status) \<in> {(''component-version-unavailable'', ''version-unknown''),
                            (''advisory-identity-uncertain'', ''identity-uncertain'')}"
      "key = dedupe_key rule_id ''asset'' (asset_site asset) k"
      "\<forall>other \<in> set ms. text_value (get other ''match_status'') 40 \<noteq> status"
      by blast
    moreover from this(3) have "\<forall>other \<in> set (vulnerability_matches asset).
        text_value (get other ''component_id'') 80 = k \<longrightarrow> text_value (get other ''match_status'') 40 \<noteq> status"
      using k(3) by (auto simp: ms)
    ultimately have "key = dedupe_key rule_id ''asset'' (asset_site asset) k" "settles rule_id k asset m"
      unfolding settles_def using k(2) by blast+
    then show ?thesis unfolding settled_match_def using k(1) by blast
  qed
qed

lemma scoped_dedupe_keys_evidence:
  assumes "key \<in> set (scoped_dedupe_keys context sc rule_ids)"
  shows "\<exists>asset \<in> set (rx_assets context). settled_match key asset"
proof -
  have "\<exists>asset \<in> set (rx_assets context). key \<in> set (asset_match_resolution rule_ids asset)"
  proof (cases "given (sc_asset_id sc)")
    case None
    then show ?thesis using assms
      by (simp add: scoped_dedupe_keys_def resolution_eligible_vulnerability_dedupe_keys_def)
  next
    case (Some asset_id)
    show ?thesis
    proof (cases "find (\<lambda>item. get item ''asset_id'' = PStr asset_id) (rx_assets context)")
      case None
      then show ?thesis using assms Some by (simp add: scoped_dedupe_keys_def)
    next
      case (Some asset)
      then have "asset \<in> set (rx_assets context)" by (auto simp: find_Some_iff)
      moreover have "key \<in> set (asset_match_resolution rule_ids asset)"
        using assms Some \<open>given (sc_asset_id sc) = Some asset_id\<close>
        by (simp add: scoped_dedupe_keys_def resolution_eligible_vulnerability_dedupe_keys_def)
      ultimately show ?thesis by blast
    qed
  qed
  then show ?thesis using asset_match_resolution_evidence by blast
qed

lemma scoped_keys_subset: "set (scoped_keys sc keys) \<subseteq> set keys"
  by (auto simp: scoped_keys_def split: option.splits)

text \<open>
  The deduplication key of a finding is a digest of its rule, its subject type, its site and an identifier.
  A match of the inventory whose key is the key of the finding is one of the same rule and site, for the
  identifier of the finding: no digest of the inventory collides with it.
\<close>

definition no_collision :: "stored_finding \<Rightarrow> string \<Rightarrow> pydict list \<Rightarrow> bool" where
  "no_collision f ident assets \<longleftrightarrow>
     (\<forall>asset \<in> set assets. \<forall>match \<in> set (vulnerability_matches asset). \<forall>rule_id i.
        settles rule_id i asset match \<and>
        dedupe_key rule_id ''asset'' (asset_site asset) i = fi_dedupe_key f \<longrightarrow>
        rule_id = fi_rule_id f \<and> asset_site asset = fi_site_id f \<and> i = ident)"


section \<open>Evaluations of one asset by one rule\<close>

lemma select_one:
  assumes "rule_id \<in> set RULE_IDS"
  shows "select_rules (Some [rule_id]) = Inr [rule_of rule_id]"
proof -
  have "map fst RULES_BY_ID = RULE_IDS" using registry_columns(1) by (simp add: RULES_BY_ID_def o_def)
  then show ?thesis using assms by (simp add: select_rules_def fromkeys_def rule_of_def)
qed

lemma rule_of_id:
  assumes "rule_id \<in> set RULE_IDS"
  shows "rd_rule_id (rule_of rule_id) = rule_id"
proof -
  obtain k where k: "k < length RULE_IDS" "RULE_IDS ! k = rule_id" using assms by (auto simp: in_set_conv_nth)
  have ten: "k < 10" using k(1) by (simp add: RULE_IDS_def)
  have "rd_rule_id (RULE_REGISTRY ! k) = map rd_rule_id RULE_REGISTRY ! k"
    using ten by (simp add: length_registry)
  then show ?thesis using rule_of_nth [OF ten] by (simp add: registry_columns(1) k(2))
qed

definition one_asset :: "instant \<Rightarrow> pydict \<Rightarrow> RuleContext" where
  "one_asset now asset = scoped_context [] [] [asset] now (load_findings_config []) no_scope"

lemma one_asset_parts [simp]:
  "rx_sensors (one_asset now asset) = []" "rx_assets (one_asset now asset) = [asset]"
  "rx_now (one_asset now asset) = now" "rx_config (one_asset now asset) = load_findings_config []"
  by (simp_all add: one_asset_def scoped_context_def in_scope_def given_def no_scope_def)

lemma default_findings_config:
  "load_findings_config [] =
     \<lparr> sensor_stale_minutes = 120, asset_stale_hours = 72, new_asset_hours = 24, evidence_fresh_hours = 24,
       evidence_aging_hours = 72, max_candidates = 10000 \<rparr>"
  by (simp add: load_findings_config_def bounded_int_def Let_def MAX_FINDING_CANDIDATES_def)

lemma evaluate_one:
  assumes "rule_id \<in> set RULE_IDS" "rd_scope (rule_of rule_id) = ''asset''"
    and "rd_evaluator (rule_of rule_id) (one_asset now asset) = Inr cs" "length cs \<le> 10000"
    and "asset_resolution (one_asset now asset) [rule_id] [] asset = Inr keys"
    and "utc_time (asset_seen asset) = Inr t"
  obtains snapshot where
    "evaluate_rules [] [] [asset] now (load_findings_config []) (Some [rule_id]) no_scope = Inr snapshot"
    "es_candidates snapshot = sort_key candidate_order cs" "es_resolution_eligible snapshot = set keys"
    "es_evaluated_rule_ids snapshot = [rule_id]"
proof -
  have free: "given (sc_sensor_id no_scope) = None" "given (sc_asset_id no_scope) = None"
    by (simp_all add: no_scope_def given_def)
  have ran: "run_rules (one_asset now asset) [rule_of rule_id] [] = Inr cs"
    using assms(3,4) by (simp add: default_findings_config)
  have keys: "resolution_eligible (one_asset now asset) [rule_id] = Inr keys"
    using assms(5) by (simp add: resolution_eligible_def concat_results_def source_agent_types_def)
  have times: "snapshot_times (one_asset now asset) no_scope = Inr [t]"
    using assms(6) by (simp add: snapshot_times_def target_assets_def free)
  have "\<exists>snapshot. evaluate_rules [] [] [asset] now (load_findings_config []) (Some [rule_id]) no_scope =
      Inr snapshot \<and> es_candidates snapshot = sort_key candidate_order cs \<and>
      es_resolution_eligible snapshot = set keys \<and> es_evaluated_rule_ids snapshot = [rule_id]"
    using ran keys times
    by (simp add: evaluate_rules_def select_one assms(1,2) rule_of_id free Let_def one_asset_def [symmetric]
          scoped_candidates_def scoped_keys_def del: run_rules.simps)
  then show ?thesis using that by blast
qed

definition fresh_record :: pydict where
  "fresh_record = [(''site_id'', PStr ''s1''), (''asset_id'', PStr ''a1''), (''observed_at'', PTime 20)]"

lemma fresh_record_values:
  "asset_site fresh_record = ''s1''" "asset_ident fresh_record = ''a1''"
  "utc_time (asset_seen fresh_record) = Inr (Some 20)"
  "vulnerability_matches fresh_record = []"
  by code_simp+


end
