(* ===== verification/Finding_Citation_Laws.thy ===== *)
theory Finding_Citation_Laws
  imports Finding_Resolution_Laws Classification_Laws
begin

text \<open>
  Two places where the findings engine and its own description differ: a classification that cites one
  evidence record on both sides of a conflict aborts the whole reconciliation, and a passive-only finding is
  resolved while the asset is still passive-only.
\<close>

section \<open>Evidence is cited once\<close>

lemma insert_evidence_distinct:
  assumes "insert_evidence fid es db = Inr db'"
  shows "distinct (map ref_evidence_ref es) \<and>
    (\<forall>e \<in> set es. \<forall>(i, old) \<in> set (fd_evidence db). i = fid \<longrightarrow> ref_evidence_ref old \<noteq> ref_evidence_ref e)"
  using assms
proof (induction fid es db rule: insert_evidence.induct)
  case (2 fid e es db)
  have new: "\<not> list_ex (\<lambda>(i, old). i = fid \<and> ref_evidence_ref old = ref_evidence_ref e) (fd_evidence db)"
    and rest: "insert_evidence fid es (db\<lparr>fd_evidence := fd_evidence db @ [(fid, e)]\<rparr>) = Inr db'"
    using 2(2) by (simp_all split: if_splits)
  have "\<not> (\<not> evidence_checks e \<or> fid \<notin> fi_finding_id ` set (fd_findings db) \<or>
      list_ex (\<lambda>(i, old). i = fid \<and> ref_evidence_ref old = ref_evidence_ref e) (fd_evidence db))"
    using 2(2) by (simp split: if_splits)
  note 2(1) [OF this rest]
  then show ?case using new by (auto simp: list_ex_iff)
qed simp

definition no_newer_row :: "instant \<Rightarrow> string \<Rightarrow> finding_db \<Rightarrow> bool" where
  "no_newer_row now key db \<longleftrightarrow>
     (\<forall>f \<in> set (fd_findings db). fi_dedupe_key f = key \<longrightarrow> fi_evaluated_at f \<le> now)"

lemma no_newer_row_upsert:
  assumes "upsert_finding rid now db_now c db = Inr (db', w)" "no_newer_row now key db"
  shows "no_newer_row now key db'" "fc_dedupe_key c = key \<Longrightarrow> w"
proof -
  show "no_newer_row now key db'"
    using assms(1)
  proof (cases rule: upsert_cases)
    case (again f)
    then show ?thesis using assms(2) by (auto simp: no_newer_row_def update_where_def seen_again_def)
  next
    case new
    then show ?thesis using assms(2) by (auto simp: no_newer_row_def new_finding_def)
  qed (use assms(2) in simp)
  show "w" if key: "fc_dedupe_key c = key"
    using assms(1)
  proof (cases rule: upsert_cases)
    case (stale f)
    then show ?thesis using assms(2) key by (auto simp: no_newer_row_def)
  qed simp_all
qed

lemma write_candidates_distinct:
  assumes "write_candidates rid now db_now scoped cs db r = Inr (db', r')" "c \<in> set cs"
    and "no_newer_row now (fc_dedupe_key c) db"
  shows "distinct (map ref_evidence_ref (fc_evidence c))"
  using assms
proof (induction cs arbitrary: db r)
  case (Cons d cs)
  from Cons.prems(1) obtain db1 w where up: "upsert_finding rid now db_now d db = Inr (db1, w)"
    by (auto simp: bind_result_eq_Inr_iff split: prod.splits)
  note newer = no_newer_row_upsert [OF up Cons.prems(3)]
  show ?case
  proof (cases w)
    case False
    then have "c \<in> set cs" using newer(2) Cons.prems(2) by auto
    moreover have "write_candidates rid now db_now scoped cs db1 r = Inr (db', r')"
      using Cons.prems(1) up False by simp
    ultimately show ?thesis using newer(1) by (intro Cons.IH)
  next
    case True
    obtain db2 where ev: "insert_evidence (finding_id_for_dedupe (fc_dedupe_key d)) (fc_evidence d)
        (delete_evidence (finding_id_for_dedupe (fc_dedupe_key d)) db1) = Inr db2"
      and rest: "write_candidates rid now db_now scoped cs db2
        (count_seen (previous_row scoped (fc_dedupe_key d)) r) = Inr (db', r')"
      using Cons.prems(1) up True by (auto simp: Let_def bind_result_eq_Inr_iff)
    show ?thesis
    proof (cases "c = d")
      case True
      then show ?thesis using insert_evidence_distinct [OF ev] by simp
    next
      case False
      have "no_newer_row now (fc_dedupe_key c) db2"
        using newer(1) by (simp add: no_newer_row_def replace_evidence [OF ev])
      then show ?thesis using Cons.IH [OF rest] Cons.prems(2) False by simp
    qed
  qed
qed simp

lemma insert_evidence_error: "insert_evidence fid es db = Inl e \<Longrightarrow> e = IntegrityError"
  by (induction fid es db rule: insert_evidence.induct) (auto split: if_splits)

lemma write_candidates_error: "write_candidates rid now db_now scoped cs db r = Inl e \<Longrightarrow> e = IntegrityError"
proof (induction cs arbitrary: db r)
  case (Cons c cs)
  show ?case
  proof (cases "upsert_finding rid now db_now c db")
    case (Inl e')
    then have "e' = IntegrityError"
      by (auto simp: upsert_finding_def Let_def split: if_splits option.splits)
    then show ?thesis using Cons.prems Inl by simp
  next
    case (Inr p)
    then show ?thesis
      using Cons
      by (cases p) (auto simp: Let_def bind_result_eq_Inl_iff dest: insert_evidence_error split: if_splits)
  qed
qed simp

lemma reconcile_repeated_citation:
  assumes "c \<in> set (es_candidates snapshot)" "\<not> distinct (map ref_evidence_ref (fc_evidence c))"
    and "no_newer_row now (fc_dedupe_key c) db"
    and "length (filter (row_in_scope sc) (fd_findings db)) \<le> MAX_RECONCILE_RECORDS"
  shows "reconcile rid snapshot now db_now sc db = Inl IntegrityError"
proof -
  obtain scoped where scoped: "scope_rows sc db = Inr scoped"
    using assms(4) scope_rows_small by (auto simp: MAX_RECONCILE_RECORDS_def)
  have "write_candidates rid now db_now scoped (es_candidates snapshot) db no_changes \<noteq> Inr p" for p
    using write_candidates_distinct [OF _ assms(1,3)] assms(2) by (cases p) blast
  then obtain e where e: "write_candidates rid now db_now scoped (es_candidates snapshot) db no_changes = Inl e"
    by (cases "write_candidates rid now db_now scoped (es_candidates snapshot) db no_changes") auto
  with write_candidates_error [OF e] show ?thesis by (simp add: reconcile_def scoped)
qed

text \<open>The candidate of a conflict cites the identifiers of both sides as they are.\<close>

lemma conflict_citations:
  assumes "classification_conflict_of context asset = Inr [c]"
    and "conflict_evidence_ids (asset_classification asset) \<noteq> []"
  shows "map ref_evidence_ref (fc_evidence c) =
    map (take 80) (conflict_evidence_ids (asset_classification asset))"
  using assms
  by (auto simp: classification_conflict_of_def Let_def bind_result_eq_Inr_iff yield_candidate_def
        candidate_of_def MAX_EVIDENCE_REFERENCES_def conflict_evidence_ids_def split: if_splits)

text \<open>C21. The finding of a conflicting classification cites the first eight classification evidence identifiers
  of its supporting and then its conflicting list, each cut to 80 characters.  If one of them repeats, its
  evidence rows can never be inserted, and every reconciliation of a snapshot with this finding fails with an
  integrity error and is rolled back, unless the stored finding is newer than the snapshot or the scope holds
  more than 20000 findings.
\<close>

theorem repeated_citation_aborts:
  assumes "classification_conflict_of context asset = Inr [c]" "c \<in> set (es_candidates snapshot)"
    and "\<not> distinct (map (take 80) (take 8 (filter (\<lambda>s. starts_with s ''cev_'')
           (str_values (list_items (get (asset_classification asset) ''supporting_evidence_ids'') @
                        list_items (get (asset_classification asset) ''conflicting_evidence_ids''))))))"
    and "no_newer_row now (fc_dedupe_key c) db"
    and "length (filter (row_in_scope sc) (fd_findings db)) \<le> MAX_RECONCILE_RECORDS"
  shows "insert_evidence fid (fc_evidence c) any_db = Inl IntegrityError \<and>
    reconcile rid snapshot now db_now sc db = Inl IntegrityError"
proof -
  have ids: "\<not> distinct (map (take 80) (conflict_evidence_ids (asset_classification asset)))"
    using assms(3) by (simp add: conflict_evidence_ids_def MAX_EVIDENCE_REFERENCES_def)
  then have "conflict_evidence_ids (asset_classification asset) \<noteq> []" by auto
  from conflict_citations [OF assms(1) this] ids
  have repeated: "\<not> distinct (map ref_evidence_ref (fc_evidence c))" by simp
  then have "insert_evidence fid (fc_evidence c) any_db = Inl IntegrityError"
    using insert_evidence_distinct [of fid "fc_evidence c" any_db] insert_evidence_error
    by (cases "insert_evidence fid (fc_evidence c) any_db") auto
  with reconcile_repeated_citation [OF assms(2) repeated assms(4,5)] show ?thesis by simp
qed

text \<open>The classifier returns such lists: a printer by one source, a Windows host by another.\<close>

definition disputed_evidence :: "ClassificationEvidence list" where
  "disputed_evidence =
     [(sample_evidence ''cev_a'' ''device_type'' ''Printer'' True)\<lparr>ev_source_id := ''s1''\<rparr>,
      (sample_evidence ''cev_b'' ''os'' ''Windows 11'' True)\<lparr>ev_source_id := ''s2''\<rparr>]"

definition disputed_asset :: pydict where
  "disputed_asset =
     (let result = classify_asset ''s'' ''a1'' disputed_evidence 0 None
      in [(''site_id'', PStr ''s1''), (''asset_id'', PStr ''a1''),
          (''classification'', PDict
             [(''status'', PStr (cr_status result)),
              (''supporting_evidence_ids'', PList (map PStr (cr_supporting_evidence_ids result))),
              (''conflicting_evidence_ids'', PList (map PStr (cr_conflicting_evidence_ids result)))])])"

definition disputed_signal :: "string \<Rightarrow> string \<Rightarrow> rat \<Rightarrow> string \<Rightarrow> string \<Rightarrow> string \<Rightarrow> Signal" where
  "disputed_signal attribute v w ident src reason =
     \<lparr>sg_attribute = attribute, sg_value = v, sg_weight = w, sg_evidence_id = ident,
      sg_source_key = ''endpoint-agent'' @ char_of (0 :: int) # src, sg_direct = True,
      sg_freshness = ''fresh'', sg_reason_code = reason\<rparr>"

definition disputed_signals :: "Signal list" where
  "disputed_signals =
     [disputed_signal ''os_family'' ''Windows'' (2206763817411543 / 2251799813685248) ''cev_b'' ''s2''
        ''direct-endpoint-os'',
      disputed_signal ''category'' ''workstation'' (8196551321814303 / 9007199254740992) ''cev_b'' ''s2''
        ''direct-endpoint-os'',
      disputed_signal ''category'' ''printer'' (2206763817411543 / 2251799813685248) ''cev_a'' ''s1''
        ''direct-category'']"

lemma disputed_selection: "fst (select_effective_evidence disputed_evidence 0) = rev disputed_evidence"
  by code_simp

lemma disputed_signals_of: "concat (map (signals_for_evidence 0) (rev disputed_evidence)) = disputed_signals"
  by code_simp

lemma disputed_assessment:
  "(let a = assess disputed_signals in (as_conflicts a \<noteq> [], supporting_ids a, conflicting_ids a)) =
    (True, [''cev_a'', ''cev_b''], [''cev_b''])"
  by code_simp

lemma disputed_sides:
  "cr_status (classify_asset ''s'' ''a1'' disputed_evidence 0 None) = ''conflicting''"
  "cr_supporting_evidence_ids (classify_asset ''s'' ''a1'' disputed_evidence 0 None) = [''cev_a'', ''cev_b'']"
  "cr_conflicting_evidence_ids (classify_asset ''s'' ''a1'' disputed_evidence 0 None) = [''cev_b'']"
proof -
  note facts = disputed_assessment [unfolded Let_def prod.inject]
  obtain es rejected where es: "select_effective_evidence disputed_evidence 0 = (es, rejected)"
    by (cases "select_effective_evidence disputed_evidence 0")
  then have "es = rev disputed_evidence" using disputed_selection by simp
  then have signals: "concat (map (signals_for_evidence 0) es) = disputed_signals"
    using disputed_signals_of by simp
  show "cr_status (classify_asset ''s'' ''a1'' disputed_evidence 0 None) = ''conflicting''"
    "cr_supporting_evidence_ids (classify_asset ''s'' ''a1'' disputed_evidence 0 None) = [''cev_a'', ''cev_b'']"
    "cr_conflicting_evidence_ids (classify_asset ''s'' ''a1'' disputed_evidence 0 None) = [''cev_b'']"
    using facts
    by (simp_all add: classify_asset_def es signals decide_def Let_def MAX_CLASSIFICATION_REFERENCES_def)
qed

lemma disputed_classification:
  "disputed_asset =
     [(''site_id'', PStr ''s1''), (''asset_id'', PStr ''a1''),
      (''classification'', PDict
         [(''status'', PStr ''conflicting''),
          (''supporting_evidence_ids'', PList [PStr ''cev_a'', PStr ''cev_b'']),
          (''conflicting_evidence_ids'', PList [PStr ''cev_b''])])]"
  by (simp add: disputed_asset_def disputed_sides)

lemma disputed_asset_fields:
  "asset_ident disputed_asset = ''a1''" "asset_site disputed_asset = ''s1''"
  "text_value (get (asset_classification disputed_asset) ''status'') 40 = ''conflicting''"
  "utc_time (get (asset_classification disputed_asset) ''evaluated_at'') = Inr None"
  "conflict_evidence_ids (asset_classification disputed_asset) = [''cev_a'', ''cev_b'', ''cev_b'']"
  "classification_confidence disputed_asset fallback = Inr fallback"
  unfolding disputed_classification by code_simp+

theorem repeated_citation_aborts_witness:
  "\<exists>c. classification_conflict_of (one_asset 20 disputed_asset) disputed_asset = Inr [c] \<and>
     reconcile ''r1'' (sample_snapshot [c] {}) 20 20 no_scope sample_store = Inl IntegrityError"
proof -
  obtain c where c: "classification_conflict_of (one_asset 20 disputed_asset) disputed_asset = Inr [c]"
    by (auto simp: classification_conflict_of_def Let_def disputed_asset_fields yield_candidate_def
          candidate_of_def or_empty_def)
  have newer: "no_newer_row 20 (fc_dedupe_key c) sample_store"
    by (simp add: no_newer_row_def sample_row_fields)
  have small: "length (filter (row_in_scope no_scope) (fd_findings sample_store)) \<le> MAX_RECONCILE_RECORDS"
    by (simp add: sample_row_fields MAX_RECONCILE_RECORDS_def)
  have cited: "c \<in> set (es_candidates (sample_snapshot [c] {}))" by (simp add: sample_snapshot_def)
  have "take 8 (filter (\<lambda>s. starts_with s ''cev_'')
      (str_values (list_items (get (asset_classification disputed_asset) ''supporting_evidence_ids'') @
                   list_items (get (asset_classification disputed_asset) ''conflicting_evidence_ids''))))
    = [''cev_a'', ''cev_b'', ''cev_b'']"
    using disputed_asset_fields(5) by (simp add: conflict_evidence_ids_def MAX_EVIDENCE_REFERENCES_def)
  then have "\<not> distinct (map (take 80) (take 8 (filter (\<lambda>s. starts_with s ''cev_'')
      (str_values (list_items (get (asset_classification disputed_asset) ''supporting_evidence_ids'') @
                   list_items (get (asset_classification disputed_asset) ''conflicting_evidence_ids''))))))"
    by (simp only:) simp
  from repeated_citation_aborts [OF c cited this newer small, THEN conjunct2] c show ?thesis by blast
qed

section \<open>Passive-only findings\<close>

text \<open>A fresh record seen by a network sensor that manages nothing on the endpoint.\<close>

definition passive_record :: pydict where
  "passive_record =
     [(''site_id'', PStr ''s1''), (''asset_id'', PStr ''a1''), (''observed_at'', PTime 20),
      (''observation_source'', PStr ''passive-network''),
      (''metadata'', PDict [(''category'', PStr ''printer'')])]"

lemma passive_record_values:
  "asset_site passive_record = ''s1''" "asset_ident passive_record = ''a1''"
  "utc_time (asset_seen passive_record) = Inr (Some 20)"
  "passive_only passive_record []" "passive_gap passive_record [] = False"
  by code_simp+

text \<open>The registry promises to resolve a passive-only finding only after a record that is no longer passive-only.  An
  evaluation of a fresh record that is seen by a passive network sensor alone marks the finding as
  resolvable.
\<close>

theorem passive_only_resolved_while_passive:
  "\<exists>snapshot. evaluate_rules [] [] [passive_record] 20 (load_findings_config []) (Some [''passive-only-asset''])
       no_scope = Inr snapshot \<and>
     es_candidates snapshot = [] \<and>
     (''passive-only-asset'', ''asset'', ''s1'', ''a1'') \<in> es_resolution_eligible snapshot \<and>
     passive_only passive_record []"
proof -
  have "passive_only_assets (one_asset 20 passive_record) = Inr []"
    by (simp add: passive_only_assets_def passive_only_of_def passive_record_values concat_results_def
        source_agent_types_def)
  moreover have "value_freshness (asset_seen passive_record) 20 (load_findings_config []) = Inr ''fresh''"
    by (simp add: value_freshness_def passive_record_values freshness_at_def default_findings_config hours_def)
  ultimately obtain snapshot where
    "evaluate_rules [] [] [passive_record] 20 (load_findings_config []) (Some [''passive-only-asset'']) no_scope =
       Inr snapshot"
    "es_candidates snapshot = []"
    "(''passive-only-asset'', ''asset'', ''s1'', ''a1'') \<in> es_resolution_eligible snapshot"
    by (rule_tac evaluate_one [of "''passive-only-asset''" 20 passive_record "[]"])
       (auto simp: RULE_IDS_def rule_fields passive_record_values asset_resolution_def asset_resolution_rules_def
          subject_key_def)
  then show ?thesis using passive_record_values by blast
qed

end
