(* ===== verification/Spec2Isabelle.thy ===== *)
theory Spec2Isabelle
  imports Purl_Identity Match_Laws Risk_Laws Normalization_Laws Kev_Laws Classification_Laws
    Temporal_Deviation_Laws Finding_Citation_Laws
begin

text \<open>
  OpenAssetWatch Control Tower: the decision logic of the backend (src/backend/app), modelled on
  explicit values.

  The backend receives inventories from agents and sensors, normalises their software components
  (component_intelligence.py), classifies assets (classification.py), compares installed versions with
  reviewed advisories (version_intelligence.py, vulnerability_matching.py), correlates affected components
  with the catalog of known exploited vulnerabilities (kev_catalog.py, kev_correlation.py), derives findings
  (findings.py) that are kept and resolved in SQL (finding_store.py, finding_service.py), scores the risk of
  every asset and site (risk.py), and projects the tables into daily series with expected ranges and
  assessed deviations (the temporal modules).  HTTP routing, connections, schema and language
  models are input and output around these decisions.

  Foundations.
  \<^item> OAW_Prelude: exceptions as \<open>py_error + 'a\<close>, insertion-ordered dictionaries, stable sorting, lists.
  \<^item> Py_Text, Py_Value, Py_Number, Py_Json, Py_Time, Py_Iso: what the source uses of \<^verbatim>\<open>str\<close>, of values of
    type \<^verbatim>\<open>Any\<close>, of their conversion to numbers, of \<^verbatim>\<open>json.dumps\<close>, and of \<^verbatim>\<open>datetime\<close> (an aware time is
    its number of microseconds since 1970 in UTC).
  \<^item> Radix_Rounding: rounding to nearest even in any radix, with the locale \<open>rounding\<close> of the laws the bounds
    rest on; Binary64 (\<open>fl\<close>, 53 binary digits) and Py_Decimal (28 decimal digits) interpret it.  Every float
    operation of the code is rounded where the code rounds.
  \<^item> Sha256: the digest behind identifiers, on 32-bit words.
  \<^item> Keyed_Best: the locale of dictionaries that keep the greatest element for every key; components,
    classification evidence and votes interpret it.

  Components and what their laws show.
  \<^item> Component_Identity, Purl_Identity (component_intelligence.py): tokens, alias tables, package URLs; the
    identity of a package URL parses back to itself.
  \<^item> Component_Normalization, Normalization_Laws (component_intelligence.py): the entries of an asset, one
    component, the newest evidence, inventory scopes and snapshots; shape and bounds of every component, what
    an unauthenticated payload cannot claim, and exactly when a payload overflows.
  \<^item> Version_Order, Version_Laws, Version_Ranges (version_intelligence.py): the ordering key of every
    ecosystem.  The locales \<open>comparison\<close> and \<open>partial_comparison\<close> are the interface of an order; the Debian
    loop refines the comparison of number sequences and \<open>compare_versions\<close> is a partial comparison, so
    affected ranges are intervals.
  \<^item> Vuln_Matching, Match_Laws (vulnerability_matching.py): \<open>match_component\<close> with its eight outcomes; an
    affected verdict has passed every guard and no affected version is missed.
  \<^item> Kev_Catalog, Kev_Correlation, Kev_Laws: the catalog of known exploited vulnerabilities, the bounded walk
    over its JSON, normalisation, and the exact correlation with affected matches.
  \<^item> Classification, Classification_Laws (classification.py): evidence to signals, votes, conflicts, decision;
    what weak evidence cannot decide, what backs a decided category, and independence of the order.
  \<^item> Risk_Scoring, Risk_Laws (risk.py): contributions, caps, bands, site scores; bounds under rounding,
    independence of the order of findings, and site scores between the scores of their assets.
  \<^item> Temporal_Contracts, Temporal_Projection, Temporal_Store, Temporal_Expectation, Temporal_Deviation and
    their \<open>_Laws\<close> (the temporal modules of the same names): the metric registry and validators, the six SQL
    queries as functions of their tables, the daily series, the expected range of a day from the 56 days
    before it, and the assessment of a day with its persistence requirement.  The services are parametric in
    the protocols of the code and instantiated with the SQL store: every valid request is answered, answers
    satisfy their contracts, and nothing recorded after the knowledge cutoff matters.  Temporal_Range_Laws holds
    the decimal arithmetic of the range.
  \<^item> Finding_Rules, Finding_Evaluation, Finding_Candidate_Laws (findings.py): the configuration, ten rules,
    scopes, evaluation and eligibility for resolution; every candidate is accepted by the table constraints.
  \<^item> Finding_Store, Finding_Memory, Risk_Store (finding_store.py): the tables, the operations of
    \<^verbatim>\<open>SqlFindingStore\<close> with their guards and check constraints, the in-memory store of the tests, and the
    risk tables.
  \<^item> Finding_Store_Laws, Finding_Lifecycle: the store as a state machine, one step per operation; its
    invariant, the life cycle of a finding, and the harmlessness of late snapshots.
  \<^item> Finding_Service, Finding_Service_Laws (finding_service.py): an evaluation from the request to its closed
    run.  Finding_Resolution_Laws: the evidence behind a resolution.  Finding_Citation_Laws: two places where
    the findings engine departs from its own description.

  Bounds kept from the code: 2000 component entries of an asset, 50000 assets of a payload, 200000 nodes of a
  catalog, 4096 items of classification evidence read of which 256 count, 366 days of a series, 56 days of
  history, 10000 candidates, 8 evidence references of a finding, 20000 rows of a reconciliation.  Loops over
  them are structural or have a measure; the loop limit of 256 segments of the Debian comparison is proved
  never to be reached, because accepted versions have at most 160 characters.

  Parameters.  \<^verbatim>\<open>packaging.version.Version\<close> is \<open>pep440 :: string \<Rightarrow> 'v::linorder option\<close>: parsing may
  fail, and parsed versions are totally ordered, as the library documents.  Clock readings, run
  identifiers, the environment and the rows that the database layer lists are arguments.

  Departures that modelling showed, each with its theorem: a conflicting classification that cites one
  record twice among its first eight aborts the reconciliation (\<open>repeated_citation_aborts\<close>); a passive-only finding is
  resolved while the asset is passive-only (\<open>passive_only_resolved_while_passive\<close>); an unknown metric key
  escapes as a plain \<^verbatim>\<open>ValueError\<close> (\<open>unknown_metric_errors\<close>); the as-of query of active collectors joins the
  enrollments without a cutoff (\<open>enrollment_changes_the_past\<close>); a timestamp outside the years 1 to 9999
  loses a payload (\<open>normalization_errors\<close>); Cisco IOS is taken for a mobile system
  (\<open>cisco_ios_is_mobile\<close>); an RPM tilde version sorts after its release (\<open>rpm_tilde_after\<close>).

  Text is modelled on ASCII: case folding, white space and digits of other scripts, and failures of
  encoding, are outside the model.  The sign of a float zero, which no decision depends on, is not
  represented.  A database that refuses a valid statement (an outage) is outside the model.

  Not modelled: HTTP routing (main.py) and the request contracts behind it, the database layer and schema
  migrations, the classification, KEV and component stores with their services, advisory synchronisation and
  the OSV adapter, canonical ingestion, identities of agents and sensors, the AI advisor, the Go agents, the
  collector and the scripts.
\<close>

end
